(* ===== verification/GoErrors.thy ===== *)
theory GoErrors
  imports Prelude
begin

text \<open>
  Go's error values as the program builds and inspects them: the sentinel errors of the
  packages, the values of \<open>fmt.Errorf\<close> with their \<open>%w\<close> operands, the errors of the
  libraries the program matches on (pgx, go-redis, golang-jwt, bcrypt, gRPC status, fiber),
  and \<open>errors.Is\<close>, \<open>errors.As\<close> and \<open>errors.Join\<close> over them.
\<close>

subsection \<open>Sentinel errors\<close>

datatype sentinel =
    ErrEmptyUserID | ErrInvalidEmail | ErrEmptyUsername | ErrPasswordTooShort
  | ErrPasswordTooWeak | ErrInvalidParams
  | ErrUserNotFound | ErrInvalidCredentials | ErrEmailAlreadyExists | ErrUserAlreadyExists
  | ErrInvalidRefreshToken | ErrRevokedRefreshToken | ErrTokenGeneration | ErrInvalidJWTToken
  | ErrExpiredJWTToken | ErrUnauthorized
  | ErrNoteNotFound | ErrNoteNotFoundOrNotOwned | ErrEmptyNoteTitle | ErrNoteContentTooLarge
  | ErrNoteTitleTooLong | ErrUsernameTooLong
  | ErrServiceUnavailable
  \<comment> \<open>\<open>internal/fault\<close>\<close>
  | ErrCircuitOpen | ErrContextCanceled
  \<comment> \<open>package \<open>context\<close>\<close>
  | Canceled | DeadlineExceeded
  \<comment> \<open>unexported errors of the adapters and of \<open>bootstrap\<close>\<close>
  | ErrEmptyPassword | ErrMetadataNotFound | ErrAuthHeaderNotFound | ErrBackendStatus
  | ErrStatusMessageUnmatched | ErrNoAuthHeader | ErrInvalidAuthFormat | ErrRedisConfigRequired
  | ErrInvalidConfig

fun sentinel_text :: "sentinel \<Rightarrow> string" where
  "sentinel_text ErrEmptyUserID = ''user ID cannot be empty''"
| "sentinel_text ErrInvalidEmail = ''invalid email format''"
| "sentinel_text ErrEmptyUsername = ''username cannot be empty''"
| "sentinel_text ErrPasswordTooShort = ''password must contain at least 8 characters''"
| "sentinel_text ErrPasswordTooWeak = ''password must contain at least one letter and one digit''"
| "sentinel_text ErrInvalidParams = ''invalid parameters''"
| "sentinel_text ErrUserNotFound = ''user not found''"
| "sentinel_text ErrInvalidCredentials = ''invalid credentials''"
| "sentinel_text ErrEmailAlreadyExists = ''user with this email already exists''"
| "sentinel_text ErrUserAlreadyExists = ''user already exists''"
| "sentinel_text ErrInvalidRefreshToken = ''invalid refresh token''"
| "sentinel_text ErrRevokedRefreshToken = ''refresh token has been revoked''"
| "sentinel_text ErrTokenGeneration = ''failed to generate authentication tokens''"
| "sentinel_text ErrInvalidJWTToken = ''invalid JWT token''"
| "sentinel_text ErrExpiredJWTToken = ''JWT token has expired''"
| "sentinel_text ErrUnauthorized = ''unauthorized access''"
| "sentinel_text ErrNoteNotFound = ''note not found''"
| "sentinel_text ErrNoteNotFoundOrNotOwned = ''note not found or not owned by user''"
| "sentinel_text ErrEmptyNoteTitle = ''note title cannot be empty''"
| "sentinel_text ErrNoteContentTooLarge = ''note content exceeds maximum size''"
| "sentinel_text ErrNoteTitleTooLong = ''note title exceeds maximum length''"
| "sentinel_text ErrUsernameTooLong = ''username exceeds maximum length''"
| "sentinel_text ErrServiceUnavailable = ''service unavailable''"
| "sentinel_text ErrCircuitOpen = ''circuit breaker is open''"
| "sentinel_text ErrContextCanceled = ''context was canceled during retry''"
| "sentinel_text Canceled = ''context canceled''"
| "sentinel_text DeadlineExceeded = ''context deadline exceeded''"
| "sentinel_text ErrEmptyPassword = ''password is empty''"
| "sentinel_text ErrMetadataNotFound = ''metadata not found in context''"
| "sentinel_text ErrAuthHeaderNotFound = ''authorization header not found''"
| "sentinel_text ErrBackendStatus = ''backend error''"
| "sentinel_text ErrStatusMessageUnmatched = ''unmatched status message''"
| "sentinel_text ErrNoAuthHeader = ''no authorization header provided''"
| "sentinel_text ErrInvalidAuthFormat = ''invalid authorization header format''"
| "sentinel_text ErrRedisConfigRequired = ''redis config is required''"
| "sentinel_text ErrInvalidConfig = ''invalid configuration''"

subsection \<open>Error values\<close>

text \<open>
  The library errors the program tests for by identity. Their text is part of the value, so
  nothing below depends on what a library prints.
\<close>

datatype library_error =
    PgxNoRows | RedisNil | JwtTokenExpired | BcryptMismatch | MigrateNoChange | IoEOF | OtherLibrary

datatype grpc_code =
    CodeOK | CodeCanceled | CodeUnknown | CodeInvalidArgument | CodeDeadlineExceeded | CodeNotFound
  | CodeAlreadyExists | CodePermissionDenied | CodeResourceExhausted | CodeFailedPrecondition
  | CodeAborted | CodeOutOfRange | CodeUnimplemented | CodeInternal | CodeUnavailable | CodeDataLoss
  | CodeUnauthenticated

fun code_string :: "grpc_code \<Rightarrow> string" where
  "code_string CodeOK = ''OK''"
| "code_string CodeCanceled = ''Canceled''"
| "code_string CodeUnknown = ''Unknown''"
| "code_string CodeInvalidArgument = ''InvalidArgument''"
| "code_string CodeDeadlineExceeded = ''DeadlineExceeded''"
| "code_string CodeNotFound = ''NotFound''"
| "code_string CodeAlreadyExists = ''AlreadyExists''"
| "code_string CodePermissionDenied = ''PermissionDenied''"
| "code_string CodeResourceExhausted = ''ResourceExhausted''"
| "code_string CodeFailedPrecondition = ''FailedPrecondition''"
| "code_string CodeAborted = ''Aborted''"
| "code_string CodeOutOfRange = ''OutOfRange''"
| "code_string CodeUnimplemented = ''Unimplemented''"
| "code_string CodeInternal = ''Internal''"
| "code_string CodeUnavailable = ''Unavailable''"
| "code_string CodeDataLoss = ''DataLoss''"
| "code_string CodeUnauthenticated = ''Unauthenticated''"

text \<open>
  \<open>Errorf msg es\<close> is the value of \<open>fmt.Errorf\<close>: its formatted message and the operands of
  its \<open>%w\<close> verbs. \<open>PgError code constraint detail text\<close> is a \<open>*pgconn.PgError\<close>.
\<close>

datatype go_error =
    Sentinel sentinel
  | Library library_error string
  | PgError string string string string
  | StatusError grpc_code string
  | FiberError int string
  | Errorf string "go_error list"
  | Joined "go_error list"

text \<open>\<open>err.Error()\<close>: the text of an error value.\<close>

fun intersperse_newlines :: "string list \<Rightarrow> string" where
  "intersperse_newlines [] = ''''"
| "intersperse_newlines [x] = x"
| "intersperse_newlines (x # y # xs) = x @ [CHR 0x0A] @ intersperse_newlines (y # xs)"

fun error_text :: "go_error \<Rightarrow> string" where
  "error_text (Sentinel s) = sentinel_text s"
| "error_text (Library k t) = t"
| "error_text (PgError c n d t) = t"
| "error_text (StatusError c m) = ''rpc error: code = '' @ code_string c @ '' desc = '' @ m"
| "error_text (FiberError c m) = m"
| "error_text (Errorf m es) = m"
| "error_text (Joined es) = intersperse_newlines (map error_text es)"

text \<open>The values \<open>errors.Is\<close> and \<open>errors.As\<close> visit, in their order: the error, then its operands.\<close>

fun err_chain :: "go_error \<Rightarrow> go_error list" where
  "err_chain (Errorf m es) = Errorf m es # concat (map err_chain es)"
| "err_chain (Joined es) = Joined es # concat (map err_chain es)"
| "err_chain e = [e]"

definition errors_is :: "go_error \<Rightarrow> sentinel \<Rightarrow> bool" where
  "errors_is e s \<longleftrightarrow> Sentinel s \<in> set (err_chain e)"

definition errors_is_library :: "go_error \<Rightarrow> library_error \<Rightarrow> bool" where
  "errors_is_library e k \<longleftrightarrow> (\<exists>x \<in> set (err_chain e). case x of Library k' t \<Rightarrow> k' = k | _ \<Rightarrow> False)"

fun as_pg_error :: "go_error \<Rightarrow> (string \<times> string \<times> string) option" where
  "as_pg_error (PgError c n d t) = Some (c, n, d)"
| "as_pg_error _ = None"

fun as_fiber_error :: "go_error \<Rightarrow> (int \<times> string) option" where
  "as_fiber_error (FiberError c m) = Some (c, m)"
| "as_fiber_error _ = None"

text \<open>\<open>errors.As\<close>: the first value of the chain that has the wanted type.\<close>

fun first_some :: "('a \<Rightarrow> 'b option) \<Rightarrow> 'a list \<Rightarrow> 'b option" where
  "first_some f [] = None"
| "first_some f (x # xs) = (case f x of None \<Rightarrow> first_some f xs | Some y \<Rightarrow> Some y)"

definition errors_as :: "(go_error \<Rightarrow> 'a option) \<Rightarrow> go_error \<Rightarrow> 'a option" where
  "errors_as f e = first_some f (err_chain e)"

text \<open>\<open>errors.Join\<close>: nil operands are dropped, and nothing left is nil.\<close>

definition errors_join :: "go_error option list \<Rightarrow> go_error option" where
  "errors_join es =
     (case List.map_filter id es of [] \<Rightarrow> None | x # xs \<Rightarrow> Some (Joined (x # xs)))"

text \<open>\<open>fmt.Errorf("p: %w", err)\<close>, \<open>fmt.Errorf("%w: %w", e1, e2)\<close> and \<open>fmt.Errorf("%w: s", e)\<close>.\<close>

definition errorf_w :: "string \<Rightarrow> go_error \<Rightarrow> go_error" where
  "errorf_w p e = Errorf (p @ '': '' @ error_text e) [e]"

definition errorf_ww :: "go_error \<Rightarrow> go_error \<Rightarrow> go_error" where
  "errorf_ww e1 e2 = Errorf (error_text e1 @ '': '' @ error_text e2) [e1, e2]"

definition errorf_ws :: "go_error \<Rightarrow> string \<Rightarrow> go_error" where
  "errorf_ws e s = Errorf (error_text e @ '': '' @ s) [e]"

subsection \<open>What wrapping preserves\<close>

lemma err_chain_self: "e \<in> set (err_chain e)"
  by (cases e) auto

lemma errors_is_Sentinel [simp]: "errors_is (Sentinel s) t \<longleftrightarrow> s = t"
  by (auto simp: errors_is_def)

lemma errors_is_errorf_w [simp]: "errors_is (errorf_w p e) s \<longleftrightarrow> errors_is e s"
  by (auto simp: errors_is_def errorf_w_def)

lemma errors_is_errorf_ww [simp]: "errors_is (errorf_ww e1 e2) s \<longleftrightarrow> errors_is e1 s \<or> errors_is e2 s"
  by (auto simp: errors_is_def errorf_ww_def)

lemma errors_is_errorf_ws [simp]: "errors_is (errorf_ws e t) s \<longleftrightarrow> errors_is e s"
  by (auto simp: errors_is_def errorf_ws_def)

lemma errors_is_simple [simp]:
  "\<not> errors_is (Library k t) s" "\<not> errors_is (PgError c n d t) s"
  "\<not> errors_is (StatusError g m) s" "\<not> errors_is (FiberError i m) s"
  by (simp_all add: errors_is_def)

lemma errors_is_library_simps [simp]:
  "errors_is_library (Library k t) k' \<longleftrightarrow> k = k'"
  "\<not> errors_is_library (Sentinel s) k" "\<not> errors_is_library (PgError c n d t) k"
  "\<not> errors_is_library (StatusError g m) k" "\<not> errors_is_library (FiberError i m) k"
  "errors_is_library (errorf_w p e) k \<longleftrightarrow> errors_is_library e k"
  by (auto simp: errors_is_library_def errorf_w_def)

lemma errors_is_Joined: "errors_is (Joined es) s \<longleftrightarrow> (\<exists>e \<in> set es. errors_is e s)"
  by (auto simp: errors_is_def)

lemma errors_as_errorf_w: "f (errorf_w p e) = None \<Longrightarrow> errors_as f (errorf_w p e) = errors_as f e"
  by (simp add: errors_as_def errorf_w_def)

lemma errors_as_simple [simp]:
  "errors_as f (Sentinel s) = f (Sentinel s)" "errors_as f (Library k t) = f (Library k t)"
  "errors_as f (PgError c n d t) = f (PgError c n d t)"
  "errors_as f (StatusError g m) = f (StatusError g m)"
  "errors_as f (FiberError i m) = f (FiberError i m)"
  by (simp_all add: errors_as_def split: option.splits)

lemma errors_as_pg_errorf_w [simp]: "errors_as as_pg_error (errorf_w p e) = errors_as as_pg_error e"
  by (rule errors_as_errorf_w) (simp add: errorf_w_def)

lemma errors_as_fiber_errorf_w [simp]:
  "errors_as as_fiber_error (errorf_w p e) = errors_as as_fiber_error e"
  by (rule errors_as_errorf_w) (simp add: errorf_w_def)

lemma error_text_errorf_w [simp]: "error_text (errorf_w p e) = p @ '': '' @ error_text e"
  by (simp add: errorf_w_def)

end
