(* ===== verification/GrpcStatus.thy ===== *)
theory GrpcStatus
  imports GoErrors Prelude
begin

text \<open>
  The two translations of errors at the gRPC boundary (\<open>internal/adapters/grpc/helpers.go\<close>):
  the servers turn domain errors into statuses, the gateway's clients turn statuses back into
  domain errors by their message first and their code otherwise; and the translation of errors
  into HTTP responses (\<open>internal/adapters/http/helpers.go\<close>).
\<close>

definition table_errors :: "sentinel list" where
  "table_errors =
     [ErrInvalidCredentials, ErrInvalidRefreshToken, ErrRevokedRefreshToken, ErrEmailAlreadyExists,
      ErrUserAlreadyExists, ErrUserNotFound, ErrNoteNotFound, ErrNoteNotFoundOrNotOwned,
      ErrUnauthorized, ErrInvalidEmail, ErrEmptyUsername, ErrPasswordTooShort, ErrPasswordTooWeak,
      ErrEmptyNoteTitle, ErrNoteContentTooLarge, ErrNoteTitleTooLong, ErrUsernameTooLong]"

definition statusMessageErrors :: "string \<Rightarrow> sentinel option" where
  "statusMessageErrors = map_of (map (\<lambda>s. (sentinel_text s, s)) table_errors)"

definition internal_status :: go_error where
  "internal_status = StatusError CodeInternal ''internal service error''"

definition status_of :: "grpc_code \<Rightarrow> sentinel \<Rightarrow> go_error" where
  "status_of c s = StatusError c (sentinel_text s)"

definition notesStatusFromError :: "go_error \<Rightarrow> go_error" where
  "notesStatusFromError err =
     (if errors_is err ErrUnauthorized \<or> errors_is err ErrInvalidJWTToken \<or> errors_is err ErrExpiredJWTToken
        then status_of CodeUnauthenticated ErrUnauthorized
      else if errors_is err ErrNoteNotFound then status_of CodeNotFound ErrNoteNotFound
      else if errors_is err ErrNoteNotFoundOrNotOwned then status_of CodeNotFound ErrNoteNotFoundOrNotOwned
      else if errors_is err ErrEmptyNoteTitle \<or> errors_is err ErrNoteTitleTooLong
              \<or> errors_is err ErrNoteContentTooLarge \<or> errors_is err ErrEmptyUserID
              \<or> errors_is err ErrInvalidParams
        then
          (if errors_is err ErrEmptyNoteTitle then status_of CodeInvalidArgument ErrEmptyNoteTitle
           else if errors_is err ErrNoteTitleTooLong then status_of CodeInvalidArgument ErrNoteTitleTooLong
           else if errors_is err ErrNoteContentTooLarge
             then status_of CodeInvalidArgument ErrNoteContentTooLarge
           else if errors_is err ErrEmptyUserID then status_of CodeInvalidArgument ErrEmptyUserID
           else status_of CodeInvalidArgument ErrInvalidParams)
      else internal_status)"

definition authStatusFromError :: "go_error \<Rightarrow> go_error" where
  "authStatusFromError err =
     (if errors_is err ErrInvalidCredentials then status_of CodeUnauthenticated ErrInvalidCredentials
      else if errors_is err ErrInvalidRefreshToken
        then status_of CodeUnauthenticated ErrInvalidRefreshToken
      else if errors_is err ErrRevokedRefreshToken
        then status_of CodeUnauthenticated ErrRevokedRefreshToken
      else if errors_is err ErrEmailAlreadyExists then status_of CodeAlreadyExists ErrEmailAlreadyExists
      else if errors_is err ErrUserAlreadyExists then status_of CodeAlreadyExists ErrUserAlreadyExists
      else if errors_is err ErrUserNotFound then status_of CodeNotFound ErrUserNotFound
      else if errors_is err ErrInvalidEmail then status_of CodeInvalidArgument ErrInvalidEmail
      else if errors_is err ErrEmptyUsername then status_of CodeInvalidArgument ErrEmptyUsername
      else if errors_is err ErrUsernameTooLong then status_of CodeInvalidArgument ErrUsernameTooLong
      else if errors_is err ErrEmptyUserID then status_of CodeInvalidArgument ErrEmptyUserID
      else if errors_is err ErrPasswordTooShort then status_of CodeInvalidArgument ErrPasswordTooShort
      else if errors_is err ErrPasswordTooWeak then status_of CodeInvalidArgument ErrPasswordTooWeak
      else internal_status)"

definition statusMessageError :: "string \<Rightarrow> bool \<times> go_error" where
  "statusMessageError message =
     (case statusMessageErrors message of
        None \<Rightarrow> (False, Sentinel ErrStatusMessageUnmatched)
      | Some s \<Rightarrow> (True, Sentinel s))"

text \<open>
  \<open>status.FromError\<close>: a status as it is, the code of a status that is wrapped with the text of
  the whole error, and not ok for any other error.
\<close>

fun as_status :: "go_error \<Rightarrow> (grpc_code \<times> string) option" where
  "as_status (StatusError c m) = Some (c, m)"
| "as_status _ = None"

definition status_FromError :: "go_error \<Rightarrow> (grpc_code \<times> string) option" where
  "status_FromError err =
     (case as_status err of
        Some st \<Rightarrow> Some st
      | None \<Rightarrow> map_option (\<lambda>(c, m). (c, error_text err)) (errors_as as_status err))"

definition statusToDomain :: "go_error option \<Rightarrow> sentinel \<Rightarrow> go_error option" where
  "statusToDomain err0 notFound =
     (case err0 of
        None \<Rightarrow> None
      | Some err \<Rightarrow>
          (case status_FromError err of
             None \<Rightarrow> Some (errorf_ww (Sentinel ErrServiceUnavailable) err)
           | Some (code, message) \<Rightarrow>
               (case statusMessageError message of
                  (True, mapped) \<Rightarrow> Some mapped
                | (False, _) \<Rightarrow>
                    Some (case code of
                       CodeUnavailable \<Rightarrow> Sentinel ErrServiceUnavailable
                     | CodeDeadlineExceeded \<Rightarrow> Sentinel DeadlineExceeded
                     | CodeUnauthenticated \<Rightarrow> Sentinel ErrUnauthorized
                     | CodeNotFound \<Rightarrow> Sentinel notFound
                     | CodeAlreadyExists \<Rightarrow> Sentinel ErrUserAlreadyExists
                     | CodeInvalidArgument \<Rightarrow> errorf_ws (Sentinel ErrInvalidParams) message
                     | _ \<Rightarrow> errorf_ws (Sentinel ErrBackendStatus) (code_string code)))))"

subsection \<open>HTTP\<close>

definition StatusOK :: int where "StatusOK = 200"
definition StatusCreated :: int where "StatusCreated = 201"
definition StatusNoContent :: int where "StatusNoContent = 204"
definition StatusBadRequest :: int where "StatusBadRequest = 400"
definition StatusUnauthorized :: int where "StatusUnauthorized = 401"
definition StatusNotFound :: int where "StatusNotFound = 404"
definition StatusConflict :: int where "StatusConflict = 409"
definition StatusTooManyRequests :: int where "StatusTooManyRequests = 429"
definition StatusInternalServerError :: int where "StatusInternalServerError = 500"
definition StatusServiceUnavailable :: int where "StatusServiceUnavailable = 503"

lemmas http_status_defs =
  StatusOK_def StatusCreated_def StatusNoContent_def StatusBadRequest_def StatusUnauthorized_def
  StatusNotFound_def StatusConflict_def StatusTooManyRequests_def StatusInternalServerError_def
  StatusServiceUnavailable_def

definition msgInternalServerError :: string where
  "msgInternalServerError = ''internal server error''"

definition httpErrorFromDomain :: "go_error option \<Rightarrow> int \<times> string \<times> bool" where
  "httpErrorFromDomain err0 =
     (case err0 of
        None \<Rightarrow> (0, '''', False)
      | Some err \<Rightarrow>
          if errors_is err ErrInvalidParams \<or> errors_is err ErrInvalidEmail
             \<or> errors_is err ErrEmptyUsername \<or> errors_is err ErrUsernameTooLong
             \<or> errors_is err ErrEmptyUserID \<or> errors_is err ErrPasswordTooShort
             \<or> errors_is err ErrPasswordTooWeak \<or> errors_is err ErrEmptyNoteTitle
             \<or> errors_is err ErrNoteTitleTooLong \<or> errors_is err ErrNoteContentTooLarge
            then (StatusBadRequest, error_text err, True)
          else if errors_is err ErrUnauthorized \<or> errors_is err ErrInvalidCredentials
             \<or> errors_is err ErrInvalidRefreshToken \<or> errors_is err ErrRevokedRefreshToken
             \<or> errors_is err ErrInvalidJWTToken \<or> errors_is err ErrExpiredJWTToken
            then (StatusUnauthorized, error_text err, True)
          else if errors_is err ErrUserNotFound \<or> errors_is err ErrNoteNotFound
             \<or> errors_is err ErrNoteNotFoundOrNotOwned
            then (StatusNotFound, error_text err, True)
          else if errors_is err ErrEmailAlreadyExists \<or> errors_is err ErrUserAlreadyExists
            then (StatusConflict, error_text err, True)
          else if errors_is err ErrServiceUnavailable \<or> errors_is err ErrCircuitOpen
            then (StatusServiceUnavailable, ''service temporarily unavailable'', True)
          else (StatusInternalServerError, msgInternalServerError, True))"

subsection \<open>What crosses the boundary\<close>

text \<open>The messages of the table are different from each other, so a message names one error.\<close>

lemma table_distinct: "distinct (map sentinel_text table_errors)"
  by code_simp

lemma table_lookup:
  assumes "s \<in> set table_errors"
  shows "statusMessageErrors (sentinel_text s) = Some s"
  unfolding statusMessageErrors_def
  by (rule map_of_is_SomeI) (use assms table_distinct in \<open>auto simp: comp_def simp del: sentinel_text.simps\<close>)

lemma table_other:
  "statusMessageErrors (sentinel_text ErrEmptyUserID) = None"
  "statusMessageErrors (sentinel_text ErrInvalidParams) = None"
  "statusMessageErrors ''internal service error'' = None"
  by (simp_all add: table_errors_def statusMessageErrors_def)

lemma statusToDomain_status:
  "statusToDomain (Some (StatusError c m)) nf =
     (case statusMessageErrors m of
        Some s \<Rightarrow> Some (Sentinel s)
      | None \<Rightarrow> Some (case c of
                  CodeUnavailable \<Rightarrow> Sentinel ErrServiceUnavailable
                | CodeDeadlineExceeded \<Rightarrow> Sentinel DeadlineExceeded
                | CodeUnauthenticated \<Rightarrow> Sentinel ErrUnauthorized
                | CodeNotFound \<Rightarrow> Sentinel nf
                | CodeAlreadyExists \<Rightarrow> Sentinel ErrUserAlreadyExists
                | CodeInvalidArgument \<Rightarrow> errorf_ws (Sentinel ErrInvalidParams) m
                | _ \<Rightarrow> errorf_ws (Sentinel ErrBackendStatus) (code_string c)))"
  by (simp add: statusToDomain_def status_FromError_def statusMessageError_def split: option.splits)

lemma statusToDomain_table:
  "s \<in> set table_errors \<Longrightarrow> statusToDomain (Some (status_of c s)) nf = Some (Sentinel s)"
  by (simp add: status_of_def statusToDomain_status table_lookup)

text \<open>The errors each service reports by name.\<close>

definition auth_errors :: "sentinel set" where
  "auth_errors = {ErrInvalidCredentials, ErrInvalidRefreshToken, ErrRevokedRefreshToken,
     ErrEmailAlreadyExists, ErrUserAlreadyExists, ErrUserNotFound, ErrInvalidEmail, ErrEmptyUsername,
     ErrUsernameTooLong, ErrPasswordTooShort, ErrPasswordTooWeak}"

definition notes_errors :: "sentinel set" where
  "notes_errors = {ErrUnauthorized, ErrNoteNotFound, ErrNoteNotFoundOrNotOwned, ErrEmptyNoteTitle,
     ErrNoteTitleTooLong, ErrNoteContentTooLarge}"

text \<open>\<open>carries e s\<close>: of the sentinels, exactly \<open>s\<close> is in the chain of \<open>e\<close>.\<close>

definition carries :: "go_error \<Rightarrow> sentinel \<Rightarrow> bool" where
  "carries e s \<longleftrightarrow> (\<forall>t. errors_is e t \<longleftrightarrow> t = s)"

lemma carries_is: "carries e s \<Longrightarrow> errors_is e t = (t = s)"
  by (simp add: carries_def)

lemma authStatus_carries: "carries e s \<Longrightarrow> s \<in> auth_errors \<Longrightarrow> \<exists>c. authStatusFromError e = status_of c s"
  by (auto simp: auth_errors_def authStatusFromError_def carries_is)

lemma notesStatus_carries: "carries e s \<Longrightarrow> s \<in> notes_errors \<Longrightarrow> \<exists>c. notesStatusFromError e = status_of c s"
  by (auto simp: notes_errors_def notesStatusFromError_def carries_is)

text \<open>
  C30: An error a service reports by name crosses the gRPC boundary: whatever wraps it in the
  service, the gateway's client gets back exactly that domain error.
\<close>

theorem domain_errors_roundtrip:
  assumes "carries e s"
  shows "(s \<in> auth_errors \<longrightarrow> statusToDomain (Some (authStatusFromError e)) nf = Some (Sentinel s))
    \<and> (s \<in> notes_errors \<longrightarrow> statusToDomain (Some (notesStatusFromError e)) nf = Some (Sentinel s))"
proof -
  have "auth_errors \<union> notes_errors \<subseteq> set table_errors"
    by (simp add: auth_errors_def notes_errors_def table_errors_def)
  then show ?thesis
    using authStatus_carries [OF assms] notesStatus_carries [OF assms]
    by (auto simp: statusToDomain_table dest!: subsetD)
qed

lemma domain_errors_roundtrip_witness:
  "statusToDomain (Some (authStatusFromError (errorf_w ''login'' (Sentinel ErrInvalidCredentials)))) ErrUserNotFound
     = Some (Sentinel ErrInvalidCredentials)"
  using domain_errors_roundtrip [where e = "errorf_w ''login'' (Sentinel ErrInvalidCredentials)"
      and s = ErrInvalidCredentials and nf = ErrUserNotFound]
  by (auto simp: carries_def auth_errors_def)

text \<open>The messages a client may see.\<close>

definition public_message :: "string \<Rightarrow> bool" where
  "public_message m \<longleftrightarrow> m = msgInternalServerError \<or> m = ''service temporarily unavailable''
     \<or> (\<exists>s. m = sentinel_text s) \<or> (\<exists>s. m = sentinel_text ErrInvalidParams @ '': '' @ sentinel_text s)"

text \<open>
  No internal detail leaves a service: the message of the status is the text of a domain
  error or the fixed internal message, whatever the error was, and a gateway that receives such
  a status answers with a message that is fixed, the text of a domain error, or (for an invalid
  argument) such a text behind the text of \<open>ErrInvalidParams\<close>.
\<close>

lemma status_messages_fixed:
  "(\<exists>c m. authStatusFromError e = StatusError c m \<and> (m = ''internal service error'' \<or> (\<exists>s. m = sentinel_text s)))
   \<and> (\<exists>c m. notesStatusFromError e = StatusError c m \<and> (m = ''internal service error'' \<or> (\<exists>s. m = sentinel_text s)))
   \<and> public_message (fst (snd (httpErrorFromDomain (statusToDomain (Some (authStatusFromError e)) nf))))
   \<and> public_message (fst (snd (httpErrorFromDomain (statusToDomain (Some (notesStatusFromError e)) nf))))"
proof -
  let ?ok = "\<lambda>d. public_message (fst (snd (httpErrorFromDomain d)))"
  have fixed: "public_message msgInternalServerError" "public_message ''service temporarily unavailable''"
    "public_message (sentinel_text s)" for s
    by (auto simp: public_message_def simp del: sentinel_text.simps)
  have sent: "?ok (Some (Sentinel s))" for s
    by (simp add: httpErrorFromDomain_def fixed del: sentinel_text.simps)
  have param: "?ok (Some (errorf_ws (Sentinel ErrInvalidParams) (sentinel_text s)))" for s
    by (auto simp: httpErrorFromDomain_def errorf_ws_def errors_is_def public_message_def simp del: sentinel_text.simps)
  have internal: "?ok (statusToDomain (Some internal_status) nf)"
    by (simp add: internal_status_def statusToDomain_status table_other httpErrorFromDomain_def
          fixed errorf_ws_def errors_is_def)
  have other: "?ok (statusToDomain (Some (status_of c s)) nf)"
    if "s \<in> set table_errors \<or> c = CodeInvalidArgument" for c s
    using that sent param
    by (cases "statusMessageErrors (sentinel_text s)")
       (auto simp: status_of_def statusToDomain_status table_lookup)
  define good where "good d \<longleftrightarrow> (\<exists>c m. d = StatusError c m \<and> (m = ''internal service error'' \<or> (\<exists>s. m = sentinel_text s)))
      \<and> ?ok (statusToDomain (Some d) nf)" for d
  have good: "good internal_status" "good (status_of CodeInvalidArgument s)"
    "s \<in> set table_errors \<Longrightarrow> good (status_of c s)" for c s
    using internal other by (auto simp: good_def internal_status_def status_of_def simp del: sentinel_text.simps)
  have mem: "ErrUnauthorized \<in> set table_errors" "ErrNoteNotFound \<in> set table_errors"
    "ErrNoteNotFoundOrNotOwned \<in> set table_errors" "ErrEmailAlreadyExists \<in> set table_errors"
    "ErrUserAlreadyExists \<in> set table_errors" "ErrUserNotFound \<in> set table_errors"
    "ErrInvalidCredentials \<in> set table_errors" "ErrInvalidRefreshToken \<in> set table_errors"
    "ErrRevokedRefreshToken \<in> set table_errors"
    by (simp_all add: table_errors_def)
  have "good (authStatusFromError e)" by (simp add: authStatusFromError_def good mem)
  moreover have "good (notesStatusFromError e)" by (simp add: notesStatusFromError_def good mem)
  ultimately show ?thesis unfolding good_def by blast
qed

end
