(* ===== verification/GoText.thy ===== *)
theory GoText
  imports Prelude
begin

text \<open>
  The parts of Go's \<open>strings\<close> and \<open>strconv\<close> packages the program uses. A Go string is a
  sequence of bytes, and so is an Isabelle \<open>string\<close> (a \<open>char\<close> is 8 bits), so \<open>len(s)\<close> is
  \<open>length s\<close> and a character outside ASCII is the bytes of its UTF-8 encoding.
\<close>

abbreviation byte :: "char \<Rightarrow> nat" where
  "byte c \<equiv> of_char c"

subsection \<open>\<open>strings.TrimSpace\<close>\<close>

text \<open>The encodings of the white space characters, those with \<open>unicode.IsSpace\<close>.\<close>

definition white_space :: "string list" where
  "white_space =
     [[CHR 0x09], [CHR 0x0A], [CHR 0x0B], [CHR 0x0C], [CHR 0x0D], [CHR 0x20],
      [CHR 0xC2, CHR 0x85], [CHR 0xC2, CHR 0xA0], [CHR 0xE1, CHR 0x9A, CHR 0x80],
      [CHR 0xE2, CHR 0x80, CHR 0x80], [CHR 0xE2, CHR 0x80, CHR 0x81],
      [CHR 0xE2, CHR 0x80, CHR 0x82], [CHR 0xE2, CHR 0x80, CHR 0x83],
      [CHR 0xE2, CHR 0x80, CHR 0x84], [CHR 0xE2, CHR 0x80, CHR 0x85],
      [CHR 0xE2, CHR 0x80, CHR 0x86], [CHR 0xE2, CHR 0x80, CHR 0x87],
      [CHR 0xE2, CHR 0x80, CHR 0x88], [CHR 0xE2, CHR 0x80, CHR 0x89],
      [CHR 0xE2, CHR 0x80, CHR 0x8A], [CHR 0xE2, CHR 0x80, CHR 0xA8],
      [CHR 0xE2, CHR 0x80, CHR 0xA9], [CHR 0xE2, CHR 0x80, CHR 0xAF],
      [CHR 0xE2, CHR 0x81, CHR 0x9F], [CHR 0xE3, CHR 0x80, CHR 0x80]]"

fun starts_with :: "'a list \<Rightarrow> 'a list \<Rightarrow> bool" where
  "starts_with s [] = True"
| "starts_with [] (p # ps) = False"
| "starts_with (x # s) (p # ps) = (x = p \<and> starts_with s ps)"

lemma starts_with_iff: "starts_with s p \<longleftrightarrow> (\<exists>t. s = p @ t)"
  by (induction s p rule: starts_with.induct) auto

text \<open>Strip from the front while one of the words \<open>ws\<close> stands there.\<close>

function trim_front :: "'a list list \<Rightarrow> 'a list \<Rightarrow> 'a list" where
  "trim_front ws s =
     (case find (\<lambda>p. p \<noteq> [] \<and> starts_with s p) ws of
        None \<Rightarrow> s
      | Some p \<Rightarrow> trim_front ws (drop (length p) s))"
  by pat_completeness auto
termination
proof (relation "measure (\<lambda>(ws, s). length s)", simp)
  fix ws :: "'a list list" and s p
  assume "find (\<lambda>p. p \<noteq> [] \<and> starts_with s p) ws = Some p"
  then have "p \<noteq> []" and "starts_with s p"
    by (auto dest: find_SomeD)
  then show "((ws, drop (length p) s), (ws, s)) \<in> measure (\<lambda>(ws, s). length s)"
    by (auto simp: starts_with_iff)
qed

declare trim_front.simps [simp del]

definition trim_space :: "string \<Rightarrow> string" where
  "trim_space s = rev (trim_front (map rev white_space) (rev (trim_front white_space s)))"

lemma trim_front_suffix: "\<exists>u. s = u @ trim_front ws s"
proof (induction ws s rule: trim_front.induct)
  case (1 ws s)
  show ?case
  proof (cases "find (\<lambda>p. p \<noteq> [] \<and> starts_with s p) ws")
    case None
    then show ?thesis by (simp add: trim_front.simps [of ws s])
  next
    case (Some p)
    then obtain t where t: "s = p @ t"
      by (auto dest: find_SomeD simp: starts_with_iff)
    from Some t have eq: "trim_front ws s = trim_front ws t"
      by (subst trim_front.simps) simp
    from 1 [OF Some] t obtain u where "t = u @ trim_front ws t"
      by auto
    with t eq have "s = (p @ u) @ trim_front ws s"
      by simp
    then show ?thesis by blast
  qed
qed

lemma trim_front_done: "p \<in> set ws \<Longrightarrow> p \<noteq> [] \<Longrightarrow> \<not> starts_with (trim_front ws s) p"
proof (induction ws s rule: trim_front.induct)
  case (1 ws s)
  show ?case
  proof (cases "find (\<lambda>p. p \<noteq> [] \<and> starts_with s p) ws")
    case None
    with "1.prems" show ?thesis
      by (auto simp: trim_front.simps [of ws s] dest: find_NoneD)
  next
    case (Some q)
    then show ?thesis
      using "1.IH" [OF Some] "1.prems" by (simp add: trim_front.simps [of ws s])
  qed
qed

lemma trim_front_id: "(\<And>p. p \<in> set ws \<Longrightarrow> p \<noteq> [] \<Longrightarrow> \<not> starts_with s p) \<Longrightarrow> trim_front ws s = s"
  by (auto simp: trim_front.simps [of ws s] split: option.splits dest!: find_SomeD)

lemma trim_space_no_space_before:
  assumes "p \<in> set white_space" and "p \<noteq> []"
  shows "\<not> starts_with (trim_space s) p"
proof
  let ?u = "trim_front white_space s"
  assume "starts_with (trim_space s) p"
  then obtain t where "trim_space s = p @ t"
    by (auto simp: starts_with_iff)
  moreover obtain v where "rev ?u = v @ rev (trim_space s)"
    using trim_front_suffix [of "rev ?u" "map rev white_space"] by (auto simp: trim_space_def)
  ultimately have "?u = p @ t @ rev v"
    by (metis append.assoc rev_append rev_rev_ident)
  then show False
    using trim_front_done [OF assms, of s] by (auto simp: starts_with_iff)
qed

lemma trim_space_idem [simp]: "trim_space (trim_space s) = trim_space s"
proof -
  have "trim_front white_space (trim_space s) = trim_space s"
    by (rule trim_front_id) (rule trim_space_no_space_before)
  moreover have "trim_front (map rev white_space) (rev (trim_space s)) = rev (trim_space s)"
    unfolding trim_space_def rev_rev_ident by (rule trim_front_id) (rule trim_front_done)
  ultimately show ?thesis
    by (simp add: trim_space_def)
qed

lemma trim_space_Nil [simp]: "trim_space [] = []"
proof -
  have "\<not> starts_with ([] :: string) p" if "p \<noteq> []" for p
    using that by (cases p) auto
  then have "trim_front ws ([] :: string) = []" for ws
    by (intro trim_front_id)
  then show ?thesis by (simp add: trim_space_def)
qed

lemma length_trim_space_le: "length (trim_space s) \<le> length s"
proof -
  have "length (trim_front ws u) \<le> length u" for ws :: "string list" and u
    using trim_front_suffix [of u ws] by (metis length_append le_add2)
  from this [of white_space s] this [of "map rev white_space" "rev (trim_front white_space s)"]
  show ?thesis by (simp add: trim_space_def)
qed

lemma trim_space_nonempty: "trim_space s \<noteq> [] \<Longrightarrow> s \<noteq> []"
  by auto

subsection \<open>\<open>strings.Cut\<close>, \<open>strings.EqualFold\<close>, \<open>strings.Contains\<close>, \<open>strings.ToLower\<close>\<close>

text \<open>\<open>strings.Cut(s, sep)\<close> for a separator of one byte; \<open>None\<close> where Go's third result is false.\<close>

fun cut :: "char \<Rightarrow> string \<Rightarrow> (string \<times> string) option" where
  "cut sep [] = None"
| "cut sep (c # s) =
     (if c = sep then Some ([], s)
      else (case cut sep s of None \<Rightarrow> None | Some (a, b) \<Rightarrow> Some (c # a, b)))"

lemma cut_append: "sep \<notin> set a \<Longrightarrow> cut sep (a @ sep # b) = Some (a, b)"
  by (induction a) auto

lemma cut_SomeD: "cut sep s = Some (a, b) \<Longrightarrow> s = a @ sep # b \<and> sep \<notin> set a"
  by (induction s arbitrary: a) (auto split: if_splits option.splits prod.splits)

definition ascii_lower :: "char \<Rightarrow> char" where
  "ascii_lower c = (if 65 \<le> byte c \<and> byte c \<le> 90 then char_of (byte c + 32) else c)"

text \<open>
  \<open>strings.EqualFold(s, t)\<close> for a second string of ASCII letters other than k and s (the only
  ASCII letters that fold to a character outside ASCII): the program's are \<open>Bearer\<close> and
  \<open>production\<close>.
\<close>

definition equal_fold :: "string \<Rightarrow> string \<Rightarrow> bool" where
  "equal_fold s t \<longleftrightarrow> map ascii_lower s = map ascii_lower t"

text \<open>
  \<open>strings.ToLower\<close> as far as a search for an ASCII word can tell: ASCII letters, the two
  characters outside ASCII whose lower case is ASCII (U+0130 and U+212A), and every other byte
  as it is.
\<close>

fun to_lower :: "string \<Rightarrow> string" where
  "to_lower [] = []"
| "to_lower (a # b # c # s) =
     (if a = CHR 0xC4 \<and> b = CHR 0xB0 then CHR ''i'' # to_lower (c # s)
      else if a = CHR 0xE2 \<and> b = CHR 0x84 \<and> c = CHR 0xAA then CHR ''k'' # to_lower s
      else ascii_lower a # to_lower (b # c # s))"
| "to_lower [a, b] =
     (if a = CHR 0xC4 \<and> b = CHR 0xB0 then [CHR ''i''] else [ascii_lower a, ascii_lower b])"
| "to_lower [a] = [ascii_lower a]"

fun contains :: "string \<Rightarrow> string \<Rightarrow> bool" where
  "contains [] w = (w = [])"
| "contains (c # s) w = (starts_with (c # s) w \<or> contains s w)"

lemma contains_iff: "contains s w \<longleftrightarrow> (\<exists>a b. s = a @ w @ b)"
proof (induction s)
  case (Cons c s)
  show ?case
  proof
    assume "contains (c # s) w"
    then consider (here) "starts_with (c # s) w" | (later) "contains s w" by auto
    then show "\<exists>a b. c # s = a @ w @ b"
    proof cases
      case here
      then obtain t where "c # s = [] @ w @ t" by (auto simp: starts_with_iff)
      then show ?thesis by blast
    next
      case later
      then obtain a b where "c # s = (c # a) @ w @ b" using Cons.IH by auto
      then show ?thesis by blast
    qed
  next
    assume "\<exists>a b. c # s = a @ w @ b"
    then obtain a b where ab: "c # s = a @ w @ b" by blast
    show "contains (c # s) w"
    proof (cases a)
      case Nil
      with ab have "starts_with (c # s) w" unfolding starts_with_iff by auto
      then show ?thesis by simp
    next
      case (Cons x xs)
      with ab have "s = xs @ w @ b" by simp
      then show ?thesis using Cons.IH by auto
    qed
  qed
qed auto

lemma contains_append: "contains s w \<Longrightarrow> contains (a @ s @ b) w"
proof -
  assume "contains s w"
  then obtain x y where "s = x @ w @ y" by (auto simp: contains_iff)
  then have "a @ s @ b = (a @ x) @ w @ (y @ b)" by simp
  then show ?thesis unfolding contains_iff by blast
qed

subsection \<open>\<open>strconv.Atoi\<close>\<close>

definition is_digit :: "char \<Rightarrow> bool" where
  "is_digit c \<longleftrightarrow> 48 \<le> byte c \<and> byte c \<le> 57"

definition digits_value :: "string \<Rightarrow> int" where
  "digits_value s = fold (\<lambda>c n. 10 * n + (int (byte c) - 48)) s 0"

definition max_int64 :: int where "max_int64 = 9223372036854775807"
definition min_int64 :: int where "min_int64 = - 9223372036854775808"
definition max_int32 :: int where "max_int32 = 2147483647"

text \<open>\<open>None\<close> for a syntax or a range error; \<open>int\<close> has 64 bits.\<close>

definition atoi :: "string \<Rightarrow> int option" where
  "atoi s =
     (let (neg, ds) =
        (case s of
           CHR ''-'' # t \<Rightarrow> (True, t)
         | CHR ''+'' # t \<Rightarrow> (False, t)
         | t \<Rightarrow> (False, t))
      in if ds = [] \<or> \<not> list_all is_digit ds then None
         else
           (let n = (if neg then - digits_value ds else digits_value ds)
            in if min_int64 \<le> n \<and> n \<le> max_int64 then Some n else None))"

lemma atoi_range: "atoi s = Some n \<Longrightarrow> min_int64 \<le> n \<and> n \<le> max_int64"
  by (auto simp: atoi_def Let_def split: prod.splits if_splits)

end
