(* ===== verification/GoRegexp.thy ===== *)
theory GoRegexp
  imports Prelude
begin

text \<open>
  Regular expressions as the program's three patterns use them, with a matcher that computes
  (derivatives) and the relation it decides (\<open>in_lang\<close>). The patterns have ASCII classes
  only, so matching bytes and matching characters agree: a byte of a character outside ASCII
  is in none of the classes.
\<close>

datatype regex =
    REmpty
  | RClass "char \<Rightarrow> bool"
  | RSeq regex regex
  | RAlt regex regex
  | RStar regex
  | RNone

abbreviation RPlus :: "regex \<Rightarrow> regex" where
  "RPlus r \<equiv> RSeq r (RStar r)"

text \<open>\<open>r{2,}\<close>\<close>

abbreviation RAtLeast2 :: "regex \<Rightarrow> regex" where
  "RAtLeast2 r \<equiv> RSeq r (RSeq r (RStar r))"

inductive in_lang :: "regex \<Rightarrow> string \<Rightarrow> bool" where
  empty: "in_lang REmpty []"
| class_char: "p c \<Longrightarrow> in_lang (RClass p) [c]"
| sequence: "in_lang r s \<Longrightarrow> in_lang q t \<Longrightarrow> in_lang (RSeq r q) (s @ t)"
| alt1: "in_lang r s \<Longrightarrow> in_lang (RAlt r q) s"
| alt2: "in_lang q s \<Longrightarrow> in_lang (RAlt r q) s"
| star_nil: "in_lang (RStar r) []"
| star_cons: "in_lang r (c # s) \<Longrightarrow> in_lang (RStar r) t \<Longrightarrow> in_lang (RStar r) ((c # s) @ t)"

inductive_simps in_lang_simps:
  "in_lang REmpty s" "in_lang (RClass p) s" "in_lang (RSeq r q) s" "in_lang (RAlt r q) s"
  "in_lang RNone s"

inductive_cases in_lang_starE: "in_lang (RStar r) (c # s)"

fun nullable :: "regex \<Rightarrow> bool" where
  "nullable REmpty = True"
| "nullable (RClass p) = False"
| "nullable (RSeq r q) = (nullable r \<and> nullable q)"
| "nullable (RAlt r q) = (nullable r \<or> nullable q)"
| "nullable (RStar r) = True"
| "nullable RNone = False"

fun deriv :: "char \<Rightarrow> regex \<Rightarrow> regex" where
  "deriv c REmpty = RNone"
| "deriv c (RClass p) = (if p c then REmpty else RNone)"
| "deriv c (RSeq r q) =
     (if nullable r then RAlt (RSeq (deriv c r) q) (deriv c q) else RSeq (deriv c r) q)"
| "deriv c (RAlt r q) = RAlt (deriv c r) (deriv c q)"
| "deriv c (RStar r) = RSeq (deriv c r) (RStar r)"
| "deriv c RNone = RNone"

text \<open>\<open>^r$\<close> matches the whole string; an unanchored pattern searches for a match.\<close>

fun full_match :: "regex \<Rightarrow> string \<Rightarrow> bool" where
  "full_match r [] = nullable r"
| "full_match r (c # s) = full_match (deriv c r) s"

definition search_match :: "regex \<Rightarrow> string \<Rightarrow> bool" where
  "search_match r s =
     full_match (RSeq (RStar (RClass (\<lambda>_. True))) (RSeq r (RStar (RClass (\<lambda>_. True))))) s"

lemma in_lang_star_Nil [simp]: "in_lang (RStar r) []"
  by (rule in_lang.star_nil)

lemma nullable_iff: "nullable r \<longleftrightarrow> in_lang r []"
  by (induction r) (auto simp: in_lang_simps)

lemma deriv_iff: "in_lang (deriv c r) s \<longleftrightarrow> in_lang r (c # s)"
proof (induction r arbitrary: s)
  case (RSeq r q)
  have "in_lang (RSeq r q) (c # s) \<longleftrightarrow>
      (in_lang r [] \<and> in_lang q (c # s)) \<or> (\<exists>u v. s = u @ v \<and> in_lang r (c # u) \<and> in_lang q v)"
    by (auto simp: in_lang_simps Cons_eq_append_conv)
  with RSeq show ?case
    by (auto simp: in_lang_simps nullable_iff)
next
  case (RStar r)
  show ?case
    by (auto simp: in_lang_simps RStar elim!: in_lang_starE)
       (metis append_Cons in_lang.star_cons)
qed (auto simp: in_lang_simps)

lemma full_match_iff: "full_match r s \<longleftrightarrow> in_lang r s"
  by (induction s arbitrary: r) (auto simp: nullable_iff deriv_iff)

subsection \<open>Runs of one class\<close>

lemma in_lang_star_class: "in_lang (RStar (RClass p)) s \<longleftrightarrow> (\<forall>c \<in> set s. p c)"
proof (induction s)
  case (Cons c s)
  show ?case
  proof
    assume "in_lang (RStar (RClass p)) (c # s)"
    then show "\<forall>x \<in> set (c # s). p x"
      using Cons by (auto simp: in_lang_simps elim!: in_lang_starE)
  next
    assume *: "\<forall>x \<in> set (c # s). p x"
    then have "in_lang (RClass p) [c]" "in_lang (RStar (RClass p)) s"
      using Cons by (auto simp: in_lang_simps)
    then show "in_lang (RStar (RClass p)) (c # s)"
      using in_lang.star_cons [of "RClass p" c "[]" s] by simp
  qed
qed simp

lemma in_lang_class_seq:
  "in_lang (RSeq (RClass p) q) s \<longleftrightarrow> (\<exists>c t. s = c # t \<and> p c \<and> in_lang q t)"
proof
  assume "\<exists>c t. s = c # t \<and> p c \<and> in_lang q t"
  then obtain c t where s: "s = [c] @ t" and "in_lang (RClass p) [c]" "in_lang q t"
    by (auto simp: in_lang_simps)
  then show "in_lang (RSeq (RClass p) q) s"
    unfolding s by (intro in_lang.sequence)
qed (auto simp: in_lang_simps)

lemma in_lang_plus_class: "in_lang (RPlus (RClass p)) s \<longleftrightarrow> s \<noteq> [] \<and> (\<forall>c \<in> set s. p c)"
  by (cases s) (auto simp: in_lang_class_seq in_lang_star_class)

lemma in_lang_atleast2_class:
  "in_lang (RAtLeast2 (RClass p)) s \<longleftrightarrow> 2 \<le> length s \<and> (\<forall>c \<in> set s. p c)"
  by (cases s; cases "tl s") (auto simp: in_lang_class_seq in_lang_star_class)

lemma search_class: "search_match (RClass p) s \<longleftrightarrow> (\<exists>c \<in> set s. p c)"
proof -
  have "search_match (RClass p) s \<longleftrightarrow>
      (\<exists>u t. s = u @ t \<and> in_lang (RSeq (RClass p) (RStar (RClass (\<lambda>_. True)))) t)"
    unfolding search_match_def full_match_iff in_lang_simps(3) [of "RStar (RClass (\<lambda>_. True))"]
    by (auto simp: in_lang_star_class)
  also have "\<dots> \<longleftrightarrow> (\<exists>u c t. s = u @ c # t \<and> p c)"
    by (auto simp: in_lang_class_seq in_lang_star_class)
  also have "\<dots> \<longleftrightarrow> (\<exists>c \<in> set s. p c)"
    using split_list by (force simp: in_set_conv_decomp)
  finally show ?thesis .
qed

end
