(* ===== verification/Domain.thy ===== *)
theory Domain
  imports GoErrors GoText GoRegexp
begin

text \<open>
  Package \<open>domain\<close> (\<open>internal/domain\<close>): the entities, the validation of emails and
  passwords, the constructors \<open>NewUser\<close> and \<open>NewNote\<close>, and \<open>ApplyUpdate\<close>.

  A \<open>time.Time\<close> is its instant, the nanoseconds since the Unix epoch; \<open>time.Time{}\<close> is the
  first instant of the year 1. What \<open>time.Now()\<close> reads is an argument.
\<close>

type_synonym time = int

definition zero_time :: time where
  "zero_time = - 62135596800000000000"

record Note =
  note_CreatedAt :: time
  note_UpdatedAt :: time
  note_ID :: string
  note_UserID :: string
  note_Title :: string
  note_Content :: string

record User =
  user_CreatedAt :: time
  user_UpdatedAt :: time
  user_ID :: string
  user_Email :: string
  user_Username :: string
  user_PasswordHash :: string

record TokenPair =
  pair_ExpiresAt :: time
  pair_UserID :: string
  pair_Username :: string
  pair_AccessToken :: string
  pair_RefreshToken :: string

record RefreshToken =
  rt_ExpiresAt :: time
  rt_CreatedAt :: time
  rt_ID :: string
  rt_UserID :: string
  rt_Token :: string
  rt_IsRevoked :: bool

definition minPasswordLength :: nat where "minPasswordLength = 8"
definition maxUsernameLength :: nat where "maxUsernameLength = 50"
definition maxNoteTitleLen :: nat where "maxNoteTitleLen = 255"
definition maxNoteContentLen :: nat where "maxNoteContentLen = 64 * 2 ^ 10"

subsection \<open>The three patterns\<close>

definition is_letter :: "char \<Rightarrow> bool" where
  "is_letter c \<longleftrightarrow> (97 \<le> byte c \<and> byte c \<le> 122) \<or> (65 \<le> byte c \<and> byte c \<le> 90)"

definition is_local_char :: "char \<Rightarrow> bool" where
  "is_local_char c \<longleftrightarrow> is_letter c \<or> is_digit c \<or> c \<in> set ''._%+-''"

definition is_host_char :: "char \<Rightarrow> bool" where
  "is_host_char c \<longleftrightarrow> is_letter c \<or> is_digit c \<or> c \<in> set ''.-''"

definition emailRegex :: regex where
  "emailRegex =
     RSeq (RPlus (RClass is_local_char))
       (RSeq (RClass (\<lambda>c. c = CHR ''@''))
         (RSeq (RPlus (RClass is_host_char))
           (RSeq (RClass (\<lambda>c. c = CHR ''.'')) (RAtLeast2 (RClass is_letter)))))"

definition passwordLetterRegex :: regex where
  "passwordLetterRegex = RClass is_letter"

definition passwordDigitRegex :: regex where
  "passwordDigitRegex = RClass is_digit"

subsection \<open>Validation\<close>

definition ValidateEmail :: "string \<Rightarrow> go_error option" where
  "ValidateEmail email =
     (if \<not> full_match emailRegex email then Some (Sentinel ErrInvalidEmail) else None)"

definition ValidatePassword :: "string \<Rightarrow> go_error option" where
  "ValidatePassword password =
     (if length password < minPasswordLength then Some (Sentinel ErrPasswordTooShort)
      else if \<not> search_match passwordLetterRegex password
              \<or> \<not> search_match passwordDigitRegex password
        then Some (Sentinel ErrPasswordTooWeak)
      else None)"

subsection \<open>Entities\<close>

definition NewUser :: "string \<Rightarrow> string \<Rightarrow> string \<Rightarrow> go_error + User" where
  "NewUser email username passwordHash =
     (case ValidateEmail email of
        Some e \<Rightarrow> Inl e
      | None \<Rightarrow>
          if trim_space username = '''' then Inl (Sentinel ErrEmptyUsername)
          else if length username > maxUsernameLength then Inl (Sentinel ErrUsernameTooLong)
          else Inr \<lparr>user_CreatedAt = zero_time, user_UpdatedAt = zero_time, user_ID = '''',
                    user_Email = email, user_Username = username,
                    user_PasswordHash = passwordHash\<rparr>)"

definition NewNote :: "time \<Rightarrow> string \<Rightarrow> string \<Rightarrow> string \<Rightarrow> go_error + Note" where
  "NewNote now userID title content =
     (if userID = '''' then Inl (Sentinel ErrEmptyUserID)
      else if trim_space title = '''' then Inl (Sentinel ErrEmptyNoteTitle)
      else if length title > maxNoteTitleLen then Inl (Sentinel ErrNoteTitleTooLong)
      else if length content > maxNoteContentLen then Inl (Sentinel ErrNoteContentTooLarge)
      else Inr \<lparr>note_CreatedAt = now, note_UpdatedAt = now, note_ID = '''',
                note_UserID = userID, note_Title = title, note_Content = content\<rparr>)"

text \<open>
  \<open>ApplyUpdate\<close> changes the note through its pointer receiver, so the model returns the error
  and the note as the call leaves it: a title that was accepted stays changed when the content
  is then refused.
\<close>

definition ApplyUpdate :: "time \<Rightarrow> Note \<Rightarrow> string option \<Rightarrow> string option \<Rightarrow> go_error option \<times> Note"
where
  "ApplyUpdate now n title content =
     (let (titleErr, n1) =
        (case title of
           None \<Rightarrow> (None, n)
         | Some t \<Rightarrow>
             if trim_space t = '''' then (Some (Sentinel ErrEmptyNoteTitle), n)
             else if length t > maxNoteTitleLen then (Some (Sentinel ErrNoteTitleTooLong), n)
             else (None, n\<lparr>note_Title := t\<rparr>))
      in case titleErr of
           Some e \<Rightarrow> (Some e, n1)
         | None \<Rightarrow>
             (let (contentErr, n2) =
                (case content of
                   None \<Rightarrow> (None, n1)
                 | Some c \<Rightarrow>
                     if length c > maxNoteContentLen
                       then (Some (Sentinel ErrNoteContentTooLarge), n1)
                     else (None, n1\<lparr>note_Content := c\<rparr>))
              in case contentErr of
                   Some e \<Rightarrow> (Some e, n2)
                 | None \<Rightarrow> (None, n2\<lparr>note_UpdatedAt := now\<rparr>)))"

subsection \<open>What the validations accept\<close>

lemma email_lang:
  "in_lang emailRegex s \<longleftrightarrow>
     (\<exists>l h t. s = l @ ''@'' @ h @ ''.'' @ t \<and> l \<noteq> [] \<and> h \<noteq> [] \<and> 2 \<le> length t
        \<and> (\<forall>c \<in> set l. is_local_char c) \<and> (\<forall>c \<in> set h. is_host_char c)
        \<and> (\<forall>c \<in> set t. is_letter c))"
proof -
  have plus: "in_lang (RSeq (RPlus (RClass p)) r) u \<longleftrightarrow>
      (\<exists>h v. u = h @ v \<and> h \<noteq> [] \<and> (\<forall>c \<in> set h. p c) \<and> in_lang r v)" for p r u
    unfolding in_lang_simps(3) [of "RPlus (RClass p)"] in_lang_plus_class by blast
  have chr: "in_lang (RSeq (RClass (\<lambda>c. c = x)) r) u \<longleftrightarrow> (\<exists>t. u = x # t \<and> in_lang r t)" for x r u
    by (auto simp: in_lang_class_seq)
  show ?thesis
    unfolding emailRegex_def plus chr in_lang_atleast2_class by (simp add: ex_simps) blast
qed

lemma ValidatePassword_None:
  "ValidatePassword p = None \<longleftrightarrow>
     8 \<le> length p \<and> (\<exists>c \<in> set p. is_letter c) \<and> (\<exists>c \<in> set p. is_digit c)"
  by (auto simp: ValidatePassword_def minPasswordLength_def passwordLetterRegex_def
        passwordDigitRegex_def search_class)

text \<open>A well-formed note, what the database is to hold.\<close>

definition valid_title :: "string \<Rightarrow> bool" where
  "valid_title t \<longleftrightarrow> trim_space t \<noteq> '''' \<and> length t \<le> maxNoteTitleLen"

definition valid_content :: "string \<Rightarrow> bool" where
  "valid_content c \<longleftrightarrow> length c \<le> maxNoteContentLen"

definition note_ok :: "Note \<Rightarrow> bool" where
  "note_ok n \<longleftrightarrow> note_UserID n \<noteq> '''' \<and> valid_title (note_Title n) \<and> valid_content (note_Content n)"

definition user_ok :: "User \<Rightarrow> bool" where
  "user_ok u \<longleftrightarrow> ValidateEmail (user_Email u) = None \<and> trim_space (user_Username u) \<noteq> ''''
     \<and> length (user_Username u) \<le> maxUsernameLength"

lemma NewNote_cases:
  "NewNote now uid t c = Inr n \<longleftrightarrow>
     uid \<noteq> '''' \<and> valid_title t \<and> valid_content c
     \<and> n = \<lparr>note_CreatedAt = now, note_UpdatedAt = now, note_ID = '''', note_UserID = uid,
            note_Title = t, note_Content = c\<rparr>"
  by (auto simp: NewNote_def valid_title_def valid_content_def)

lemma NewNote_ok: "NewNote now uid t c = Inr n \<Longrightarrow> note_ok n"
  by (auto simp: NewNote_cases note_ok_def)

lemma NewUser_cases:
  "NewUser email name h = Inr u \<longleftrightarrow>
     ValidateEmail email = None \<and> trim_space name \<noteq> '''' \<and> length name \<le> maxUsernameLength
     \<and> u = \<lparr>user_CreatedAt = zero_time, user_UpdatedAt = zero_time, user_ID = '''',
            user_Email = email, user_Username = name, user_PasswordHash = h\<rparr>"
  by (auto simp: NewUser_def split: option.splits)

lemma NewUser_ok: "NewUser email name h = Inr u \<Longrightarrow> user_ok u"
  by (auto simp: NewUser_cases user_ok_def)

lemma ApplyUpdate_ownership:
  "ApplyUpdate now n t c = (e, n') \<Longrightarrow>
     note_ID n' = note_ID n \<and> note_UserID n' = note_UserID n \<and> note_CreatedAt n' = note_CreatedAt n"
  by (auto simp: ApplyUpdate_def Let_def split: option.splits if_splits prod.splits)

lemma ApplyUpdate_None:
  "ApplyUpdate now n t c = (None, n') \<longleftrightarrow>
     (\<forall>x. t = Some x \<longrightarrow> valid_title x) \<and> (\<forall>x. c = Some x \<longrightarrow> valid_content x)
     \<and> n' = n\<lparr>note_Title := (case t of None \<Rightarrow> note_Title n | Some x \<Rightarrow> x),
              note_Content := (case c of None \<Rightarrow> note_Content n | Some x \<Rightarrow> x),
              note_UpdatedAt := now\<rparr>"
  by (cases t; cases c) (auto simp: ApplyUpdate_def valid_title_def valid_content_def)

lemma ApplyUpdate_ok: "ApplyUpdate now n t c = (None, n') \<Longrightarrow> note_ok n \<Longrightarrow> note_ok n'"
  by (cases t; cases c) (auto simp: ApplyUpdate_None note_ok_def)

lemmas validate_defs = ValidateEmail_def ValidatePassword_def NewUser_def NewNote_def

subsection \<open>The rules of the domain\<close>

text \<open>
  C20: \<open>ValidateEmail\<close> accepts exactly the strings \<open>local@host.tld\<close> whose parts are not empty,
  with the characters the pattern allows in each and at least two letters at the end.
\<close>

theorem ValidateEmail_accepts:
  "ValidateEmail s = None \<longleftrightarrow>
     (\<exists>l h t. s = l @ ''@'' @ h @ ''.'' @ t \<and> l \<noteq> [] \<and> h \<noteq> [] \<and> 2 \<le> length t
        \<and> list_all is_local_char l \<and> list_all is_host_char h \<and> list_all is_letter t)"
  by (simp add: ValidateEmail_def full_match_iff email_lang list_all_iff) blast

text \<open>
  \<open>ApplyUpdate\<close> on a well-formed note, whatever the request: the note stays well formed
  even when the update is refused half way, its owner, identifier and creation time never
  change, and a call without error leaves exactly the fields the request names changed.
\<close>

lemma ApplyUpdate_preserves:
  assumes "note_ok n"
  shows "note_ok (snd (ApplyUpdate now n t c))
    \<and> note_UserID (snd (ApplyUpdate now n t c)) = note_UserID n
    \<and> note_ID (snd (ApplyUpdate now n t c)) = note_ID n
    \<and> note_CreatedAt (snd (ApplyUpdate now n t c)) = note_CreatedAt n
    \<and> (fst (ApplyUpdate now n t c) = None \<longrightarrow>
         snd (ApplyUpdate now n t c) =
           n\<lparr>note_Title := (case t of None \<Rightarrow> note_Title n | Some x \<Rightarrow> x),
             note_Content := (case c of None \<Rightarrow> note_Content n | Some x \<Rightarrow> x),
             note_UpdatedAt := now\<rparr>)"
  using assms
  by (cases t; cases c) (auto simp: ApplyUpdate_def note_ok_def valid_title_def valid_content_def)

definition witness_note :: Note where
  "witness_note = \<lparr>note_CreatedAt = 1, note_UpdatedAt = 1, note_ID = ''n'', note_UserID = ''u'',
     note_Title = ''a'', note_Content = ''''\<rparr>"

lemma witness_note_ok: "note_ok witness_note"
proof -
  have "trim_space ''a'' \<noteq> ''''" by code_simp
  then show ?thesis
    by (simp add: note_ok_def valid_title_def valid_content_def witness_note_def
          maxNoteTitleLen_def maxNoteContentLen_def)
qed

lemma ApplyUpdate_preserves_witness:
  "note_ok (snd (ApplyUpdate 9 witness_note (Some ''b'') None))"
  using ApplyUpdate_preserves [OF witness_note_ok] by blast

end
