(* ===== verification/Breaker.thy ===== *)
theory Breaker
  imports Domain "HOL-Library.Multiset"
begin

text \<open>
  The circuit breaker of \<open>internal/fault\<close>: \<open>allow\<close>, \<open>record\<close> and \<open>trip\<close> as functions on its
  state (each runs under its mutex, so each is one atomic step), and the interleavings of the
  calls of many goroutines as a step relation over them.

  A clock reading is an argument: \<open>allow\<close> reads the clock for \<open>time.Since\<close> and once more for
  the time of the change.
\<close>

datatype CircuitState = StateClosed | StateOpen | StateHalfOpen

record CircuitBreaker =
  cb_lastChange :: time
  cb_Timeout :: int
  cb_IsFailure :: "(go_error \<Rightarrow> bool) option"
  cb_ErrorThreshold :: int
  cb_SuccessThreshold :: int
  cb_failures :: int
  cb_successes :: int
  cb_state :: CircuitState
  cb_halfOpenInFlight :: bool

definition GetState :: "CircuitBreaker \<Rightarrow> CircuitState" where
  "GetState cb = cb_state cb"

definition allow :: "time \<Rightarrow> time \<Rightarrow> CircuitBreaker \<Rightarrow> go_error option \<times> CircuitBreaker" where
  "allow since_now now cb =
     (case cb_state cb of
        StateOpen \<Rightarrow>
          if since_now - cb_lastChange cb \<le> cb_Timeout cb
          then (Some (Sentinel ErrCircuitOpen), cb)
          else (None, cb\<lparr>cb_state := StateHalfOpen, cb_lastChange := now,
                          cb_halfOpenInFlight := True\<rparr>)
      | StateHalfOpen \<Rightarrow>
          if cb_halfOpenInFlight cb
          then (Some (Sentinel ErrCircuitOpen), cb)
          else (None, cb\<lparr>cb_halfOpenInFlight := True\<rparr>)
      | StateClosed \<Rightarrow> (None, cb))"

definition trip :: "time \<Rightarrow> CircuitBreaker \<Rightarrow> CircuitBreaker" where
  "trip now cb = cb\<lparr>cb_state := StateOpen, cb_lastChange := now, cb_successes := 0\<rparr>"

definition record_result :: "time \<Rightarrow> go_error option \<Rightarrow> CircuitBreaker \<Rightarrow> CircuitBreaker" where
  "record_result now err cb0 =
     (let cb = cb0\<lparr>cb_halfOpenInFlight := False\<rparr> in
      case err of
        Some e \<Rightarrow>
          if (case cb_IsFailure cb of None \<Rightarrow> False | Some f \<Rightarrow> \<not> f e) then cb
          else
            (let cb1 = cb\<lparr>cb_failures := cb_failures cb + 1\<rparr> in
             if cb_state cb1 = StateClosed \<and> cb_failures cb1 \<ge> cb_ErrorThreshold cb1
               then trip now cb1
             else if cb_state cb1 = StateHalfOpen then trip now cb1
             else cb1)
      | None \<Rightarrow>
          if cb_state cb = StateClosed then cb\<lparr>cb_failures := 0\<rparr>
          else
            (let cb1 = cb\<lparr>cb_successes := cb_successes cb + 1\<rparr> in
             if cb_state cb1 = StateHalfOpen \<and> cb_successes cb1 \<ge> cb_SuccessThreshold cb1
             then cb1\<lparr>cb_state := StateClosed, cb_lastChange := now, cb_failures := 0,
                      cb_successes := 0\<rparr>
             else cb1))"

subsection \<open>One call\<close>

definition counts_as_failure :: "CircuitBreaker \<Rightarrow> go_error \<Rightarrow> bool" where
  "counts_as_failure cb e \<longleftrightarrow> (case cb_IsFailure cb of None \<Rightarrow> True | Some f \<Rightarrow> f e)"

definition breaker_ok :: "CircuitBreaker \<Rightarrow> bool" where
  "breaker_ok cb \<longleftrightarrow>
     0 < cb_ErrorThreshold cb \<and> 0 < cb_SuccessThreshold cb
     \<and> 0 \<le> cb_failures cb \<and> 0 \<le> cb_successes cb
     \<and> (cb_state cb = StateClosed \<longrightarrow> cb_failures cb < cb_ErrorThreshold cb \<and> cb_successes cb = 0)
     \<and> (cb_halfOpenInFlight cb \<longrightarrow> cb_state cb = StateHalfOpen)"

text \<open>The settings never change.\<close>

definition same_settings :: "CircuitBreaker \<Rightarrow> CircuitBreaker \<Rightarrow> bool" where
  "same_settings a b \<longleftrightarrow> cb_Timeout a = cb_Timeout b \<and> cb_IsFailure a = cb_IsFailure b
     \<and> cb_ErrorThreshold a = cb_ErrorThreshold b \<and> cb_SuccessThreshold a = cb_SuccessThreshold b"

lemma allow_settings: "same_settings (snd (allow t t' cb)) cb"
  by (auto simp: allow_def same_settings_def split: CircuitState.splits)

lemma record_settings: "same_settings (record_result t err cb) cb"
  by (auto simp: record_result_def same_settings_def trip_def Let_def split: option.splits)

lemma allow_ok: "breaker_ok cb \<Longrightarrow> breaker_ok (snd (allow t t' cb))"
  by (auto simp: allow_def breaker_ok_def split: CircuitState.splits)

lemma record_ok:
  assumes "breaker_ok cb"
  shows "breaker_ok (record_result t err cb)"
proof (cases err)
  case None
  then show ?thesis
    using assms by (cases "cb_state cb") (auto simp: record_result_def breaker_ok_def Let_def)
next
  case (Some e)
  then show ?thesis
    using assms
    by (cases "cb_state cb"; cases "cb_IsFailure cb")
       (auto simp: record_result_def breaker_ok_def trip_def Let_def)
qed

lemma allow_open_rejects:
  "cb_state cb = StateOpen \<Longrightarrow> t \<le> cb_lastChange cb + cb_Timeout cb \<Longrightarrow>
     allow t t' cb = (Some (Sentinel ErrCircuitOpen), cb)"
  by (simp add: allow_def)

lemma allow_probe_rejects:
  "cb_state cb = StateHalfOpen \<Longrightarrow> cb_halfOpenInFlight cb \<Longrightarrow>
     allow t t' cb = (Some (Sentinel ErrCircuitOpen), cb)"
  by (simp add: allow_def)

lemma allow_rejectsD:
  "allow t t' cb = (Some e, cb') \<Longrightarrow>
     e = Sentinel ErrCircuitOpen \<and> cb' = cb
     \<and> (cb_state cb = StateOpen \<and> t \<le> cb_lastChange cb + cb_Timeout cb
        \<or> cb_state cb = StateHalfOpen \<and> cb_halfOpenInFlight cb)"
  by (auto simp: allow_def split: CircuitState.splits if_splits)

lemma allow_admits:
  "allow t t' cb = (None, cb') \<Longrightarrow>
     cb_state cb' \<noteq> StateOpen \<and> cb_failures cb' = cb_failures cb \<and> cb_successes cb' = cb_successes cb
     \<and> cb_halfOpenInFlight cb' = (cb_halfOpenInFlight cb \<or> cb_state cb' = StateHalfOpen)"
  by (auto simp: allow_def split: CircuitState.splits if_splits)

lemma record_benign:
  "\<not> counts_as_failure cb e \<Longrightarrow> record_result t (Some e) cb = cb\<lparr>cb_halfOpenInFlight := False\<rparr>"
  by (auto simp: record_result_def counts_as_failure_def split: option.splits)

lemma record_failure:
  "counts_as_failure cb e \<Longrightarrow>
     record_result t (Some e) cb =
       (let cb1 = cb\<lparr>cb_halfOpenInFlight := False, cb_failures := cb_failures cb + 1\<rparr> in
        if cb_state cb = StateHalfOpen
           \<or> cb_state cb = StateClosed \<and> cb_ErrorThreshold cb \<le> cb_failures cb + 1
        then trip t cb1 else cb1)"
  by (auto simp: record_result_def counts_as_failure_def Let_def trip_def split: option.splits)

subsection \<open>A client that calls in sequence\<close>

text \<open>One \<open>Execute\<close>: the clock at the admission and at the end, and what the call returned.\<close>

definition execute1 :: "time \<Rightarrow> time \<Rightarrow> go_error option \<Rightarrow> CircuitBreaker \<Rightarrow> go_error option \<times> CircuitBreaker"
where
  "execute1 t1 t2 result cb =
     (case allow t1 t1 cb of
        (Some e, cb1) \<Rightarrow> (Some e, cb1)
      | (None, cb1) \<Rightarrow> (result, record_result t2 result cb1))"

fun execute_many :: "(time \<times> time \<times> go_error option) list \<Rightarrow> CircuitBreaker \<Rightarrow> CircuitBreaker" where
  "execute_many [] cb = cb"
| "execute_many ((t1, t2, r) # cs) cb = execute_many cs (snd (execute1 t1 t2 r cb))"

lemma execute1_ok: "breaker_ok cb \<Longrightarrow> breaker_ok (snd (execute1 t1 t2 r cb))"
  using allow_ok [of cb t1 t1]
  by (auto simp: execute1_def record_ok split: prod.splits option.splits)

lemma execute_many_ok: "breaker_ok cb \<Longrightarrow> breaker_ok (execute_many cs cb)"
  by (induction cs cb rule: execute_many.induct) (auto simp: execute1_ok)

lemma execute_many_append: "execute_many (cs @ ds) cb = execute_many ds (execute_many cs cb)"
  by (induction cs cb rule: execute_many.induct) auto

text \<open>In the closed state a run of failures counts up and trips at the threshold, not before.\<close>

lemma failures_below_threshold:
  assumes "cb_state cb = StateClosed" and "\<not> cb_halfOpenInFlight cb"
    and "\<forall>(t1, t2, r) \<in> set cs. \<exists>e. r = Some e \<and> counts_as_failure cb e"
    and "cb_failures cb + int (length cs) < cb_ErrorThreshold cb"
  shows "execute_many cs cb = cb\<lparr>cb_failures := cb_failures cb + int (length cs)\<rparr>"
  using assms
proof (induction cs arbitrary: cb)
  case (Cons c cs)
  obtain t1 t2 e where c: "c = (t1, t2, Some e)" and e: "counts_as_failure cb e"
    using Cons.prems(3) by (cases c) auto
  let ?cb = "cb\<lparr>cb_failures := cb_failures cb + 1\<rparr>"
  have "snd (execute1 t1 t2 (Some e) cb) = ?cb"
    using Cons.prems e
    by (simp add: execute1_def allow_def record_failure Let_def)
  moreover have "execute_many cs ?cb = ?cb\<lparr>cb_failures := cb_failures ?cb + int (length cs)\<rparr>"
    using Cons.prems by (intro Cons.IH) (auto simp: counts_as_failure_def)
  ultimately show ?case
    by (simp add: c algebra_simps)
qed simp

lemma failures_reach_threshold:
  assumes closed: "cb_state cb = StateClosed" "\<not> cb_halfOpenInFlight cb" "cb_failures cb = 0"
    and fails: "\<forall>(t1, t2, r) \<in> set (cs @ [(t1, t2, r)]). \<exists>e. r = Some e \<and> counts_as_failure cb e"
    and len: "int (length (cs @ [(t1, t2, r)])) = cb_ErrorThreshold cb"
  shows "cb_state (execute_many (cs @ [(t1, t2, r)]) cb) = StateOpen
       \<and> cb_lastChange (execute_many (cs @ [(t1, t2, r)]) cb) = t2"
proof -
  have "execute_many cs cb = cb\<lparr>cb_failures := cb_failures cb + int (length cs)\<rparr>"
    using assms by (intro failures_below_threshold) auto
  moreover obtain e where "r = Some e" "counts_as_failure cb e"
    using fails by auto
  ultimately show ?thesis
    using closed len
    by (simp add: execute_many_append execute1_def allow_def record_result_def trip_def
          counts_as_failure_def split: option.splits)
qed

text \<open>After the timeout, successes close the breaker: as many as the threshold asks for.\<close>

lemma half_open_successes:
  assumes "cb_state cb = StateHalfOpen" and "\<not> cb_halfOpenInFlight cb"
    and "\<forall>(t1, t2, r) \<in> set cs. r = None"
    and "cb_successes cb + int (length cs) < cb_SuccessThreshold cb"
  shows "execute_many cs cb = cb\<lparr>cb_successes := cb_successes cb + int (length cs)\<rparr>"
  using assms
proof (induction cs arbitrary: cb)
  case (Cons c cs)
  obtain t1 t2 where c: "c = (t1, t2, None)"
    using Cons.prems(3) by (cases c) auto
  let ?cb = "cb\<lparr>cb_successes := cb_successes cb + 1\<rparr>"
  have "snd (execute1 t1 t2 None cb) = ?cb"
    using Cons.prems by (simp add: execute1_def allow_def record_result_def Let_def)
  moreover have "execute_many cs ?cb = ?cb\<lparr>cb_successes := cb_successes ?cb + int (length cs)\<rparr>"
    using Cons.prems by (intro Cons.IH) auto
  ultimately show ?case
    by (simp add: c algebra_simps)
qed simp

subsection \<open>Many goroutines\<close>

text \<open>
  A call is in flight between its \<open>allow\<close> and its \<open>record\<close>; \<open>bs_flight\<close> holds, for each, the
  state in which it was admitted. A step is one goroutine taking the mutex once.
\<close>

record breaker_sys =
  bs_cb :: CircuitBreaker
  bs_clock :: time
  bs_flight :: "CircuitState multiset"

inductive breaker_step :: "breaker_sys \<Rightarrow> breaker_sys \<Rightarrow> bool" where
  time_passes: "bs_clock s \<le> t \<Longrightarrow> breaker_step s (s\<lparr>bs_clock := t\<rparr>)"
| admit: "allow (bs_clock s) (bs_clock s) (bs_cb s) = (None, cb) \<Longrightarrow>
     breaker_step s (s\<lparr>bs_cb := cb, bs_flight := add_mset (cb_state cb) (bs_flight s)\<rparr>)"
| reject: "allow (bs_clock s) (bs_clock s) (bs_cb s) = (Some e, cb) \<Longrightarrow>
     breaker_step s (s\<lparr>bs_cb := cb\<rparr>)"
| finish: "st \<in># bs_flight s \<Longrightarrow>
     breaker_step s (s\<lparr>bs_cb := record_result (bs_clock s) err (bs_cb s),
                       bs_flight := bs_flight s - {#st#}\<rparr>)"

inductive breaker_reach :: "breaker_sys \<Rightarrow> breaker_sys \<Rightarrow> bool" for s0 where
  start: "breaker_reach s0 s0"
| step: "breaker_reach s0 s \<Longrightarrow> breaker_step s s' \<Longrightarrow> breaker_reach s0 s'"

lemma breaker_step_ok: "breaker_step s s' \<Longrightarrow> breaker_ok (bs_cb s) \<Longrightarrow> breaker_ok (bs_cb s')"
proof (induction rule: breaker_step.induct)
  case (admit s cb)
  then show ?case using allow_ok [of "bs_cb s" "bs_clock s" "bs_clock s"] by simp
next
  case (reject s e cb)
  then show ?case using allow_ok [of "bs_cb s" "bs_clock s" "bs_clock s"] by simp
qed (auto simp: record_ok)

lemma breaker_reach_ok: "breaker_reach s0 s \<Longrightarrow> breaker_ok (bs_cb s0) \<Longrightarrow> breaker_ok (bs_cb s)"
  by (induction rule: breaker_reach.induct) (auto intro: breaker_step_ok)

subsection \<open>Probes that overlap\<close>

text \<open>Histories in which the breaker stays out of the closed state.\<close>

inductive breaker_recovering :: "breaker_sys \<Rightarrow> breaker_sys \<Rightarrow> bool" for s0 where
  start: "breaker_recovering s0 s0"
| step: "breaker_recovering s0 s \<Longrightarrow> breaker_step s s' \<Longrightarrow> cb_state (bs_cb s') \<noteq> StateClosed \<Longrightarrow>
     breaker_recovering s0 s'"

text \<open>The call in flight, if there is one, is the probe the flag stands for.\<close>

definition probe_inv :: "breaker_sys \<Rightarrow> bool" where
  "probe_inv s \<longleftrightarrow> bs_flight s = (if cb_halfOpenInFlight (bs_cb s) then {#StateHalfOpen#} else {#})
     \<and> (cb_halfOpenInFlight (bs_cb s) \<longrightarrow> cb_state (bs_cb s) = StateHalfOpen)"

lemma record_clears_flight: "\<not> cb_halfOpenInFlight (record_result t err cb)"
  by (auto simp: record_result_def trip_def Let_def split: option.splits)

lemma probe_inv_step:
  assumes "breaker_step s s'" and "probe_inv s" and "cb_state (bs_cb s) \<noteq> StateClosed"
  shows "probe_inv s'"
  using assms
proof (induction rule: breaker_step.induct)
  case (admit s cb)
  then have "cb_halfOpenInFlight cb" "cb_state cb = StateHalfOpen" "\<not> cb_halfOpenInFlight (bs_cb s)"
    by (auto simp: allow_def probe_inv_def split: CircuitState.splits if_splits)
  then show ?case using admit by (simp add: probe_inv_def)
next
  case (reject s e cb)
  then show ?case by (auto simp: probe_inv_def dest: allow_rejectsD)
next
  case (finish st s err)
  then show ?case by (auto simp: probe_inv_def record_clears_flight split: if_splits)
qed (simp add: probe_inv_def)

lemma breaker_recovering_inv:
  "breaker_recovering s0 s \<Longrightarrow> probe_inv s0 \<Longrightarrow> cb_state (bs_cb s0) \<noteq> StateClosed \<Longrightarrow>
     probe_inv s \<and> cb_state (bs_cb s) \<noteq> StateClosed"
  by (induction rule: breaker_recovering.induct) (auto intro: probe_inv_step)

lemma probe_inv_size: "probe_inv s \<Longrightarrow> size (bs_flight s) \<le> 1"
  by (simp add: probe_inv_def)

subsection \<open>The behaviour of the breaker\<close>

definition all_fail :: "CircuitBreaker \<Rightarrow> (time \<times> time \<times> go_error option) list \<Rightarrow> bool" where
  "all_fail cb cs \<longleftrightarrow> (\<forall>(t1, t2, r) \<in> set cs. \<exists>e. r = Some e \<and> counts_as_failure cb e)"

definition fresh_breaker :: "CircuitBreaker \<Rightarrow> bool" where
  "fresh_breaker cb \<longleftrightarrow> breaker_ok cb \<and> cb_state cb = StateClosed \<and> cb_failures cb = 0"

lemma all_fail_take: "all_fail cb cs \<Longrightarrow> all_fail cb (take k cs)"
  by (auto simp: all_fail_def dest: in_set_takeD)

lemma fresh_not_in_flight: "fresh_breaker cb \<Longrightarrow> \<not> cb_halfOpenInFlight cb"
  by (auto simp: fresh_breaker_def breaker_ok_def)

lemma fresh_below:
  assumes "fresh_breaker cb" "all_fail cb cs" "int (length cs) < cb_ErrorThreshold cb"
  shows "cb_state (execute_many cs cb) = StateClosed"
proof -
  have "execute_many cs cb = cb\<lparr>cb_failures := cb_failures cb + int (length cs)\<rparr>"
    using assms fresh_not_in_flight [OF assms(1)]
    by (intro failures_below_threshold) (auto simp: fresh_breaker_def all_fail_def)
  then show ?thesis using assms(1) by (simp add: fresh_breaker_def)
qed

lemma fresh_at_threshold:
  assumes fresh: "fresh_breaker cb" and "all_fail cb cs" "int (length cs) = cb_ErrorThreshold cb"
  shows "cb_state (execute_many cs cb) = StateOpen
    \<and> cb_lastChange (execute_many cs cb) = fst (snd (last cs))"
proof -
  have "cs \<noteq> []" using assms by (auto simp: fresh_breaker_def breaker_ok_def)
  then obtain ds c where cs: "cs = ds @ [c]" by (metis rev_exhaust)
  obtain t1 t2 r where c: "c = (t1, t2, r)" by (cases c)
  show ?thesis
    using failures_reach_threshold [of cb ds t1 t2 r] assms fresh_not_in_flight [OF fresh]
    unfolding cs c by (simp add: fresh_breaker_def all_fail_def)
qed

lemma execute_many_settings: "same_settings (execute_many cs cb) cb"
proof (induction cs cb rule: execute_many.induct)
  case (2 t1 t2 r cs cb)
  have "same_settings (snd (execute1 t1 t2 r cb)) cb"
    using allow_settings [of t1 t1 cb] record_settings [of t2 r "snd (allow t1 t1 cb)"]
    by (auto simp: execute1_def same_settings_def split: prod.splits option.splits)
  with 2 show ?case by (simp add: same_settings_def)
qed (simp add: same_settings_def)

text \<open>
  C16: A closed breaker that has seen no failure stays closed through any number of consecutive
  failures below \<open>ErrorThreshold\<close>, opens with the failure that reaches the threshold, and then
  refuses every call with \<open>ErrCircuitOpen\<close>, without a change of state, until \<open>Timeout\<close> has
  passed since that failure.
\<close>

theorem breaker_opens_at_threshold:
  assumes "fresh_breaker cb" and "all_fail cb cs" and "int (length cs) = cb_ErrorThreshold cb"
  shows "(k < length cs \<longrightarrow> cb_state (execute_many (take k cs) cb) = StateClosed)
    \<and> cb_state (execute_many cs cb) = StateOpen
    \<and> (t \<le> fst (snd (last cs)) + cb_Timeout cb \<longrightarrow>
         allow t t' (execute_many cs cb) = (Some (Sentinel ErrCircuitOpen), execute_many cs cb))"
proof (intro conjI impI)
  assume "k < length cs"
  then show "cb_state (execute_many (take k cs) cb) = StateClosed"
    using assms by (intro fresh_below) (auto simp: all_fail_take)
next
  show "cb_state (execute_many cs cb) = StateOpen" using fresh_at_threshold [OF assms] by simp
next
  assume "t \<le> fst (snd (last cs)) + cb_Timeout cb"
  then show "allow t t' (execute_many cs cb) = (Some (Sentinel ErrCircuitOpen), execute_many cs cb)"
    using fresh_at_threshold [OF assms] execute_many_settings [of cs cb]
    by (intro allow_open_rejects) (auto simp: same_settings_def)
qed

definition witness_breaker :: CircuitBreaker where
  "witness_breaker =
     \<lparr>cb_lastChange = 0, cb_Timeout = 30, cb_IsFailure = Some (\<lambda>e. \<not> errors_is e ErrNoteNotFound),
      cb_ErrorThreshold = 2, cb_SuccessThreshold = 2, cb_failures = 0, cb_successes = 0,
      cb_state = StateClosed, cb_halfOpenInFlight = False\<rparr>"

definition witness_failure :: "time \<Rightarrow> time \<times> time \<times> go_error option" where
  "witness_failure t = (t, t + 1, Some (Sentinel DeadlineExceeded))"

lemma breaker_opens_at_threshold_witness:
  "cb_state (execute_many [witness_failure 10, witness_failure 20] witness_breaker) = StateOpen
   \<and> allow 51 52 (execute_many [witness_failure 10, witness_failure 20] witness_breaker)
       = (Some (Sentinel ErrCircuitOpen),
          execute_many [witness_failure 10, witness_failure 20] witness_breaker)"
proof -
  have "fresh_breaker witness_breaker" "all_fail witness_breaker [witness_failure 10, witness_failure 20]"
    "int (length [witness_failure 10, witness_failure 20]) = cb_ErrorThreshold witness_breaker"
    by (simp_all add: fresh_breaker_def breaker_ok_def witness_breaker_def all_fail_def
          witness_failure_def counts_as_failure_def)
  from breaker_opens_at_threshold [OF this, of 0 51 52] show ?thesis
    by (simp add: witness_failure_def witness_breaker_def)
qed

text \<open>
  An open breaker whose \<open>Timeout\<close> has passed lets one probe through; when it and the calls
  after it succeed, the breaker stays half-open below \<open>SuccessThreshold\<close> successes, and with
  the success that reaches the threshold it is closed with its failures forgotten. A probe that
  fails opens it again for another \<open>Timeout\<close>.
\<close>

lemma breaker_recovers:
  assumes ok: "breaker_ok cb" and opened: "cb_state cb = StateOpen" and zero: "cb_successes cb = 0"
    and late: "cb_lastChange cb + cb_Timeout cb < t1" and good: "list_all (\<lambda>(t1, t2, r). r = None) cs"
  shows "(int (Suc (length cs)) < cb_SuccessThreshold cb \<longrightarrow>
            cb_state (execute_many ((t1, t2, None) # cs) cb) = StateHalfOpen)
       \<and> (int (Suc (length cs)) = cb_SuccessThreshold cb \<longrightarrow>
            cb_state (execute_many ((t1, t2, None) # cs) cb) = StateClosed
            \<and> cb_failures (execute_many ((t1, t2, None) # cs) cb) = 0)
       \<and> (counts_as_failure cb e \<longrightarrow>
            cb_state (snd (execute1 t1 t2 (Some e) cb)) = StateOpen
            \<and> cb_lastChange (snd (execute1 t1 t2 (Some e) cb)) = t2)"
proof (intro conjI impI)
  let ?all = "(t1, t2, None) # cs"
  define half where "half = cb\<lparr>cb_state := StateHalfOpen, cb_lastChange := t1\<rparr>"
  have adm: "allow t1 t1 cb = (None, half\<lparr>cb_halfOpenInFlight := True\<rparr>)"
    using opened late by (simp add: allow_def half_def)
  have same: "execute_many ds cb = execute_many ds half" if "ds \<noteq> []" "fst (hd ds) = t1" for ds
    using that ok opened adm
    by (cases ds) (auto simp: execute1_def half_def allow_def breaker_ok_def)
  have half: "cb_state half = StateHalfOpen" "\<not> cb_halfOpenInFlight half" "cb_successes half = 0"
    "cb_SuccessThreshold half = cb_SuccessThreshold cb"
    using ok zero opened by (auto simp: half_def breaker_ok_def)
  have benign: "\<forall>(t1, t2, r) \<in> set ?all. r = None"
    using good by (auto simp: list_all_iff)
  show "cb_state (execute_many ?all cb) = StateHalfOpen" if "int (Suc (length cs)) < cb_SuccessThreshold cb"
    using half_open_successes [OF half(1,2) benign] half that same [of ?all] by simp
  have closes: "cb_state (execute_many ?all cb) = StateClosed \<and> cb_failures (execute_many ?all cb) = 0"
    if full: "int (Suc (length cs)) = cb_SuccessThreshold cb"
  proof -
    obtain ds c where cs: "?all = ds @ [c]" by (metis neq_Nil_conv rev_exhaust)
    obtain s1 s2 where c: "c = (s1, s2, None)" using benign unfolding cs by (cases c) auto
    have "int (length ds) + 1 = cb_SuccessThreshold cb" using arg_cong [OF cs, of length] full by simp
    moreover from this have "execute_many ds half = half\<lparr>cb_successes := int (length ds)\<rparr>"
      using half_open_successes [OF half(1,2), of ds] benign half unfolding cs by simp
    moreover have "execute_many ?all cb = snd (execute1 s1 s2 None (execute_many ds half))"
    proof -
      have "execute_many ?all cb = execute_many (ds @ [c]) half"
        using same [of ?all] by (simp only: cs) (metis cs fst_conv list.sel(1) list.simps(3))
      then show ?thesis by (simp add: execute_many_append c)
    qed
    ultimately show ?thesis
      using half by (simp add: execute1_def allow_def record_result_def)
  qed
  show "cb_state (execute_many ?all cb) = StateClosed" "cb_failures (execute_many ?all cb) = 0"
    if "int (Suc (length cs)) = cb_SuccessThreshold cb" using closes [OF that] by simp_all
  assume fail: "counts_as_failure cb e"
  then show "cb_state (snd (execute1 t1 t2 (Some e) cb)) = StateOpen"
    and "cb_lastChange (snd (execute1 t1 t2 (Some e) cb)) = t2"
    using adm by (simp_all add: execute1_def record_failure counts_as_failure_def half_def trip_def Let_def)
qed

lemma breaker_recovers_witness:
  "cb_state (execute_many [(60, 61, None), (70, 71, None)]
     (witness_breaker\<lparr>cb_state := StateOpen, cb_lastChange := 21, cb_failures := 2\<rparr>)) = StateClosed"
  using breaker_recovers [of "witness_breaker\<lparr>cb_state := StateOpen, cb_lastChange := 21, cb_failures := 2\<rparr>"
    60 "[(70, 71, None)]" 61 "Sentinel DeadlineExceeded"]
  by (simp add: witness_breaker_def breaker_ok_def)

text \<open>
  Whatever the interleaving of the calls of many goroutines, the breaker's counters stay in
  their bounds: a closed breaker is below its error threshold with no success counted, and a
  probe is marked in flight only in the half-open state.
\<close>

lemma breaker_counters_bounded:
  assumes "breaker_ok (bs_cb s0)" and "breaker_reach s0 s"
  shows "breaker_ok (bs_cb s)"
  using breaker_reach_ok [OF assms(2,1)] .

definition witness_sys :: breaker_sys where
  "witness_sys = \<lparr>bs_cb = witness_breaker, bs_clock = 5, bs_flight = {#}\<rparr>"

lemma breaker_counters_bounded_witness:
  "breaker_ok (bs_cb (witness_sys\<lparr>bs_flight := {#StateClosed#}\<rparr>))"
proof (rule breaker_counters_bounded)
  show "breaker_ok (bs_cb witness_sys)"
    by (simp add: witness_sys_def witness_breaker_def breaker_ok_def)
  have "breaker_step witness_sys (witness_sys\<lparr>bs_cb := witness_breaker,
      bs_flight := add_mset (cb_state witness_breaker) (bs_flight witness_sys)\<rparr>)"
    by (rule breaker_step.admit) (simp add: witness_sys_def witness_breaker_def allow_def)
  then show "breaker_reach witness_sys (witness_sys\<lparr>bs_flight := {#StateClosed#}\<rparr>)"
    using breaker_reach.step [OF breaker_reach.start]
    by (simp add: witness_sys_def witness_breaker_def)
qed

text \<open>
  C17: When a breaker opens with no call in flight, then as long as it has not closed again at
  most one call is in flight at a time, whatever the interleaving: a single probe.
\<close>

theorem single_probe_when_drained:
  assumes "cb_state (bs_cb s0) = StateOpen" and "\<not> cb_halfOpenInFlight (bs_cb s0)"
    and "bs_flight s0 = {#}" and "breaker_recovering s0 s"
  shows "size (bs_flight s) \<le> 1"
proof -
  have "probe_inv s0" using assms(2,3) by (simp add: probe_inv_def)
  then show ?thesis using breaker_recovering_inv [OF assms(4)] assms(1) probe_inv_size by simp
qed

lemma single_probe_when_drained_witness:
  "size (bs_flight (witness_sys\<lparr>bs_cb := witness_breaker\<lparr>cb_state := StateOpen\<rparr>, bs_clock := 9\<rparr>)) \<le> 1"
proof (rule single_probe_when_drained)
  let ?s = "witness_sys\<lparr>bs_cb := witness_breaker\<lparr>cb_state := StateOpen\<rparr>\<rparr>"
  show "breaker_recovering ?s (witness_sys\<lparr>bs_cb := witness_breaker\<lparr>cb_state := StateOpen\<rparr>, bs_clock := 9\<rparr>)"
    using breaker_recovering.step [OF breaker_recovering.start breaker_step.time_passes [of ?s 9]]
    by (simp add: witness_sys_def)
qed (simp_all add: witness_sys_def witness_breaker_def)

text \<open>
  Without that condition two probes can be in flight at once. A call admitted while the
  breaker was closed that ends while the probe is in flight clears \<open>halfOpenInFlight\<close>, and
  \<open>allow\<close> then admits a second probe.
\<close>

lemma two_probes_in_flight:
  "\<exists>s0 s. fresh_breaker (bs_cb s0) \<and> bs_flight s0 = {#} \<and> breaker_reach s0 s
     \<and> cb_state (bs_cb s) = StateHalfOpen \<and> bs_flight s = {#StateHalfOpen, StateHalfOpen#}"
proof -
  let ?fail = "Some (Sentinel DeadlineExceeded)"
  define s0 where "s0 = witness_sys\<lparr>bs_cb := witness_breaker\<lparr>cb_ErrorThreshold := 1\<rparr>\<rparr>"
  note ev = s0_def witness_sys_def witness_breaker_def
  define s1 where "s1 = s0\<lparr>bs_flight := {#StateClosed#}\<rparr>"
  define s2 where "s2 = s0\<lparr>bs_flight := {#StateClosed, StateClosed#}\<rparr>"
  define cb3 where "cb3 = record_result 5 ?fail (bs_cb s0)"
  define s3 where "s3 = s0\<lparr>bs_cb := cb3, bs_flight := {#StateClosed#}\<rparr>"
  define s4 where "s4 = s3\<lparr>bs_clock := 100\<rparr>"
  define cb5 where "cb5 = snd (allow 100 100 cb3)"
  define s5 where "s5 = s4\<lparr>bs_cb := cb5, bs_flight := {#StateHalfOpen, StateClosed#}\<rparr>"
  define cb6 where "cb6 = record_result 100 (Some (Sentinel ErrNoteNotFound)) cb5"
  define s6 where "s6 = s4\<lparr>bs_cb := cb6, bs_flight := {#StateHalfOpen#}\<rparr>"
  define cb7 where "cb7 = snd (allow 100 100 cb6)"
  define s7 where "s7 = s4\<lparr>bs_cb := cb7, bs_flight := {#StateHalfOpen, StateHalfOpen#}\<rparr>"
  have 1: "breaker_step s0 s1"
    using breaker_step.admit [of s0 "bs_cb s0"] by (simp add: s1_def ev allow_def)
  have 2: "breaker_step s1 s2"
    using breaker_step.admit [of s1 "bs_cb s0"] by (simp add: s1_def s2_def ev allow_def)
  have 3: "breaker_step s2 s3"
    using breaker_step.finish [of StateClosed s2 ?fail] by (simp add: s2_def s3_def cb3_def ev)
  have 4: "breaker_step s3 s4"
    using breaker_step.time_passes [of s3 100] by (simp add: s4_def s3_def ev)
  have cb3: "cb3 = witness_breaker\<lparr>cb_ErrorThreshold := 1, cb_failures := 1, cb_state := StateOpen,
      cb_lastChange := 5\<rparr>"
    by (simp add: cb3_def ev record_result_def trip_def)
  have cb5: "cb5 = cb3\<lparr>cb_state := StateHalfOpen, cb_lastChange := 100, cb_halfOpenInFlight := True\<rparr>"
    by (simp add: cb5_def cb3 allow_def witness_breaker_def)
  have 5: "breaker_step s4 s5"
    using breaker_step.admit [of s4 cb5]
    by (simp add: s5_def s4_def s3_def cb5 allow_def cb3 witness_breaker_def)
  have cb6: "cb6 = cb5\<lparr>cb_halfOpenInFlight := False\<rparr>"
    by (simp add: cb6_def cb5 cb3 record_result_def witness_breaker_def)
  have 6: "breaker_step s5 s6"
    using breaker_step.finish [of StateClosed s5 "Some (Sentinel ErrNoteNotFound)"]
    by (simp add: s6_def s5_def cb6_def s4_def)
  have cb7: "cb7 = cb5" by (simp add: cb7_def cb6 cb5 cb3 allow_def witness_breaker_def)
  have 7: "breaker_step s6 s7"
    using breaker_step.admit [of s6 cb5]
    by (simp add: s7_def s6_def s4_def cb6 cb7 cb5 cb3 allow_def witness_breaker_def)
  have "breaker_reach s0 s7"
    by (rule breaker_reach.step [OF breaker_reach.step [OF breaker_reach.step [OF breaker_reach.step
        [OF breaker_reach.step [OF breaker_reach.step [OF breaker_reach.step [OF breaker_reach.start
        1] 2] 3] 4] 5] 6] 7])
  moreover have "fresh_breaker (bs_cb s0)" "bs_flight s0 = {#}"
    by (simp_all add: ev fresh_breaker_def breaker_ok_def)
  moreover have "cb_state (bs_cb s7) = StateHalfOpen" by (simp add: s7_def cb7 cb5)
  ultimately show ?thesis by (intro exI [of _ s0] exI [of _ s7]) (simp add: s7_def)
qed

end
