(* ===== verification/World.thy ===== *)
theory World
  imports Breaker
begin

text \<open>
  The state the three processes keep (the tables of the two databases, the gateway's cache and
  its two circuit breakers) and what the outside contributes to each interaction.

  Every interaction with something outside the code (a statement sent to Postgres, a Redis
  command, a call to another service, a reading of the clock, a random value) consumes one
  element of \<open>w_outside\<close>: the theorems quantify over this function, so they hold for every
  behaviour of the outside. \<open>w_log\<close> is a ghost variable: it records calls a property counts,
  and no operation reads it.
\<close>

subsection \<open>The outside\<close>

text \<open>
  What becomes of a request: it is served, it fails before it took effect, or it takes effect
  and the reply is lost.
\<close>

datatype fault = Served | LostRequest go_error | LostReply go_error

record outside =
  o_fault :: fault
  o_now :: time
  o_uuid :: string
  o_random :: string
  o_ctx :: "go_error option"
  o_text :: string

datatype svc = AuthSvc | NotesSvc

datatype event =
    Slept int
  | Called svc
  | HashCompared string
  | CacheWritten string string int

record world =
  w_users :: "User list"
  w_tokens :: "RefreshToken list"
  w_notes :: "Note list"
  w_cache :: "string \<rightharpoonup> string \<times> time"
  w_breakers :: "svc \<Rightarrow> CircuitBreaker"
  w_outside :: "nat \<Rightarrow> outside"
  w_tick :: nat
  w_log :: "event list"

definition ask :: "world \<Rightarrow> outside \<times> world" where
  "ask w = (w_outside w (w_tick w), w\<lparr>w_tick := Suc (w_tick w)\<rparr>)"

text \<open>\<open>time.Now()\<close>\<close>

definition time_now :: "world \<Rightarrow> time \<times> world" where
  "time_now w = (case ask w of (ev, w1) \<Rightarrow> (o_now ev, w1))"

text \<open>\<open>ctx.Err()\<close>: nil while the context is live.\<close>

definition ctx_err :: "world \<Rightarrow> go_error option \<times> world" where
  "ctx_err w = (case ask w of (ev, w1) \<Rightarrow> (o_ctx ev, w1))"

definition log_event :: "event \<Rightarrow> world \<Rightarrow> world" where
  "log_event e w = w\<lparr>w_log := w_log w @ [e]\<rparr>"

text \<open>A request to a server whose effect is \<open>stmt\<close>.\<close>

definition request ::
  "(outside \<Rightarrow> world \<Rightarrow> (go_error + 'a) \<times> world) \<Rightarrow> world \<Rightarrow> (go_error + 'a) \<times> world" where
  "request stmt w =
     (case ask w of (ev, w1) \<Rightarrow>
        (case o_fault ev of
           Served \<Rightarrow> stmt ev w1
         | LostRequest e \<Rightarrow> (Inl e, w1)
         | LostReply e \<Rightarrow> (Inl e, snd (stmt ev w1))))"

text \<open>From here on everything outside behaves: no request is lost, and no context ends.\<close>

definition calm :: "world \<Rightarrow> bool" where
  "calm w \<longleftrightarrow>
     (\<forall>n \<ge> w_tick w. o_fault (w_outside w n) = Served \<and> o_ctx (w_outside w n) = None)"

subsection \<open>The libraries\<close>

text \<open>
  What the code takes from libraries, one function per call the code makes; nothing is assumed
  of them here. \<open>uuid_in\<close> is the driver's reading of a string as a UUID (its canonical text,
  \<open>None\<close> for an error), \<open>pg_timestamp\<close> what a \<open>timestamptz\<close> column keeps of a time,
  \<open>numeric_date\<close> what a JWT date keeps of a time.
\<close>

record claims =
  cl_UserID :: string
  cl_Username :: string
  cl_TokenUse :: string
  cl_ID :: string
  cl_IssuedAt :: time
  cl_ExpiresAt :: time
  cl_Subject :: string

record libs =
  uuid_in :: "string \<Rightarrow> string option"
  pg_timestamp :: "time \<Rightarrow> time"
  bcrypt_generate :: "string \<Rightarrow> int \<Rightarrow> string \<Rightarrow> go_error + string"
  bcrypt_compare :: "string \<Rightarrow> string \<Rightarrow> go_error option"
  numeric_date :: "time \<Rightarrow> time"
  jwt_sign :: "string \<Rightarrow> claims \<Rightarrow> go_error + string"
  jwt_parse :: "(go_error + string) \<Rightarrow> time \<Rightarrow> string \<Rightarrow> go_error + bool \<times> claims"
  jwt_unverified_expiry :: "string \<Rightarrow> go_error + time option"
  sha256 :: "string \<Rightarrow> string"
  json_marshal_user :: "User \<Rightarrow> go_error + string"
  json_unmarshal_user :: "string \<Rightarrow> go_error + User"

text \<open>Whether a call succeeded, and the world after it: what a history of calls records.\<close>

definition outcome :: "(go_error + 'a) \<times> world \<Rightarrow> bool \<times> world" where
  "outcome p = (is_ok (fst p), snd p)"

lemma outcome_simps [simp]: "snd (outcome p) = snd p" "fst (outcome p) \<longleftrightarrow> is_ok (fst p)"
  by (simp_all add: outcome_def)

subsection \<open>Rules about the outside\<close>

lemma ask_simps [simp]:
  "fst (ask w) = w_outside w (w_tick w)" "snd (ask w) = w\<lparr>w_tick := Suc (w_tick w)\<rparr>"
  by (simp_all add: ask_def)

lemma request_invariant:
  assumes "\<And>ev w. P w \<Longrightarrow> P (snd (stmt ev w))" and "\<And>w. P w \<Longrightarrow> P (w\<lparr>w_tick := Suc (w_tick w)\<rparr>)"
    and "P w"
  shows "P (snd (request stmt w))"
  using assms by (auto simp: request_def ask_def split: fault.splits)

lemma request_okD:
  "request stmt w = (Inr v, w') \<Longrightarrow>
     o_fault (w_outside w (w_tick w)) = Served
     \<and> stmt (w_outside w (w_tick w)) (w\<lparr>w_tick := Suc (w_tick w)\<rparr>) = (Inr v, w')"
  by (auto simp: request_def ask_def split: fault.splits)

lemma time_now_simps [simp]:
  "time_now w = (o_now (w_outside w (w_tick w)), w\<lparr>w_tick := Suc (w_tick w)\<rparr>)"
  by (simp add: time_now_def ask_def)

lemma ctx_err_simps [simp]:
  "ctx_err w = (o_ctx (w_outside w (w_tick w)), w\<lparr>w_tick := Suc (w_tick w)\<rparr>)"
  by (simp add: ctx_err_def ask_def)

lemma request_pure:
  assumes "request (\<lambda>ev w. (f ev, w)) w = (r, w')"
  shows "w' = w\<lparr>w_tick := Suc (w_tick w)\<rparr> \<and> (\<forall>v. r = Inr v \<longrightarrow> f (w_outside w (w_tick w)) = Inr v)"
  using assms by (auto simp: request_def ask_def split: fault.splits)

lemma request_Served:
  "o_fault (w_outside w (w_tick w)) = Served \<Longrightarrow>
     request stmt w = stmt (w_outside w (w_tick w)) (w\<lparr>w_tick := Suc (w_tick w)\<rparr>)"
  by (simp add: request_def ask_def)

lemma calm_update [simp]:
  "calm (w\<lparr>w_log := l\<rparr>) = calm w"
  "calm (w\<lparr>w_users := us\<rparr>) = calm w" "calm (w\<lparr>w_tokens := ts\<rparr>) = calm w"
  "calm (w\<lparr>w_notes := ns\<rparr>) = calm w" "calm (w\<lparr>w_cache := c\<rparr>) = calm w"
  "calm (w\<lparr>w_breakers := bs\<rparr>) = calm w"
  by (simp_all add: calm_def)

lemma calm_tick [simp]: "calm w \<Longrightarrow> w_tick w \<le> n \<Longrightarrow> calm (w\<lparr>w_tick := n\<rparr>)"
  by (simp add: calm_def)

lemma calm_served [simp]: "calm w \<Longrightarrow> w_tick w \<le> n \<Longrightarrow> o_fault (w_outside w n) = Served"
  unfolding calm_def by blast

lemma calm_ctx [simp]: "calm w \<Longrightarrow> w_tick w \<le> n \<Longrightarrow> o_ctx (w_outside w n) = None"
  unfolding calm_def by blast

text \<open>The log without the hash comparisons: the requests, the waits and the cache writes.\<close>

definition traffic :: "world \<Rightarrow> event list" where
  "traffic w = filter (\<lambda>e. case e of HashCompared h \<Rightarrow> False | _ \<Rightarrow> True) (w_log w)"

lemma traffic_update [simp]:
  "traffic (w\<lparr>w_tick := n\<rparr>) = traffic w" "traffic (w\<lparr>w_users := us\<rparr>) = traffic w"
  "traffic (w\<lparr>w_tokens := ts\<rparr>) = traffic w" "traffic (w\<lparr>w_notes := ns\<rparr>) = traffic w"
  "traffic (w\<lparr>w_cache := c\<rparr>) = traffic w" "traffic (w\<lparr>w_breakers := bs\<rparr>) = traffic w"
  "traffic (w\<lparr>w_log := w_log w @ [HashCompared h]\<rparr>) = traffic w"
  by (simp_all add: traffic_def)

text \<open>
  \<open>quiet w w'\<close>: from \<open>w\<close> to \<open>w'\<close> only time has passed and hashes may have been compared.
\<close>

definition quiet :: "world \<Rightarrow> world \<Rightarrow> bool" where
  "quiet w w' \<longleftrightarrow> w_users w' = w_users w \<and> w_tokens w' = w_tokens w \<and> w_notes w' = w_notes w
     \<and> w_cache w' = w_cache w \<and> w_breakers w' = w_breakers w \<and> w_outside w' = w_outside w
     \<and> traffic w' = traffic w \<and> w_tick w \<le> w_tick w'"

lemma quiet_refl [simp, intro]: "quiet w w"
  by (simp add: quiet_def)

lemma quiet_trans: "quiet w w' \<Longrightarrow> quiet w' w'' \<Longrightarrow> quiet w w''"
  by (simp add: quiet_def)

lemma quiet_Suc [simp]: "quiet w (w\<lparr>w_tick := Suc n\<rparr>) \<longleftrightarrow> w_tick w \<le> Suc n"
  by (simp add: quiet_def)

lemma quiet_log [simp]:
  "quiet w (w\<lparr>w_tick := Suc n, w_log := w_log w @ [HashCompared h]\<rparr>) \<longleftrightarrow> w_tick w \<le> Suc n"
  by (simp add: quiet_def traffic_def)

lemma quiet_calm: "quiet w w' \<Longrightarrow> calm w \<Longrightarrow> calm w'"
  unfolding quiet_def calm_def by (metis le_trans)

end
