(* ===== verification/Samples.thy ===== *)
theory Samples
  imports World
begin

text \<open>
  A concrete outside and concrete libraries, on which the witnesses evaluate the theorems: every
  request is served, the clock advances by one second at each interaction, and each interaction
  has a fresh identifier and a fresh random string.
\<close>

definition sample_outside :: "nat \<Rightarrow> outside" where
  "sample_outside n =
     \<lparr>o_fault = Served, o_now = 1000000000 * int n, o_uuid = CHR ''i'' # replicate n CHR ''0'',
      o_random = CHR ''r'' # replicate n CHR ''0'', o_ctx = None, o_text = ''''\<rparr>"

definition sample_breaker :: CircuitBreaker where
  "sample_breaker =
     \<lparr>cb_lastChange = 0, cb_Timeout = 10000000000, cb_IsFailure = None, cb_ErrorThreshold = 2,
      cb_SuccessThreshold = 2, cb_failures = 0, cb_successes = 0, cb_state = StateClosed,
      cb_halfOpenInFlight = False\<rparr>"

definition sample_world :: world where
  "sample_world =
     \<lparr>w_users = [], w_tokens = [], w_notes = [], w_cache = (\<lambda>_. None),
      w_breakers = (\<lambda>_. sample_breaker), w_outside = sample_outside, w_tick = 0, w_log = []\<rparr>"

text \<open>
  A hash is the password behind a prefix, a token the printed claims behind the key, and a
  UUID any string but the empty one.
\<close>

definition sample_claims :: claims where
  "sample_claims =
     \<lparr>cl_UserID = ''u'', cl_Username = ''ann'', cl_TokenUse = ''access'', cl_ID = ''r'',
      cl_IssuedAt = 0, cl_ExpiresAt = 900000000000, cl_Subject = ''u''\<rparr>"

definition sample_libs :: libs where
  "sample_libs =
     \<lparr>uuid_in = (\<lambda>s. if s = '''' then None else Some s),
      pg_timestamp = (\<lambda>t. t div 1000 * 1000),
      bcrypt_generate = (\<lambda>password cost salt. Inr (''$'' @ password)),
      bcrypt_compare = (\<lambda>h password. if h = ''$'' @ password then None
                          else Some (Library BcryptMismatch ''mismatch'')),
      numeric_date = (\<lambda>t. t div 1000000000 * 1000000000),
      jwt_sign = (\<lambda>key c. Inr (key @ ''.'' @ cl_TokenUse c @ ''.'' @ cl_UserID c @ ''.'' @ cl_ID c)),
      jwt_parse = (\<lambda>key now s.
         if key = Inr ''k'' \<and> s = ''k.access.u.r'' \<and> now < 900000000000 then Inr (True, sample_claims)
         else Inl (Library OtherLibrary ''bad token'')),
      jwt_unverified_expiry = (\<lambda>s. if s = ''k.access.u.r'' then Inr (Some 900000000000)
         else Inl (Library OtherLibrary ''bad token'')),
      sha256 = (\<lambda>s. ''#'' @ s),
      json_marshal_user = (\<lambda>u. Inr (user_ID u)),
      json_unmarshal_user = (\<lambda>s. Inl (Library OtherLibrary ''not json''))\<rparr>"

lemmas sample_defs = sample_outside_def sample_world_def sample_libs_def sample_breaker_def sample_claims_def

end
