(* ===== verification/JwtService.thy ===== *)
theory JwtService
  imports Samples
begin

text \<open>
  The token service of \<open>internal/adapters/jwt\<close>: which claims it signs with which key, and what
  it accepts of a parsed token. Signing and parsing are the library's \<open>jwt_sign\<close> and
  \<open>jwt_parse\<close> (restricted to HS256 by the parser's option); \<open>numeric_date\<close> is the precision of
  a date in a token.
\<close>

definition tokenUseAccess :: string where "tokenUseAccess = ''access''"
definition tokenUseRefresh :: string where "tokenUseRefresh = ''refresh''"

record jwt_service =
  js_accessKey :: string
  js_refreshKey :: string
  js_accessTokenTTL :: int
  js_refreshTokenTTL :: int

definition NewIssuer :: "string \<Rightarrow> string \<Rightarrow> int \<Rightarrow> int \<Rightarrow> jwt_service" where
  "NewIssuer accessSecret refreshSecret accessTTL refreshTTL =
     \<lparr>js_accessKey = accessSecret, js_refreshKey = refreshSecret,
      js_accessTokenTTL = accessTTL, js_refreshTokenTTL = refreshTTL\<rparr>"

definition NewAccessVerifier :: "string \<Rightarrow> jwt_service" where
  "NewAccessVerifier accessSecret =
     \<lparr>js_accessKey = accessSecret, js_refreshKey = '''', js_accessTokenTTL = 0, js_refreshTokenTTL = 0\<rparr>"

text \<open>\<open>uuid.NewString()\<close>\<close>

definition uuid_NewString :: "world \<Rightarrow> string \<times> world" where
  "uuid_NewString w = (case ask w of (ev, w1) \<Rightarrow> (o_random ev, w1))"

definition generateToken ::
  "libs \<Rightarrow> string \<Rightarrow> string \<Rightarrow> int \<Rightarrow> string \<Rightarrow> string \<Rightarrow> world \<Rightarrow> (go_error + string \<times> time) \<times> world"
where
  "generateToken L userID username ttl tokenUse key w =
     (if key = '''' then (Inl (errorf_ws (Sentinel ErrTokenGeneration) ''empty secret''), w)
      else
        (case time_now w of (now, w1) \<Rightarrow>
          (let expiresAt = now + ttl in
           case uuid_NewString w1 of (idn, w2) \<Rightarrow>
             (let tokenClaims =
                \<lparr>cl_UserID = userID, cl_Username = username, cl_TokenUse = tokenUse, cl_ID = idn,
                 cl_IssuedAt = numeric_date L now, cl_ExpiresAt = numeric_date L expiresAt,
                 cl_Subject = userID\<rparr>
              in case jwt_sign L key tokenClaims of
                   Inl err \<Rightarrow> (Inl (errorf_ww (Sentinel ErrTokenGeneration) err), w2)
                 | Inr tokenString \<Rightarrow> (Inr (tokenString, expiresAt), w2)))))"

definition GenerateAccessToken ::
  "libs \<Rightarrow> jwt_service \<Rightarrow> string \<Rightarrow> string \<Rightarrow> world \<Rightarrow> (go_error + string \<times> time) \<times> world" where
  "GenerateAccessToken L s userID username w =
     generateToken L userID username (js_accessTokenTTL s) tokenUseAccess (js_accessKey s) w"

definition GenerateRefreshToken ::
  "libs \<Rightarrow> jwt_service \<Rightarrow> string \<Rightarrow> world \<Rightarrow> (go_error + string \<times> time) \<times> world" where
  "GenerateRefreshToken L s userID w =
     generateToken L userID '''' (js_refreshTokenTTL s) tokenUseRefresh (js_refreshKey s) w"

text \<open>The function that gives the parser its key.\<close>

definition access_keyfunc :: "jwt_service \<Rightarrow> go_error + string" where
  "access_keyfunc s = (if js_accessKey s = '''' then Inl (Sentinel ErrInvalidJWTToken) else Inr (js_accessKey s))"

definition ValidateAccessToken ::
  "libs \<Rightarrow> jwt_service \<Rightarrow> string \<Rightarrow> world \<Rightarrow> (go_error + string) \<times> world" where
  "ValidateAccessToken L s tokenString w =
     (case time_now w of (now, w1) \<Rightarrow>
       (case jwt_parse L (access_keyfunc s) now tokenString of
          Inl err \<Rightarrow>
            if errors_is_library err JwtTokenExpired then (Inl (Sentinel ErrExpiredJWTToken), w1)
            else (Inl (errorf_ww (Sentinel ErrInvalidJWTToken) err), w1)
        | Inr (token_Valid, tokenClaims) \<Rightarrow>
            if \<not> token_Valid \<or> cl_UserID tokenClaims = '''' \<or> cl_TokenUse tokenClaims \<noteq> tokenUseAccess
              then (Inl (Sentinel ErrInvalidJWTToken), w1)
            else (Inr (cl_UserID tokenClaims), w1)))"

definition witness_issuer :: jwt_service where
  "witness_issuer = NewIssuer ''k'' ''r'' 900000000000 3600000000000"

subsection \<open>What the library documents\<close>

text \<open>
  A date in a token has the precision of a date: \<open>numeric_date\<close> changes nothing the second time,
  and claims are \<open>dated\<close> when their dates have that precision. A signed token with such claims
  parses, with the key it was signed with and before it expires, to the claims that were signed;
  with whatever key, a token that parses has the claims that were signed; and a token past its
  expiry is refused as expired when the key is right.
\<close>

definition dated :: "libs \<Rightarrow> claims \<Rightarrow> bool" where
  "dated L c \<longleftrightarrow> numeric_date L (cl_ExpiresAt c) = cl_ExpiresAt c \<and> numeric_date L (cl_IssuedAt c) = cl_IssuedAt c"

definition jwt_ok :: "libs \<Rightarrow> bool" where
  "jwt_ok L \<longleftrightarrow>
     (\<forall>t. numeric_date L (numeric_date L t) = numeric_date L t)
   \<and> (\<forall>k c t now. k \<noteq> '''' \<and> dated L c \<and> jwt_sign L k c = Inr t \<and> now < cl_ExpiresAt c \<longrightarrow>
        jwt_parse L (Inr k) now t = Inr (True, c))
   \<and> (\<forall>k k' c c' t now v. dated L c \<and> jwt_sign L k c = Inr t \<and> jwt_parse L k' now t = Inr (v, c') \<longrightarrow> c' = c)
   \<and> (\<forall>k c t now. k \<noteq> '''' \<and> dated L c \<and> jwt_sign L k c = Inr t \<and> cl_ExpiresAt c \<le> now \<longrightarrow>
        (\<exists>e. jwt_parse L (Inr k) now t = Inl e \<and> errors_is_library e JwtTokenExpired))"

lemma jwt_okD:
  assumes "jwt_ok L"
  shows "numeric_date L (numeric_date L t) = numeric_date L t"
    and "k \<noteq> '''' \<Longrightarrow> dated L c \<Longrightarrow> jwt_sign L k c = Inr s \<Longrightarrow> now < cl_ExpiresAt c \<Longrightarrow>
           jwt_parse L (Inr k) now s = Inr (True, c)"
    and "dated L c \<Longrightarrow> jwt_sign L k c = Inr s \<Longrightarrow> jwt_parse L k' now s = Inr (v, c') \<Longrightarrow> c' = c"
    and "k \<noteq> '''' \<Longrightarrow> dated L c \<Longrightarrow> jwt_sign L k c = Inr s \<Longrightarrow> cl_ExpiresAt c \<le> now \<Longrightarrow>
           \<exists>e. jwt_parse L (Inr k) now s = Inl e \<and> errors_is_library e JwtTokenExpired"
  using assms unfolding jwt_ok_def by blast+

lemma uuid_NewString_simps [simp]:
  "uuid_NewString w = (o_random (w_outside w (w_tick w)), w\<lparr>w_tick := Suc (w_tick w)\<rparr>)"
  by (simp add: uuid_NewString_def ask_def)

lemma generateToken_quiet: "quiet w (snd (generateToken L u n ttl use key w))"
  by (auto simp: generateToken_def Let_def split: sum.splits)

definition signed_claims :: "libs \<Rightarrow> string \<Rightarrow> string \<Rightarrow> string \<Rightarrow> time \<Rightarrow> time \<Rightarrow> string \<Rightarrow> claims" where
  "signed_claims L u n use now expiry rid =
     \<lparr>cl_UserID = u, cl_Username = n, cl_TokenUse = use, cl_ID = rid,
      cl_IssuedAt = numeric_date L now, cl_ExpiresAt = numeric_date L expiry, cl_Subject = u\<rparr>"

lemma generateToken_Inr:
  assumes "generateToken L u n ttl use key w = (Inr (t, x), w')"
  shows "key \<noteq> '''' \<and> x = o_now (w_outside w (w_tick w)) + ttl
     \<and> jwt_sign L key (signed_claims L u n use (o_now (w_outside w (w_tick w))) x
         (o_random (w_outside w (Suc (w_tick w))))) = Inr t
     \<and> w' = w\<lparr>w_tick := Suc (Suc (w_tick w))\<rparr>"
  using assms
  by (auto simp: generateToken_def signed_claims_def Let_def split: if_splits sum.splits)

lemma signed_claims_sel [simp]:
  "cl_UserID (signed_claims L u n use now x r) = u" "cl_TokenUse (signed_claims L u n use now x r) = use"
  "cl_ID (signed_claims L u n use now x r) = r" "cl_ExpiresAt (signed_claims L u n use now x r) = numeric_date L x"
  by (simp_all add: signed_claims_def)

lemma signed_claims_dated: "jwt_ok L \<Longrightarrow> dated L (signed_claims L u n use now x r)"
  by (simp add: dated_def signed_claims_def jwt_okD(1))

text \<open>
  Libraries on which these theorems evaluate: a token is the key followed by the use it was
  signed for, and the two claims signed are those of a user \<open>u\<close> at time 0.
\<close>

definition token_libs :: libs where
  "token_libs = sample_libs
     \<lparr>jwt_sign := (\<lambda>k c.
        if c = signed_claims sample_libs ''u'' ''ann'' tokenUseAccess 0 900000000000 ''r0'' then Inr (k @ ''.a'')
        else if c = signed_claims sample_libs ''u'' '''' tokenUseRefresh 0 3600000000000 ''r0'' then Inr (k @ ''.r'')
        else Inl (Library OtherLibrary ''unsigned'')),
      jwt_parse := (\<lambda>key now s.
        case key of
          Inl e \<Rightarrow> Inl e
        | Inr k \<Rightarrow>
            if s = k @ ''.a'' then
              if now < 900000000000
              then Inr (True, signed_claims sample_libs ''u'' ''ann'' tokenUseAccess 0 900000000000 ''r0'')
              else Inl (Library JwtTokenExpired ''expired'')
            else if s = k @ ''.r'' then
              if now < 3600000000000
              then Inr (True, signed_claims sample_libs ''u'' '''' tokenUseRefresh 0 3600000000000 ''r0'')
              else Inl (Library JwtTokenExpired ''expired'')
            else Inl (Library OtherLibrary ''bad token''))\<rparr>"

lemma sample_date: "numeric_date sample_libs t = t div 1000000000 * 1000000000"
  by (simp add: sample_libs_def)

lemma token_libs_signed: "signed_claims token_libs = signed_claims sample_libs"
  by (intro ext) (simp add: signed_claims_def token_libs_def)

lemma token_libs_ok: "jwt_ok token_libs"
proof -
  have n: "numeric_date token_libs t = t div 1000000000 * 1000000000" for t
    by (simp add: token_libs_def sample_date)
  show ?thesis
    unfolding jwt_ok_def
  proof (intro conjI)
    show "\<forall>t. numeric_date token_libs (numeric_date token_libs t) = numeric_date token_libs t"
      by (simp add: n)
  qed (auto simp: token_libs_def signed_claims_def sample_date tokenUseAccess_def tokenUseRefresh_def
         split: if_splits sum.splits)
qed

text \<open>
  C22: The access token the auth service issues for a user is accepted by every service that
  holds the same access secret, as that user's, as long as it has not expired, and is refused
  with \<open>ErrExpiredJWTToken\<close> afterwards.
\<close>

theorem access_token_roundtrip:
  assumes "jwt_ok L" and "GenerateAccessToken L s u n w = (Inr (t, x), w1)" and "u \<noteq> ''''"
    and "js_accessKey v = js_accessKey s"
  shows "(o_now (w_outside w' (w_tick w')) < numeric_date L x \<longrightarrow> fst (ValidateAccessToken L v t w') = Inr u)
    \<and> (numeric_date L x \<le> o_now (w_outside w' (w_tick w')) \<longrightarrow>
         fst (ValidateAccessToken L v t w') = Inl (Sentinel ErrExpiredJWTToken))"
proof -
  obtain now r where key: "js_accessKey s \<noteq> ''''"
    and sign: "jwt_sign L (js_accessKey s) (signed_claims L u n tokenUseAccess now x r) = Inr t"
    using assms(2) generateToken_Inr unfolding GenerateAccessToken_def by blast
  have kf: "access_keyfunc v = Inr (js_accessKey s)"
    using key assms(4) by (simp add: access_keyfunc_def)
  let ?now = "o_now (w_outside w' (w_tick w'))"
  let ?c = "signed_claims L u n tokenUseAccess now x r"
  note ok = jwt_okD [OF assms(1)] and dated = signed_claims_dated [OF assms(1), of u n tokenUseAccess now x r]
  have "jwt_parse L (Inr (js_accessKey s)) ?now t = Inr (True, ?c)" if "?now < numeric_date L x"
    using ok(2) [OF key dated sign] that by simp
  moreover have "\<exists>e. jwt_parse L (Inr (js_accessKey s)) ?now t = Inl e \<and> errors_is_library e JwtTokenExpired"
    if "numeric_date L x \<le> ?now"
    using ok(4) [OF key dated sign] that by simp
  ultimately show ?thesis
    using kf assms(3) by (auto simp: ValidateAccessToken_def)
qed

theorem access_token_roundtrip_witness:
  "fst (ValidateAccessToken token_libs (NewAccessVerifier ''k'') ''k.a'' sample_world) = Inr ''u''
   \<and> fst (ValidateAccessToken token_libs (NewAccessVerifier ''k'') ''k.a'' (sample_world\<lparr>w_tick := 900\<rparr>))
        = Inl (Sentinel ErrExpiredJWTToken)"
proof -
  have "GenerateAccessToken token_libs witness_issuer ''u'' ''ann'' sample_world
      = (Inr (''k.a'', 900000000000), sample_world\<lparr>w_tick := 2\<rparr>)"
    by (simp add: GenerateAccessToken_def generateToken_def witness_issuer_def NewIssuer_def token_libs_def
          signed_claims_def sample_defs tokenUseAccess_def tokenUseRefresh_def numeral_2_eq_2)
  note * = access_token_roundtrip [OF token_libs_ok this, of "NewAccessVerifier ''k''"]
  have key: "js_accessKey (NewAccessVerifier ''k'') = js_accessKey witness_issuer"
    by (simp add: NewAccessVerifier_def witness_issuer_def NewIssuer_def)
  have x: "numeric_date token_libs 900000000000 = 900000000000"
    by (simp add: token_libs_def sample_date)
  show ?thesis
    using * [OF _ key, of sample_world] * [OF _ key, of "sample_world\<lparr>w_tick := 900\<rparr>"]
    unfolding x by (simp add: sample_world_def sample_outside_def)
qed

text \<open>
  C23: A refresh token is never accepted as an access token, by any service and at any time, even
  if the two secrets were the same.
\<close>

theorem refresh_token_is_no_access_token:
  assumes "jwt_ok L" and "GenerateRefreshToken L s u w = (Inr (t, x), w1)"
  shows "\<exists>e. fst (ValidateAccessToken L v t w') = Inl e
     \<and> (errors_is e ErrInvalidJWTToken \<or> errors_is e ErrExpiredJWTToken)"
proof -
  obtain now r where sign: "jwt_sign L (js_refreshKey s) (signed_claims L u '''' tokenUseRefresh now x r) = Inr t"
    using assms(2) generateToken_Inr unfolding GenerateRefreshToken_def by blast
  have "c = signed_claims L u '''' tokenUseRefresh now x r" if "jwt_parse L k n t = Inr (b, c)" for k n b c
    using jwt_okD(3) [OF assms(1) signed_claims_dated [OF assms(1)] sign that] .
  then have "cl_TokenUse c \<noteq> tokenUseAccess" if "jwt_parse L k n t = Inr (b, c)" for k n b c
    using that by (fastforce simp: tokenUseAccess_def tokenUseRefresh_def)
  then show ?thesis
    by (auto simp: ValidateAccessToken_def split: sum.splits prod.splits)
qed

theorem refresh_token_is_no_access_token_witness:
  "\<exists>e. fst (ValidateAccessToken token_libs (NewAccessVerifier ''r'') ''r.r'' sample_world) = Inl e
     \<and> (errors_is e ErrInvalidJWTToken \<or> errors_is e ErrExpiredJWTToken)"
proof -
  have "GenerateRefreshToken token_libs witness_issuer ''u'' sample_world
      = (Inr (''r.r'', 3600000000000), sample_world\<lparr>w_tick := 2\<rparr>)"
    by (simp add: GenerateRefreshToken_def generateToken_def witness_issuer_def NewIssuer_def token_libs_def
          signed_claims_def sample_defs tokenUseAccess_def tokenUseRefresh_def numeral_2_eq_2)
  from refresh_token_is_no_access_token [OF token_libs_ok this]
  show ?thesis .
qed

end
