(* ===== verification/RequestContext.thy ===== *)
theory RequestContext
  imports GrpcStatus JwtService
begin

text \<open>
  What a request carries with it: the values of its context (\<open>internal/authctx\<close>, the request id
  of \<open>internal/logger\<close>) and its gRPC metadata, and the functions of
  \<open>internal/adapters/grpc/helpers.go\<close> and \<open>interceptor.go\<close> that move the bearer token and the
  request id from one to the other.

  A context is a record of the values the program's keys can hold, \<open>None\<close> for a key that is not
  set; a nil context is \<open>None\<close> where the code checks for it.
\<close>

type_synonym md = "string \<Rightarrow> string list option"

record go_ctx =
  cx_bearer_token :: "string option"
  cx_user_id :: "string option"
  cx_request_id :: "string option"
  cx_incoming :: "md option"
  cx_outgoing :: "md option"

definition background :: go_ctx where
  "background = \<lparr>cx_bearer_token = None, cx_user_id = None, cx_request_id = None,
     cx_incoming = None, cx_outgoing = None\<rparr>"

subsection \<open>\<open>authctx\<close>\<close>

definition WithBearerToken :: "go_ctx \<Rightarrow> string \<Rightarrow> go_ctx" where
  "WithBearerToken ctx token = ctx\<lparr>cx_bearer_token := Some token\<rparr>"

definition BearerTokenFrom :: "go_ctx option \<Rightarrow> string" where
  "BearerTokenFrom ctx0 =
     (case ctx0 of
        None \<Rightarrow> ''''
      | Some ctx \<Rightarrow> (case cx_bearer_token ctx of Some token \<Rightarrow> token | None \<Rightarrow> ''''))"

definition WithUserID :: "go_ctx \<Rightarrow> string \<Rightarrow> go_ctx" where
  "WithUserID ctx userID = ctx\<lparr>cx_user_id := Some userID\<rparr>"

definition UserIDFrom :: "go_ctx option \<Rightarrow> string" where
  "UserIDFrom ctx0 =
     (case ctx0 of
        None \<Rightarrow> ''''
      | Some ctx \<Rightarrow> (case cx_user_id ctx of Some userID \<Rightarrow> userID | None \<Rightarrow> ''''))"

subsection \<open>The request id of \<open>logger\<close>\<close>

text \<open>\<open>pid\<close> is the text of the process id.\<close>

definition NewRequestIDContext :: "string \<Rightarrow> go_ctx option \<Rightarrow> string \<Rightarrow> go_ctx" where
  "NewRequestIDContext pid ctx0 requestID0 =
     (let ctx = (case ctx0 of None \<Rightarrow> background | Some c \<Rightarrow> c);
          requestID = (if requestID0 = '''' then pid else requestID0)
      in ctx\<lparr>cx_request_id := Some requestID\<rparr>)"

definition RequestIDFromContext :: "go_ctx option \<Rightarrow> string" where
  "RequestIDFromContext ctx0 =
     (case ctx0 of
        None \<Rightarrow> ''''
      | Some ctx \<Rightarrow> (case cx_request_id ctx of Some i \<Rightarrow> i | None \<Rightarrow> ''''))"

definition NewRequestID :: "world \<Rightarrow> string \<times> world" where
  "NewRequestID w = uuid_NewString w"

subsection \<open>Metadata\<close>

text \<open>The operations of the \<open>metadata\<close> package: keys are kept in lower case.\<close>

definition md_get :: "md \<Rightarrow> string \<Rightarrow> string list" where
  "md_get m k = (case m (to_lower k) of None \<Rightarrow> [] | Some vs \<Rightarrow> vs)"

definition md_set :: "md \<Rightarrow> string \<Rightarrow> string list \<Rightarrow> md" where
  "md_set m k vs = (if vs = [] then m else m(to_lower k \<mapsto> vs))"

definition md_pair :: "string \<Rightarrow> string \<Rightarrow> md" where
  "md_pair k v = [to_lower k \<mapsto> [v]]"

definition extractBearerToken :: "go_ctx \<Rightarrow> go_error + string" where
  "extractBearerToken ctx =
     (case cx_incoming ctx of
        None \<Rightarrow> Inl (Sentinel ErrMetadataNotFound)
      | Some m \<Rightarrow>
          (case md_get m ''authorization'' of
             [] \<Rightarrow> Inl (Sentinel ErrAuthHeaderNotFound)
           | value # _ \<Rightarrow>
               (case cut CHR '' '' value of
                  None \<Rightarrow> Inl (Sentinel ErrAuthHeaderNotFound)
                | Some (scheme, token0) \<Rightarrow>
                    if \<not> equal_fold scheme ''Bearer'' then Inl (Sentinel ErrAuthHeaderNotFound)
                    else
                      (let token = trim_space token0 in
                       if token = '''' then Inl (Sentinel ErrAuthHeaderNotFound) else Inr token))))"

definition outgoingContextWithToken :: "go_ctx \<Rightarrow> string \<Rightarrow> go_ctx" where
  "outgoingContextWithToken ctx token =
     (let m0 = md_pair ''authorization'' (''Bearer '' @ token);
          requestID = RequestIDFromContext (Some ctx);
          m = (if requestID \<noteq> '''' then md_set m0 ''x-request-id'' [requestID] else m0)
      in ctx\<lparr>cx_outgoing := Some m\<rparr>)"

fun first_header :: "md \<Rightarrow> string list \<Rightarrow> string" where
  "first_header m [] = ''''"
| "first_header m (header # headers) =
     (case md_get m header of
        [] \<Rightarrow> first_header m headers
      | value # _ \<Rightarrow> trim_space value)"

definition extractRequestIDFromMetadata :: "go_ctx \<Rightarrow> string" where
  "extractRequestIDFromMetadata ctx =
     (case cx_incoming ctx of
        None \<Rightarrow> ''''
      | Some m \<Rightarrow> first_header m [''x-request-id'', ''request-id''])"

definition withRequestID :: "string \<Rightarrow> go_ctx option \<Rightarrow> world \<Rightarrow> go_ctx \<times> world" where
  "withRequestID pid ctx0 w =
     (let ctx = (case ctx0 of None \<Rightarrow> background | Some c \<Rightarrow> c) in
      if RequestIDFromContext (Some ctx) \<noteq> '''' then (ctx, w)
      else if extractRequestIDFromMetadata ctx \<noteq> ''''
        then (NewRequestIDContext pid (Some ctx) (extractRequestIDFromMetadata ctx), w)
      else (case NewRequestID w of (i, w1) \<Rightarrow> (NewRequestIDContext pid (Some ctx) i, w1)))"

text \<open>
  The transport: a server's context starts with the client's outgoing metadata, beside the
  transport's own headers \<open>hs\<close>.
\<close>

definition server_ctx :: "md \<Rightarrow> go_ctx \<Rightarrow> go_ctx" where
  "server_ctx hs ctx =
     background\<lparr>cx_incoming := Some (hs ++ (case cx_outgoing ctx of None \<Rightarrow> Map.empty | Some m \<Rightarrow> m))\<rparr>"

subsection \<open>The interceptors\<close>

type_synonym 'r handler = "go_ctx \<Rightarrow> world \<Rightarrow> (go_error + 'r) \<times> world"

definition NewUnaryAuthInterceptor ::
  "libs \<Rightarrow> jwt_service \<Rightarrow> string list \<Rightarrow> string \<Rightarrow> 'r handler \<Rightarrow> 'r handler" where
  "NewUnaryAuthInterceptor L tokenSvc protectedMethods fullMethod handler ctx w =
     (if fullMethod \<notin> set protectedMethods then handler ctx w
      else
        (case extractBearerToken ctx of
           Inl err \<Rightarrow> (Inl (status_of CodeUnauthenticated ErrUnauthorized), w)
         | Inr token \<Rightarrow>
             (case ValidateAccessToken L tokenSvc token w of
                (Inl err, w1) \<Rightarrow> (Inl (status_of CodeUnauthenticated ErrUnauthorized), w1)
              | (Inr userID, w1) \<Rightarrow> handler (WithUserID ctx userID) w1)))"

definition userIDFromContext :: "go_ctx \<Rightarrow> go_error + string" where
  "userIDFromContext ctx =
     (let userID = UserIDFrom (Some ctx) in
      if userID \<noteq> '''' then Inr userID else Inl (status_of CodeUnauthenticated ErrUnauthorized))"

definition unaryRequestIDInterceptor :: "string \<Rightarrow> 'r handler \<Rightarrow> 'r handler" where
  "unaryRequestIDInterceptor pid handler ctx0 w =
     (case withRequestID pid (Some ctx0) w of (ctx, w1) \<Rightarrow> handler ctx w1)"

text \<open>
  A stream is here the context it has; the handler gets the same stream with another context, and
  \<open>Context()\<close> of that one is the new context.
\<close>

type_synonym 's stream_handler = "(go_ctx \<times> 's) \<Rightarrow> world \<Rightarrow> go_error option \<times> world"

definition serverStreamWithContext :: "go_ctx \<Rightarrow> go_ctx \<times> 's \<Rightarrow> go_ctx \<times> 's" where
  "serverStreamWithContext ctx ss = (ctx, snd ss)"

definition Stream_Context :: "go_ctx \<times> 's \<Rightarrow> go_ctx" where
  "Stream_Context ss = fst ss"

definition streamRequestIDInterceptor :: "string \<Rightarrow> 's stream_handler \<Rightarrow> 's stream_handler" where
  "streamRequestIDInterceptor pid handler ss w =
     (case withRequestID pid (Some (Stream_Context ss)) w of (ctx, w1) \<Rightarrow> handler (serverStreamWithContext ctx ss) w1)"

subsection \<open>What reaches the handler\<close>

declare to_lower.simps [simp del]

lemma to_lower_authorization [simp]:
  "to_lower ''authorization'' = ''authorization''" "to_lower ''x-request-id'' = ''x-request-id''"
  "to_lower ''request-id'' = ''request-id''"
  by (code_simp, code_simp, code_simp)

lemma outgoing_headers:
  "\<exists>m. cx_outgoing (outgoingContextWithToken ctx t) = Some m \<and> m ''authorization'' = Some [''Bearer '' @ t]
     \<and> (RequestIDFromContext (Some ctx) \<noteq> '''' \<longrightarrow> m ''x-request-id'' = Some [RequestIDFromContext (Some ctx)])"
  by (auto simp: outgoingContextWithToken_def md_pair_def md_set_def Let_def)

lemma bearer_cut: "cut CHR '' '' (''Bearer '' @ t) = Some (''Bearer'', t)"
  using cut_append [of "CHR '' ''" "''Bearer''" t] by simp

lemma bearer_fold [simp]: "equal_fold ''Bearer'' ''Bearer''"
  by code_simp

text \<open>
  The bearer token and the request id survive the call from the gateway to a service: the
  service extracts the token the gateway sent, when it is not blank and has no white space at
  its ends, and works under the gateway's request id.
\<close>

lemma bearer_token_roundtrip:
  assumes "trim_space t = t" and "t \<noteq> ''''" and "RequestIDFromContext (Some ctx) = i"
    and "trim_space i = i" and "i \<noteq> ''''"
  shows "extractBearerToken (server_ctx hs (outgoingContextWithToken ctx t)) = Inr t
    \<and> RequestIDFromContext (Some (fst (withRequestID pid (Some (server_ctx hs (outgoingContextWithToken ctx t))) w))) = i
    \<and> extractBearerToken (fst (withRequestID pid (Some (server_ctx hs (outgoingContextWithToken ctx t))) w)) = Inr t"
proof -
  let ?s = "server_ctx hs (outgoingContextWithToken ctx t)"
  obtain m where m: "cx_incoming ?s = Some m" "m ''authorization'' = Some [''Bearer '' @ t]"
    "m ''x-request-id'' = Some [i]"
    using outgoing_headers [of ctx t] assms(3,5)
    by (auto simp: server_ctx_def map_add_def)
  have tok: "extractBearerToken c = Inr t" if "cx_incoming c = Some m" for c
    using that m assms(1,2) bearer_cut [of t]
    by (simp add: extractBearerToken_def md_get_def Let_def)
  have rid: "extractRequestIDFromMetadata ?s = i"
    using m assms(4) by (simp add: extractRequestIDFromMetadata_def md_get_def)
  have "RequestIDFromContext (Some ?s) = ''''"
    by (simp add: server_ctx_def background_def RequestIDFromContext_def)
  then have "fst (withRequestID pid (Some ?s) w) = ?s\<lparr>cx_request_id := Some i\<rparr>"
    using rid assms(5) by (simp add: withRequestID_def NewRequestIDContext_def)
  then show ?thesis
    using tok m(1) assms(5) by (simp add: RequestIDFromContext_def)
qed

theorem bearer_token_roundtrip_witness:
  "extractBearerToken (server_ctx Map.empty (outgoingContextWithToken
       (NewRequestIDContext ''pid'' (Some background) ''r1'') ''abc'')) = Inr ''abc''"
proof -
  have t: "trim_space ''abc'' = ''abc''" "trim_space ''r1'' = ''r1''"
    by code_simp+
  have r: "RequestIDFromContext (Some (NewRequestIDContext ''pid'' (Some background) ''r1'')) = ''r1''"
    by (simp add: NewRequestIDContext_def RequestIDFromContext_def)
  show ?thesis
    using bearer_token_roundtrip [OF t(1) _ r t(2)] by simp
qed

text \<open>
  No handler of a protected method runs for an unauthenticated request: the interceptor
  calls the handler only with the user of an access token that validated, and answers
  \<open>Unauthenticated\<close> otherwise, without a call.
\<close>

lemma protected_methods_authenticated:
  assumes "m \<in> set protectedMethods"
  shows "(\<exists>t u w1. extractBearerToken ctx = Inr t \<and> ValidateAccessToken L s t w = (Inr u, w1) \<and> u \<noteq> ''''
            \<and> NewUnaryAuthInterceptor L s protectedMethods m handler ctx w = handler (WithUserID ctx u) w1)
       \<or> (\<exists>w1. quiet w w1 \<and> NewUnaryAuthInterceptor L s protectedMethods m handler ctx w
                = (Inl (StatusError CodeUnauthenticated ''unauthorized access''), w1))"
proof (cases "extractBearerToken ctx")
  case (Inl e)
  then show ?thesis using assms by (auto simp: NewUnaryAuthInterceptor_def status_of_def)
next
  case (Inr t)
  obtain r w1 where v: "ValidateAccessToken L s t w = (r, w1)" by fastforce
  then have q: "quiet w w1" and ne: "\<And>u. r = Inr u \<Longrightarrow> u \<noteq> ''''"
    by (auto simp: ValidateAccessToken_def split: sum.splits prod.splits if_splits)
  show ?thesis
    using assms Inr v q ne
    by (cases r) (auto simp: NewUnaryAuthInterceptor_def status_of_def)
qed

theorem protected_methods_authenticated_witness:
  "\<exists>w1. quiet sample_world w1
     \<and> NewUnaryAuthInterceptor sample_libs witness_issuer [''/m''] ''/m''
         (\<lambda>ctx w. (Inr (), w)) background sample_world
       = (Inl (StatusError CodeUnauthenticated ''unauthorized access''), w1)"
proof -
  have "extractBearerToken background = Inl e \<Longrightarrow> extractBearerToken background \<noteq> Inr t" for e t by simp
  moreover have "\<exists>e. extractBearerToken background = Inl e"
    by (simp add: extractBearerToken_def background_def)
  ultimately show ?thesis
    using protected_methods_authenticated [of "''/m''" "[''/m'']" background sample_libs witness_issuer sample_world
      "\<lambda>ctx w. (Inr (), w)"] by auto
qed

end
