(* ===== verification/Postgres.thy ===== *)
theory Postgres
  imports World
begin

text \<open>
  The pieces the three repositories of \<open>internal/adapters/postgres\<close> share: \<open>QueryRow(..).Scan\<close>
  through \<open>scanOne\<close>, \<open>Query\<close> through \<open>scanAll\<close>, \<open>Exec\<close> with the number of rows it affected,
  and the errors Postgres raises for the constraints of the migrations.
\<close>

definition pgUniqueViolation :: string where
  "pgUniqueViolation = ''23505''"

text \<open>
  The errors the tables raise: a value longer than a \<open>VARCHAR\<close> column, a duplicate value of a
  unique column (its detail names the column and the value), a missing referenced row. That the
  server refuses a text with a zero byte (SQLSTATE 22021) is one of the faults of the outside: a
  request that is lost with that error.
\<close>

definition too_long_error :: "outside \<Rightarrow> go_error" where
  "too_long_error ev = PgError ''22001'' '''' '''' (o_text ev)"

definition unique_error :: "outside \<Rightarrow> string \<Rightarrow> string \<Rightarrow> string \<Rightarrow> go_error" where
  "unique_error ev constraint column value =
     PgError pgUniqueViolation constraint
       (''Key ('' @ column @ '')=('' @ value @ '') already exists.'') (o_text ev)"

definition foreign_key_error :: "outside \<Rightarrow> string \<Rightarrow> go_error" where
  "foreign_key_error ev constraint = PgError ''23503'' constraint '''' (o_text ev)"

definition bad_uuid_error :: "outside \<Rightarrow> go_error" where
  "bad_uuid_error ev = Library OtherLibrary (o_text ev)"

text \<open>The number of characters of a string: the bytes that are not continuation bytes.\<close>

definition char_count :: "string \<Rightarrow> nat" where
  "char_count s = length (filter (\<lambda>c. \<not> (128 \<le> byte c \<and> byte c < 192)) s)"

lemma char_count_le: "char_count s \<le> length s"
  by (simp add: char_count_def)

subsection \<open>Rows\<close>

definition pgx_no_rows :: go_error where
  "pgx_no_rows = Library PgxNoRows ''no rows in result set''"

text \<open>\<open>pool.QueryRow\<close>: the first row of the result, an error when there is none.\<close>

definition query_row ::
  "(outside \<Rightarrow> world \<Rightarrow> (go_error + 'a option) \<times> world) \<Rightarrow> world \<Rightarrow> (go_error + 'a) \<times> world" where
  "query_row stmt w =
     (case request stmt w of
        (Inl e, w1) \<Rightarrow> (Inl e, w1)
      | (Inr None, w1) \<Rightarrow> (Inl pgx_no_rows, w1)
      | (Inr (Some row), w1) \<Rightarrow> (Inr row, w1))"

definition scanOne :: "(go_error + 'a) \<times> world \<Rightarrow> (go_error + 'a) \<times> world" where
  "scanOne row =
     (case row of
        (Inl scanErr, w) \<Rightarrow> (Inl (errorf_w ''scan row'' scanErr), w)
      | (Inr out, w) \<Rightarrow> (Inr out, w))"

text \<open>
  \<open>pgx.Rows\<close>: for each row what \<open>rows.Scan\<close> gives, and what \<open>rows.Err()\<close> says when
  \<open>rows.Next()\<close> is false.
\<close>

datatype 'a rows = Rows "(go_error + 'a) list" "go_error option"

fun scanAll :: "'a rows \<Rightarrow> 'a list \<Rightarrow> go_error + 'a list" where
  "scanAll (Rows [] rowsErr) result =
     (case rowsErr of
        Some e \<Rightarrow> Inl (errorf_w ''rows iteration'' e)
      | None \<Rightarrow> Inr result)"
| "scanAll (Rows (Inl scanErr # items) rowsErr) result = Inl (errorf_w ''scan rows'' scanErr)"
| "scanAll (Rows (Inr item # items) rowsErr) result = scanAll (Rows items rowsErr) (result @ [item])"

text \<open>
  \<open>pool.Query\<close>: a request that is lost is an error of \<open>Query\<close>; a reply that is lost ends the
  iteration, after a number of rows that does not matter to \<open>scanAll\<close> (\<open>scanAll_broken\<close>).
\<close>

definition query_rows ::
  "(outside \<Rightarrow> world \<Rightarrow> go_error + 'a list) \<Rightarrow> world \<Rightarrow> (go_error + 'a rows) \<times> world" where
  "query_rows stmt w =
     (case ask w of (ev, w1) \<Rightarrow>
        (case o_fault ev of
           LostRequest e \<Rightarrow> (Inl e, w1)
         | LostReply e \<Rightarrow> (Inr (Rows [] (Some e)), w1)
         | Served \<Rightarrow>
             (case stmt ev w1 of
                Inl e \<Rightarrow> (Inl e, w1)
              | Inr items \<Rightarrow> (Inr (Rows (map Inr items) None), w1))))"

lemma scanAll_all: "scanAll (Rows (map Inr items) None) acc = Inr (acc @ items)"
  by (induction items arbitrary: acc) auto

lemma scanAll_broken: "isl (scanAll (Rows items (Some e)) acc)"
proof (induction items arbitrary: acc)
  case (Cons x items)
  then show ?case by (cases x) auto
qed simp

lemma scanAll_Inr:
  "scanAll (Rows items err) acc = Inr out \<Longrightarrow> err = None \<and> (\<exists>vs. items = map Inr vs \<and> out = acc @ vs)"
proof (induction items arbitrary: acc)
  case Nil
  then show ?case by (auto split: option.splits)
next
  case (Cons x items)
  then obtain y where x: "x = Inr y" by (cases x) auto
  with Cons.prems have "scanAll (Rows items err) (acc @ [y]) = Inr out" by simp
  from Cons.IH [OF this] obtain vs where "err = None" "items = map Inr vs" "out = (acc @ [y]) @ vs"
    by blast
  then have "x # items = map Inr (y # vs) \<and> out = acc @ (y # vs)"
    by (simp add: x)
  with \<open>err = None\<close> show ?case by (auto intro!: exI [of _ "y # vs"] simp: x)
qed

lemma query_rows_frame: "query_rows stmt w = (r, w') \<Longrightarrow> w' = w\<lparr>w_tick := Suc (w_tick w)\<rparr>"
  by (auto simp: query_rows_def ask_def split: fault.splits sum.splits)

lemma snd_query_row [simp]: "snd (query_row stmt w) = snd (request stmt w)"
  by (auto simp: query_row_def split: prod.splits sum.splits option.splits)

lemma snd_scanOne [simp]: "snd (scanOne p) = snd p"
  by (auto simp: scanOne_def split: prod.splits sum.splits)

lemma read_only:
  assumes "\<And>ev w. snd (stmt ev w) = w"
  shows "snd (request stmt w) = w\<lparr>w_tick := Suc (w_tick w)\<rparr>"
  using assms by (auto simp: request_def ask_def split: fault.splits)

lemma query_row_Inr:
  "query_row stmt w = (Inr r, w') \<longleftrightarrow> request stmt w = (Inr (Some r), w')"
  by (auto simp: query_row_def split: prod.splits sum.splits option.splits)

lemma scanOne_Inr [simp]: "scanOne p = (Inr r, w') \<longleftrightarrow> p = (Inr r, w')"
  by (auto simp: scanOne_def split: prod.splits sum.splits)

subsection \<open>\<open>mapUniqueViolation\<close>\<close>

definition mapUniqueViolation :: "go_error \<Rightarrow> go_error option" where
  "mapUniqueViolation err =
     (case errors_as as_pg_error err of
        None \<Rightarrow> None
      | Some (code, constraintName, detail) \<Rightarrow>
          if code \<noteq> pgUniqueViolation then None
          else
            (let constraint = to_lower constraintName in
             if contains constraint ''email'' \<or> contains detail ''email''
               then Some (Sentinel ErrEmailAlreadyExists)
             else if contains constraint ''username'' \<or> contains detail ''username''
               then Some (Sentinel ErrUserAlreadyExists)
             else Some (Sentinel ErrUserAlreadyExists)))"

lemma mapUniqueViolation_scan [simp]:
  "mapUniqueViolation (errorf_w p e) = mapUniqueViolation e"
  by (simp add: mapUniqueViolation_def)

lemma mapUniqueViolation_unique:
  "mapUniqueViolation (unique_error ev c col v) =
     Some (Sentinel
       (if contains (to_lower c) ''email'' \<or> contains (''Key ('' @ col @ '')=('' @ v @ '') already exists.'') ''email''
        then ErrEmailAlreadyExists else ErrUserAlreadyExists))"
  by (simp add: mapUniqueViolation_def unique_error_def as_pg_error.simps Let_def)

lemmas pg_error_defs = too_long_error_def unique_error_def foreign_key_error_def bad_uuid_error_def

end
