(* ===== verification/AuthRepository.thy ===== *)
theory AuthRepository
  imports Postgres
begin

text \<open>
  The user and refresh token repositories of \<open>internal/adapters/postgres/auth.go\<close> over the
  tables of \<open>migrations/auth\<close>: the effect of each SQL statement on the rows, with the
  constraints the schema declares, and each repository method around its statement.

  A statement's parameter for a \<open>UUID\<close> column goes through \<open>uuid_in\<close>; a statement with a
  parameter that is no UUID is an error of the driver.
\<close>

subsection \<open>The statements on \<open>users\<close>\<close>

definition userFindByIDQuery :: "libs \<Rightarrow> string \<Rightarrow> outside \<Rightarrow> world \<Rightarrow> (go_error + User option) \<times> world"
where
  "userFindByIDQuery L idn ev w =
     (case uuid_in L idn of
        None \<Rightarrow> (Inl (bad_uuid_error ev), w)
      | Some i \<Rightarrow> (Inr (find (\<lambda>u. user_ID u = i) (w_users w)), w))"

definition userFindByEmailQuery :: "string \<Rightarrow> outside \<Rightarrow> world \<Rightarrow> (go_error + User option) \<times> world" where
  "userFindByEmailQuery email ev w = (Inr (find (\<lambda>u. user_Email u = email) (w_users w)), w)"

text \<open>The checks of an \<open>INSERT\<close> or \<open>UPDATE\<close> against the other rows, in the order of the indexes.\<close>

definition user_constraints :: "outside \<Rightarrow> User \<Rightarrow> User list \<Rightarrow> go_error option" where
  "user_constraints ev u others =
     (if char_count (user_Email u) > 255 \<or> char_count (user_Username u) > 255
         \<or> char_count (user_PasswordHash u) > 255
        then Some (too_long_error ev)
      else if \<exists>r \<in> set others. user_ID r = user_ID u
        then Some (unique_error ev ''users_pkey'' ''id'' (user_ID u))
      else if \<exists>r \<in> set others. user_Email r = user_Email u
        then Some (unique_error ev ''users_email_key'' ''email'' (user_Email u))
      else if \<exists>r \<in> set others. user_Username r = user_Username u
        then Some (unique_error ev ''users_username_key'' ''username'' (user_Username u))
      else None)"

definition userCreateQuery ::
  "string \<Rightarrow> string \<Rightarrow> string \<Rightarrow> outside \<Rightarrow> world \<Rightarrow> (go_error + User option) \<times> world" where
  "userCreateQuery email username passwordHash ev w =
     (let row = \<lparr>user_CreatedAt = o_now ev, user_UpdatedAt = o_now ev, user_ID = o_uuid ev,
                 user_Email = email, user_Username = username, user_PasswordHash = passwordHash\<rparr>
      in case user_constraints ev row (w_users w) of
           Some e \<Rightarrow> (Inl e, w)
         | None \<Rightarrow> (Inr (Some row), w\<lparr>w_users := w_users w @ [row]\<rparr>))"

definition userUpdateQuery ::
  "libs \<Rightarrow> string \<Rightarrow> string \<Rightarrow> string \<Rightarrow> string \<Rightarrow> time \<Rightarrow> outside \<Rightarrow> world \<Rightarrow>
     (go_error + User option) \<times> world" where
  "userUpdateQuery L idn email username passwordHash updatedAt ev w =
     (case uuid_in L idn of
        None \<Rightarrow> (Inl (bad_uuid_error ev), w)
      | Some i \<Rightarrow>
          (case find (\<lambda>u. user_ID u = i) (w_users w) of
             None \<Rightarrow> (Inr None, w)
           | Some old \<Rightarrow>
               (let row = old\<lparr>user_Email := email, user_Username := username,
                              user_PasswordHash := passwordHash,
                              user_UpdatedAt := pg_timestamp L updatedAt\<rparr>
                in case user_constraints ev row (delete_where (\<lambda>u. user_ID u = i) (w_users w)) of
                     Some e \<Rightarrow> (Inl e, w)
                   | None \<Rightarrow>
                       (Inr (Some row),
                        w\<lparr>w_users := update_where (\<lambda>u. user_ID u = i) (\<lambda>_. row) (w_users w)\<rparr>))))"

text \<open>A deleted user's refresh tokens go with it (\<open>ON DELETE CASCADE\<close>). The result counts rows.\<close>

definition userDeleteQuery :: "libs \<Rightarrow> string \<Rightarrow> outside \<Rightarrow> world \<Rightarrow> (go_error + nat) \<times> world" where
  "userDeleteQuery L idn ev w =
     (case uuid_in L idn of
        None \<Rightarrow> (Inl (bad_uuid_error ev), w)
      | Some i \<Rightarrow>
          (Inr (length (filter (\<lambda>u. user_ID u = i) (w_users w))),
           w\<lparr>w_users := delete_where (\<lambda>u. user_ID u = i) (w_users w),
             w_tokens := delete_where (\<lambda>t. rt_UserID t = i) (w_tokens w)\<rparr>))"

subsection \<open>\<open>UserRepository\<close>\<close>

definition findUser ::
  "(outside \<Rightarrow> world \<Rightarrow> (go_error + User option) \<times> world) \<Rightarrow> string \<Rightarrow> world \<Rightarrow> (go_error + User) \<times> world"
where
  "findUser query logMethod w =
     (case scanOne (query_row query w) of
        (Inl err, w1) \<Rightarrow>
          if errors_is_library err PgxNoRows then (Inl (Sentinel ErrUserNotFound), w1)
          else (Inl (errorf_w (''users.'' @ logMethod) err), w1)
      | (Inr user, w1) \<Rightarrow> (Inr user, w1))"

definition FindByID :: "libs \<Rightarrow> string \<Rightarrow> world \<Rightarrow> (go_error + User) \<times> world" where
  "FindByID L idn w = findUser (userFindByIDQuery L idn) ''FindByID'' w"

definition FindByEmail :: "string \<Rightarrow> world \<Rightarrow> (go_error + User) \<times> world" where
  "FindByEmail email w = findUser (userFindByEmailQuery email) ''FindByEmail'' w"

definition UserCreate :: "User \<Rightarrow> world \<Rightarrow> (go_error + User) \<times> world" where
  "UserCreate user w =
     (case scanOne (query_row (userCreateQuery (user_Email user) (user_Username user)
                                (user_PasswordHash user)) w) of
        (Inl err, w1) \<Rightarrow>
          (case mapUniqueViolation err of
             Some mapped \<Rightarrow> (Inl mapped, w1)
           | None \<Rightarrow> (Inl (errorf_w ''users.Create'' err), w1))
      | (Inr createdUser, w1) \<Rightarrow> (Inr createdUser, w1))"

definition UserUpdate :: "libs \<Rightarrow> User \<Rightarrow> world \<Rightarrow> (go_error + User) \<times> world" where
  "UserUpdate L user w0 =
     (case time_now w0 of (now, w) \<Rightarrow>
       (case scanOne (query_row (userUpdateQuery L (user_ID user) (user_Email user)
                                  (user_Username user) (user_PasswordHash user) now) w) of
          (Inl err, w1) \<Rightarrow>
            if errors_is_library err PgxNoRows then (Inl (Sentinel ErrUserNotFound), w1)
            else (case mapUniqueViolation err of
                    Some mapped \<Rightarrow> (Inl mapped, w1)
                  | None \<Rightarrow> (Inl (errorf_w ''users.Update'' err), w1))
        | (Inr updatedUser, w1) \<Rightarrow> (Inr updatedUser, w1)))"

definition UserDelete :: "libs \<Rightarrow> string \<Rightarrow> world \<Rightarrow> (go_error + unit) \<times> world" where
  "UserDelete L idn w =
     (case request (userDeleteQuery L idn) w of
        (Inl err, w1) \<Rightarrow> (Inl (errorf_w ''users.Delete'' err), w1)
      | (Inr affected, w1) \<Rightarrow>
          if affected = 0 then (Inl (Sentinel ErrUserNotFound), w1) else (Inr (), w1))"

subsection \<open>The statements on \<open>refresh_tokens\<close>\<close>

definition tokenFindByTokenQuery ::
  "string \<Rightarrow> outside \<Rightarrow> world \<Rightarrow> (go_error + RefreshToken option) \<times> world" where
  "tokenFindByTokenQuery tokenHash ev w =
     (Inr (find (\<lambda>t. rt_Token t = tokenHash) (w_tokens w)), w)"

text \<open>The \<open>INSERT\<close> on a table of tokens, with the users it may reference.\<close>

definition token_insert ::
  "libs \<Rightarrow> User list \<Rightarrow> string \<Rightarrow> string \<Rightarrow> time \<Rightarrow> bool \<Rightarrow> outside \<Rightarrow> RefreshToken list \<Rightarrow>
     go_error + RefreshToken list" where
  "token_insert L users userID token expiresAt isRevoked ev rows =
     (case uuid_in L userID of
        None \<Rightarrow> Inl (bad_uuid_error ev)
      | Some uid \<Rightarrow>
          if \<exists>r \<in> set rows. rt_ID r = o_uuid ev
            then Inl (unique_error ev ''refresh_tokens_pkey'' ''id'' (o_uuid ev))
          else if \<exists>r \<in> set rows. rt_Token r = token
            then Inl (unique_error ev ''refresh_tokens_token_key'' ''token'' token)
          else if \<forall>u \<in> set users. user_ID u \<noteq> uid
            then Inl (foreign_key_error ev ''refresh_tokens_user_id_fkey'')
          else Inr (rows @ [\<lparr>rt_ExpiresAt = pg_timestamp L expiresAt, rt_CreatedAt = o_now ev,
                              rt_ID = o_uuid ev, rt_UserID = uid, rt_Token = token,
                              rt_IsRevoked = isRevoked\<rparr>]))"

definition tokenInsertQuery ::
  "libs \<Rightarrow> string \<Rightarrow> string \<Rightarrow> time \<Rightarrow> bool \<Rightarrow> outside \<Rightarrow> world \<Rightarrow> (go_error + nat) \<times> world" where
  "tokenInsertQuery L userID token expiresAt isRevoked ev w =
     (case token_insert L (w_users w) userID token expiresAt isRevoked ev (w_tokens w) of
        Inl e \<Rightarrow> (Inl e, w)
      | Inr rows \<Rightarrow> (Inr 1, w\<lparr>w_tokens := rows\<rparr>))"

abbreviation revoke :: "RefreshToken \<Rightarrow> RefreshToken" where
  "revoke t \<equiv> t\<lparr>rt_IsRevoked := True\<rparr>"

definition tokenRevokeQuery :: "string \<Rightarrow> outside \<Rightarrow> world \<Rightarrow> (go_error + nat) \<times> world" where
  "tokenRevokeQuery tokenHash ev w =
     (Inr (length (filter (\<lambda>t. rt_Token t = tokenHash) (w_tokens w))),
      w\<lparr>w_tokens := update_where (\<lambda>t. rt_Token t = tokenHash) revoke (w_tokens w)\<rparr>)"

text \<open>The row the \<open>UPDATE .. RETURNING\<close> returns is the row after the update.\<close>

definition token_active :: "string \<Rightarrow> time \<Rightarrow> RefreshToken \<Rightarrow> bool" where
  "token_active tokenHash now t \<longleftrightarrow> rt_Token t = tokenHash \<and> \<not> rt_IsRevoked t \<and> rt_ExpiresAt t > now"

definition token_consume ::
  "string \<Rightarrow> time \<Rightarrow> RefreshToken list \<Rightarrow> RefreshToken option \<times> RefreshToken list" where
  "token_consume tokenHash now rows =
     (map_option revoke (find (token_active tokenHash now) rows),
      update_where (token_active tokenHash now) revoke rows)"

definition tokenConsumeActiveQuery ::
  "string \<Rightarrow> outside \<Rightarrow> world \<Rightarrow> (go_error + RefreshToken option) \<times> world" where
  "tokenConsumeActiveQuery tokenHash ev w =
     (case token_consume tokenHash (o_now ev) (w_tokens w) of
        (row, rows) \<Rightarrow> (Inr row, w\<lparr>w_tokens := rows\<rparr>))"

definition tokenCleanupQuery :: "outside \<Rightarrow> world \<Rightarrow> (go_error + nat) \<times> world" where
  "tokenCleanupQuery ev w =
     (Inr (length (filter (\<lambda>t. rt_ExpiresAt t < o_now ev \<or> rt_IsRevoked t) (w_tokens w))),
      w\<lparr>w_tokens := delete_where (\<lambda>t. rt_ExpiresAt t < o_now ev \<or> rt_IsRevoked t) (w_tokens w)\<rparr>)"

text \<open>
  \<open>ORDER BY created_at DESC\<close>; rows with equal times keep the table's order, one of the orders
  Postgres may choose for them.
\<close>

definition tokenFindByUserQuery ::
  "libs \<Rightarrow> string \<Rightarrow> outside \<Rightarrow> world \<Rightarrow> go_error + RefreshToken list" where
  "tokenFindByUserQuery L userID ev w =
     (case uuid_in L userID of
        None \<Rightarrow> Inl (bad_uuid_error ev)
      | Some uid \<Rightarrow>
          Inr (sort_key (\<lambda>t. - rt_CreatedAt t) (filter (\<lambda>t. rt_UserID t = uid) (w_tokens w))))"

definition tokenRevokeAllByUserQuery ::
  "libs \<Rightarrow> string \<Rightarrow> outside \<Rightarrow> world \<Rightarrow> (go_error + nat) \<times> world" where
  "tokenRevokeAllByUserQuery L userID ev w =
     (case uuid_in L userID of
        None \<Rightarrow> (Inl (bad_uuid_error ev), w)
      | Some uid \<Rightarrow>
          (Inr (length (filter (\<lambda>t. rt_UserID t = uid \<and> \<not> rt_IsRevoked t) (w_tokens w))),
           w\<lparr>w_tokens :=
               update_where (\<lambda>t. rt_UserID t = uid \<and> \<not> rt_IsRevoked t) revoke (w_tokens w)\<rparr>))"

subsection \<open>\<open>TokenRepository\<close>\<close>

definition FindByToken :: "string \<Rightarrow> world \<Rightarrow> (go_error + RefreshToken) \<times> world" where
  "FindByToken tokenHash w =
     (case scanOne (query_row (tokenFindByTokenQuery tokenHash) w) of
        (Inl err, w1) \<Rightarrow>
          if errors_is_library err PgxNoRows then (Inl (Sentinel ErrInvalidRefreshToken), w1)
          else (Inl (errorf_w ''tokens.FindByToken'' err), w1)
      | (Inr refreshToken, w1) \<Rightarrow> (Inr refreshToken, w1))"

definition StoreRefreshToken :: "libs \<Rightarrow> RefreshToken \<Rightarrow> world \<Rightarrow> (go_error + unit) \<times> world" where
  "StoreRefreshToken L token w =
     (case request (tokenInsertQuery L (rt_UserID token) (rt_Token token) (rt_ExpiresAt token)
                      (rt_IsRevoked token)) w of
        (Inl err, w1) \<Rightarrow> (Inl (errorf_w ''tokens.StoreRefreshToken'' err), w1)
      | (Inr _, w1) \<Rightarrow> (Inr (), w1))"

definition RevokeToken :: "string \<Rightarrow> world \<Rightarrow> (go_error + unit) \<times> world" where
  "RevokeToken tokenHash w =
     (case request (tokenRevokeQuery tokenHash) w of
        (Inl err, w1) \<Rightarrow> (Inl (errorf_w ''tokens.RevokeToken'' err), w1)
      | (Inr affected, w1) \<Rightarrow>
          if affected = 0 then (Inl (Sentinel ErrInvalidRefreshToken), w1) else (Inr (), w1))"

definition ConsumeActiveToken :: "string \<Rightarrow> world \<Rightarrow> (go_error + RefreshToken) \<times> world" where
  "ConsumeActiveToken tokenHash w =
     (case scanOne (query_row (tokenConsumeActiveQuery tokenHash) w) of
        (Inl err, w1) \<Rightarrow>
          if errors_is_library err PgxNoRows then (Inl (Sentinel ErrInvalidRefreshToken), w1)
          else (Inl (errorf_w ''tokens.ConsumeActiveToken'' err), w1)
      | (Inr refreshToken, w1) \<Rightarrow> (Inr refreshToken, w1))"

text \<open>
  The statements of a transaction work on the transaction's own copy of the table, which
  \<open>Commit\<close> publishes; the deferred \<open>Rollback\<close> drops it. \<open>NOW()\<close> is the time of \<open>Begin\<close>.
\<close>

definition tx_begin :: "world \<Rightarrow> (go_error + time \<times> RefreshToken list) \<times> world" where
  "tx_begin w = request (\<lambda>ev w. (Inr (o_now ev, w_tokens w), w)) w"

definition tx_commit :: "RefreshToken list \<Rightarrow> world \<Rightarrow> (go_error + unit) \<times> world" where
  "tx_commit tx w = request (\<lambda>ev w. (Inr (), w\<lparr>w_tokens := tx\<rparr>)) w"

definition RotateRefreshToken ::
  "libs \<Rightarrow> string \<Rightarrow> RefreshToken option \<Rightarrow> world \<Rightarrow> (go_error + RefreshToken) \<times> world" where
  "RotateRefreshToken L oldHash newToken w =
     (case newToken of
        None \<Rightarrow> (Inl (errorf_w ''tokens.RotateRefreshToken'' (Sentinel ErrInvalidParams)), w)
      | Some nt \<Rightarrow>
          (case tx_begin w of
             (Inl err, w1) \<Rightarrow> (Inl (errorf_w ''tokens.RotateRefreshToken begin'' err), w1)
           | (Inr (now, tx0), w1) \<Rightarrow>
               (case request (\<lambda>ev w. (Inr (token_consume oldHash now tx0), w)) w1 of
                  (Inl err, w2) \<Rightarrow>
                    if errors_is_library err PgxNoRows
                      then (Inl (Sentinel ErrInvalidRefreshToken), w2)
                    else (Inl (errorf_w ''tokens.RotateRefreshToken consume''
                                 (errorf_w ''scan row'' err)), w2)
                | (Inr (None, tx1), w2) \<Rightarrow> (Inl (Sentinel ErrInvalidRefreshToken), w2)
                | (Inr (Some consumed, tx1), w2) \<Rightarrow>
                    if rt_UserID nt \<noteq> '''' \<and> rt_UserID consumed \<noteq> rt_UserID nt
                      then (Inl (Sentinel ErrInvalidRefreshToken), w2)
                    else
                      (case request (\<lambda>ev w.
                              (token_insert L (w_users w) (rt_UserID consumed) (rt_Token nt)
                                 (rt_ExpiresAt nt) False ev tx1, w)) w2 of
                         (Inl err, w3) \<Rightarrow>
                           (Inl (errorf_w ''tokens.RotateRefreshToken insert'' err), w3)
                       | (Inr tx2, w3) \<Rightarrow>
                           (case tx_commit tx2 w3 of
                              (Inl err, w4) \<Rightarrow>
                                (Inl (errorf_w ''tokens.RotateRefreshToken commit'' err), w4)
                            | (Inr _, w4) \<Rightarrow> (Inr consumed, w4))))))"

definition CleanupExpiredTokens :: "world \<Rightarrow> (go_error + unit) \<times> world" where
  "CleanupExpiredTokens w =
     (case request tokenCleanupQuery w of
        (Inl err, w1) \<Rightarrow> (Inl (errorf_w ''tokens.CleanupExpiredTokens'' err), w1)
      | (Inr removed, w1) \<Rightarrow> (Inr (), w1))"

definition FindUserTokens :: "libs \<Rightarrow> string \<Rightarrow> world \<Rightarrow> (go_error + RefreshToken list) \<times> world" where
  "FindUserTokens L userID w =
     (case query_rows (tokenFindByUserQuery L userID) w of
        (Inl err, w1) \<Rightarrow> (Inl (errorf_w ''tokens.FindUserTokens'' err), w1)
      | (Inr rows, w1) \<Rightarrow>
          (case scanAll rows [] of
             Inl err \<Rightarrow> (Inl (errorf_w ''tokens.FindUserTokens scan'' err), w1)
           | Inr tokens \<Rightarrow> (Inr tokens, w1)))"

definition RevokeAllUserTokens :: "libs \<Rightarrow> string \<Rightarrow> world \<Rightarrow> (go_error + unit) \<times> world" where
  "RevokeAllUserTokens L userID w =
     (case request (tokenRevokeAllByUserQuery L userID) w of
        (Inl err, w1) \<Rightarrow> (Inl (errorf_w ''tokens.RevokeAllUserTokens'' err), w1)
      | (Inr affected, w1) \<Rightarrow> (Inr (), w1))"

subsection \<open>The constraints of the schema as an invariant\<close>

definition auth_db_ok :: "world \<Rightarrow> bool" where
  "auth_db_ok w \<longleftrightarrow>
     distinct (map user_ID (w_users w)) \<and> distinct (map user_Email (w_users w))
     \<and> distinct (map user_Username (w_users w))
     \<and> distinct (map rt_ID (w_tokens w)) \<and> distinct (map rt_Token (w_tokens w))
     \<and> (\<forall>t \<in> set (w_tokens w). \<exists>u \<in> set (w_users w). user_ID u = rt_UserID t)"

lemma auth_db_ok_update [simp]:
  "auth_db_ok (w\<lparr>w_tick := n\<rparr>) = auth_db_ok w" "auth_db_ok (w\<lparr>w_log := l\<rparr>) = auth_db_ok w"
  "auth_db_ok (w\<lparr>w_notes := ns\<rparr>) = auth_db_ok w" "auth_db_ok (w\<lparr>w_cache := c\<rparr>) = auth_db_ok w"
  "auth_db_ok (w\<lparr>w_breakers := bs\<rparr>) = auth_db_ok w"
  by (simp_all add: auth_db_ok_def)

lemma snd_findUser [simp]: "snd (findUser q m w) = snd (request q w)"
  using snd_scanOne [of "query_row q w"]
  by (auto simp: findUser_def simp del: snd_scanOne scanOne_Inr split: prod.splits sum.splits)

lemma snd_FindByID [simp]: "snd (FindByID L i w) = w\<lparr>w_tick := Suc (w_tick w)\<rparr>"
  by (auto simp: FindByID_def userFindByIDQuery_def intro!: read_only split: option.splits)

lemma snd_FindByEmail [simp]: "snd (FindByEmail e w) = w\<lparr>w_tick := Suc (w_tick w)\<rparr>"
  by (auto simp: FindByEmail_def userFindByEmailQuery_def intro!: read_only)

lemma snd_FindByToken [simp]: "snd (FindByToken h w) = w\<lparr>w_tick := Suc (w_tick w)\<rparr>"
proof -
  have "snd (FindByToken h w) = snd (request (tokenFindByTokenQuery h) w)"
    using snd_scanOne [of "query_row (tokenFindByTokenQuery h) w"]
    by (auto simp: FindByToken_def simp del: snd_scanOne scanOne_Inr split: prod.splits sum.splits)
  then show ?thesis
    by (simp add: read_only tokenFindByTokenQuery_def)
qed

lemma findUser_Inr: "findUser q m w = (Inr u, w') \<longleftrightarrow> request q w = (Inr (Some u), w')"
proof -
  have "findUser q m w = (Inr u, w') \<longleftrightarrow> scanOne (query_row q w) = (Inr u, w')"
    by (auto simp: findUser_def simp del: scanOne_Inr split: prod.splits sum.splits)
  then show ?thesis by (simp add: query_row_Inr)
qed

lemma FindByID_ok:
  "FindByID L i w = (Inr u, w') \<Longrightarrow> u \<in> set (w_users w) \<and> uuid_in L i = Some (user_ID u)"
  by (auto simp: FindByID_def findUser_Inr userFindByIDQuery_def dest!: request_okD find_SomeD
        split: option.splits)

lemma FindByEmail_ok:
  "FindByEmail e w = (Inr u, w') \<Longrightarrow> u \<in> set (w_users w) \<and> user_Email u = e"
  by (auto simp: FindByEmail_def findUser_Inr userFindByEmailQuery_def dest!: request_okD find_SomeD)

lemma FindByToken_ok:
  assumes "FindByToken h w = (Inr t, w')"
  shows "t \<in> set (w_tokens w) \<and> rt_Token t = h"
proof -
  have "scanOne (query_row (tokenFindByTokenQuery h) w) = (Inr t, w')"
    using assms
    by (auto simp: FindByToken_def simp del: scanOne_Inr split: prod.splits sum.splits if_splits)
  then show ?thesis
    by (auto simp: query_row_Inr tokenFindByTokenQuery_def dest!: request_okD find_SomeD)
qed

subsection \<open>Inserting and consuming tokens\<close>

lemma token_insert_Inr:
  assumes "token_insert L us uid tok ex rvk ev rows = Inr rows'"
  shows "\<exists>row u. rows' = rows @ [row] \<and> rt_Token row = tok \<and> rt_IsRevoked row = rvk
      \<and> rt_ExpiresAt row = pg_timestamp L ex \<and> uuid_in L uid = Some (rt_UserID row)
      \<and> u \<in> set us \<and> user_ID u = rt_UserID row
      \<and> (\<forall>r \<in> set rows. rt_Token r \<noteq> tok \<and> rt_ID r \<noteq> rt_ID row)"
  using assms by (auto simp: token_insert_def split: option.splits if_splits)

lemma token_consume_Some:
  assumes "token_consume h now rows = (Some t, rows')"
  shows "\<exists>t0 \<in> set rows. token_active h now t0 \<and> t = revoke t0"
    and "rows' = update_where (token_active h now) revoke rows"
  using assms by (auto simp: token_consume_def dest!: find_SomeD)

lemma token_consume_None:
  assumes "token_consume h now rows = (None, rows')"
  shows "\<forall>t \<in> set rows. \<not> token_active h now t" and "rows' = rows"
proof -
  show "\<forall>t \<in> set rows. \<not> token_active h now t"
    using assms by (auto simp: token_consume_def find_None_iff)
  then show "rows' = rows"
    using assms by (auto simp: token_consume_def update_where_none)
qed

lemma revoke_columns:
  "map rt_ID (update_where P revoke rows) = map rt_ID rows"
  "map rt_Token (update_where P revoke rows) = map rt_Token rows"
  by (simp_all add: map_update_where)

definition tokens_ok :: "User list \<Rightarrow> RefreshToken list \<Rightarrow> bool" where
  "tokens_ok us ts \<longleftrightarrow> distinct (map rt_ID ts) \<and> distinct (map rt_Token ts)
     \<and> (\<forall>t \<in> set ts. \<exists>u \<in> set us. user_ID u = rt_UserID t)"

lemma auth_db_ok_split:
  "auth_db_ok w \<longleftrightarrow>
     distinct (map user_ID (w_users w)) \<and> distinct (map user_Email (w_users w))
     \<and> distinct (map user_Username (w_users w)) \<and> tokens_ok (w_users w) (w_tokens w)"
  unfolding auth_db_ok_def tokens_ok_def by simp

lemma tokens_ok_revoke: "tokens_ok us ts \<Longrightarrow> tokens_ok us (update_where P revoke ts)"
  by (auto simp: tokens_ok_def revoke_columns set_update_where)

lemma tokens_ok_delete: "tokens_ok us ts \<Longrightarrow> tokens_ok us (delete_where P ts)"
  by (auto simp: tokens_ok_def distinct_map_delete_where)

lemma tokens_ok_insert:
  assumes "tokens_ok us ts" and "token_insert L us uid tok ex rvk ev ts = Inr ts'"
  shows "tokens_ok us ts'"
proof -
  obtain row u where "ts' = ts @ [row]" "u \<in> set us" "user_ID u = rt_UserID row"
    and "\<forall>r \<in> set ts. rt_Token r \<noteq> rt_Token row \<and> rt_ID r \<noteq> rt_ID row"
    using token_insert_Inr [OF assms(2)] by auto
  then show ?thesis
    using assms(1) by (auto simp: tokens_ok_def)
qed

lemma auth_db_ok_tokens:
  "auth_db_ok w \<Longrightarrow> tokens_ok (w_users w) ts \<Longrightarrow> auth_db_ok (w\<lparr>w_tokens := ts\<rparr>)"
  by (simp add: auth_db_ok_split)

end
