(* ===== verification/Ports.thy ===== *)
theory Ports
  imports Prelude
begin

text \<open>
  The contracts between the components, as locales over an abstract state \<open>'s\<close>. Each fixes the
  operations a client calls (the interfaces of \<open>internal/ports\<close>) and assumes what the provider
  promises; what a client concludes from the promises is proved here once, and the provider's
  theory interprets the locale on the code's model.
\<close>

text \<open>A history of calls: each call with whether it succeeded, and the state after the last.\<close>

fun run_calls :: "('c \<Rightarrow> 's \<Rightarrow> bool \<times> 's) \<Rightarrow> 'c list \<Rightarrow> 's \<Rightarrow> ('c \<times> bool) list \<times> 's" where
  "run_calls exec [] s = ([], s)"
| "run_calls exec (c # cs) s =
     (case exec c s of (ok, s1) \<Rightarrow>
       (case run_calls exec cs s1 of (hist, s2) \<Rightarrow> ((c, ok) # hist, s2)))"

lemma snd_run_calls_Cons: "snd (run_calls exec (c # cs) s) = snd (run_calls exec cs (snd (exec c s)))"
  by (simp split: prod.splits)

lemma fst_run_calls_Cons:
  "fst (run_calls exec (c # cs) s) = (c, fst (exec c s)) # fst (run_calls exec cs (snd (exec c s)))"
  by (simp split: prod.splits)

lemmas run_calls_Cons = snd_run_calls_Cons fst_run_calls_Cons

subsection \<open>A store that keeps an invariant\<close>

locale kept_invariant =
  fixes exec :: "'c \<Rightarrow> 's \<Rightarrow> bool \<times> 's" and inv :: "'s \<Rightarrow> bool"
  assumes exec_inv: "inv s \<Longrightarrow> inv (snd (exec c s))"
begin

lemma run_inv: "inv s \<Longrightarrow> inv (snd (run_calls exec cs s))"
  by (induction cs arbitrary: s) (simp_all add: snd_run_calls_Cons exec_inv del: run_calls.simps(2))

end

subsection \<open>Keys that can be used once\<close>

text \<open>
  \<open>uses k c\<close>: the call \<open>c\<close> spends the key \<open>k\<close> when it succeeds. \<open>issues k c\<close>: the call makes
  a key \<open>k\<close>. A key that is not live stays so until it is issued.
\<close>

locale single_use = kept_invariant exec inv
  for exec :: "'c \<Rightarrow> 's \<Rightarrow> bool \<times> 's" and inv :: "'s \<Rightarrow> bool" +
  fixes uses :: "'k \<Rightarrow> 'c \<Rightarrow> bool" and issues :: "'k \<Rightarrow> 'c \<Rightarrow> bool" and live :: "'k \<Rightarrow> 's \<Rightarrow> bool"
  assumes use_spends: "inv s \<Longrightarrow> uses k c \<Longrightarrow> \<not> issues k c \<Longrightarrow> fst (exec c s) \<Longrightarrow>
      live k s \<and> \<not> live k (snd (exec c s))"
    and stays_dead: "inv s \<Longrightarrow> \<not> issues k c \<Longrightarrow> \<not> live k s \<Longrightarrow> \<not> live k (snd (exec c s))"
begin

lemma dead_unused:
  assumes "inv s" and "\<not> live k s" and "\<forall>c \<in> set cs. \<not> issues k c"
  shows "filter (\<lambda>(c, ok). ok \<and> uses k c) (fst (run_calls exec cs s)) = []"
  using assms
proof (induction cs arbitrary: s)
  case (Cons c cs)
  then have "\<not> (fst (exec c s) \<and> uses k c)"
    using use_spends by auto
  moreover have "filter (\<lambda>(c, ok). ok \<and> uses k c) (fst (run_calls exec cs (snd (exec c s)))) = []"
    using Cons.prems by (intro Cons.IH) (auto simp: exec_inv stays_dead)
  ultimately show ?case
    by (simp add: fst_run_calls_Cons del: run_calls.simps(2))
qed simp

lemma used_at_most_once:
  assumes "inv s" and "\<forall>c \<in> set cs. \<not> issues k c"
  shows "length (filter (\<lambda>(c, ok). ok \<and> uses k c) (fst (run_calls exec cs s))) \<le> 1"
  using assms
proof (induction cs arbitrary: s)
  case (Cons c cs)
  have rest: "inv (snd (exec c s))" "\<forall>c \<in> set cs. \<not> issues k c"
    using Cons.prems by (auto simp: exec_inv)
  show ?case
  proof (cases "fst (exec c s) \<and> uses k c")
    case True
    then have "\<not> live k (snd (exec c s))"
      using use_spends [of s k c] Cons.prems by auto
    then show ?thesis
      using dead_unused [OF rest(1) _ rest(2)]
      by (simp add: fst_run_calls_Cons del: run_calls.simps(2))
  next
    case False
    then show ?thesis
      using Cons.IH [OF rest] by (auto simp: fst_run_calls_Cons simp del: run_calls.simps(2))
  qed
qed simp

end

subsection \<open>A store shared by tenants\<close>

text \<open>
  \<open>view v s\<close> is what the store holds of tenant \<open>v\<close>, \<open>acts v c\<close> says that the call is made for
  \<open>v\<close>. A call for one tenant leaves the others' views alone.
\<close>

locale tenant_store = kept_invariant exec inv
  for exec :: "'c \<Rightarrow> 's \<Rightarrow> bool \<times> 's" and inv :: "'s \<Rightarrow> bool" +
  fixes acts :: "'v \<Rightarrow> 'c \<Rightarrow> bool" and view :: "'v \<Rightarrow> 's \<Rightarrow> 'd"
  assumes isolated: "inv s \<Longrightarrow> \<not> acts v c \<Longrightarrow> view v (snd (exec c s)) = view v s"
begin

lemma run_isolated:
  "inv s \<Longrightarrow> \<forall>c \<in> set cs. \<not> acts v c \<Longrightarrow> view v (snd (run_calls exec cs s)) = view v s"
  by (induction cs arbitrary: s)
     (simp_all add: snd_run_calls_Cons exec_inv isolated del: run_calls.simps(2))

end

end
