(* ===== verification/TokenLedger.thy ===== *)
theory TokenLedger
  imports AuthRepository Ports Samples
begin

text \<open>
  What holds of every sequence of calls to the two auth repositories. Each method is one
  transaction, so the sequences are the interleavings of any number of concurrent requests.
\<close>

datatype repo_call =
    RFindByID string
  | RFindByEmail string
  | RUserCreate User
  | RUserUpdate User
  | RUserDelete string
  | RFindByToken string
  | RStore RefreshToken
  | RRevoke string
  | RConsume string
  | RRotate string "RefreshToken option"
  | RCleanup
  | RFindUserTokens string
  | RRevokeAll string

fun repo_exec :: "libs \<Rightarrow> repo_call \<Rightarrow> world \<Rightarrow> bool \<times> world" where
  "repo_exec L (RFindByID i) w = outcome (FindByID L i w)"
| "repo_exec L (RFindByEmail e) w = outcome (FindByEmail e w)"
| "repo_exec L (RUserCreate u) w = outcome (UserCreate u w)"
| "repo_exec L (RUserUpdate u) w = outcome (UserUpdate L u w)"
| "repo_exec L (RUserDelete i) w = outcome (UserDelete L i w)"
| "repo_exec L (RFindByToken h) w = outcome (FindByToken h w)"
| "repo_exec L (RStore t) w = outcome (StoreRefreshToken L t w)"
| "repo_exec L (RRevoke h) w = outcome (RevokeToken h w)"
| "repo_exec L (RConsume h) w = outcome (ConsumeActiveToken h w)"
| "repo_exec L (RRotate h n) w = outcome (RotateRefreshToken L h n w)"
| "repo_exec L RCleanup w = outcome (CleanupExpiredTokens w)"
| "repo_exec L (RFindUserTokens u) w = outcome (FindUserTokens L u w)"
| "repo_exec L (RRevokeAll u) w = outcome (RevokeAllUserTokens L u w)"

subsection \<open>The effect of each method\<close>

lemma snd_UserCreate:
  "snd (UserCreate u w) =
     snd (request (userCreateQuery (user_Email u) (user_Username u) (user_PasswordHash u)) w)"
  by (subst snd_query_row [symmetric], subst snd_scanOne [symmetric])
     (auto simp: UserCreate_def simp del: snd_scanOne scanOne_Inr split: prod.splits sum.splits option.splits)

lemma snd_UserUpdate:
  "snd (UserUpdate L u w) =
     snd (request (userUpdateQuery L (user_ID u) (user_Email u) (user_Username u)
            (user_PasswordHash u) (fst (time_now w))) (snd (time_now w)))"
  by (subst snd_query_row [symmetric], subst snd_scanOne [symmetric])
     (auto simp: UserUpdate_def simp del: snd_scanOne scanOne_Inr split: prod.splits sum.splits option.splits)

lemma snd_UserDelete: "snd (UserDelete L i w) = snd (request (userDeleteQuery L i) w)"
  by (auto simp: UserDelete_def split: prod.splits sum.splits)

lemma snd_StoreRefreshToken:
  "snd (StoreRefreshToken L t w) =
     snd (request (tokenInsertQuery L (rt_UserID t) (rt_Token t) (rt_ExpiresAt t) (rt_IsRevoked t)) w)"
  by (auto simp: StoreRefreshToken_def split: prod.splits sum.splits)

lemma snd_RevokeToken: "snd (RevokeToken h w) = snd (request (tokenRevokeQuery h) w)"
  by (auto simp: RevokeToken_def split: prod.splits sum.splits)

lemma snd_ConsumeActiveToken:
  "snd (ConsumeActiveToken h w) = snd (request (tokenConsumeActiveQuery h) w)"
  by (subst snd_query_row [symmetric], subst snd_scanOne [symmetric])
     (auto simp: ConsumeActiveToken_def simp del: snd_scanOne scanOne_Inr split: prod.splits sum.splits)

lemma snd_CleanupExpiredTokens: "snd (CleanupExpiredTokens w) = snd (request tokenCleanupQuery w)"
  by (auto simp: CleanupExpiredTokens_def split: prod.splits sum.splits)

lemma snd_RevokeAllUserTokens:
  "snd (RevokeAllUserTokens L u w) = snd (request (tokenRevokeAllByUserQuery L u) w)"
  by (auto simp: RevokeAllUserTokens_def split: prod.splits sum.splits)

lemma snd_FindUserTokens [simp]: "snd (FindUserTokens L u w) = w\<lparr>w_tick := Suc (w_tick w)\<rparr>"
  by (auto simp: FindUserTokens_def dest: query_rows_frame split: prod.splits sum.splits)

lemmas snd_repo =
  snd_UserCreate snd_UserUpdate snd_UserDelete snd_StoreRefreshToken snd_RevokeToken
  snd_ConsumeActiveToken snd_CleanupExpiredTokens snd_RevokeAllUserTokens

text \<open>
  A rotation either leaves the tables as they were, or has its whole effect: the old token is
  revoked and the new one is there.
\<close>

definition rotated :: "libs \<Rightarrow> string \<Rightarrow> RefreshToken \<Rightarrow> RefreshToken \<Rightarrow> world \<Rightarrow> RefreshToken list \<Rightarrow> bool"
where
  "rotated L h nt t0 w ts \<longleftrightarrow>
     (\<exists>now ev. now = o_now (w_outside w (w_tick w)) \<and> t0 \<in> set (w_tokens w) \<and> token_active h now t0
        \<and> (rt_UserID nt = '''' \<or> rt_UserID t0 = rt_UserID nt)
        \<and> token_insert L (w_users w) (rt_UserID t0) (rt_Token nt) (rt_ExpiresAt nt) False ev
            (update_where (token_active h now) revoke (w_tokens w)) = Inr ts)"

lemma RotateRefreshToken_effect:
  assumes "RotateRefreshToken L h n w = (r, w')"
  shows "(isl r \<and> (\<exists>k \<ge> w_tick w. w' = w\<lparr>w_tick := k\<rparr>))
    \<or> (\<exists>nt t0 ts. n = Some nt \<and> rotated L h nt t0 w ts
         \<and> (\<exists>k \<ge> w_tick w. w' = w\<lparr>w_tick := k, w_tokens := ts\<rparr>)
         \<and> (r = Inr (revoke t0) \<or> isl r))"
proof (cases n)
  case None
  then have "isl r \<and> w' = w\<lparr>w_tick := w_tick w\<rparr>"
    using assms by (auto simp: RotateRefreshToken_def)
  then show ?thesis by (metis order_refl)
next
  case (Some nt)
  note call = assms [unfolded RotateRefreshToken_def Some option.case]
  obtain b w1 where b: "tx_begin w = (b, w1)" by fastforce
  have w1: "w1 = w\<lparr>w_tick := Suc (w_tick w)\<rparr>"
    and tx0: "b = Inr (now, tx) \<Longrightarrow> now = o_now (w_outside w (w_tick w)) \<and> tx = w_tokens w" for now tx
    using b by (auto simp: tx_begin_def request_def ask_def split: fault.splits)
  show ?thesis
  proof (cases b)
    case (Inl e)
    then show ?thesis using call b w1 by (auto intro: exI [of _ "Suc (w_tick w)"])
  next
    case (Inr p)
    then obtain now where bb: "b = Inr (now, w_tokens w)" and now: "now = o_now (w_outside w (w_tick w))"
      using tx0 by (cases p) auto
    obtain c w2 where c: "request (\<lambda>ev w'. (Inr (token_consume h now (w_tokens w)), w')) w1 = (c, w2)"
      by fastforce
    note c' = request_pure [OF c]
    have w2: "w2 = w\<lparr>w_tick := Suc (Suc (w_tick w))\<rparr>" using c' w1 by simp
    consider (lost) "isl r" "w' = w2"
      | (found) t tx1 where "c = Inr (Some t, tx1)" "rt_UserID nt = '''' \<or> rt_UserID t = rt_UserID nt"
      using call b bb c by (auto split: sum.splits option.splits prod.splits if_splits)
    then show ?thesis
    proof cases
      case lost
      then show ?thesis using w2 by (auto intro: exI [of _ "Suc (Suc (w_tick w))"])
    next
      case (found t tx1)
      then have cons: "token_consume h now (w_tokens w) = (Some t, tx1)" using c' by auto
      obtain t0 where t0: "t0 \<in> set (w_tokens w)" "token_active h now t0" "t = revoke t0"
        using token_consume_Some(1) [OF cons] by blast
      note tx1 = token_consume_Some(2) [OF cons]
      let ?ins = "\<lambda>ev w. (token_insert L (w_users w) (rt_UserID t) (rt_Token nt) (rt_ExpiresAt nt)
         False ev tx1, w)"
      obtain d w3 where d: "request ?ins w2 = (d, w3)" by fastforce
      have w3: "w3 = w\<lparr>w_tick := Suc (Suc (Suc (w_tick w)))\<rparr>"
        and ins: "\<And>ts. d = Inr ts \<Longrightarrow> \<exists>ev. token_insert L (w_users w) (rt_UserID t) (rt_Token nt)
              (rt_ExpiresAt nt) False ev tx1 = Inr ts"
        using d w2 by (auto simp: request_def ask_def split: fault.splits)
      show ?thesis
      proof (cases d)
        case (Inl e)
        then show ?thesis using call b bb c found d w3
          by (auto intro: exI [of _ "Suc (Suc (Suc (w_tick w)))"])
      next
        case (Inr ts)
        then have rot: "rotated L h nt t0 w ts"
          using ins [OF Inr] t0 tx1 found(2) now unfolding rotated_def by auto
        have cond: "\<not> (rt_UserID nt \<noteq> [] \<and> rt_UserID t \<noteq> rt_UserID nt)"
          using found(2) by auto
        have "(case tx_commit ts w3 of
                 (Inl err, w4) \<Rightarrow> (Inl (errorf_w ''tokens.RotateRefreshToken commit'' err), w4)
               | (Inr _, w4) \<Rightarrow> (Inr t, w4)) = (r, w')"
          using call by (simp only: b bb c found(1) cond d Inr prod.case sum.case option.case if_False)
        then have end_cases: "(isl r \<and> w' = w\<lparr>w_tick := Suc (Suc (Suc (Suc (w_tick w))))\<rparr>)
            \<or> (w' = w\<lparr>w_tick := Suc (Suc (Suc (Suc (w_tick w)))), w_tokens := ts\<rparr>
               \<and> (r = Inr t \<or> isl r))"
          unfolding w3 by (auto simp: tx_commit_def request_def ask_def split: fault.splits)
        have "w_tick w \<le> Suc (Suc (Suc (Suc (w_tick w))))" by simp
        then show ?thesis using rot t0(3) Some end_cases by blast
      qed
    qed
  qed
qed

subsection \<open>Every method keeps the constraints\<close>

lemma user_constraints_None:
  "user_constraints ev u others = None \<Longrightarrow>
     (\<forall>r \<in> set others. user_ID r \<noteq> user_ID u \<and> user_Email r \<noteq> user_Email u
        \<and> user_Username r \<noteq> user_Username u)"
  by (auto simp: user_constraints_def split: if_splits)

lemma tokens_ok_users: "tokens_ok us ts \<Longrightarrow> user_ID ` set us \<subseteq> user_ID ` set us' \<Longrightarrow> tokens_ok us' ts"
  unfolding tokens_ok_def by (metis (no_types, lifting) imageE imageI subsetD)

lemma userCreateQuery_ok:
  "auth_db_ok w \<Longrightarrow> auth_db_ok (snd (userCreateQuery e n h ev w))"
  by (auto simp: userCreateQuery_def auth_db_ok_split Let_def dest!: user_constraints_None
        intro: tokens_ok_users split: option.splits)

lemma map_update_row:
  assumes "distinct (map k rows)" and "\<forall>r \<in> set (delete_where P rows). k r \<noteq> k row"
    and "length (filter P rows) \<le> 1"
  shows "distinct (map k (update_where P (\<lambda>_. row) rows))"
  using assms
proof (induction rows)
  case (Cons r rows)
  show ?case
  proof (cases "P r")
    case True
    then have "\<forall>x \<in> set rows. \<not> P x"
      using Cons.prems(3) by (auto simp: filter_empty_conv)
    then show ?thesis
      using Cons.prems True by (auto simp: update_where_none)
  next
    case False
    then have "k r \<notin> k ` set (update_where P (\<lambda>_. row) rows)"
      using Cons.prems by (auto simp: set_update_where)
    then show ?thesis
      using Cons False by (auto simp: set_update_where)
  qed
qed simp

lemma filter_key_le1: "distinct (map k rows) \<Longrightarrow> length (filter (\<lambda>r. k r = x) rows) \<le> 1"
proof (induction rows)
  case (Cons r rows)
  show ?case
  proof (cases "k r = x")
    case True
    then have "filter (\<lambda>r. k r = x) rows = []"
      using Cons.prems by (auto simp: filter_empty_conv) (metis image_eqI)
    then show ?thesis by simp
  qed (use Cons in auto)
qed simp

lemma userUpdateQuery_ok:
  assumes "auth_db_ok w"
  shows "auth_db_ok (snd (userUpdateQuery L i e n h t ev w))"
proof (cases "uuid_in L i")
  case (Some uid)
  let ?P = "\<lambda>u. user_ID u = uid"
  show ?thesis
  proof (cases "find ?P (w_users w)")
    case (Some old)
    define row where "row = old\<lparr>user_Email := e, user_Username := n, user_PasswordHash := h,
      user_UpdatedAt := pg_timestamp L t\<rparr>"
    have old: "user_ID row = uid" using find_SomeD [OF Some] by (simp add: row_def)
    show ?thesis
    proof (cases "user_constraints ev row (delete_where ?P (w_users w))")
      case None
      note free = user_constraints_None [OF None]
      have one: "length (filter ?P (w_users w)) \<le> 1"
        using assms by (intro filter_key_le1) (simp add: auth_db_ok_def)
      have "map user_ID (update_where ?P (\<lambda>_. row) (w_users w)) = map user_ID (w_users w)"
        by (auto simp: update_where_def old)
      moreover from this have "user_ID ` set (update_where ?P (\<lambda>_. row) (w_users w)) = user_ID ` set (w_users w)"
        by (metis set_map)
      ultimately show ?thesis
        using assms free one \<open>uuid_in L i = Some uid\<close> Some None
        by (auto simp: userUpdateQuery_def auth_db_ok_split row_def [symmetric] Let_def
              intro!: map_update_row intro: tokens_ok_users)
    qed (use assms \<open>uuid_in L i = Some uid\<close> Some in
         \<open>auto simp: userUpdateQuery_def row_def [symmetric] Let_def\<close>)
  qed (use assms Some in \<open>auto simp: userUpdateQuery_def\<close>)
qed (use assms in \<open>auto simp: userUpdateQuery_def\<close>)

lemma userDeleteQuery_ok:
  "auth_db_ok w \<Longrightarrow> auth_db_ok (snd (userDeleteQuery L i ev w))"
  by (fastforce simp: userDeleteQuery_def auth_db_ok_def distinct_map_delete_where split: option.splits)

lemma token_statements_ok:
  assumes "auth_db_ok w"
  shows "auth_db_ok (snd (tokenInsertQuery L u t x r ev w))"
    and "auth_db_ok (snd (tokenRevokeQuery h ev w))"
    and "auth_db_ok (snd (tokenConsumeActiveQuery h ev w))"
    and "auth_db_ok (snd (tokenCleanupQuery ev w))"
    and "auth_db_ok (snd (tokenRevokeAllByUserQuery L u ev w))"
proof -
  have ts: "tokens_ok (w_users w) (w_tokens w)" using assms by (simp add: auth_db_ok_split)
  show "auth_db_ok (snd (tokenInsertQuery L u t x r ev w))"
    using assms ts
    by (auto simp: tokenInsertQuery_def intro!: auth_db_ok_tokens intro: tokens_ok_insert split: sum.splits)
  show "auth_db_ok (snd (tokenRevokeQuery h ev w))"
    using assms ts by (auto simp: tokenRevokeQuery_def intro!: auth_db_ok_tokens tokens_ok_revoke)
  show "auth_db_ok (snd (tokenConsumeActiveQuery h ev w))"
    using assms ts
    by (auto simp: tokenConsumeActiveQuery_def token_consume_def intro!: auth_db_ok_tokens tokens_ok_revoke)
  show "auth_db_ok (snd (tokenCleanupQuery ev w))"
    using assms ts by (auto simp: tokenCleanupQuery_def intro!: auth_db_ok_tokens tokens_ok_delete)
  show "auth_db_ok (snd (tokenRevokeAllByUserQuery L u ev w))"
    using assms ts
    by (auto simp: tokenRevokeAllByUserQuery_def intro!: auth_db_ok_tokens tokens_ok_revoke
          split: option.splits)
qed

lemma RotateRefreshToken_ok:
  assumes "auth_db_ok w"
  shows "auth_db_ok (snd (RotateRefreshToken L h n w))"
proof -
  obtain r w' where call: "RotateRefreshToken L h n w = (r, w')" by fastforce
  have "auth_db_ok w'" if "rotated L h nt t0 w ts" "w' = w\<lparr>w_tick := k, w_tokens := ts\<rparr>" for nt t0 ts k
  proof -
    note rot = that
    obtain now ev where ins: "token_insert L (w_users w) (rt_UserID t0) (rt_Token nt) (rt_ExpiresAt nt)
        False ev (update_where (token_active h now) revoke (w_tokens w)) = Inr ts"
      using rot(1) unfolding rotated_def by blast
    have "tokens_ok (w_users w) (update_where (token_active h now) revoke (w_tokens w))"
      using assms by (intro tokens_ok_revoke) (simp add: auth_db_ok_split)
    from tokens_ok_insert [OF this ins] show ?thesis
      using assms rot(2) auth_db_ok_tokens [of "w\<lparr>w_tick := k\<rparr>" ts] by simp
  qed
  then show ?thesis
    using RotateRefreshToken_effect [OF call] assms call by auto
qed

lemma repo_exec_ok: "auth_db_ok w \<Longrightarrow> auth_db_ok (snd (repo_exec L c w))"
  by (cases c)
     (simp_all add: snd_repo RotateRefreshToken_ok request_invariant [where P = auth_db_ok]
        userCreateQuery_ok userUpdateQuery_ok userDeleteQuery_ok token_statements_ok)

subsection \<open>A refresh token is spent once\<close>

text \<open>The hash \<open>h\<close> is live while a row holds it that is not revoked.\<close>

definition live_token :: "string \<Rightarrow> world \<Rightarrow> bool" where
  "live_token h w \<longleftrightarrow> (\<exists>t \<in> set (w_tokens w). rt_Token t = h \<and> \<not> rt_IsRevoked t)"

fun spends_token :: "string \<Rightarrow> repo_call \<Rightarrow> bool" where
  "spends_token h (RRotate h' n) \<longleftrightarrow> h' = h"
| "spends_token h (RConsume h') \<longleftrightarrow> h' = h"
| "spends_token h _ \<longleftrightarrow> False"

fun issues_token :: "string \<Rightarrow> repo_call \<Rightarrow> bool" where
  "issues_token h (RStore t) \<longleftrightarrow> rt_Token t = h"
| "issues_token h (RRotate h' n) \<longleftrightarrow> (\<exists>t. n = Some t \<and> rt_Token t = h)"
| "issues_token h _ \<longleftrightarrow> False"

lemma live_token_update [simp]:
  "live_token h (w\<lparr>w_tick := n\<rparr>) = live_token h w" "live_token h (w\<lparr>w_users := us\<rparr>) = live_token h w"
  by (simp_all add: live_token_def)

definition live_rows :: "string \<Rightarrow> RefreshToken list \<Rightarrow> bool" where
  "live_rows h ts \<longleftrightarrow> (\<exists>t \<in> set ts. rt_Token t = h \<and> \<not> rt_IsRevoked t)"

lemma live_token_rows: "live_token h w = live_rows h (w_tokens w)"
  by (simp add: live_token_def live_rows_def)

lemma dead_rows:
  "\<not> live_rows h ts \<Longrightarrow> \<not> live_rows h (update_where P revoke ts)"
  "\<not> live_rows h ts \<Longrightarrow> \<not> live_rows h (delete_where P ts)"
  by (auto simp: live_rows_def set_update_where)

lemma dead_insert:
  assumes "\<not> live_rows h ts" and "token_insert L us uid tok ex rvk ev ts = Inr ts'" and "tok \<noteq> h"
  shows "\<not> live_rows h ts'"
  using assms(1,3) token_insert_Inr [OF assms(2)] by (auto simp: live_rows_def)

lemma consume_spends:
  assumes "distinct (map rt_Token ts)" and "t0 \<in> set ts" and "token_active h now t0"
  shows "live_rows h ts \<and> \<not> live_rows h (update_where (token_active h now) revoke ts)"
proof
  have tok: "rt_Token t0 = h" and "\<not> rt_IsRevoked t0"
    using assms(3) by (auto simp: token_active_def)
  then show "live_rows h ts" using assms(2) by (auto simp: live_rows_def)
  show "\<not> live_rows h (update_where (token_active h now) revoke ts)"
  proof
    assume "live_rows h (update_where (token_active h now) revoke ts)"
    then obtain r where "r \<in> set ts" "\<not> token_active h now r" "rt_Token r = h"
      by (auto simp: live_rows_def set_update_where)
    moreover from this have "r = t0"
      using distinct_map_inj [OF assms(1) _ assms(2)] tok by simp
    ultimately show False using assms(3) by simp
  qed
qed

lemma rotated_spends:
  assumes "auth_db_ok w" and "rotated L h nt t0 w ts" and "rt_Token nt \<noteq> h"
  shows "live_rows h (w_tokens w) \<and> \<not> live_rows h ts"
proof -
  obtain now ev where t0: "t0 \<in> set (w_tokens w)" "token_active h now t0"
    and ins: "token_insert L (w_users w) (rt_UserID t0) (rt_Token nt) (rt_ExpiresAt nt)
        False ev (update_where (token_active h now) revoke (w_tokens w)) = Inr ts"
    using assms(2) unfolding rotated_def by blast
  have "distinct (map rt_Token (w_tokens w))" using assms(1) by (simp add: auth_db_ok_def)
  from consume_spends [OF this t0] dead_insert [OF _ ins assms(3)] show ?thesis
    by blast
qed

lemma rotated_stays_dead:
  assumes "rotated L h' nt t0 w ts" and "\<not> live_rows h (w_tokens w)" and "rt_Token nt \<noteq> h"
  shows "\<not> live_rows h ts"
  using assms dead_insert dead_rows(1) unfolding rotated_def by blast

lemma request_dead:
  assumes "\<And>ev w. \<not> live_token h w \<Longrightarrow> \<not> live_token h (snd (stmt ev w))"
  shows "\<not> live_token h w \<Longrightarrow> \<not> live_token h (snd (request stmt w))"
  by (rule request_invariant [where P = "\<lambda>w. \<not> live_token h w"]) (auto simp: assms)

lemma statements_stay_dead:
  assumes "\<not> live_token h w"
  shows "\<not> live_token h (snd (userCreateQuery e n p ev w))"
    and "\<not> live_token h (snd (userUpdateQuery L i e n p t ev w))"
    and "\<not> live_token h (snd (userDeleteQuery L i ev w))"
    and "tok \<noteq> h \<Longrightarrow> \<not> live_token h (snd (tokenInsertQuery L u tok x r ev w))"
    and "\<not> live_token h (snd (tokenRevokeQuery h' ev w))"
    and "\<not> live_token h (snd (tokenConsumeActiveQuery h' ev w))"
    and "\<not> live_token h (snd (tokenCleanupQuery ev w))"
    and "\<not> live_token h (snd (tokenRevokeAllByUserQuery L u ev w))"
  using assms
  by (auto simp: live_token_rows userCreateQuery_def userUpdateQuery_def userDeleteQuery_def
        tokenInsertQuery_def tokenRevokeQuery_def tokenConsumeActiveQuery_def token_consume_def
        tokenCleanupQuery_def tokenRevokeAllByUserQuery_def dead_rows Let_def dest: dead_insert
        split: option.splits sum.splits)

lemma RotateRefreshToken_stays_dead:
  assumes "\<not> live_token h w" and "\<not> issues_token h (RRotate h' n)"
  shows "\<not> live_token h (snd (RotateRefreshToken L h' n w))"
proof -
  obtain r w' where call: "RotateRefreshToken L h' n w = (r, w')" by fastforce
  then show ?thesis
    using RotateRefreshToken_effect [OF call] assms rotated_stays_dead
    by (auto simp: live_token_rows)
qed

lemma repo_stays_dead:
  "\<not> live_token h w \<Longrightarrow> \<not> issues_token h c \<Longrightarrow> \<not> live_token h (snd (repo_exec L c w))"
  by (cases c)
     (simp_all add: snd_repo request_dead statements_stay_dead RotateRefreshToken_stays_dead)

lemma ConsumeActiveToken_Inr:
  assumes "ConsumeActiveToken h w = (Inr t, w')"
  shows "tokenConsumeActiveQuery h (w_outside w (w_tick w)) (w\<lparr>w_tick := Suc (w_tick w)\<rparr>) = (Inr (Some t), w')"
proof -
  have "scanOne (query_row (tokenConsumeActiveQuery h) w) = (Inr t, w')"
    using assms
    by (auto simp: ConsumeActiveToken_def simp del: scanOne_Inr split: prod.splits sum.splits if_splits)
  then show ?thesis by (auto simp: query_row_Inr dest: request_okD)
qed

lemma repo_use_spends:
  assumes "auth_db_ok w" and "spends_token h c" and "\<not> issues_token h c" and "fst (repo_exec L c w)"
  shows "live_token h w \<and> \<not> live_token h (snd (repo_exec L c w))"
  using assms(2)
proof (cases rule: spends_token.elims(2))
  case (1 h' n)
  obtain r w' where call: "RotateRefreshToken L h n w = (r, w')" by fastforce
  have "\<exists>v. r = Inr v" using assms(4) 1 call by (simp add: is_ok_iff_ex)
  with RotateRefreshToken_effect [OF call] obtain nt t0 ts k where
    "n = Some nt" "rotated L h nt t0 w ts" "w' = w\<lparr>w_tick := k, w_tokens := ts\<rparr>" by auto
  then show ?thesis
    using rotated_spends [OF assms(1)] assms(3) 1 call by (auto simp: live_token_rows)
next
  case (2 h')
  obtain t w' where call: "ConsumeActiveToken h w = (Inr t, w')"
    using assms(4) 2 by (cases "ConsumeActiveToken h w") (auto simp: is_ok_iff_ex)
  obtain now where cons: "token_consume h now (w_tokens w) = (Some t, w_tokens w')"
    using ConsumeActiveToken_Inr [OF call]
    by (auto simp: tokenConsumeActiveQuery_def split: prod.splits)
  have "distinct (map rt_Token (w_tokens w))" using assms(1) by (simp add: auth_db_ok_def)
  with token_consume_Some [OF cons] show ?thesis
    using call 2 consume_spends by (auto simp: live_token_rows)
qed

interpretation repo: single_use "repo_exec L" auth_db_ok spends_token issues_token live_token for L
  by unfold_locales (auto simp: repo_exec_ok repo_stays_dead dest: repo_use_spends)

subsection \<open>The token ledger\<close>

text \<open>
  C1: A refresh token is spent at most once. In any sequence of calls to the repositories that
  does not issue the hash \<open>h\<close> again, whatever is lost on the way to the database, at most one
  \<open>ConsumeActiveToken\<close> or \<open>RotateRefreshToken\<close> of \<open>h\<close> succeeds.
\<close>

theorem refresh_token_spent_once:
  assumes "auth_db_ok w" and "\<forall>c \<in> set cs. \<not> issues_token h c"
  shows "length (filter (\<lambda>(c, ok). ok \<and> spends_token h c) (fst (run_calls (repo_exec L) cs w))) \<le> 1"
  by (rule repo.used_at_most_once [OF assms])

definition witness_user :: User where
  "witness_user = \<lparr>user_CreatedAt = 0, user_UpdatedAt = 0, user_ID = ''u'', user_Email = ''a@b.cd'',
     user_Username = ''ann'', user_PasswordHash = ''$pw''\<rparr>"

definition witness_token :: RefreshToken where
  "witness_token = \<lparr>rt_ExpiresAt = 3000000000000, rt_CreatedAt = 0, rt_ID = ''t'', rt_UserID = ''u'',
     rt_Token = ''h'', rt_IsRevoked = False\<rparr>"

definition witness_auth :: world where
  "witness_auth = sample_world\<lparr>w_users := [witness_user], w_tokens := [witness_token]\<rparr>"

lemmas witness_auth_defs = witness_auth_def witness_user_def witness_token_def sample_defs

lemma witness_auth_ok: "auth_db_ok witness_auth"
  by (simp add: auth_db_ok_def witness_auth_defs)

lemma refresh_token_spent_once_witness:
  "length (filter (\<lambda>(c, ok). ok \<and> spends_token ''h'' c)
     (fst (run_calls (repo_exec sample_libs) [RConsume ''h'', RConsume ''h''] witness_auth))) \<le> 1"
  by (rule refresh_token_spent_once [OF witness_auth_ok]) simp

text \<open>
  Every call to the two auth repositories, in any sequence and with any requests lost, keeps
  the schema's constraints: identifiers, emails, usernames and token hashes are unique, and
  every token belongs to a user that exists.
\<close>

lemma auth_db_constraints_kept:
  assumes "auth_db_ok w"
  shows "auth_db_ok (snd (run_calls (repo_exec L) cs w))"
  by (rule repo.run_inv [OF assms])

lemma auth_db_constraints_kept_witness:
  "auth_db_ok (snd (run_calls (repo_exec sample_libs) [RUserCreate witness_user, RUserDelete ''u''] witness_auth))"
  by (rule auth_db_constraints_kept [OF witness_auth_ok])

text \<open>
  C2: \<open>RotateRefreshToken\<close> is atomic. Whatever is lost on the way, the call either leaves the
  tables as they were and returns an error, or it has its whole effect: the row it consumed was
  active and belongs to the user it was asked for, it is revoked, and the new token is stored
  for the same user. The caller is told a success only in the second case.
\<close>

theorem rotation_atomic:
  "(\<exists>e k. RotateRefreshToken L h n w = (Inl e, w\<lparr>w_tick := k\<rparr>))
   \<or> (\<exists>nt t0 ts k r. n = Some nt \<and> rotated L h nt t0 w ts
        \<and> RotateRefreshToken L h n w = (r, w\<lparr>w_tick := k, w_tokens := ts\<rparr>)
        \<and> (r = Inr (revoke t0) \<or> isl r))"
proof -
  obtain r w' where call: "RotateRefreshToken L h n w = (r, w')" by fastforce
  from RotateRefreshToken_effect [OF call] show ?thesis
    unfolding call isl_iff_ex by blast
qed

text \<open>
  When the database serves the statement, \<open>Create\<close> of a user refuses an email that is
  taken with \<open>ErrEmailAlreadyExists\<close> and a username that is taken with
  \<open>ErrUserAlreadyExists\<close> (for a username without the text \<open>email\<close> in it), and changes nothing
  then.
\<close>

lemma UserCreate_duplicates:
  assumes served: "o_fault (w_outside w (w_tick w)) = Served"
    and fits: "char_count (user_Email u) \<le> 255" "char_count (user_Username u) \<le> 255"
      "char_count (user_PasswordHash u) \<le> 255"
    and fresh: "o_uuid (w_outside w (w_tick w)) \<notin> user_ID ` set (w_users w)"
  shows "(user_Email u \<in> user_Email ` set (w_users w) \<longrightarrow>
            UserCreate u w = (Inl (Sentinel ErrEmailAlreadyExists), w\<lparr>w_tick := Suc (w_tick w)\<rparr>))
       \<and> (user_Email u \<notin> user_Email ` set (w_users w) \<and> user_Username u \<in> user_Username ` set (w_users w)
            \<and> \<not> contains (''Key (username)=('' @ user_Username u @ '') already exists.'') ''email'' \<longrightarrow>
            UserCreate u w = (Inl (Sentinel ErrUserAlreadyExists), w\<lparr>w_tick := Suc (w_tick w)\<rparr>))"
proof -
  let ?ev = "w_outside w (w_tick w)"
  have conf: "contains (to_lower ''users_email_key'') ''email''"
    "\<not> contains (to_lower ''users_username_key'') ''email''"
    by code_simp+
  have nouid: "\<not> (\<exists>r \<in> set (w_users w). user_ID r = o_uuid ?ev)"
    using fresh by (auto simp: image_iff)
  have base: "userCreateQuery (user_Email u) (user_Username u) (user_PasswordHash u) ?ev
      (w\<lparr>w_tick := Suc (w_tick w)\<rparr>) =
      (if \<exists>r \<in> set (w_users w). user_Email r = user_Email u
       then (Inl (unique_error ?ev ''users_email_key'' ''email'' (user_Email u)), w\<lparr>w_tick := Suc (w_tick w)\<rparr>)
       else if \<exists>r \<in> set (w_users w). user_Username r = user_Username u
       then (Inl (unique_error ?ev ''users_username_key'' ''username'' (user_Username u)), w\<lparr>w_tick := Suc (w_tick w)\<rparr>)
       else userCreateQuery (user_Email u) (user_Username u) (user_PasswordHash u) ?ev
         (w\<lparr>w_tick := Suc (w_tick w)\<rparr>))"
    using fits nouid by (simp add: userCreateQuery_def user_constraints_def Let_def)
  have call: "UserCreate u w = (Inl x, w\<lparr>w_tick := Suc (w_tick w)\<rparr>)"
    if "userCreateQuery (user_Email u) (user_Username u) (user_PasswordHash u) ?ev
      (w\<lparr>w_tick := Suc (w_tick w)\<rparr>) = (Inl e, w\<lparr>w_tick := Suc (w_tick w)\<rparr>)"
      and "mapUniqueViolation e = Some x" for e x
    using that served by (simp add: UserCreate_def scanOne_def query_row_def request_Served)
  have email: "UserCreate u w = (Inl (Sentinel ErrEmailAlreadyExists), w\<lparr>w_tick := Suc (w_tick w)\<rparr>)"
    if "user_Email u \<in> user_Email ` set (w_users w)"
  proof (rule call)
    have "\<exists>r \<in> set (w_users w). user_Email r = user_Email u" using that by (auto simp: image_iff)
    then show "userCreateQuery (user_Email u) (user_Username u) (user_PasswordHash u) ?ev
      (w\<lparr>w_tick := Suc (w_tick w)\<rparr>) =
      (Inl (unique_error ?ev ''users_email_key'' ''email'' (user_Email u)), w\<lparr>w_tick := Suc (w_tick w)\<rparr>)"
      by (subst base) simp
  qed (simp only: mapUniqueViolation_unique conf, simp)
  have name: "UserCreate u w = (Inl (Sentinel ErrUserAlreadyExists), w\<lparr>w_tick := Suc (w_tick w)\<rparr>)"
    if "user_Email u \<notin> user_Email ` set (w_users w)" "user_Username u \<in> user_Username ` set (w_users w)"
      "\<not> contains (''Key (username)=('' @ user_Username u @ '') already exists.'') ''email''"
  proof (rule call)
    have "\<not> (\<exists>r \<in> set (w_users w). user_Email r = user_Email u)"
      "\<exists>r \<in> set (w_users w). user_Username r = user_Username u"
      using that by (auto simp: image_iff)
    then show "userCreateQuery (user_Email u) (user_Username u) (user_PasswordHash u) ?ev
      (w\<lparr>w_tick := Suc (w_tick w)\<rparr>) =
      (Inl (unique_error ?ev ''users_username_key'' ''username'' (user_Username u)), w\<lparr>w_tick := Suc (w_tick w)\<rparr>)"
      by (subst base) simp
  qed (use that(3) conf(2) in \<open>simp add: mapUniqueViolation_unique\<close>)
  show ?thesis using email name by blast
qed

lemma UserCreate_duplicates_witness:
  "UserCreate (witness_user\<lparr>user_Email := ''x@b.cd''\<rparr>) witness_auth =
     (Inl (Sentinel ErrUserAlreadyExists), witness_auth\<lparr>w_tick := Suc (w_tick witness_auth)\<rparr>)"
proof -
  let ?u = "witness_user\<lparr>user_Email := ''x@b.cd''\<rparr>"
  have plain: "\<not> contains (''Key (username)=('' @ user_Username ?u @ '') already exists.'') ''email''"
    by code_simp
  have "o_fault (w_outside witness_auth (w_tick witness_auth)) = Served"
    "char_count (user_Email ?u) \<le> 255" "char_count (user_Username ?u) \<le> 255"
    "char_count (user_PasswordHash ?u) \<le> 255"
    "o_uuid (w_outside witness_auth (w_tick witness_auth)) \<notin> user_ID ` set (w_users witness_auth)"
    "user_Email ?u \<notin> user_Email ` set (w_users witness_auth)"
    "user_Username ?u \<in> user_Username ` set (w_users witness_auth)"
    by (simp_all add: witness_auth_defs char_count_def)
  with UserCreate_duplicates [of witness_auth ?u] plain show ?thesis by blast
qed

text \<open>
  A username that is taken and contains the text \<open>email\<close> is reported as a taken email:
  \<open>mapUniqueViolation\<close> looks for the word in the detail of the violation, which quotes the
  value.
\<close>

lemma username_reported_as_email:
  "\<exists>w u. auth_db_ok w \<and> user_Email u \<notin> user_Email ` set (w_users w)
     \<and> fst (UserCreate u w) = Inl (Sentinel ErrEmailAlreadyExists)"
proof (intro exI conjI)
  let ?w = "sample_world\<lparr>w_users := [witness_user\<lparr>user_Username := ''my_email''\<rparr>]\<rparr>"
  let ?u = "witness_user\<lparr>user_Email := ''x@b.cd'', user_Username := ''my_email''\<rparr>"
  show "auth_db_ok ?w" by (simp add: auth_db_ok_def witness_auth_defs)
  show "user_Email ?u \<notin> user_Email ` set (w_users ?w)" by (simp add: witness_auth_defs)
  have "contains (''Key (username)=('' @ ''my_email'' @ '') already exists.'') ''email''" by code_simp
  then show "fst (UserCreate ?u ?w) = Inl (Sentinel ErrEmailAlreadyExists)"
    by (simp add: UserCreate_def userCreateQuery_def user_constraints_def request_def ask_def
          query_row_def scanOne_def witness_auth_defs char_count_def mapUniqueViolation_unique
          del: contains.simps)
qed

end
