(* ===== verification/BcryptService.thy ===== *)
theory BcryptService
  imports Samples
begin

text \<open>
  The password service of \<open>internal/adapters/bcrypt\<close> around the two functions of the library,
  \<open>bcrypt_generate\<close> and \<open>bcrypt_compare\<close>. A comparison is logged in the ghost log, with the
  hash it was made against.
\<close>

definition bcrypt_MinCost :: int where "bcrypt_MinCost = 4"
definition bcrypt_MaxCost :: int where "bcrypt_MaxCost = 31"
definition bcrypt_DefaultCost :: int where "bcrypt_DefaultCost = 10"

text \<open>The \<open>Service\<close> of the package is its cost.\<close>

definition NewBcrypt :: "int \<Rightarrow> int" where
  "NewBcrypt cost0 =
     (let cost1 = (if cost0 < bcrypt_MinCost then bcrypt_DefaultCost else cost0)
      in if cost1 > bcrypt_MaxCost then bcrypt_MaxCost else cost1)"

definition Hash :: "libs \<Rightarrow> int \<Rightarrow> string \<Rightarrow> world \<Rightarrow> (go_error + string) \<times> world" where
  "Hash L cost password w =
     (if password = '''' then (Inl (Sentinel ErrEmptyPassword), w)
      else
        (case ctx_err w of
           (Some ctxErr, w1) \<Rightarrow> (Inl ctxErr, w1)
         | (None, w1) \<Rightarrow>
             (case ask w1 of (ev, w2) \<Rightarrow>
                (case bcrypt_generate L password cost (o_random ev) of
                   Inl err \<Rightarrow> (Inl (errorf_w ''bcrypt: generate hash'' err), w2)
                 | Inr hashed \<Rightarrow> (Inr hashed, w2)))))"

definition Verify :: "libs \<Rightarrow> string \<Rightarrow> string \<Rightarrow> world \<Rightarrow> (go_error + bool) \<times> world" where
  "Verify L password hash w =
     (if password = '''' \<or> hash = '''' then (Inl (Sentinel ErrEmptyPassword), w)
      else
        (case ctx_err w of
           (Some ctxErr, w1) \<Rightarrow> (Inl ctxErr, w1)
         | (None, w1) \<Rightarrow>
             (let w2 = log_event (HashCompared hash) w1 in
              case bcrypt_compare L hash password of
                Some compareErr \<Rightarrow>
                  if errors_is_library compareErr BcryptMismatch then (Inr False, w2)
                  else (Inl (errorf_w ''bcrypt: compare hash'' compareErr), w2)
              | None \<Rightarrow> (Inr True, w2))))"

text \<open>What the library documents: a hash it generates accepts its password, and is not empty.\<close>

definition bcrypt_ok :: "libs \<Rightarrow> bool" where
  "bcrypt_ok L \<longleftrightarrow>
     (\<forall>p c s h. bcrypt_generate L p c s = Inr h \<longrightarrow> h \<noteq> '''' \<and> bcrypt_compare L h p = None)"

lemma Hash_quiet: "quiet w (snd (Hash L c p w))"
  by (auto simp: Hash_def ask_def split: option.splits sum.splits)

lemma Verify_quiet: "quiet w (snd (Verify L p h w))"
  by (auto simp: Verify_def log_event_def Let_def split: option.splits)

text \<open>
  The cost the service works with is always one the library accepts, and a configured cost
  in the library's range is used as it is.
\<close>

lemma NewBcrypt_range:
  "bcrypt_MinCost \<le> NewBcrypt c \<and> NewBcrypt c \<le> bcrypt_MaxCost
   \<and> NewBcrypt c = (if c < bcrypt_MinCost then bcrypt_DefaultCost else min c bcrypt_MaxCost)"
  by (simp add: NewBcrypt_def bcrypt_MinCost_def bcrypt_MaxCost_def bcrypt_DefaultCost_def Let_def)

lemma Hash_Inr:
  assumes "Hash L c p w = (Inr h, w')"
  shows "p \<noteq> '''' \<and> (\<exists>salt. bcrypt_generate L p c salt = Inr h)"
  using assms by (auto simp: Hash_def ask_def split: if_splits option.splits sum.splits)

lemma Verify_calm:
  assumes "calm w" and "p \<noteq> ''''" and "h \<noteq> ''''"
  shows "Verify L p h w =
     ((case bcrypt_compare L h p of
         None \<Rightarrow> Inr True
       | Some e \<Rightarrow> if errors_is_library e BcryptMismatch then Inr False
                   else Inl (errorf_w ''bcrypt: compare hash'' e)),
      w\<lparr>w_tick := Suc (w_tick w), w_log := w_log w @ [HashCompared h]\<rparr>)"
  using assms by (simp add: Verify_def log_event_def Let_def split: option.splits)

lemma Verify_accepts:
  assumes "bcrypt_ok L" and "bcrypt_generate L p c salt = Inr h" and "p \<noteq> ''''" and "calm w"
  shows "fst (Verify L p h w) = Inr True"
proof -
  have "h \<noteq> ''''" "bcrypt_compare L h p = None" using assms(1,2) by (auto simp: bcrypt_ok_def)
  with Verify_calm [OF assms(4,3)] show ?thesis by simp
qed

end
