(* ===== verification/AuthUseCase.thy ===== *)
theory AuthUseCase
  imports TokenLedger BcryptService JwtService
begin

text \<open>
  The auth and user use cases of \<open>internal/app/auth.go\<close> over the repositories of
  \<open>AuthRepository\<close>, the password service and the token service. The service is configured by
  its token service \<open>j\<close> and the bcrypt cost.
\<close>

definition dummyPasswordHash :: string where
  "dummyPasswordHash = ''$2a$10$acL5avM/6CNzik0Jui7GuONl52bA9kU1xSbMCcBAnvaOSZ8hspht6''"

definition hashToken :: "libs \<Rightarrow> string \<Rightarrow> string" where
  "hashToken L token = sha256 L token"

definition generateTokenPair ::
  "libs \<Rightarrow> jwt_service \<Rightarrow> User \<Rightarrow> world \<Rightarrow> (go_error + TokenPair) \<times> world" where
  "generateTokenPair L j user w =
     (case GenerateAccessToken L j (user_ID user) (user_Username user) w of
        (Inl err, w1) \<Rightarrow> (Inl (errorf_w ''generating access token'' err), w1)
      | (Inr (accessToken, accessExpires), w1) \<Rightarrow>
          (case GenerateRefreshToken L j (user_ID user) w1 of
             (Inl err, w2) \<Rightarrow> (Inl (errorf_w ''generating refresh token'' err), w2)
           | (Inr (refreshToken, refreshExpires), w2) \<Rightarrow>
               (case StoreRefreshToken L
                       \<lparr>rt_ExpiresAt = refreshExpires, rt_CreatedAt = zero_time, rt_ID = '''',
                        rt_UserID = user_ID user, rt_Token = hashToken L refreshToken,
                        rt_IsRevoked = False\<rparr> w2 of
                  (Inl storeErr, w3) \<Rightarrow> (Inl (errorf_w ''storing refresh token'' storeErr), w3)
                | (Inr _, w3) \<Rightarrow>
                    (Inr \<lparr>pair_ExpiresAt = accessExpires, pair_UserID = user_ID user,
                          pair_Username = user_Username user, pair_AccessToken = accessToken,
                          pair_RefreshToken = refreshToken\<rparr>, w3))))"

definition Register ::
  "libs \<Rightarrow> jwt_service \<Rightarrow> int \<Rightarrow> string \<Rightarrow> string \<Rightarrow> string \<Rightarrow> world \<Rightarrow> (go_error + TokenPair) \<times> world"
where
  "Register L j cost email username password w =
     (case ValidateEmail email of
        Some emailErr \<Rightarrow> (Inl (errorf_w ''register'' emailErr), w)
      | None \<Rightarrow>
     (case ValidatePassword password of
        Some passwordErr \<Rightarrow> (Inl (errorf_w ''register'' passwordErr), w)
      | None \<Rightarrow>
     (case FindByEmail email w of
        (Inr existingUser, w1) \<Rightarrow> (Inl (errorf_w ''register'' (Sentinel ErrEmailAlreadyExists)), w1)
      | (Inl err, w1) \<Rightarrow>
          if \<not> errors_is err ErrUserNotFound
            then (Inl (errorf_w ''register: checking existing user'' err), w1)
          else
     (case Hash L cost password w1 of
        (Inl hashErr, w2) \<Rightarrow> (Inl (errorf_w ''register: hashing password'' hashErr), w2)
      | (Inr hashedPassword, w2) \<Rightarrow>
     (case NewUser email username hashedPassword of
        Inl userErr \<Rightarrow> (Inl (errorf_w ''register'' userErr), w2)
      | Inr newUser \<Rightarrow>
     (case UserCreate newUser w2 of
        (Inl createErr, w3) \<Rightarrow> (Inl (errorf_w ''register: creating user'' createErr), w3)
      | (Inr createdUser, w3) \<Rightarrow>
     (case generateTokenPair L j createdUser w3 of
        (Inl pairErr, w4) \<Rightarrow> (Inl (errorf_w ''register: generating tokens'' pairErr), w4)
      | (Inr tokenPair, w4) \<Rightarrow> (Inr tokenPair, w4))))))))"

definition Login ::
  "libs \<Rightarrow> jwt_service \<Rightarrow> string \<Rightarrow> string \<Rightarrow> world \<Rightarrow> (go_error + TokenPair) \<times> world" where
  "Login L j email password w =
     (case FindByEmail email w of (found, w1) \<Rightarrow>
       (case (case found of
                Inr u \<Rightarrow> Inr (Some u)
              | Inl err \<Rightarrow> if errors_is err ErrUserNotFound then Inr None else Inl err) of
          Inl err \<Rightarrow> (Inl (errorf_w ''login: finding user'' err), w1)
        | Inr user \<Rightarrow>
            (let hash = (case user of None \<Rightarrow> dummyPasswordHash | Some u \<Rightarrow> user_PasswordHash u) in
             case Verify L password hash w1 of
               (Inl verifyErr, w2) \<Rightarrow> (Inl (errorf_w ''login: verifying password'' verifyErr), w2)
             | (Inr valid, w2) \<Rightarrow>
                 (case user of
                    None \<Rightarrow> (Inl (errorf_w ''login'' (Sentinel ErrInvalidCredentials)), w2)
                  | Some u \<Rightarrow>
                      if \<not> valid then (Inl (errorf_w ''login'' (Sentinel ErrInvalidCredentials)), w2)
                      else
                        (case generateTokenPair L j u w2 of
                           (Inl err, w3) \<Rightarrow> (Inl (errorf_w ''login: generating tokens'' err), w3)
                         | (Inr tokenPair, w3) \<Rightarrow> (Inr tokenPair, w3))))))"

definition rejectRefreshReuse :: "libs \<Rightarrow> string \<Rightarrow> world \<Rightarrow> go_error \<times> world" where
  "rejectRefreshReuse L userID w =
     (if userID \<noteq> '''' then
        (case RevokeAllUserTokens L userID w of
           (Inl revokeErr, w1) \<Rightarrow> (errorf_w ''refresh: revoking sessions after reuse'' revokeErr, w1)
         | (Inr _, w1) \<Rightarrow> (errorf_w ''refresh'' (Sentinel ErrRevokedRefreshToken), w1))
      else (errorf_w ''refresh'' (Sentinel ErrRevokedRefreshToken), w))"

definition RefreshTokens ::
  "libs \<Rightarrow> jwt_service \<Rightarrow> string \<Rightarrow> world \<Rightarrow> (go_error + TokenPair) \<times> world" where
  "RefreshTokens L j refreshToken w =
     (let tokenHash = hashToken L refreshToken in
      case FindByToken tokenHash w of
        (Inl err, w1) \<Rightarrow>
          if errors_is err ErrInvalidRefreshToken
            then (Inl (errorf_w ''refresh'' (Sentinel ErrInvalidRefreshToken)), w1)
          else (Inl (errorf_w ''refresh: looking up token'' err), w1)
      | (Inr token, w1) \<Rightarrow>
     (if rt_IsRevoked token
        then (case rejectRefreshReuse L (rt_UserID token) w1 of (e, w2) \<Rightarrow> (Inl e, w2))
      else
     (case time_now w1 of (now, w2) \<Rightarrow>
      if now > rt_ExpiresAt token
        then (Inl (errorf_w ''refresh'' (Sentinel ErrInvalidRefreshToken)), w2)
      else
     (case FindByID L (rt_UserID token) w2 of
        (Inl err, w3) \<Rightarrow> (Inl (errorf_w ''refresh: finding user'' err), w3)
      | (Inr user, w3) \<Rightarrow>
     (case GenerateAccessToken L j (user_ID user) (user_Username user) w3 of
        (Inl err, w4) \<Rightarrow> (Inl (errorf_w ''refresh: generating access token'' err), w4)
      | (Inr (accessToken, accessExpires), w4) \<Rightarrow>
     (case GenerateRefreshToken L j (user_ID user) w4 of
        (Inl err, w5) \<Rightarrow> (Inl (errorf_w ''refresh: generating refresh token'' err), w5)
      | (Inr (newRefreshToken, refreshExpires), w5) \<Rightarrow>
     (case RotateRefreshToken L tokenHash
             (Some \<lparr>rt_ExpiresAt = refreshExpires, rt_CreatedAt = zero_time, rt_ID = '''',
                    rt_UserID = user_ID user, rt_Token = hashToken L newRefreshToken,
                    rt_IsRevoked = False\<rparr>) w5 of
        (Inl rotateErr, w6) \<Rightarrow>
          if errors_is rotateErr ErrInvalidRefreshToken
            then (case rejectRefreshReuse L (rt_UserID token) w6 of (e, w7) \<Rightarrow> (Inl e, w7))
          else (Inl (errorf_w ''refresh: rotating refresh token'' rotateErr), w6)
      | (Inr _, w6) \<Rightarrow>
          (Inr \<lparr>pair_ExpiresAt = accessExpires, pair_UserID = user_ID user,
                pair_Username = user_Username user, pair_AccessToken = accessToken,
                pair_RefreshToken = newRefreshToken\<rparr>, w6))))))))"

definition Logout :: "libs \<Rightarrow> string \<Rightarrow> world \<Rightarrow> (go_error + unit) \<times> world" where
  "Logout L refreshToken w =
     (let tokenHash = hashToken L refreshToken in
      case FindByToken tokenHash w of (storedToken, w1) \<Rightarrow>
        (case RevokeToken tokenHash w1 of
           (Inl err, w2) \<Rightarrow>
             if errors_is err ErrInvalidRefreshToken then (Inr (), w2)
             else (Inl (errorf_w ''logout: revoking token'' err), w2)
         | (Inr _, w2) \<Rightarrow> (Inr (), w2)))"

definition GetUserProfile :: "libs \<Rightarrow> string \<Rightarrow> world \<Rightarrow> (go_error + User) \<times> world" where
  "GetUserProfile L userID w =
     (if userID = '''' then (Inl (errorf_w ''get profile'' (Sentinel ErrEmptyUserID)), w)
      else
        (case FindByID L userID w of
           (Inl err, w1) \<Rightarrow> (Inl (errorf_w ''get profile'' err), w1)
         | (Inr user, w1) \<Rightarrow> (Inr user, w1)))"

text \<open>The ticks of \<open>runTokenCleanup\<close>: an error is only logged.\<close>

definition cleanup_tick :: "world \<Rightarrow> world" where
  "cleanup_tick w = snd (CleanupExpiredTokens w)"

end
