(* ===== verification/Sessions.thy ===== *)
theory Sessions
  imports AuthUseCase
begin

text \<open>
  What a request to the auth service does to the tables, as a sequence of repository calls, and
  what holds of every history of requests: a refresh token opens at most one new session.
\<close>

subsection \<open>A request as a sequence of repository calls\<close>

text \<open>
  \<open>t\<close> is a refresh token the service may sign at or after \<open>w0\<close>: with its key, and with the claims of
  \<open>GenerateRefreshToken\<close> for a reading of the clock and the random identifier drawn after it.
\<close>

definition fresh_token :: "libs \<Rightarrow> jwt_service \<Rightarrow> world \<Rightarrow> string \<Rightarrow> bool" where
  "fresh_token L j w0 t \<longleftrightarrow>
     (\<exists>u n. w_tick w0 \<le> n
        \<and> jwt_sign L (js_refreshKey j) (signed_claims L u '''' tokenUseRefresh (o_now (w_outside w0 n))
            (o_now (w_outside w0 n) + js_refreshTokenTTL j) (o_random (w_outside w0 (Suc n)))) = Inr t)"

text \<open>A user as \<open>Register\<close> makes them: what \<open>NewUser\<close> accepts, with the hash of an accepted password.\<close>

definition registered :: "libs \<Rightarrow> User \<Rightarrow> bool" where
  "registered L u \<longleftrightarrow> user_ok u
     \<and> (\<exists>p cost salt. ValidatePassword p = None \<and> bcrypt_generate L p cost salt = Inr (user_PasswordHash u))"

text \<open>
  What the use cases ask of the repositories: they store no other tokens, create only users
  that \<open>Register\<close> made, and change and delete no user.
\<close>

definition fresh_issue :: "libs \<Rightarrow> jwt_service \<Rightarrow> world \<Rightarrow> repo_call \<Rightarrow> bool" where
  "fresh_issue L j w0 c \<longleftrightarrow>
     (\<forall>h. issues_token h c \<longrightarrow> (\<exists>t. fresh_token L j w0 t \<and> h = hashToken L t))
   \<and> (case c of RUserCreate u \<Rightarrow> registered L u | RUserUpdate u \<Rightarrow> False | RUserDelete i \<Rightarrow> False | _ \<Rightarrow> True)"

inductive db_steps :: "libs \<Rightarrow> jwt_service \<Rightarrow> world \<Rightarrow> world \<Rightarrow> bool" for L j w0 where
  here: "db_steps L j w0 w0"
| quiet: "db_steps L j w0 w \<Longrightarrow> quiet w w' \<Longrightarrow> db_steps L j w0 w'"
| call: "db_steps L j w0 w \<Longrightarrow> fresh_issue L j w0 c \<Longrightarrow> db_steps L j w0 (snd (repo_exec L c w))"

definition later :: "world \<Rightarrow> world \<Rightarrow> bool" where
  "later w w' \<longleftrightarrow> w_outside w' = w_outside w \<and> w_tick w \<le> w_tick w'"

lemma later_trans: "later w w' \<Longrightarrow> later w' w'' \<Longrightarrow> later w w''"
  by (simp add: later_def)

lemma later_update [simp]:
  "later w (w'\<lparr>w_users := us\<rparr>) = later w w'" "later w (w'\<lparr>w_tokens := ts\<rparr>) = later w w'"
  "later w w" "later w w' \<Longrightarrow> later w (w'\<lparr>w_tick := Suc (w_tick w')\<rparr>)"
  by (auto simp: later_def)

lemma request_later:
  assumes "\<And>ev w. later w (snd (stmt ev w))"
  shows "later w (snd (request stmt w))"
proof (rule request_invariant [where P = "later w"])
  show "later w (snd (stmt ev w'))" if "later w w'" for ev w'
    using later_trans [OF that assms] .
qed simp_all

lemma statements_later:
  "later w (snd (userCreateQuery e n h ev w))" "later w (snd (userUpdateQuery L i e n h t ev w))"
  "later w (snd (userDeleteQuery L i ev w))" "later w (snd (tokenInsertQuery L u tok x r ev w))"
  "later w (snd (tokenRevokeQuery h ev w))" "later w (snd (tokenConsumeActiveQuery h ev w))"
  "later w (snd (tokenCleanupQuery ev w))" "later w (snd (tokenRevokeAllByUserQuery L u ev w))"
  by (auto simp: userCreateQuery_def userUpdateQuery_def userDeleteQuery_def tokenInsertQuery_def
        tokenRevokeQuery_def tokenConsumeActiveQuery_def token_consume_def tokenCleanupQuery_def
        tokenRevokeAllByUserQuery_def Let_def split: option.splits sum.splits)

lemma request_laterD: "request stmt w = (r, w') \<Longrightarrow> (\<And>ev w. later w (snd (stmt ev w))) \<Longrightarrow> later w w'"
  using request_later [of stmt w] by simp

lemma RotateRefreshToken_later: "later w (snd (RotateRefreshToken L h n w))"
proof -
  obtain r w' where call: "RotateRefreshToken L h n w = (r, w')" by fastforce
  then show ?thesis
    using RotateRefreshToken_effect [OF call] by (auto simp: later_def)
qed

lemma repo_exec_later: "later w (snd (repo_exec L c w))"
  by (cases c) (simp_all add: snd_repo RotateRefreshToken_later request_later statements_later later_trans
      [OF _ request_later])

lemma db_steps_later: "db_steps L j w0 w \<Longrightarrow> later w0 w"
proof (induction rule: db_steps.induct)
  case (quiet w w')
  then show ?case by (simp add: later_def quiet_def)
next
  case (call w c)
  then show ?case using later_trans repo_exec_later by blast
qed simp

subsection \<open>The steps of each use case\<close>

lemma steps_quiet:
  assumes "db_steps L j w0 w"
  shows "FindByEmail e w = (r1, w') \<Longrightarrow> db_steps L j w0 w'"
    and "FindByID L i w = (r2, w') \<Longrightarrow> db_steps L j w0 w'"
    and "FindByToken h w = (r3, w') \<Longrightarrow> db_steps L j w0 w'"
    and "Hash L cost p w = (r4, w') \<Longrightarrow> db_steps L j w0 w'"
    and "Verify L p h w = (r5, w') \<Longrightarrow> db_steps L j w0 w'"
    and "GenerateAccessToken L j u n w = (r6, w') \<Longrightarrow> db_steps L j w0 w'"
    and "GenerateRefreshToken L j u w = (r7, w') \<Longrightarrow> db_steps L j w0 w'"
    and "time_now w = (t, w') \<Longrightarrow> db_steps L j w0 w'"
proof -
  note q = db_steps.quiet [OF assms]
  have tick: "quiet w (w\<lparr>w_tick := Suc (w_tick w)\<rparr>)" by simp
  show "FindByEmail e w = (r1, w') \<Longrightarrow> db_steps L j w0 w'"
    using q [OF tick] snd_FindByEmail [of e w] by simp
  show "FindByID L i w = (r2, w') \<Longrightarrow> db_steps L j w0 w'"
    using q [OF tick] snd_FindByID [of L i w] by simp
  show "FindByToken h w = (r3, w') \<Longrightarrow> db_steps L j w0 w'"
    using q [OF tick] snd_FindByToken [of h w] by simp
  show "Hash L cost p w = (r4, w') \<Longrightarrow> db_steps L j w0 w'"
    using q Hash_quiet [of w L cost p] by simp
  show "Verify L p h w = (r5, w') \<Longrightarrow> db_steps L j w0 w'"
    using q Verify_quiet [of w L p h] by simp
  show "GenerateAccessToken L j u n w = (r6, w') \<Longrightarrow> db_steps L j w0 w'"
    unfolding GenerateAccessToken_def by (rule q) (metis generateToken_quiet snd_conv)
  show "GenerateRefreshToken L j u w = (r7, w') \<Longrightarrow> db_steps L j w0 w'"
    unfolding GenerateRefreshToken_def by (rule q) (metis generateToken_quiet snd_conv)
  show "time_now w = (t, w') \<Longrightarrow> db_steps L j w0 w'"
    using q [OF tick] by simp
qed

lemma steps_exec:
  assumes "db_steps L j w0 w" and "fresh_issue L j w0 c"
  shows "repo_exec L c w = (ok, w') \<Longrightarrow> db_steps L j w0 w'"
  using db_steps.call [OF assms] by simp

lemma steps_call:
  assumes "db_steps L j w0 w"
  shows "registered L u \<Longrightarrow> UserCreate u w = (r1, w') \<Longrightarrow> db_steps L j w0 w'"
    and "RevokeToken h w = (r2, w') \<Longrightarrow> db_steps L j w0 w'"
    and "RevokeAllUserTokens L i w = (r3, w') \<Longrightarrow> db_steps L j w0 w'"
    and "CleanupExpiredTokens w = (r4, w') \<Longrightarrow> db_steps L j w0 w'"
  using db_steps.call [OF assms, of "RUserCreate u"] db_steps.call [OF assms, of "RRevoke h"]
    db_steps.call [OF assms, of "RRevokeAll i"] db_steps.call [OF assms, of RCleanup]
  by (simp_all add: fresh_issue_def)

lemma steps_issue:
  assumes "db_steps L j w0 w" and "fresh_token L j w0 t" and "rt_Token nt = hashToken L t"
  shows "StoreRefreshToken L nt w = (r1, w') \<Longrightarrow> db_steps L j w0 w'"
    and "RotateRefreshToken L h (Some nt) w = (r2, w') \<Longrightarrow> db_steps L j w0 w'"
  using db_steps.call [OF assms(1), of "RStore nt"] db_steps.call [OF assms(1), of "RRotate h (Some nt)"]
    assms(2,3)
  by (auto simp: fresh_issue_def)

lemma steps_fresh:
  assumes "db_steps L j w0 w" and "GenerateRefreshToken L j u w = (Inr (t, x), w')"
  shows "fresh_token L j w0 t"
proof -
  have l: "w_outside w = w_outside w0" "w_tick w0 \<le> w_tick w"
    using db_steps_later [OF assms(1)] by (auto simp: later_def)
  show ?thesis
    using generateToken_Inr [OF assms(2) [unfolded GenerateRefreshToken_def]] l
    unfolding fresh_token_def by metis
qed

lemma steps_generateTokenPair:
  "generateTokenPair L j u w = (r, w') \<Longrightarrow> db_steps L j w0 w \<Longrightarrow> db_steps L j w0 w'"
  by (auto simp: generateTokenPair_def split: prod.splits sum.splits)
     (metis steps_quiet(6,7) steps_issue(1) steps_fresh RefreshToken.select_convs(5))+

lemma steps_rejectRefreshReuse:
  "rejectRefreshReuse L u w = (r, w') \<Longrightarrow> db_steps L j w0 w \<Longrightarrow> db_steps L j w0 w'"
  by (auto simp: rejectRefreshReuse_def split: prod.splits sum.splits if_splits dest: steps_call(3))

lemma steps_Register:
  assumes "Register L j cost e n p w = (r, w')" and "db_steps L j w0 w"
  shows "db_steps L j w0 w'"
proof -
  obtain f w1 where f: "FindByEmail e w = (f, w1)" by fastforce
  have w1: "db_steps L j w0 w1" using steps_quiet(1) [OF assms(2) f] .
  obtain h w2 where h: "Hash L cost p w1 = (h, w2)" by fastforce
  have w2: "db_steps L j w0 w2" using steps_quiet(4) [OF w1 h] .
  have w3: "db_steps L j w0 w3"
    if "UserCreate u w2 = (x, w3)" "NewUser e n hp = Inr u" "ValidatePassword p = None" "h = Inr hp" for u x w3 hp
  proof -
    have "\<exists>salt. bcrypt_generate L p cost salt = Inr hp" using Hash_Inr h that(4) by blast
    then have "registered L u"
      using NewUser_ok [OF that(2)] that(2,3) by (auto simp: registered_def NewUser_cases)
    with steps_call(1) [OF w2 _ that(1)] show ?thesis by blast
  qed
  have "w' = w \<or> w' = w1 \<or> w' = w2 \<or> (\<exists>u x w3 hp. UserCreate u w2 = (x, w3) \<and> NewUser e n hp = Inr u \<and>
      ValidatePassword p = None \<and> h = Inr hp \<and> (w' = w3 \<or> (\<exists>v y. generateTokenPair L j v w3 = (y, w'))))"
    using assms(1) f h
    by (auto simp: Register_def split: option.splits sum.splits prod.splits if_splits)
  then show ?thesis
    using assms(2) w1 w2 w3 steps_generateTokenPair by blast
qed

lemma steps_Login:
  assumes "Login L j e p w = (r, w')" and "db_steps L j w0 w"
  shows "db_steps L j w0 w'"
proof -
  obtain f w1 where f: "FindByEmail e w = (f, w1)" by fastforce
  have w1: "db_steps L j w0 w1" using steps_quiet(1) [OF assms(2) f] .
  have "w' = w1 \<or> (\<exists>h v w2. Verify L p h w1 = (v, w2) \<and> (w' = w2 \<or> (\<exists>u y. generateTokenPair L j u w2 = (y, w'))))"
    using assms(1) f
    by (auto simp: Login_def Let_def split: option.splits sum.splits prod.splits if_splits)
  then show ?thesis
    using w1 steps_quiet(5) [OF w1] steps_generateTokenPair by blast
qed

lemma steps_Logout:
  assumes "Logout L t w = (r, w')" and "db_steps L j w0 w"
  shows "db_steps L j w0 w'"
proof -
  obtain f w1 where f: "FindByToken (hashToken L t) w = (f, w1)" by fastforce
  have w1: "db_steps L j w0 w1" using steps_quiet(3) [OF assms(2) f] .
  have "\<exists>v. RevokeToken (hashToken L t) w1 = (v, w')"
    using assms(1) f by (auto simp: Logout_def Let_def split: sum.splits prod.splits if_splits)
  then show ?thesis using steps_call(2) [OF w1] by blast
qed

lemma steps_GetUserProfile: "GetUserProfile L u w = (r, w') \<Longrightarrow> db_steps L j w0 w \<Longrightarrow> db_steps L j w0 w'"
  by (auto simp: GetUserProfile_def split: sum.splits prod.splits if_splits dest: steps_quiet(2))

text \<open>The stages of \<open>RefreshTokens\<close>.\<close>

lemma RefreshTokens_stages:
  assumes "RefreshTokens L j t w = (r, w')"
  obtains (lookup) f w1 where "FindByToken (hashToken L t) w = (f, w1)" "w' = w1" "isl r"
  | (reuse) row w1 e where "FindByToken (hashToken L t) w = (Inr row, w1)" "rt_IsRevoked row"
      "rejectRefreshReuse L (rt_UserID row) w1 = (e, w')" "r = Inl e"
  | (early) row w1 where "FindByToken (hashToken L t) w = (Inr row, w1)" "\<not> rt_IsRevoked row"
      "quiet w1 w'" "isl r"
  | (rotate) row w1 user w5 newToken expires rot w6 accessToken accessExpires where
      "FindByToken (hashToken L t) w = (Inr row, w1)" "\<not> rt_IsRevoked row"
      "o_now (w_outside w1 (w_tick w1)) \<le> rt_ExpiresAt row" "quiet w1 w5"
      "fst (FindByID L (rt_UserID row) (snd (time_now w1))) = Inr user"
      "GenerateRefreshToken L j (user_ID user) (w5\<lparr>w_tick := w_tick w5 - 2\<rparr>) = (Inr (newToken, expires), w5)"
      "2 \<le> w_tick w5" "w_tick w1 \<le> w_tick w5 - 2"
      "RotateRefreshToken L (hashToken L t)
         (Some \<lparr>rt_ExpiresAt = expires, rt_CreatedAt = zero_time, rt_ID = '''',
                rt_UserID = user_ID user, rt_Token = hashToken L newToken, rt_IsRevoked = False\<rparr>) w5 = (rot, w6)"
      "case rot of
         Inr _ \<Rightarrow> w' = w6 \<and> r = Inr \<lparr>pair_ExpiresAt = accessExpires, pair_UserID = user_ID user,
                pair_Username = user_Username user, pair_AccessToken = accessToken,
                pair_RefreshToken = newToken\<rparr>
       | Inl e \<Rightarrow> if errors_is e ErrInvalidRefreshToken
                then \<exists>e'. rejectRefreshReuse L (rt_UserID row) w6 = (e', w') \<and> r = Inl e'
                else w' = w6 \<and> isl r"
proof -
  let ?h = "hashToken L t"
  obtain f w1 where f: "FindByToken ?h w = (f, w1)" by fastforce
  show ?thesis
  proof (cases f)
    case (Inl e)
    then show ?thesis
      using lookup [OF f] assms f by (auto simp: RefreshTokens_def Let_def split: if_splits)
  next
    case (Inr row)
    have quiets: "quiet w1 w1'" if "FindByID L i w1x = (y, w1')" "quiet w1 w1x" for i w1x y w1'
      using snd_FindByID [of L i w1x] that quiet_trans by (metis le_SucI order_refl quiet_Suc snd_conv)
    show ?thesis
    proof (cases "rt_IsRevoked row")
      case True
      then show ?thesis
        using reuse [of row w1] assms f Inr by (auto simp: RefreshTokens_def Let_def split: prod.splits)
    next
      case live: False
      define w2 where "w2 = w1\<lparr>w_tick := Suc (w_tick w1)\<rparr>"
      obtain g w3 where g: "FindByID L (rt_UserID row) w2 = (g, w3)" by fastforce
      have w3: "w3 = w2\<lparr>w_tick := Suc (w_tick w2)\<rparr>" using snd_FindByID [of L "rt_UserID row" w2] g by simp
      show ?thesis
      proof (cases "rt_ExpiresAt row < o_now (w_outside w1 (w_tick w1))")
        case True
        then show ?thesis
          using early [of row w1] assms f Inr live by (auto simp: RefreshTokens_def Let_def)
      next
        case valid: False
        show ?thesis
        proof (cases g)
          case (Inl e)
          then show ?thesis
            using early [of row w1] assms f Inr live valid g w3
            by (auto simp: RefreshTokens_def Let_def w2_def)
        next
          case user: (Inr user)
          obtain a w4 where a: "GenerateAccessToken L j (user_ID user) (user_Username user) w3 = (a, w4)"
            by fastforce
          have w4: "quiet w1 w4"
            using generateToken_quiet [of w3 L "user_ID user" "user_Username user" "js_accessTokenTTL j"
                tokenUseAccess "js_accessKey j"] a w3
            by (auto simp: GenerateAccessToken_def w2_def quiet_def)
          show ?thesis
          proof (cases a)
            case (Inl e)
            then show ?thesis
              using early [of row w1] assms f Inr live valid g user a w4
              by (auto simp: RefreshTokens_def Let_def w2_def)
          next
            case access: (Inr p)
            obtain at ax where p: "p = (at, ax)" by (cases p)
            obtain b w5 where b: "GenerateRefreshToken L j (user_ID user) w4 = (b, w5)" by fastforce
            have w5: "quiet w1 w5"
              using generateToken_quiet [of w4 L "user_ID user" "''''" "js_refreshTokenTTL j"
                  tokenUseRefresh "js_refreshKey j"] b w4 quiet_trans
              by (auto simp: GenerateRefreshToken_def)
            show ?thesis
            proof (cases b)
              case (Inl e)
              then show ?thesis
                using early [of row w1] assms f Inr live valid g user a access p b w5
                by (auto simp: RefreshTokens_def Let_def w2_def)
            next
              case refresh: (Inr q)
              obtain nt nx where q: "q = (nt, nx)" by (cases q)
              have w5': "w5 = w4\<lparr>w_tick := Suc (Suc (w_tick w4))\<rparr>"
                using generateToken_Inr b refresh q unfolding GenerateRefreshToken_def by blast
              let ?new = "\<lparr>rt_ExpiresAt = nx, rt_CreatedAt = zero_time, rt_ID = '''',
                rt_UserID = user_ID user, rt_Token = hashToken L nt, rt_IsRevoked = False\<rparr>"
              obtain rot w6 where rot: "RotateRefreshToken L ?h (Some ?new) w5 = (rot, w6)" by fastforce
              show ?thesis
              proof (rule rotate [of row w1 w5 user nt nx rot w6 ax at])
                show "case rot of Inr _ \<Rightarrow> w' = w6 \<and> r = Inr \<lparr>pair_ExpiresAt = ax, pair_UserID = user_ID user,
                    pair_Username = user_Username user, pair_AccessToken = at, pair_RefreshToken = nt\<rparr>
                  | Inl e \<Rightarrow> if errors_is e ErrInvalidRefreshToken
                      then \<exists>e'. rejectRefreshReuse L (rt_UserID row) w6 = (e', w') \<and> r = Inl e'
                      else w' = w6 \<and> isl r"
                  using assms f Inr live valid g user a access p b refresh q rot
                  by (auto simp: RefreshTokens_def Let_def w2_def split: sum.splits prod.splits if_splits)
              qed (use f Inr live valid g user w5 w5' w4 b refresh q rot w2_def in \<open>auto simp: quiet_def\<close>)
            qed
          qed
        qed
      qed
    qed
  qed
qed

lemma steps_RefreshTokens:
  assumes "RefreshTokens L j t w = (r, w')" and "db_steps L j w0 w"
  shows "db_steps L j w0 w'"
  using assms(1)
proof (cases rule: RefreshTokens_stages)
  case (lookup f w1)
  then show ?thesis using steps_quiet(3) [OF assms(2)] by blast
next
  case (reuse row w1 e)
  then show ?thesis using steps_quiet(3) [OF assms(2)] steps_rejectRefreshReuse by blast
next
  case (early row w1)
  then show ?thesis using steps_quiet(3) [OF assms(2)] db_steps.quiet by blast
next
  case (rotate row w1 user w5 newToken expires rot w6 accessToken accessExpires)
  have w1: "db_steps L j w0 w1" using steps_quiet(3) [OF assms(2) rotate(1)] .
  have "quiet w1 (w5\<lparr>w_tick := w_tick w5 - 2\<rparr>)" using rotate(4,8) by (simp add: quiet_def)
  from db_steps.quiet [OF w1 this] have fresh: "fresh_token L j w0 newToken"
    using steps_fresh rotate(6) by blast
  have w5: "db_steps L j w0 w5" using db_steps.quiet [OF w1 rotate(4)] .
  have w6: "db_steps L j w0 w6" using steps_issue(2) [OF w5 fresh _ rotate(9)] by simp
  show ?thesis
    using rotate(10) w6 steps_rejectRefreshReuse by (auto split: sum.splits if_splits)
qed

subsection \<open>Histories of requests to the auth service\<close>

datatype auth_call =
    ARegister string string string
  | ALogin string string
  | ARefresh string
  | ALogout string
  | AProfile string
  | ACleanup

text \<open>The service: its libraries, its token service and its cost.\<close>

fun auth_exec :: "libs \<Rightarrow> jwt_service \<Rightarrow> int \<Rightarrow> auth_call \<Rightarrow> world \<Rightarrow> bool \<times> world" where
  "auth_exec L j cost (ARegister e n p) w = outcome (Register L j cost e n p w)"
| "auth_exec L j cost (ALogin e p) w = outcome (Login L j e p w)"
| "auth_exec L j cost (ARefresh t) w = outcome (RefreshTokens L j t w)"
| "auth_exec L j cost (ALogout t) w = outcome (Logout L t w)"
| "auth_exec L j cost (AProfile u) w = outcome (GetUserProfile L u w)"
| "auth_exec L j cost ACleanup w = (True, cleanup_tick w)"

lemma auth_exec_steps: "db_steps L j w (snd (auth_exec L j cost c w))"
proof (cases c)
  case (ARegister e n p)
  then show ?thesis using steps_Register db_steps.here by (metis auth_exec.simps(1) outcome_simps(1) prod.collapse)
next
  case (ALogin e p)
  then show ?thesis using steps_Login db_steps.here by (metis auth_exec.simps(2) outcome_simps(1) prod.collapse)
next
  case (ARefresh t)
  then show ?thesis using steps_RefreshTokens db_steps.here by (metis auth_exec.simps(3) outcome_simps(1) prod.collapse)
next
  case (ALogout t)
  then show ?thesis using steps_Logout db_steps.here by (metis auth_exec.simps(4) outcome_simps(1) prod.collapse)
next
  case (AProfile u)
  then show ?thesis using steps_GetUserProfile db_steps.here by (metis auth_exec.simps(5) outcome_simps(1) prod.collapse)
next
  case ACleanup
  then show ?thesis
    using steps_call(4) [OF db_steps.here, of w "fst (CleanupExpiredTokens w)" "cleanup_tick w" L]
    by (simp add: cleanup_tick_def)
qed

text \<open>No refresh token signed from now on has the hash \<open>h\<close>.\<close>

definition never_again :: "libs \<Rightarrow> jwt_service \<Rightarrow> string \<Rightarrow> world \<Rightarrow> bool" where
  "never_again L j h w \<longleftrightarrow> (\<forall>t. fresh_token L j w t \<longrightarrow> hashToken L t \<noteq> h)"

lemma fresh_token_later: "later w w' \<Longrightarrow> fresh_token L j w' t \<Longrightarrow> fresh_token L j w t"
  unfolding fresh_token_def later_def by (metis le_trans)

lemma never_again_later: "never_again L j h w \<Longrightarrow> later w w' \<Longrightarrow> never_again L j h w'"
  using fresh_token_later unfolding never_again_def by blast

lemma db_steps_invariant:
  assumes "\<And>w w'. P w \<Longrightarrow> quiet w w' \<Longrightarrow> P w'" and "\<And>w c. P w \<Longrightarrow> fresh_issue L j w0 c \<Longrightarrow> P (snd (repo_exec L c w))"
    and "P w0"
  shows "db_steps L j w0 w \<Longrightarrow> P w"
  by (induction rule: db_steps.induct) (use assms in auto)

lemma auth_db_ok_quiet: "auth_db_ok w \<Longrightarrow> quiet w w' \<Longrightarrow> auth_db_ok w'"
  by (simp add: auth_db_ok_def quiet_def)

lemma live_token_quiet: "quiet w w' \<Longrightarrow> live_token h w' \<longleftrightarrow> live_token h w"
  by (simp add: live_token_def quiet_def)

lemma db_steps_ok: "auth_db_ok w0 \<Longrightarrow> db_steps L j w0 w \<Longrightarrow> auth_db_ok w"
  by (rule db_steps_invariant [where P = auth_db_ok]) (auto intro: auth_db_ok_quiet repo_exec_ok)

lemma db_steps_dead:
  assumes "never_again L j h w0" and "\<not> live_token h w0" and "db_steps L j w0 w"
  shows "\<not> live_token h w"
proof (rule db_steps_invariant [where P = "\<lambda>w. \<not> live_token h w", OF _ _ assms(2,3)])
  show "\<not> live_token h (snd (repo_exec L c w))" if "\<not> live_token h w" "fresh_issue L j w0 c" for w c
    using repo_stays_dead [OF that(1)] that(2) assms(1) unfolding fresh_issue_def never_again_def by blast
qed (simp add: live_token_quiet)

definition session_inv :: "libs \<Rightarrow> jwt_service \<Rightarrow> string \<Rightarrow> world \<Rightarrow> bool" where
  "session_inv L j h w \<longleftrightarrow> auth_db_ok w \<and> never_again L j h w"

lemma session_inv_step: "session_inv L j h w \<Longrightarrow> session_inv L j h (snd (auth_exec L j cost c w))"
  unfolding session_inv_def
  using db_steps_ok auth_exec_steps db_steps_later never_again_later by blast

definition opens_session :: "libs \<Rightarrow> string \<Rightarrow> auth_call \<Rightarrow> bool" where
  "opens_session L h c \<longleftrightarrow> (\<exists>t. c = ARefresh t \<and> hashToken L t = h)"

lemma refresh_spends:
  assumes inv: "session_inv L j h w" and "hashToken L t = h" and "RefreshTokens L j t w = (Inr pair, w')"
  shows "live_token h w \<and> \<not> live_token h w'"
  using assms(3)
proof (cases rule: RefreshTokens_stages)
  case (rotate row w1 user w5 newToken expires rot w6 accessToken accessExpires)
  have q: "quiet w w5"
    using rotate(1,4) snd_FindByToken [of "hashToken L t" w] quiet_trans [of w w1 w5] by simp
  have w1: "db_steps L j w w1" using steps_quiet(3) [OF db_steps.here rotate(1)] .
  have "quiet w1 (w5\<lparr>w_tick := w_tick w5 - 2\<rparr>)" using rotate(4,8) by (simp add: quiet_def)
  from db_steps.quiet [OF w1 this] have "fresh_token L j w newToken"
    using steps_fresh rotate(6) by blast
  then have other: "hashToken L newToken \<noteq> h"
    using inv by (auto simp: session_inv_def never_again_def)
  obtain v where v: "rot = Inr v" "w' = w6" using rotate(10) by (auto split: sum.splits if_splits)
  have "fst (repo_exec L (RRotate h (Some \<lparr>rt_ExpiresAt = expires, rt_CreatedAt = zero_time, rt_ID = '''',
      rt_UserID = user_ID user, rt_Token = hashToken L newToken, rt_IsRevoked = False\<rparr>)) w5)"
    "snd (repo_exec L (RRotate h (Some \<lparr>rt_ExpiresAt = expires, rt_CreatedAt = zero_time, rt_ID = '''',
      rt_UserID = user_ID user, rt_Token = hashToken L newToken, rt_IsRevoked = False\<rparr>)) w5) = w6"
    using rotate(9) v assms(2) by simp_all
  moreover have "auth_db_ok w5" using inv q auth_db_ok_quiet by (auto simp: session_inv_def)
  ultimately have "live_token h w5 \<and> \<not> live_token h w6"
    using repo_use_spends [of w5 h "RRotate h (Some \<lparr>rt_ExpiresAt = expires, rt_CreatedAt = zero_time,
      rt_ID = '''', rt_UserID = user_ID user, rt_Token = hashToken L newToken, rt_IsRevoked = False\<rparr>)" L] other
    by simp
  then show ?thesis using v live_token_quiet [OF q] by simp
qed auto

interpretation sessions: single_use "auth_exec L j cost" "session_inv L j h" "\<lambda>_. opens_session L h"
  "\<lambda>_ _. False" "\<lambda>_. live_token h" for L j cost h
proof unfold_locales
  show "session_inv L j h (snd (auth_exec L j cost c w))" if "session_inv L j h w" for c w
    using session_inv_step [OF that] .
  show "live_token h w \<and> \<not> live_token h (snd (auth_exec L j cost c w))"
    if "session_inv L j h w" "opens_session L h c" "fst (auth_exec L j cost c w)" for w c
  proof -
    note call_ok = that
    obtain t where c: "c = ARefresh t" "hashToken L t = h"
      using call_ok(2) by (auto simp: opens_session_def)
    obtain pair w' where call: "RefreshTokens L j t w = (Inr pair, w')"
      using call_ok(3) c by (cases "RefreshTokens L j t w") (auto simp: is_ok_iff_ex)
    show ?thesis using refresh_spends [OF call_ok(1) c(2) call] c call by simp
  qed
  show "\<not> live_token h (snd (auth_exec L j cost c w))" if "session_inv L j h w" "\<not> live_token h w" for w c
    using that db_steps_dead auth_exec_steps by (auto simp: session_inv_def)
qed

text \<open>
  C24: A refresh token opens at most one new session. In every history of requests to the auth
  service, with its hourly cleanups, whatever is lost on the way to the database, at most one
  \<open>RefreshTokens\<close> with a given token succeeds, as long as no refresh token signed with a random
  identifier still to come has the same hash.
\<close>

theorem refresh_opens_one_session:
  assumes "auth_db_ok w" and "never_again L j (hashToken L t) w"
  shows "length (filter (\<lambda>(c, ok). ok \<and> c = ARefresh t) (fst (run_calls (auth_exec L j cost) cs w))) \<le> 1"
proof -
  let ?hist = "fst (run_calls (auth_exec L j cost) cs w)"
  have "length (filter (\<lambda>(c, ok). ok \<and> opens_session L (hashToken L t) c) ?hist) \<le> 1"
    using sessions.used_at_most_once [of L j "hashToken L t" w cs cost] assms by (simp add: session_inv_def)
  moreover have "length (filter (\<lambda>(c, ok). ok \<and> c = ARefresh t) ?hist)
      \<le> length (filter (\<lambda>(c, ok). ok \<and> opens_session L (hashToken L t) c) ?hist)"
    by (rule length_filter_mono) (auto simp: opens_session_def)
  ultimately show ?thesis by linarith
qed

lemma refresh_opens_one_session_witness:
  "length (filter (\<lambda>(c, ok). ok \<and> c = ARefresh ''k.refresh.u.r'')
     (fst (run_calls (auth_exec sample_libs witness_issuer 10)
       [ARefresh ''k.refresh.u.r'', ARefresh ''k.refresh.u.r''] (witness_auth\<lparr>w_tick := 1\<rparr>)))) \<le> 1"
proof (rule refresh_opens_one_session)
  show "auth_db_ok (witness_auth\<lparr>w_tick := 1\<rparr>)" using witness_auth_ok by simp
  have "last (replicate n CHR ''0'') = CHR ''0''" if "1 \<le> n" for n :: nat
    using that by (cases n) (simp_all add: last_replicate)
  then have "last (k @ ''.'' @ a @ ''.'' @ u @ ''.'' @ CHR ''r'' # replicate n CHR ''0'') \<noteq> CHR ''r''"
    if "1 \<le> n" for k a u n using that by simp
  then show "never_again sample_libs witness_issuer (hashToken sample_libs ''k.refresh.u.r'') (witness_auth\<lparr>w_tick := 1\<rparr>)"
    by (auto simp: never_again_def fresh_token_def hashToken_def witness_auth_def sample_world_def
          sample_libs_def sample_outside_def dest: arg_cong [where f = last])
qed

end
