(* ===== verification/Accounts.thy ===== *)
theory Accounts
  imports Sessions
begin

text \<open>
  What a user sees of the auth service: registration, login, rotation, the reaction to a refresh
  token that is used again, and logout.
\<close>

subsection \<open>The repositories while nothing is lost\<close>

lemma FindByEmail_calm:
  "calm w \<Longrightarrow> FindByEmail e w =
     ((case find (\<lambda>u. user_Email u = e) (w_users w) of
         None \<Rightarrow> Inl (Sentinel ErrUserNotFound) | Some u \<Rightarrow> Inr u), w\<lparr>w_tick := Suc (w_tick w)\<rparr>)"
  by (simp add: FindByEmail_def findUser_def scanOne_def query_row_def request_Served
        userFindByEmailQuery_def pgx_no_rows_def split: option.splits)

lemma FindByToken_calm:
  "calm w \<Longrightarrow> FindByToken h w =
     ((case find (\<lambda>t. rt_Token t = h) (w_tokens w) of
         None \<Rightarrow> Inl (Sentinel ErrInvalidRefreshToken) | Some t \<Rightarrow> Inr t), w\<lparr>w_tick := Suc (w_tick w)\<rparr>)"
  by (simp add: FindByToken_def scanOne_def query_row_def request_Served
        tokenFindByTokenQuery_def pgx_no_rows_def split: option.splits)

lemma RevokeAllUserTokens_calm:
  "calm w \<Longrightarrow> uuid_in L u = Some i \<Longrightarrow> RevokeAllUserTokens L u w =
     (Inr (), w\<lparr>w_tick := Suc (w_tick w),
                w_tokens := update_where (\<lambda>t. rt_UserID t = i \<and> \<not> rt_IsRevoked t) revoke (w_tokens w)\<rparr>)"
  by (simp add: RevokeAllUserTokens_def request_Served tokenRevokeAllByUserQuery_def)

lemma RevokeToken_calm:
  "calm w \<Longrightarrow> RevokeToken h w =
     ((if filter (\<lambda>t. rt_Token t = h) (w_tokens w) = [] then Inl (Sentinel ErrInvalidRefreshToken) else Inr ()),
      w\<lparr>w_tick := Suc (w_tick w), w_tokens := update_where (\<lambda>t. rt_Token t = h) revoke (w_tokens w)\<rparr>)"
  by (simp add: RevokeToken_def request_Served tokenRevokeQuery_def)

subsection \<open>Login\<close>

lemma generateTokenPair_log: "w_log (snd (generateTokenPair L j u w)) = w_log w"
proof -
  have gen: "w_log w' = w_log w" if "generateToken L a b c d e w = (r, w')" for a b c d e w r w'
    using that by (auto simp: generateToken_def Let_def split: if_splits sum.splits)
  have store: "w_log w' = w_log w" if "StoreRefreshToken L t w = (r, w')" for t w r w'
  proof -
    have "w_log (snd (request (tokenInsertQuery L (rt_UserID t) (rt_Token t) (rt_ExpiresAt t)
        (rt_IsRevoked t)) w)) = w_log w"
      by (rule request_invariant [where P = "\<lambda>w'. w_log w' = w_log w"])
         (auto simp: tokenInsertQuery_def split: sum.splits)
    then show ?thesis using that snd_StoreRefreshToken [of L t w] by simp
  qed
  show ?thesis
    by (auto simp: generateTokenPair_def GenerateAccessToken_def GenerateRefreshToken_def
          dest!: gen store split: prod.splits sum.splits)
qed

definition login_hash :: "string \<Rightarrow> world \<Rightarrow> string" where
  "login_hash e w = (case find (\<lambda>u. user_Email u = e) (w_users w) of
     None \<Rightarrow> dummyPasswordHash | Some u \<Rightarrow> user_PasswordHash u)"

lemma Login_calm:
  assumes "calm w" and "p \<noteq> ''''" and "login_hash e w \<noteq> ''''"
  defines "w2 \<equiv> w\<lparr>w_tick := Suc (Suc (w_tick w)), w_log := w_log w @ [HashCompared (login_hash e w)]\<rparr>"
  shows "Login L j e p w =
    (case bcrypt_compare L (login_hash e w) p of
       None \<Rightarrow>
         (case find (\<lambda>u. user_Email u = e) (w_users w) of
            None \<Rightarrow> (Inl (errorf_w ''login'' (Sentinel ErrInvalidCredentials)), w2)
          | Some u \<Rightarrow>
              (case generateTokenPair L j u w2 of
                 (Inl err, w3) \<Rightarrow> (Inl (errorf_w ''login: generating tokens'' err), w3)
               | (Inr pair, w3) \<Rightarrow> (Inr pair, w3)))
     | Some x \<Rightarrow>
         if errors_is_library x BcryptMismatch
           then (Inl (errorf_w ''login'' (Sentinel ErrInvalidCredentials)), w2)
         else (Inl (errorf_w ''login: verifying password'' (errorf_w ''bcrypt: compare hash'' x)), w2))"
proof -
  let ?h = "login_hash e w"
  have "calm (w\<lparr>w_tick := Suc (w_tick w)\<rparr>)" using assms(1) by simp
  from Verify_calm [OF this assms(2,3), of L]
  have v: "Verify L p ?h (w\<lparr>w_tick := Suc (w_tick w)\<rparr>) =
      ((case bcrypt_compare L ?h p of
          None \<Rightarrow> Inr True
        | Some e \<Rightarrow> if errors_is_library e BcryptMismatch then Inr False
                    else Inl (errorf_w ''bcrypt: compare hash'' e)), w2)"
    by (simp add: w2_def)
  show ?thesis
  proof (cases "find (\<lambda>u. user_Email u = e) (w_users w)")
    case None
    then have "dummyPasswordHash = ?h" by (simp add: login_hash_def)
    with None v assms(1) show ?thesis
      by (simp add: Login_def FindByEmail_calm split: option.splits)
  next
    case (Some u)
    then have "user_PasswordHash u = ?h" by (simp add: login_hash_def)
    with Some v assms(1) show ?thesis
      by (simp add: Login_def FindByEmail_calm split: option.splits)
  qed
qed

text \<open>
  C25: \<open>Login\<close> does not tell an unknown email from a wrong password. Either way it compares the
  password with exactly one hash (the user's, or the fixed one) and returns the same error; and
  it compares with exactly one hash when it succeeds.
\<close>

theorem login_uniform:
  assumes "calm w" and "p \<noteq> ''''" and "login_hash e w \<noteq> ''''"
    and "\<And>x. bcrypt_compare L (login_hash e w) p = Some x \<Longrightarrow> errors_is_library x BcryptMismatch"
  shows "w_log (snd (Login L j e p w)) = w_log w @ [HashCompared (login_hash e w)]
    \<and> ((\<forall>u \<in> set (w_users w). user_Email u \<noteq> e) \<or> bcrypt_compare L (login_hash e w) p \<noteq> None \<longrightarrow>
         fst (Login L j e p w) = Inl (errorf_w ''login'' (Sentinel ErrInvalidCredentials)))"
proof
  let ?w2 = "w\<lparr>w_tick := Suc (Suc (w_tick w)), w_log := w_log w @ [HashCompared (login_hash e w)]\<rparr>"
  note call = Login_calm [OF assms(1-3), of L j]
  show "w_log (snd (Login L j e p w)) = w_log w @ [HashCompared (login_hash e w)]"
  proof (cases "bcrypt_compare L (login_hash e w) p")
    case None
    show ?thesis
    proof (cases "find (\<lambda>u. user_Email u = e) (w_users w)")
      case (Some u)
      have "w_log w' = w_log ?w2" if "generateTokenPair L j u ?w2 = (r, w')" for r w'
        using generateTokenPair_log [of L j u ?w2] that by simp
      then show ?thesis
        using None Some by (simp add: call split: prod.splits sum.splits)
    qed (use None in \<open>simp add: call\<close>)
  qed (simp add: call)
  show "(\<forall>u \<in> set (w_users w). user_Email u \<noteq> e) \<or> bcrypt_compare L (login_hash e w) p \<noteq> None \<longrightarrow>
      fst (Login L j e p w) = Inl (errorf_w ''login'' (Sentinel ErrInvalidCredentials))"
  proof (cases "bcrypt_compare L (login_hash e w) p")
    case None
    then show ?thesis by (auto simp: call find_None_iff dest: find_SomeD split: option.splits)
  next
    case (Some x)
    then show ?thesis using assms(4) by (simp add: call)
  qed
qed

lemma login_uniform_witness:
  "fst (Login sample_libs witness_issuer ''x@b.cd'' ''pw'' witness_auth) = Inl (errorf_w ''login'' (Sentinel ErrInvalidCredentials))
   \<and> fst (Login sample_libs witness_issuer ''a@b.cd'' ''no'' witness_auth) = Inl (errorf_w ''login'' (Sentinel ErrInvalidCredentials))"
proof
  have c: "calm witness_auth" by (simp add: calm_def witness_auth_defs)
  have mis: "bcrypt_compare sample_libs h p = Some x \<Longrightarrow> errors_is_library x BcryptMismatch" for h p x
    by (auto simp: sample_libs_def split: if_splits)
  have "login_hash ''x@b.cd'' witness_auth \<noteq> ''''" "\<forall>u \<in> set (w_users witness_auth). user_Email u \<noteq> ''x@b.cd''"
    by (simp_all add: login_hash_def dummyPasswordHash_def witness_auth_defs)
  with login_uniform [where p = "''pw''" and e = "''x@b.cd''" and j = witness_issuer and L = sample_libs, OF c _ _ mis]
  show "fst (Login sample_libs witness_issuer ''x@b.cd'' ''pw'' witness_auth) = Inl (errorf_w ''login'' (Sentinel ErrInvalidCredentials))"
    by simp
  have "login_hash ''a@b.cd'' witness_auth = ''$pw''" "bcrypt_compare sample_libs ''$pw'' ''no'' \<noteq> None"
    by (simp_all add: login_hash_def witness_auth_defs)
  with login_uniform [where p = "''no''" and e = "''a@b.cd''" and j = witness_issuer and L = sample_libs, OF c _ _ mis]
  show "fst (Login sample_libs witness_issuer ''a@b.cd'' ''no'' witness_auth) = Inl (errorf_w ''login'' (Sentinel ErrInvalidCredentials))"
    by simp
qed

subsection \<open>A refresh token that is used again\<close>

lemma rejectRefreshReuse_calm:
  "calm w \<Longrightarrow> uuid_in L u = Some i \<Longrightarrow> u \<noteq> '''' \<Longrightarrow> rejectRefreshReuse L u w =
     (errorf_w ''refresh'' (Sentinel ErrRevokedRefreshToken),
      w\<lparr>w_tick := Suc (w_tick w),
        w_tokens := update_where (\<lambda>t. rt_UserID t = i \<and> \<not> rt_IsRevoked t) revoke (w_tokens w)\<rparr>)"
  by (simp add: rejectRefreshReuse_def RevokeAllUserTokens_calm)

text \<open>
  C26: A refresh token that was revoked (spent or logged out) and is presented again ends every
  session of its user. The request is refused with \<open>ErrRevokedRefreshToken\<close>, all refresh tokens
  of that user are revoked, and no row of another user changes.
\<close>

theorem reuse_revokes_sessions:
  assumes "calm w" and "auth_db_ok w" and "row \<in> set (w_tokens w)" and "rt_Token row = hashToken L t"
    and "rt_IsRevoked row" and "uuid_in L (rt_UserID row) = Some (rt_UserID row)" and "rt_UserID row \<noteq> ''''"
  shows "\<exists>e. fst (RefreshTokens L j t w) = Inl e \<and> errors_is e ErrRevokedRefreshToken
    \<and> list_all (\<lambda>x. rt_UserID x = rt_UserID row \<longrightarrow> rt_IsRevoked x) (w_tokens (snd (RefreshTokens L j t w)))
    \<and> filter (\<lambda>x. rt_UserID x \<noteq> rt_UserID row) (w_tokens (snd (RefreshTokens L j t w)))
      = filter (\<lambda>x. rt_UserID x \<noteq> rt_UserID row) (w_tokens w)
    \<and> w_users (snd (RefreshTokens L j t w)) = w_users w"
proof -
  let ?u = "rt_UserID row"
  have "find (\<lambda>x. rt_Token x = rt_Token row) (w_tokens w) = Some row"
    using assms(2,3) by (intro find_unique) (auto simp: auth_db_ok_def)
  then have f: "FindByToken (hashToken L t) w = (Inr row, w\<lparr>w_tick := Suc (w_tick w)\<rparr>)"
    using assms(1,4) by (simp add: FindByToken_calm)
  have "calm (w\<lparr>w_tick := Suc (w_tick w)\<rparr>)" using assms(1) by simp
  from rejectRefreshReuse_calm [OF this assms(6,7)]
  have call: "RefreshTokens L j t w = (Inl (errorf_w ''refresh'' (Sentinel ErrRevokedRefreshToken)),
      w\<lparr>w_tick := Suc (Suc (w_tick w)),
        w_tokens := update_where (\<lambda>x. rt_UserID x = ?u \<and> \<not> rt_IsRevoked x) revoke (w_tokens w)\<rparr>)"
    using f assms(5) by (simp add: RefreshTokens_def)
  moreover have "filter (\<lambda>x. rt_UserID x \<noteq> ?u)
      (update_where (\<lambda>x. rt_UserID x = ?u \<and> \<not> rt_IsRevoked x) revoke ts) = filter (\<lambda>x. rt_UserID x \<noteq> ?u) ts" for ts
    by (induction ts) auto
  ultimately show ?thesis
    by (auto simp: list_all_iff set_update_where)
qed

lemma reuse_revokes_sessions_witness:
  "\<exists>e. fst (RefreshTokens sample_libs witness_issuer ''h'' (witness_auth\<lparr>w_tokens :=
      [witness_token\<lparr>rt_Token := ''#h'', rt_IsRevoked := True\<rparr>]\<rparr>)) = Inl e
     \<and> errors_is e ErrRevokedRefreshToken"
  using reuse_revokes_sessions [of "witness_auth\<lparr>w_tokens := [witness_token\<lparr>rt_Token := ''#h'', rt_IsRevoked := True\<rparr>]\<rparr>"
      "witness_token\<lparr>rt_Token := ''#h'', rt_IsRevoked := True\<rparr>" sample_libs "''h''" witness_issuer]
  by (auto simp: calm_def auth_db_ok_def hashToken_def witness_auth_defs)

subsection \<open>Logout\<close>

text \<open>
  \<open>Logout\<close> is idempotent: while nothing is lost it succeeds for every token, the token
  opens no session afterwards, and a second \<open>Logout\<close> succeeds as well and changes no row.
\<close>

lemma logout_idempotent:
  assumes "calm w"
  shows "fst (Logout L t w) = Inr ()
    \<and> \<not> live_token (hashToken L t) (snd (Logout L t w))
    \<and> fst (Logout L t (snd (Logout L t w))) = Inr ()
    \<and> w_tokens (snd (Logout L t (snd (Logout L t w)))) = w_tokens (snd (Logout L t w))"
proof -
  let ?h = "hashToken L t"
  have call: "Logout L t w = (Inr (), w\<lparr>w_tick := Suc (Suc (w_tick w)),
      w_tokens := update_where (\<lambda>t. rt_Token t = ?h) revoke (w_tokens w)\<rparr>)" if "calm w" for w
    using that
    by (cases "filter (\<lambda>t. rt_Token t = ?h) (w_tokens w) = []")
       (simp_all add: Logout_def FindByToken_calm RevokeToken_calm Let_def)
  have "update_where (\<lambda>t. rt_Token t = ?h) revoke (update_where (\<lambda>t. rt_Token t = ?h) revoke ts) =
      update_where (\<lambda>t. rt_Token t = ?h) revoke ts" for ts
    by (induction ts) auto
  moreover have "\<not> live_rows ?h (update_where (\<lambda>t. rt_Token t = ?h) revoke ts)" for ts
    by (auto simp: live_rows_def set_update_where)
  ultimately show ?thesis
    using assms by (simp add: call live_token_rows)
qed

lemma logout_idempotent_witness: "fst (Logout sample_libs ''h'' witness_auth) = Inr ()"
  using logout_idempotent [of witness_auth sample_libs "''h''"]
  by (simp add: calm_def witness_auth_defs)

subsection \<open>Rotation\<close>

lemma token_insert_append:
  "token_insert L us uid tok ex rvk ev rows = Inr rows' \<Longrightarrow>
     \<exists>row. rows' = rows @ [row] \<and> rt_Token row = tok \<and> rt_IsRevoked row = rvk
       \<and> rt_ExpiresAt row = pg_timestamp L ex \<and> uuid_in L uid = Some (rt_UserID row)"
  using token_insert_Inr by blast

text \<open>
  C27: A successful \<open>RefreshTokens\<close> spends the token it was given and hands out a new one for the
  same user: the row of the old token was live, and not expired by the clock of the service nor, at
  a reading taken during the call, by that of the database; it is the only row that changes (it is
  revoked), and exactly one row is added, live, with the hash of the refresh token that is returned
  and the user of the old one.
\<close>

theorem refresh_rotates:
  assumes "auth_db_ok w" and "RefreshTokens L j t w = (Inr pair, w')"
  shows "\<exists>row new k. row \<in> set (w_tokens w) \<and> rt_Token row = hashToken L t \<and> \<not> rt_IsRevoked row
     \<and> o_now (w_outside w (Suc (w_tick w))) \<le> rt_ExpiresAt row
     \<and> w_tick w \<le> k \<and> k \<le> w_tick w' \<and> o_now (w_outside w k) < rt_ExpiresAt row
     \<and> w_tokens w' = update_where (\<lambda>x. x = row) revoke (w_tokens w) @ [new]
     \<and> rt_Token new = hashToken L (pair_RefreshToken pair) \<and> \<not> rt_IsRevoked new
     \<and> uuid_in L (rt_UserID row) = Some (rt_UserID new) \<and> rt_UserID new = pair_UserID pair
     \<and> w_users w' = w_users w"
  using assms(2)
proof (cases rule: RefreshTokens_stages)
  case (rotate row w1 user w5 newToken expires rot w6 accessToken accessExpires)
  let ?h = "hashToken L t"
  have w1: "w1 = w\<lparr>w_tick := Suc (w_tick w)\<rparr>" using rotate(1) snd_FindByToken [of ?h w] by simp
  have w5: "w_tokens w5 = w_tokens w" "w_users w5 = w_users w" "w_outside w5 = w_outside w" "w_tick w \<le> w_tick w5"
    using rotate(4) w1 by (simp_all add: quiet_def)
  have row: "row \<in> set (w_tokens w)" "rt_Token row = ?h" using FindByToken_ok [OF rotate(1)] by simp_all
  obtain v where v: "rot = Inr v" "w' = w6" and pair: "pair_RefreshToken pair = newToken" "pair_UserID pair = user_ID user"
    using rotate(10) by (auto split: sum.splits if_splits)
  have user: "uuid_in L (rt_UserID row) = Some (user_ID user)"
    using rotate(5) FindByID_ok by (metis prod.collapse)
  from RotateRefreshToken_effect [OF rotate(9)] v obtain t0 ts where
    rot: "rotated L ?h \<lparr>rt_ExpiresAt = expires, rt_CreatedAt = zero_time, rt_ID = '''',
        rt_UserID = user_ID user, rt_Token = hashToken L newToken, rt_IsRevoked = False\<rparr> t0 w5 ts"
    and w6: "w_tokens w6 = ts" "w_users w6 = w_users w5" "w_tick w5 \<le> w_tick w6" by auto
  then obtain now ev where t0: "t0 \<in> set (w_tokens w)" "token_active ?h now t0"
    and now: "now = o_now (w_outside w (w_tick w5))"
    and ins: "token_insert L (w_users w5) (rt_UserID t0) (hashToken L newToken) expires False ev
        (update_where (token_active ?h now) revoke (w_tokens w)) = Inr ts"
    using w5 by (auto simp: rotated_def)
  have dist: "distinct (map rt_Token (w_tokens w))" using assms(1) by (simp add: auth_db_ok_def)
  have t0_row: "t0 = row"
    using distinct_map_inj [OF dist t0(1) row(1)] t0(2) row(2) by (simp add: token_active_def)
  have only: "update_where (token_active ?h now) revoke (w_tokens w) = update_where (\<lambda>x. x = row) revoke (w_tokens w)"
    unfolding update_where_def
  proof (rule map_cong [OF refl])
    fix x assume x: "x \<in> set (w_tokens w)"
    have "token_active ?h now x \<longleftrightarrow> x = row"
      using distinct_map_inj [OF dist x row(1)] t0(2) t0_row row(2) by (auto simp: token_active_def)
    then show "(if token_active ?h now x then revoke x else x) = (if x = row then revoke x else x)" by simp
  qed
  obtain new where "ts = update_where (token_active ?h now) revoke (w_tokens w) @ [new]"
    "rt_Token new = hashToken L newToken" "\<not> rt_IsRevoked new" "uuid_in L (rt_UserID t0) = Some (rt_UserID new)"
    using token_insert_append [OF ins] by auto
  then show ?thesis
    using row t0 t0_row now only user pair v w6 w5 w1 rotate(2,3)
    by (intro exI [of _ row] exI [of _ new] exI [of _ "w_tick w5"]) (auto simp: token_active_def)
qed auto

definition witness_session :: world where
  "witness_session = witness_auth\<lparr>w_tokens := [witness_token\<lparr>rt_Token := ''#h''\<rparr>]\<rparr>"

lemmas witness_session_defs = witness_session_def witness_issuer_def NewIssuer_def witness_auth_defs

lemma witness_session_ok: "auth_db_ok witness_session"
  by (simp add: auth_db_ok_def witness_session_defs)

lemma witness_refresh:
  "\<exists>pair w'. RefreshTokens sample_libs witness_issuer ''h'' witness_session = (Inr pair, w')"
  by (simp add: RefreshTokens_def hashToken_def FindByToken_def tokenFindByTokenQuery_def scanOne_def
        query_row_def request_def ask_def FindByID_def findUser_def userFindByIDQuery_def
        GenerateAccessToken_def GenerateRefreshToken_def generateToken_def RotateRefreshToken_def
        tx_begin_def tx_commit_def token_consume_def token_active_def token_insert_def Let_def
        witness_session_defs)

lemma refresh_rotates_witness:
  "\<exists>pair w'. RefreshTokens sample_libs witness_issuer ''h'' witness_session = (Inr pair, w')
     \<and> (\<exists>new \<in> set (w_tokens w'). rt_Token new = hashToken sample_libs (pair_RefreshToken pair) \<and> \<not> rt_IsRevoked new)"
proof -
  obtain pair w' where call: "RefreshTokens sample_libs witness_issuer ''h'' witness_session = (Inr pair, w')"
    using witness_refresh by blast
  from refresh_rotates [OF witness_session_ok call] show ?thesis using call by auto
qed

subsection \<open>Registration\<close>

lemma UserCreate_Inr:
  assumes "UserCreate u w = (Inr c, w')"
  shows "c \<in> set (w_users w') \<and> user_Email c = user_Email u \<and> user_Username c = user_Username u
     \<and> user_PasswordHash c = user_PasswordHash u"
proof -
  have "scanOne (query_row (userCreateQuery (user_Email u) (user_Username u) (user_PasswordHash u)) w) = (Inr c, w')"
    using assms
    by (auto simp: UserCreate_def simp del: scanOne_Inr split: prod.splits sum.splits option.splits)
  then show ?thesis
    by (auto simp: query_row_Inr userCreateQuery_def Let_def dest!: request_okD split: option.splits)
qed

text \<open>A user of the table stays in it as it is.\<close>

lemma permitted_keeps_user:
  assumes "u \<in> set (w_users w)" and "fresh_issue L j w0 c"
  shows "u \<in> set (w_users (snd (repo_exec L c w)))"
proof -
  have keep: "u \<in> set (w_users (snd (request stmt w)))"
    if "\<And>ev w. u \<in> set (w_users w) \<Longrightarrow> u \<in> set (w_users (snd (stmt ev w)))" for stmt :: "outside \<Rightarrow> world \<Rightarrow> (go_error + 'c) \<times> world"
    by (rule request_invariant [where P = "\<lambda>w. u \<in> set (w_users w)"]) (use that assms(1) in auto)
  show ?thesis
  proof (cases c)
    case (RRotate h n)
    obtain r w' where call: "RotateRefreshToken L h n w = (r, w')" by fastforce
    then show ?thesis using RRotate RotateRefreshToken_effect [OF call] assms(1) by auto
  qed (use assms in \<open>auto simp: fresh_issue_def snd_repo userCreateQuery_def tokenInsertQuery_def
        tokenRevokeQuery_def tokenConsumeActiveQuery_def token_consume_def tokenCleanupQuery_def
        tokenRevokeAllByUserQuery_def Let_def intro!: keep split: option.splits sum.splits\<close>)
qed

lemma db_steps_keep_user: "u \<in> set (w_users w0) \<Longrightarrow> db_steps L j w0 w \<Longrightarrow> u \<in> set (w_users w)"
  by (rule db_steps_invariant [where P = "\<lambda>w. u \<in> set (w_users w)"])
     (auto simp: permitted_keeps_user quiet_def)

lemma run_keeps_user:
  "u \<in> set (w_users w) \<Longrightarrow> u \<in> set (w_users (snd (run_calls (auth_exec L j cost) cs w)))"
proof (induction cs arbitrary: w)
  case (Cons c cs)
  have "u \<in> set (w_users (snd (auth_exec L j cost c w)))"
    using Cons.prems db_steps_keep_user auth_exec_steps by blast
  from Cons.IH [OF this] show ?case by (simp only: snd_run_calls_Cons)
qed simp

lemma run_db_ok: "auth_db_ok w \<Longrightarrow> auth_db_ok (snd (run_calls (auth_exec L j cost) cs w))"
proof (induction cs arbitrary: w)
  case (Cons c cs)
  have "auth_db_ok (snd (auth_exec L j cost c w))"
    using Cons.prems db_steps_ok auth_exec_steps by blast
  from Cons.IH [OF this] show ?case by (simp only: snd_run_calls_Cons)
qed simp

text \<open>A \<open>Register\<close> that succeeds shows that the service has its keys and the user its identifier.\<close>

lemma generateTokenPair_keys:
  assumes "generateTokenPair L j u w = (Inr pair, w')"
  shows "js_accessKey j \<noteq> '''' \<and> js_refreshKey j \<noteq> '''' \<and> (\<exists>i \<in> user_ID ` set (w_users w'). uuid_in L (user_ID u) = Some i)"
proof -
  obtain a w1 t w2 where a: "GenerateAccessToken L j (user_ID u) (user_Username u) w = (Inr a, w1)"
    and t: "GenerateRefreshToken L j (user_ID u) w1 = (Inr t, w2)"
    and store: "StoreRefreshToken L \<lparr>rt_ExpiresAt = snd t, rt_CreatedAt = zero_time, rt_ID = '''',
        rt_UserID = user_ID u, rt_Token = hashToken L (fst t), rt_IsRevoked = False\<rparr> w2 = (Inr (), w')"
    using assms by (auto simp: generateTokenPair_def split: prod.splits sum.splits)
  obtain v ev where "tokenInsertQuery L (user_ID u) (hashToken L (fst t)) (snd t) False ev (w2\<lparr>w_tick := Suc (w_tick w2)\<rparr>) = (Inr v, w')"
    using store by (auto simp: StoreRefreshToken_def dest: request_okD split: prod.splits sum.splits)
  then obtain rows where ins: "token_insert L (w_users w') (user_ID u) (hashToken L (fst t)) (snd t) False ev (w_tokens w2) = Inr rows"
    by (auto simp: tokenInsertQuery_def split: sum.splits)
  have "\<exists>i \<in> user_ID ` set (w_users w'). uuid_in L (user_ID u) = Some i"
    using token_insert_Inr [OF ins] by (metis image_eqI)
  with a t show ?thesis
    using generateToken_Inr unfolding GenerateAccessToken_def GenerateRefreshToken_def by (metis prod.collapse)
qed

lemma Register_Inr:
  assumes "Register L j cost e n p w = (Inr pair, w')"
  shows "ValidatePassword p = None \<and> js_accessKey j \<noteq> '''' \<and> js_refreshKey j \<noteq> ''''
     \<and> (\<exists>u salt. u \<in> set (w_users w') \<and> user_Email u = e \<and> user_Username u = n
         \<and> user_ID u = pair_UserID pair \<and> bcrypt_generate L p cost salt = Inr (user_PasswordHash u)
         \<and> (\<exists>i \<in> user_ID ` set (w_users w'). uuid_in L (user_ID u) = Some i))"
proof -
  obtain f w1 h w2 u0 c w3 where pw: "ValidatePassword p = None"
    and h: "Hash L cost p w1 = (Inr h, w2)"
    and u0: "NewUser e n h = Inr u0" and c: "UserCreate u0 w2 = (Inr c, w3)"
    and gen: "generateTokenPair L j c w3 = (Inr pair, w')"
    using assms by (auto simp: Register_def split: option.splits sum.splits prod.splits if_splits)
  have "w_users w' = w_users w3" and pair: "pair_UserID pair = user_ID c"
  proof -
    have ins: "w_users wb = w_users wa" if "StoreRefreshToken L t wa = (r, wb)" for t wa r wb
    proof -
      have "w_users (snd (request (tokenInsertQuery L (rt_UserID t) (rt_Token t) (rt_ExpiresAt t)
          (rt_IsRevoked t)) wa)) = w_users wa"
        by (rule request_invariant [where P = "\<lambda>w'. w_users w' = w_users wa"])
           (auto simp: tokenInsertQuery_def split: sum.splits)
      then show ?thesis using that snd_StoreRefreshToken [of L t wa] by simp
    qed
    have gt: "w_users wb = w_users wa" if "generateToken L a1 a2 a3 a4 a5 wa = (r, wb)" for a1 a2 a3 a4 a5 wa r wb
      using generateToken_quiet [of wa L a1 a2 a3 a4 a5] that by (simp add: quiet_def)
    show "w_users w' = w_users w3" "pair_UserID pair = user_ID c"
      using gen
      by (auto simp: generateTokenPair_def GenerateAccessToken_def GenerateRefreshToken_def
            dest!: ins gt split: prod.splits sum.splits)
  qed
  moreover obtain salt where "bcrypt_generate L p cost salt = Inr h" using Hash_Inr [OF h] by blast
  moreover have "user_Email u0 = e" "user_Username u0 = n" "user_PasswordHash u0 = h"
    using u0 by (auto simp: NewUser_cases)
  ultimately show ?thesis
    using UserCreate_Inr [OF c] pw pair generateTokenPair_keys [OF gen] by (intro conjI exI [of _ c] exI [of _ salt]) auto
qed

text \<open>While nothing is lost, the tokens of a user are made unless a value drawn for them is taken.\<close>

lemma generateToken_signs:
  assumes "\<forall>k c. k \<noteq> '''' \<longrightarrow> (\<exists>t. jwt_sign L k c = Inr t)" and "key \<noteq> ''''"
  obtains t where "generateToken L u n ttl use key w =
      (Inr (t, o_now (w_outside w (w_tick w)) + ttl), w\<lparr>w_tick := Suc (Suc (w_tick w))\<rparr>)"
    "jwt_sign L key (signed_claims L u n use (o_now (w_outside w (w_tick w))) (o_now (w_outside w (w_tick w)) + ttl)
       (o_random (w_outside w (Suc (w_tick w))))) = Inr t"
proof -
  obtain t where "jwt_sign L key (signed_claims L u n use (o_now (w_outside w (w_tick w))) (o_now (w_outside w (w_tick w)) + ttl)
       (o_random (w_outside w (Suc (w_tick w))))) = Inr t"
    using assms by blast
  with that [OF _ this] assms(2) show ?thesis
    by (simp add: generateToken_def signed_claims_def Let_def uuid_NewString_def)
qed

lemma generateToken_works:
  assumes "\<forall>k c. k \<noteq> '''' \<longrightarrow> (\<exists>t. jwt_sign L k c = Inr t)" and "key \<noteq> ''''"
  shows "\<exists>t x. generateToken L u n ttl use key w = (Inr (t, x), w\<lparr>w_tick := Suc (Suc (w_tick w))\<rparr>)"
  by (rule generateToken_signs [OF assms, of u n ttl use w]) blast

text \<open>
  Of the values drawn for the pair of tokens of the user \<open>u\<close> from \<open>w\<close> on, the two that are stored are
  new to the table: the hash of the refresh token, and the identifier of its row.
\<close>

definition pair_is_new :: "libs \<Rightarrow> jwt_service \<Rightarrow> string \<Rightarrow> world \<Rightarrow> bool" where
  "pair_is_new L j u w \<longleftrightarrow>
     (let now = o_now (w_outside w (w_tick w + 2)); rid = o_random (w_outside w (w_tick w + 3));
          c = signed_claims L u '''' tokenUseRefresh now (now + js_refreshTokenTTL j) rid
      in (case jwt_sign L (js_refreshKey j) c of
            Inl e \<Rightarrow> True | Inr t \<Rightarrow> hashToken L t \<notin> rt_Token ` set (w_tokens w))
         \<and> o_uuid (w_outside w (w_tick w + 4)) \<notin> rt_ID ` set (w_tokens w))"

lemma pair_is_new_log:
  "pair_is_new L j u (w\<lparr>w_tick := n, w_log := l\<rparr>) = pair_is_new L j u (w\<lparr>w_tick := n\<rparr>)"
  by (simp add: pair_is_new_def Let_def split: sum.splits)

lemma generateTokenPair_calm:
  assumes "calm w" and "\<forall>k c. k \<noteq> '''' \<longrightarrow> (\<exists>t. jwt_sign L k c = Inr t)" and "js_accessKey j \<noteq> ''''"
    and "js_refreshKey j \<noteq> ''''" and "uuid_in L (user_ID u) = Some i" and "i \<in> user_ID ` set (w_users w)"
    and "pair_is_new L j (user_ID u) w"
  shows "\<exists>tp w'. generateTokenPair L j u w = (Inr tp, w') \<and> pair_UserID tp = user_ID u
     \<and> pair_Username tp = user_Username u"
proof -
  obtain a where a: "GenerateAccessToken L j (user_ID u) (user_Username u) w =
      (Inr (a, o_now (w_outside w (w_tick w)) + js_accessTokenTTL j), w\<lparr>w_tick := Suc (Suc (w_tick w))\<rparr>)"
    unfolding GenerateAccessToken_def using generateToken_signs [OF assms(2,3)] by metis
  let ?w1 = "w\<lparr>w_tick := Suc (Suc (w_tick w))\<rparr>"
  let ?now = "o_now (w_outside w (Suc (Suc (w_tick w))))"
  obtain t where t: "GenerateRefreshToken L j (user_ID u) ?w1 =
      (Inr (t, ?now + js_refreshTokenTTL j), w\<lparr>w_tick := Suc (Suc (Suc (Suc (w_tick w))))\<rparr>)"
    and sign: "jwt_sign L (js_refreshKey j) (signed_claims L (user_ID u) '''' tokenUseRefresh ?now
       (?now + js_refreshTokenTTL j) (o_random (w_outside w (Suc (Suc (Suc (w_tick w))))))) = Inr t"
    unfolding GenerateRefreshToken_def
    using generateToken_signs [OF assms(2,4), of "user_ID u" "''''" "js_refreshTokenTTL j" tokenUseRefresh ?w1] by auto
  have "row \<in> set (w_tokens w) \<Longrightarrow> rt_Token row \<noteq> hashToken L t
      \<and> rt_ID row \<noteq> o_uuid (w_outside w (Suc (Suc (Suc (Suc (w_tick w))))))" for row
    using assms(7) sign by (auto simp: pair_is_new_def Let_def numeral_eq_Suc image_iff)
  moreover have "o_fault (w_outside w (Suc (Suc (Suc (Suc (w_tick w)))))) = Served" using assms(1) by simp
  ultimately show ?thesis
    using assms(5,6)
    by (auto simp: generateTokenPair_def a t StoreRefreshToken_def request_Served tokenInsertQuery_def token_insert_def
          split: sum.splits)
qed

text \<open>
  C28: A registered user can log in. After a successful \<open>Register\<close> and any further history of
  requests by anybody, once nothing is lost any more, \<open>Login\<close> with the same email and password
  succeeds, with a pair of tokens of the user that was registered: nothing is asked of the outside
  but that signing with a key does not fail and that the hash of the refresh token it signs and the
  identifier of its row are not in the table yet. (Two interactions of \<open>Login\<close> come before the
  tokens: the lookup of the user and the comparison of the hash.)
\<close>

theorem registered_can_login:
  assumes "bcrypt_ok L" and "\<forall>k c. k \<noteq> '''' \<longrightarrow> (\<exists>t. jwt_sign L k c = Inr t)" and "auth_db_ok w"
    and "Register L j cost e n p w = (Inr pair, w1)"
    and "w2 = snd (run_calls (auth_exec L j cost) cs w1)" and "calm w2"
    and "pair_is_new L j (pair_UserID pair) (w2\<lparr>w_tick := w_tick w2 + 2\<rparr>)"
  shows "\<exists>tp w3. Login L j e p w2 = (Inr tp, w3) \<and> pair_UserID tp = pair_UserID pair \<and> pair_Username tp = n"
proof -
  obtain u salt i where u: "u \<in> set (w_users w1)" "user_Email u = e" "user_Username u = n"
    "user_ID u = pair_UserID pair" and gen: "bcrypt_generate L p cost salt = Inr (user_PasswordHash u)"
    and pw: "ValidatePassword p = None" and keys: "js_accessKey j \<noteq> ''''" "js_refreshKey j \<noteq> ''''"
    and i: "i \<in> user_ID ` set (w_users w1)" "uuid_in L (user_ID u) = Some i"
    using Register_Inr [OF assms(4)] by blast
  have "db_steps L j w w1" using steps_Register [OF assms(4) db_steps.here] .
  then have ok: "auth_db_ok w2" using assms(3,5) db_steps_ok run_db_ok by blast
  have kept: "x \<in> set (w_users w2)" if "x \<in> set (w_users w1)" for x using run_keeps_user that assms(5) by blast
  then have f: "find (\<lambda>x. user_Email x = e) (w_users w2) = Some u"
    using find_unique [of user_Email "w_users w2" u] ok u(1,2) by (simp add: auth_db_ok_def)
  have hash: "user_PasswordHash u \<noteq> ''''" "bcrypt_compare L (user_PasswordHash u) p = None"
    using assms(1) gen by (auto simp: bcrypt_ok_def)
  have "p \<noteq> ''''" using pw by (auto simp: ValidatePassword_None)
  let ?w3 = "w2\<lparr>w_tick := Suc (Suc (w_tick w2)), w_log := w_log w2 @ [HashCompared (login_hash e w2)]\<rparr>"
  have login: "Login L j e p w2 =
      (case generateTokenPair L j u ?w3 of
         (Inl err, w4) \<Rightarrow> (Inl (errorf_w ''login: generating tokens'' err), w4)
       | (Inr tp, w4) \<Rightarrow> (Inr tp, w4))"
    using Login_calm [OF assms(6), of p e L j] f hash \<open>p \<noteq> ''''\<close> by (simp add: login_hash_def)
  have "pair_is_new L j (user_ID u) ?w3" using assms(7) u(4) by (simp add: pair_is_new_log)
  moreover have "i \<in> user_ID ` set (w_users ?w3)" using kept i(1) by auto
  moreover have "calm ?w3" using assms(6) by simp
  ultimately obtain tp w4 where "generateTokenPair L j u ?w3 = (Inr tp, w4)" "pair_UserID tp = user_ID u"
    "pair_Username tp = user_Username u"
    using generateTokenPair_calm [OF _ assms(2) keys i(2), of ?w3] by blast
  then show ?thesis using u by (simp add: login)
qed

lemma witness_register:
  "\<exists>pair w'. Register sample_libs witness_issuer 10 ''bob@b.cd'' ''bob'' ''secret77'' sample_world = (Inr pair, w')
     \<and> w_tick w' = 9 \<and> (\<exists>row. w_tokens w' = [row] \<and> rt_ID row = o_uuid (sample_outside 8)
         \<and> rt_Token row = ''#r.refresh.'' @ o_uuid (sample_outside 3) @ ''.'' @ o_random (sample_outside 7))"
proof -
  have "ValidateEmail ''bob@b.cd'' = None" "trim_space ''bob'' \<noteq> ''''" by code_simp+
  moreover have "ValidatePassword ''secret77'' = None"
    by (simp add: ValidatePassword_None is_letter_def is_digit_def)
  ultimately show ?thesis
    by (simp add: Register_def FindByEmail_def findUser_def userFindByEmailQuery_def scanOne_def
          query_row_def request_def ask_def pgx_no_rows_def Hash_def NewUser_def maxUsernameLength_def
          UserCreate_def userCreateQuery_def user_constraints_def char_count_def generateTokenPair_def
          GenerateAccessToken_def GenerateRefreshToken_def generateToken_def StoreRefreshToken_def
          tokenInsertQuery_def token_insert_def hashToken_def Let_def witness_issuer_def NewIssuer_def
          sample_defs numeral_eq_Suc tokenUseRefresh_def tokenUseAccess_def)
qed

lemma trailing_zeros:
  "takeWhile (\<lambda>c. c = CHR ''0'') (rev (xs @ CHR ''r'' # replicate n CHR ''0'')) = replicate n CHR ''0''"
proof -
  have "takeWhile (\<lambda>c. c = CHR ''0'') (replicate n CHR ''0'' @ CHR ''r'' # ys) = replicate n CHR ''0''" for ys
    by (induction n) simp_all
  then show ?thesis by simp
qed

lemma registered_can_login_witness:
  "\<exists>pair w1 tp w3. Register sample_libs witness_issuer 10 ''bob@b.cd'' ''bob'' ''secret77'' sample_world = (Inr pair, w1)
     \<and> Login sample_libs witness_issuer ''bob@b.cd'' ''secret77''
         (snd (run_calls (auth_exec sample_libs witness_issuer 10) [] w1)) = (Inr tp, w3)
     \<and> pair_UserID tp = pair_UserID pair"
proof -
  obtain pair w1 row where call:
    "Register sample_libs witness_issuer 10 ''bob@b.cd'' ''bob'' ''secret77'' sample_world = (Inr pair, w1)"
    and w1: "w_tick w1 = 9" "w_tokens w1 = [row]" "rt_ID row = o_uuid (sample_outside 8)"
      "rt_Token row = ''#r.refresh.'' @ o_uuid (sample_outside 3) @ ''.'' @ o_random (sample_outside 7)"
    using witness_register by blast
  have ok: "auth_db_ok sample_world" "bcrypt_ok sample_libs" "\<forall>k c. k \<noteq> '''' \<longrightarrow> (\<exists>t. jwt_sign sample_libs k c = Inr t)"
    by (auto simp: auth_db_ok_def bcrypt_ok_def sample_defs)
  have out: "w_outside w1 = sample_outside"
    using db_steps_later [OF steps_Register [OF call db_steps.here]] by (simp add: later_def sample_world_def)
  then have "calm (snd (run_calls (auth_exec sample_libs witness_issuer 10) [] w1))"
    by (simp add: calm_def sample_defs)
  moreover have "pair_is_new sample_libs witness_issuer (pair_UserID pair)
      ((snd (run_calls (auth_exec sample_libs witness_issuer 10) [] w1))\<lparr>w_tick := w_tick (snd (run_calls (auth_exec sample_libs witness_issuer 10) [] w1)) + 2\<rparr>)"
  proof -
    have random: "o_random (sample_outside i) = CHR ''r'' # replicate i CHR ''0''" for i
      by (simp add: sample_outside_def)
    have "k @ ''.refresh.'' @ u @ ''.'' @ o_random (sample_outside 14)
        \<noteq> ''r.refresh.'' @ o_uuid (sample_outside 3) @ ''.'' @ o_random (sample_outside 7)" for k u
    proof
      assume eq: "k @ ''.refresh.'' @ u @ ''.'' @ o_random (sample_outside 14)
        = ''r.refresh.'' @ o_uuid (sample_outside 3) @ ''.'' @ o_random (sample_outside 7)"
      have "replicate 14 CHR ''0'' = replicate 7 CHR ''0''"
        using arg_cong [OF eq [unfolded random append_assoc [symmetric]], of "\<lambda>s. takeWhile (\<lambda>c. c = CHR ''0'') (rev s)"]
        by (simp only: trailing_zeros)
      then have "(14::nat) = 7" by (metis length_replicate)
      then show False by simp
    qed
    then show ?thesis
      using w1 out by (auto simp: pair_is_new_def Let_def hashToken_def sample_libs_def signed_claims_def
          tokenUseRefresh_def sample_outside_def)
  qed
  ultimately show ?thesis
    using registered_can_login [OF ok(2,3,1) call refl] call by blast
qed

subsection \<open>Every user of the table is valid\<close>

definition users_ok :: "libs \<Rightarrow> world \<Rightarrow> bool" where
  "users_ok L w \<longleftrightarrow> list_all (registered L) (w_users w)"

lemma userCreateQuery_valid:
  "users_ok L w \<Longrightarrow> registered L u \<Longrightarrow>
     users_ok L (snd (userCreateQuery (user_Email u) (user_Username u) (user_PasswordHash u) ev w))"
  by (auto simp: users_ok_def userCreateQuery_def registered_def user_ok_def Let_def split: option.splits)

lemma permitted_users_ok:
  assumes "users_ok L w" and "fresh_issue L j w0 c"
  shows "users_ok L (snd (repo_exec L c w))"
proof -
  have keep: "users_ok L (snd (request stmt w))"
    if "\<And>ev w. users_ok L w \<Longrightarrow> users_ok L (snd (stmt ev w))" for stmt :: "outside \<Rightarrow> world \<Rightarrow> (go_error + 'c) \<times> world"
    by (rule request_invariant [where P = "users_ok L"]) (use that assms(1) in \<open>auto simp: users_ok_def\<close>)
  show ?thesis
  proof (cases c)
    case (RUserCreate u)
    then have "registered L u" using assms(2) by (simp add: fresh_issue_def)
    with RUserCreate show ?thesis
      by (auto simp: snd_repo intro!: keep userCreateQuery_valid)
  next
    case (RRotate h n)
    obtain r w' where call: "RotateRefreshToken L h n w = (r, w')" by fastforce
    then show ?thesis using RRotate RotateRefreshToken_effect [OF call] assms(1) by (auto simp: users_ok_def)
  qed (use assms in \<open>auto simp: users_ok_def fresh_issue_def snd_repo tokenInsertQuery_def
        tokenRevokeQuery_def tokenConsumeActiveQuery_def token_consume_def tokenCleanupQuery_def
        tokenRevokeAllByUserQuery_def Let_def intro!: keep [unfolded users_ok_def] split: option.splits sum.splits\<close>)
qed

interpretation users: kept_invariant "auth_exec L j cost" "users_ok L" for L j cost
proof unfold_locales
  show "users_ok L (snd (auth_exec L j cost c w))" if "users_ok L w" for c w
  proof (rule db_steps_invariant [where P = "users_ok L", OF _ _ that auth_exec_steps])
    show "users_ok L w2" if "users_ok L w1" "quiet w1 w2" for w1 w2
      using that by (simp add: users_ok_def quiet_def)
  qed (rule permitted_users_ok)
qed

text \<open>
  C18: Every history of requests to the auth service leaves only users in the table that
  \<open>NewUser\<close> accepts (a valid email, and a username that is not blank and at most 50 bytes long), and
  in place of a password only what bcrypt made of a password \<open>ValidatePassword\<close> accepts.
\<close>

theorem registered_users_valid:
  assumes "list_all (registered L) (w_users w)"
  shows "list_all (registered L) (w_users (snd (run_calls (auth_exec L j cost) cs w)))"
  using users.run_inv [of L w j cost cs] assms unfolding users_ok_def .

lemma registered_users_valid_witness:
  "list_all (registered sample_libs) (w_users (snd (run_calls (auth_exec sample_libs witness_issuer 10)
     [ARegister ''bob@b.cd'' ''bob'' ''secret77'', ARegister ''nobody'' ''x'' ''y''] sample_world)))"
  by (rule registered_users_valid) (simp add: sample_world_def)

subsection \<open>An expired token\<close>

lemma FindByID_calm:
  "calm w \<Longrightarrow> uuid_in L i = Some k \<Longrightarrow> find (\<lambda>u. user_ID u = k) (w_users w) = Some u \<Longrightarrow>
     FindByID L i w = (Inr u, w\<lparr>w_tick := Suc (w_tick w)\<rparr>)"
  by (simp add: FindByID_def findUser_def scanOne_def query_row_def request_Served userFindByIDQuery_def)

lemma RotateRefreshToken_inactive:
  assumes "calm w" and "find (token_active h (o_now (w_outside w (w_tick w)))) (w_tokens w) = None"
  shows "RotateRefreshToken L h (Some nt) w = (Inl (Sentinel ErrInvalidRefreshToken), w\<lparr>w_tick := w_tick w + 2\<rparr>)"
  using assms by (simp add: RotateRefreshToken_def tx_begin_def request_Served token_consume_def)

lemma RotateRefreshToken_active:
  assumes "calm w" and "find (token_active h (o_now (w_outside w (w_tick w)))) (w_tokens w) = Some row"
    and "rt_UserID nt = rt_UserID row"
  shows "RotateRefreshToken L h (Some nt) w =
     (case token_insert L (w_users w) (rt_UserID row) (rt_Token nt) (rt_ExpiresAt nt) False (w_outside w (Suc (Suc (w_tick w))))
             (update_where (token_active h (o_now (w_outside w (w_tick w)))) revoke (w_tokens w)) of
        Inl err \<Rightarrow> (Inl (errorf_w ''tokens.RotateRefreshToken insert'' err), w\<lparr>w_tick := Suc (Suc (Suc (w_tick w)))\<rparr>)
      | Inr ts \<Rightarrow> (Inr (revoke row), w\<lparr>w_tick := Suc (Suc (Suc (Suc (w_tick w)))), w_tokens := ts\<rparr>))"
proof -
  have served: "o_fault (w_outside w (Suc (w_tick w))) = Served" "o_fault (w_outside w (Suc (Suc (w_tick w)))) = Served"
    "o_fault (w_outside w (Suc (Suc (Suc (w_tick w))))) = Served" "o_fault (w_outside w (w_tick w)) = Served"
    using assms(1) by simp_all
  let ?now = "o_now (w_outside w (w_tick w))"
  let ?w1 = "w\<lparr>w_tick := Suc (w_tick w)\<rparr>"
  let ?w2 = "w\<lparr>w_tick := Suc (Suc (w_tick w))\<rparr>"
  let ?tx1 = "update_where (token_active h ?now) revoke (w_tokens w)"
  have b: "tx_begin w = (Inr (?now, w_tokens w), ?w1)"
    using served by (simp add: tx_begin_def request_Served)
  have c: "request (\<lambda>ev w'. (Inr (token_consume h ?now (w_tokens w)), w')) ?w1 = (Inr (Some (revoke row), ?tx1), ?w2)"
    using served assms(2) by (simp add: request_Served token_consume_def)
  have d: "request (\<lambda>ev w. (token_insert L (w_users w) (rt_UserID (revoke row)) (rt_Token nt) (rt_ExpiresAt nt) False ev ?tx1, w)) ?w2
      = (token_insert L (w_users w) (rt_UserID row) (rt_Token nt) (rt_ExpiresAt nt) False (w_outside w (Suc (Suc (w_tick w)))) ?tx1,
         w\<lparr>w_tick := Suc (Suc (Suc (w_tick w)))\<rparr>)"
    using served by (simp add: request_Served)
  have commit: "tx_commit ts (w\<lparr>w_tick := Suc (Suc (Suc (w_tick w)))\<rparr>)
      = (Inr (), w\<lparr>w_tick := Suc (Suc (Suc (Suc (w_tick w)))), w_tokens := ts\<rparr>)" for ts
    using served by (simp add: tx_commit_def request_Served)
  have cond: "\<not> (rt_UserID nt \<noteq> [] \<and> rt_UserID (revoke row) \<noteq> rt_UserID nt)" using assms(3) by simp
  show ?thesis
    by (cases "token_insert L (w_users w) (rt_UserID row) (rt_Token nt) (rt_ExpiresAt nt) False (w_outside w (Suc (Suc (w_tick w)))) ?tx1")
       (simp_all only: RotateRefreshToken_def b c d cond commit prod.case sum.case option.case if_False)
qed

lemma find_only:
  assumes "x \<in> set xs" and "P x" and "\<And>y. y \<in> set xs \<Longrightarrow> P y \<Longrightarrow> y = x"
  shows "find P xs = Some x"
  using assms find_SomeD [of P xs] by (metis find_None_iff option.exhaust)

lemma token_insert_no_sentinel: "token_insert L us u tok x r ev rows = Inl e \<Longrightarrow> \<not> errors_is e s"
  by (auto simp: token_insert_def bad_uuid_error_def unique_error_def foreign_key_error_def split: option.splits if_splits)

text \<open>
  \<open>RefreshTokens\<close> while nothing is lost, for a live token that has not expired by the clock of the
  service: seven interactions come before the rotation, and its eighth is the \<open>Begin\<close> that reads
  the clock of the database.
\<close>

lemma RefreshTokens_calm:
  assumes "calm w" and "auth_db_ok w" and "row \<in> set (w_tokens w)" and "rt_Token row = hashToken L t"
    and "\<not> rt_IsRevoked row" and "uuid_in L (rt_UserID row) = Some (rt_UserID row)"
    and "\<forall>k c. k \<noteq> '''' \<longrightarrow> (\<exists>s. jwt_sign L k c = Inr s)" and "js_accessKey j \<noteq> ''''" and "js_refreshKey j \<noteq> ''''"
    and "o_now (w_outside w (w_tick w + 1)) \<le> rt_ExpiresAt row"
  shows "\<exists>nt pair. rt_UserID nt = rt_UserID row \<and> RefreshTokens L j t w =
     (case RotateRefreshToken L (hashToken L t) (Some nt) (w\<lparr>w_tick := w_tick w + 7\<rparr>) of
        (Inl rotateErr, w6) \<Rightarrow>
          if errors_is rotateErr ErrInvalidRefreshToken
            then (case rejectRefreshReuse L (rt_UserID row) w6 of (e, w7) \<Rightarrow> (Inl e, w7))
          else (Inl (errorf_w ''refresh: rotating refresh token'' rotateErr), w6)
      | (Inr _, w6) \<Rightarrow> (Inr pair, w6))"
proof -
  have f: "FindByToken (hashToken L t) w = (Inr row, w\<lparr>w_tick := Suc (w_tick w)\<rparr>)"
    using assms(1-4) by (simp add: FindByToken_calm find_unique auth_db_ok_def flip: assms(4))
  obtain u where u: "u \<in> set (w_users w)" "user_ID u = rt_UserID row"
    using assms(2,3) by (auto simp: auth_db_ok_def)
  then have "find (\<lambda>x. user_ID x = rt_UserID row) (w_users w) = Some u"
    using find_unique [of user_ID "w_users w" u] assms(2) by (simp add: auth_db_ok_def)
  then have g: "FindByID L (rt_UserID row) (w\<lparr>w_tick := Suc (Suc (w_tick w))\<rparr>) = (Inr u, w\<lparr>w_tick := Suc (Suc (Suc (w_tick w)))\<rparr>)"
    using assms(1,6) FindByID_calm [of "w\<lparr>w_tick := Suc (Suc (w_tick w))\<rparr>"] by simp
  obtain a x where a: "GenerateAccessToken L j (user_ID u) (user_Username u) (w\<lparr>w_tick := Suc (Suc (Suc (w_tick w)))\<rparr>)
      = (Inr (a, x), w\<lparr>w_tick := Suc (Suc (Suc (Suc (Suc (w_tick w)))))\<rparr>)"
    using generateToken_works [OF assms(7,8), of "user_ID u" "user_Username u" "js_accessTokenTTL j" tokenUseAccess
        "w\<lparr>w_tick := Suc (Suc (Suc (w_tick w)))\<rparr>"]
    by (auto simp: GenerateAccessToken_def)
  obtain b y where b: "GenerateRefreshToken L j (user_ID u) (w\<lparr>w_tick := Suc (Suc (Suc (Suc (Suc (w_tick w)))))\<rparr>)
      = (Inr (b, y), w\<lparr>w_tick := w_tick w + 7\<rparr>)"
    using generateToken_works [OF assms(7,9), of "user_ID u" "''''" "js_refreshTokenTTL j" tokenUseRefresh
        "w\<lparr>w_tick := Suc (Suc (Suc (Suc (Suc (w_tick w)))))\<rparr>"]
    by (auto simp: GenerateRefreshToken_def numeral_eq_Suc)
  let ?nt = "\<lparr>rt_ExpiresAt = y, rt_CreatedAt = zero_time, rt_ID = '''', rt_UserID = user_ID u, rt_Token = hashToken L b,
      rt_IsRevoked = False\<rparr>"
  let ?pair = "\<lparr>pair_ExpiresAt = x, pair_UserID = user_ID u, pair_Username = user_Username u, pair_AccessToken = a,
      pair_RefreshToken = b\<rparr>"
  have "\<not> o_now (w_outside w (Suc (w_tick w))) > rt_ExpiresAt row" using assms(10) by simp
  then have "RefreshTokens L j t w =
     (case RotateRefreshToken L (hashToken L t) (Some ?nt) (w\<lparr>w_tick := w_tick w + 7\<rparr>) of
        (Inl rotateErr, w6) \<Rightarrow>
          if errors_is rotateErr ErrInvalidRefreshToken
            then (case rejectRefreshReuse L (rt_UserID row) w6 of (e, w7) \<Rightarrow> (Inl e, w7))
          else (Inl (errorf_w ''refresh: rotating refresh token'' rotateErr), w6)
      | (Inr _, w6) \<Rightarrow> (Inr ?pair, w6))"
    using assms(5) f g a b by (simp add: RefreshTokens_def Let_def)
  then show ?thesis using u(2) by (intro exI [of _ ?nt] exI [of _ ?pair]) simp
qed

text \<open>
  C29: Whether a refresh token that was never used is taken for a stolen one depends on two clocks.
  While nothing is lost, \<open>RefreshTokens\<close> with a live token compares its expiry first with the clock
  of the service and later, in the rotation, with that of the database. Expired by the first, it is
  refused as invalid and no row changes. Not expired by the first but by the second, it is refused
  as a token that is used again: every session of its user is revoked, with
  \<open>ErrRevokedRefreshToken\<close>, and no row of another user changes. Expired by neither, it is never
  taken for a stolen one: every other row stays as it is.
\<close>

theorem expiry_race_revokes_sessions:
  assumes "calm w" and "auth_db_ok w" and "row \<in> set (w_tokens w)" and "rt_Token row = hashToken L t"
    and "\<not> rt_IsRevoked row" and "uuid_in L (rt_UserID row) = Some (rt_UserID row)" and "rt_UserID row \<noteq> ''''"
    and "\<forall>k c. k \<noteq> '''' \<longrightarrow> (\<exists>s. jwt_sign L k c = Inr s)" and "js_accessKey j \<noteq> ''''" and "js_refreshKey j \<noteq> ''''"
    and "service_clock = o_now (w_outside w (w_tick w + 1))" and "database_clock = o_now (w_outside w (w_tick w + 7))"
    and "RefreshTokens L j t w = (r, w')"
  shows "(if rt_ExpiresAt row < service_clock
            then r = Inl (errorf_w ''refresh'' (Sentinel ErrInvalidRefreshToken)) \<and> w_tokens w' = w_tokens w
          else if rt_ExpiresAt row \<le> database_clock
            then r = Inl (errorf_w ''refresh'' (Sentinel ErrRevokedRefreshToken))
               \<and> w_tokens w' = update_where (\<lambda>x. rt_UserID x = rt_UserID row \<and> \<not> rt_IsRevoked x) revoke (w_tokens w)
          else \<not> (\<exists>e. r = Inl e \<and> errors_is e ErrRevokedRefreshToken)
               \<and> (w_tokens w' = w_tokens w
                  \<or> (\<exists>new. w_tokens w' = update_where (\<lambda>x. x = row) revoke (w_tokens w) @ [new])))
     \<and> w_users w' = w_users w"
proof -
  let ?h = "hashToken L t"
  let ?w7 = "w\<lparr>w_tick := w_tick w + 7\<rparr>"
  have dist: "distinct (map rt_Token (w_tokens w))" using assms(2) by (simp add: auth_db_ok_def)
  have only: "token_active ?h database_clock x \<longleftrightarrow> x = row \<and> database_clock < rt_ExpiresAt row"
    if "x \<in> set (w_tokens w)" for x
    using distinct_map_inj [OF dist that assms(3)] assms(4,5) by (auto simp: token_active_def)
  show ?thesis
  proof (cases "rt_ExpiresAt row < service_clock")
    case True
    have "FindByToken ?h w = (Inr row, w\<lparr>w_tick := Suc (w_tick w)\<rparr>)"
      using assms(1-4) by (simp add: FindByToken_calm find_unique auth_db_ok_def flip: assms(4))
    then show ?thesis using True assms(5,11,13) by (auto simp: RefreshTokens_def Let_def)
  next
    case False
    then have "o_now (w_outside w (w_tick w + 1)) \<le> rt_ExpiresAt row" using assms(11) by simp
    from RefreshTokens_calm [OF assms(1-6,8-10) this] obtain nt pair where nt: "rt_UserID nt = rt_UserID row"
      and call: "RefreshTokens L j t w = (case RotateRefreshToken L ?h (Some nt) ?w7 of
        (Inl rotateErr, w6) \<Rightarrow>
          if errors_is rotateErr ErrInvalidRefreshToken
            then (case rejectRefreshReuse L (rt_UserID row) w6 of (e, w7) \<Rightarrow> (Inl e, w7))
          else (Inl (errorf_w ''refresh: rotating refresh token'' rotateErr), w6)
      | (Inr _, w6) \<Rightarrow> (Inr pair, w6))" by blast
    have c7: "calm ?w7" using assms(1) by simp
    have now: "o_now (w_outside ?w7 (w_tick ?w7)) = database_clock" using assms(12) by simp
    show ?thesis
    proof (cases "rt_ExpiresAt row \<le> database_clock")
      case True
      then have "find (token_active ?h database_clock) (w_tokens ?w7) = None"
        using only by (auto simp: find_None_iff)
      from RotateRefreshToken_inactive [OF c7, unfolded now, OF this]
      have "RefreshTokens L j t w = (case rejectRefreshReuse L (rt_UserID row) (?w7\<lparr>w_tick := w_tick ?w7 + 2\<rparr>) of
          (e, w7) \<Rightarrow> (Inl e, w7))" by (simp add: call)
      moreover have "calm (?w7\<lparr>w_tick := w_tick ?w7 + 2\<rparr>)" using assms(1) by simp
      note rejectRefreshReuse_calm [OF this assms(6,7)]
      ultimately show ?thesis using True False assms(13) by simp
    next
      case valid: False
      have "find (token_active ?h database_clock) (w_tokens ?w7) = Some row"
        using valid only assms(3) by (intro find_only) auto
      note rot = RotateRefreshToken_active [OF c7, unfolded now, OF this nt]
      have upd: "update_where (token_active ?h database_clock) revoke (w_tokens w) = update_where (\<lambda>x. x = row) revoke (w_tokens w)"
        unfolding update_where_def by (rule map_cong [OF refl]) (use only valid in auto)
      show ?thesis
        using assms(13) False valid token_insert_no_sentinel token_insert_append
        by (auto simp: call rot upd split: sum.splits dest: token_insert_append token_insert_no_sentinel)
    qed
  qed
qed

text \<open>A token that expires two seconds after the service has looked at it, and another session of its user.\<close>

lemma expiry_race_revokes_sessions_witness:
  "fst (RefreshTokens sample_libs witness_issuer ''h'' (witness_auth\<lparr>w_tokens :=
      [witness_token\<lparr>rt_Token := ''#h'', rt_ExpiresAt := 3000000000\<rparr>,
       witness_token\<lparr>rt_Token := ''#other'', rt_ID := ''t2''\<rparr>]\<rparr>))
    = Inl (errorf_w ''refresh'' (Sentinel ErrRevokedRefreshToken))
   \<and> w_tokens (snd (RefreshTokens sample_libs witness_issuer ''h'' (witness_auth\<lparr>w_tokens :=
      [witness_token\<lparr>rt_Token := ''#h'', rt_ExpiresAt := 3000000000\<rparr>,
       witness_token\<lparr>rt_Token := ''#other'', rt_ID := ''t2''\<rparr>]\<rparr>)))
    = [witness_token\<lparr>rt_Token := ''#h'', rt_ExpiresAt := 3000000000, rt_IsRevoked := True\<rparr>,
       witness_token\<lparr>rt_Token := ''#other'', rt_ID := ''t2'', rt_IsRevoked := True\<rparr>]"
proof -
  let ?row = "witness_token\<lparr>rt_Token := ''#h'', rt_ExpiresAt := 3000000000\<rparr>"
  let ?w = "witness_auth\<lparr>w_tokens := [?row, witness_token\<lparr>rt_Token := ''#other'', rt_ID := ''t2''\<rparr>]\<rparr>"
  have "calm ?w" "auth_db_ok ?w" "?row \<in> set (w_tokens ?w)" "rt_Token ?row = hashToken sample_libs ''h''"
    "\<not> rt_IsRevoked ?row" "uuid_in sample_libs (rt_UserID ?row) = Some (rt_UserID ?row)" "rt_UserID ?row \<noteq> ''''"
    "\<forall>k c. k \<noteq> '''' \<longrightarrow> (\<exists>s. jwt_sign sample_libs k c = Inr s)"
    "js_accessKey witness_issuer \<noteq> ''''" "js_refreshKey witness_issuer \<noteq> ''''"
    by (auto simp: calm_def auth_db_ok_def hashToken_def witness_session_defs)
  note race = expiry_race_revokes_sessions [OF this refl refl prod.collapse [symmetric]]
  show ?thesis
    using race by (simp add: witness_auth_defs update_where_def)
qed

end
