(* ===== verification/NoteRepository.thy ===== *)
theory NoteRepository
  imports Postgres Ports
begin

text \<open>
  The note repository of \<open>internal/adapters/postgres/notes.go\<close> over the table of
  \<open>migrations/notes\<close>, with its trigger that sets \<open>updated_at\<close> on every update.
\<close>

subsection \<open>The statements on \<open>notes\<close>\<close>

definition noteCreateQuery ::
  "libs \<Rightarrow> string \<Rightarrow> string \<Rightarrow> string \<Rightarrow> outside \<Rightarrow> world \<Rightarrow> (go_error + Note option) \<times> world" where
  "noteCreateQuery L userID title content ev w =
     (case uuid_in L userID of
        None \<Rightarrow> (Inl (bad_uuid_error ev), w)
      | Some uid \<Rightarrow>
          if char_count title > 255 then (Inl (too_long_error ev), w)
          else if \<exists>r \<in> set (w_notes w). note_ID r = o_uuid ev
            then (Inl (unique_error ev ''notes_pkey'' ''id'' (o_uuid ev)), w)
          else
            (let row = \<lparr>note_CreatedAt = o_now ev, note_UpdatedAt = o_now ev,
                        note_ID = o_uuid ev, note_UserID = uid, note_Title = title,
                        note_Content = content\<rparr>
             in (Inr (Some row), w\<lparr>w_notes := w_notes w @ [row]\<rparr>)))"

text \<open>\<open>WHERE id = $1 AND user_id = $2\<close>, with both parameters read as UUIDs.\<close>

definition owned_row :: "libs \<Rightarrow> string \<Rightarrow> string \<Rightarrow> (Note \<Rightarrow> bool) option" where
  "owned_row L noteID userID =
     (case uuid_in L noteID of
        None \<Rightarrow> None
      | Some i \<Rightarrow>
          (case uuid_in L userID of
             None \<Rightarrow> None
           | Some u \<Rightarrow> Some (\<lambda>n. note_ID n = i \<and> note_UserID n = u)))"

definition noteGetByIDQuery ::
  "libs \<Rightarrow> string \<Rightarrow> string \<Rightarrow> outside \<Rightarrow> world \<Rightarrow> (go_error + Note option) \<times> world" where
  "noteGetByIDQuery L noteID userID ev w =
     (case owned_row L noteID userID of
        None \<Rightarrow> (Inl (bad_uuid_error ev), w)
      | Some P \<Rightarrow> (Inr (find P (w_notes w)), w))"

text \<open>
  \<open>ORDER BY updated_at DESC LIMIT $2 OFFSET $3\<close>; rows with equal times keep the table's order, one
  of the orders Postgres may choose for them.
\<close>

definition noteListByUserQuery ::
  "libs \<Rightarrow> string \<Rightarrow> int \<Rightarrow> int \<Rightarrow> outside \<Rightarrow> world \<Rightarrow> go_error + Note list" where
  "noteListByUserQuery L userID limit offset ev w =
     (case uuid_in L userID of
        None \<Rightarrow> Inl (bad_uuid_error ev)
      | Some uid \<Rightarrow>
          if limit < 0 then Inl (PgError ''2201W'' '''' '''' (o_text ev))
          else if offset < 0 then Inl (PgError ''2201X'' '''' '''' (o_text ev))
          else Inr (take (nat limit) (drop (nat offset)
                 (sort_key (\<lambda>n. - note_UpdatedAt n)
                   (filter (\<lambda>n. note_UserID n = uid) (w_notes w))))))"

definition noteCountByUserQuery :: "libs \<Rightarrow> string \<Rightarrow> outside \<Rightarrow> world \<Rightarrow> (go_error + int) \<times> world" where
  "noteCountByUserQuery L userID ev w =
     (case uuid_in L userID of
        None \<Rightarrow> (Inl (bad_uuid_error ev), w)
      | Some uid \<Rightarrow> (Inr (int (length (filter (\<lambda>n. note_UserID n = uid) (w_notes w)))), w))"

text \<open>The trigger \<open>set_timestamp\<close>: an updated row's \<open>updated_at\<close> is \<open>NOW()\<close>.\<close>

definition trigger_set_timestamp :: "outside \<Rightarrow> Note \<Rightarrow> Note" where
  "trigger_set_timestamp ev n = n\<lparr>note_UpdatedAt := o_now ev\<rparr>"

definition noteUpdateQuery ::
  "libs \<Rightarrow> string \<Rightarrow> string \<Rightarrow> string \<Rightarrow> string \<Rightarrow> outside \<Rightarrow> world \<Rightarrow> (go_error + nat) \<times> world" where
  "noteUpdateQuery L title content noteID userID ev w =
     (case owned_row L noteID userID of
        None \<Rightarrow> (Inl (bad_uuid_error ev), w)
      | Some P \<Rightarrow>
          if char_count title > 255 \<and> (\<exists>n \<in> set (w_notes w). P n)
            then (Inl (too_long_error ev), w)
          else
            (Inr (length (filter P (w_notes w))),
             w\<lparr>w_notes := update_where P
                 (\<lambda>n. trigger_set_timestamp ev (n\<lparr>note_Title := title, note_Content := content\<rparr>))
                 (w_notes w)\<rparr>))"

definition noteDeleteQuery ::
  "libs \<Rightarrow> string \<Rightarrow> string \<Rightarrow> outside \<Rightarrow> world \<Rightarrow> (go_error + nat) \<times> world" where
  "noteDeleteQuery L noteID userID ev w =
     (case owned_row L noteID userID of
        None \<Rightarrow> (Inl (bad_uuid_error ev), w)
      | Some P \<Rightarrow>
          (Inr (length (filter P (w_notes w))), w\<lparr>w_notes := delete_where P (w_notes w)\<rparr>))"

subsection \<open>\<open>NoteRepository\<close>\<close>

definition NoteRepo_Create :: "libs \<Rightarrow> Note \<Rightarrow> world \<Rightarrow> (go_error + Note) \<times> world" where
  "NoteRepo_Create L n w =
     (case scanOne (query_row (noteCreateQuery L (note_UserID n) (note_Title n) (note_Content n)) w) of
        (Inl err, w1) \<Rightarrow> (Inl (errorf_w ''notes.Create'' err), w1)
      | (Inr created, w1) \<Rightarrow> (Inr created, w1))"

definition NoteRepo_GetByID :: "libs \<Rightarrow> string \<Rightarrow> string \<Rightarrow> world \<Rightarrow> (go_error + Note) \<times> world" where
  "NoteRepo_GetByID L noteID userID w =
     (case scanOne (query_row (noteGetByIDQuery L noteID userID) w) of
        (Inl err, w1) \<Rightarrow>
          if errors_is_library err PgxNoRows then (Inl (Sentinel ErrNoteNotFound), w1)
          else (Inl (errorf_w ''notes.GetByID'' err), w1)
      | (Inr n, w1) \<Rightarrow> (Inr n, w1))"

definition NoteRepo_ListByUserID ::
  "libs \<Rightarrow> string \<Rightarrow> int \<Rightarrow> int \<Rightarrow> world \<Rightarrow> (go_error + Note list \<times> int) \<times> world" where
  "NoteRepo_ListByUserID L userID limit offset w =
     (case request (noteCountByUserQuery L userID) w of
        (Inl countErr, w1) \<Rightarrow> (Inl (errorf_w ''notes.ListByUserID count'' countErr), w1)
      | (Inr totalCount, w1) \<Rightarrow>
          (case query_rows (noteListByUserQuery L userID limit offset) w1 of
             (Inl err, w2) \<Rightarrow> (Inl (errorf_w ''notes.ListByUserID'' err), w2)
           | (Inr rows, w2) \<Rightarrow>
               (case scanAll rows [] of
                  Inl err \<Rightarrow> (Inl (errorf_w ''notes.ListByUserID scan'' err), w2)
                | Inr ns \<Rightarrow> (Inr (ns, totalCount), w2))))"

definition NoteRepo_Update :: "libs \<Rightarrow> Note \<Rightarrow> world \<Rightarrow> (go_error + unit) \<times> world" where
  "NoteRepo_Update L n w =
     (case request (noteUpdateQuery L (note_Title n) (note_Content n) (note_ID n) (note_UserID n)) w of
        (Inl err, w1) \<Rightarrow> (Inl (errorf_w ''notes.Update'' err), w1)
      | (Inr affected, w1) \<Rightarrow>
          if affected = 0 then (Inl (Sentinel ErrNoteNotFoundOrNotOwned), w1) else (Inr (), w1))"

definition NoteRepo_Delete :: "libs \<Rightarrow> string \<Rightarrow> string \<Rightarrow> world \<Rightarrow> (go_error + unit) \<times> world" where
  "NoteRepo_Delete L noteID userID w =
     (case request (noteDeleteQuery L noteID userID) w of
        (Inl err, w1) \<Rightarrow> (Inl (errorf_w ''notes.Delete'' err), w1)
      | (Inr affected, w1) \<Rightarrow>
          if affected = 0 then (Inl (Sentinel ErrNoteNotFoundOrNotOwned), w1) else (Inr (), w1))"

subsection \<open>The effect of each method\<close>

lemma snd_NoteRepo_Create:
  "snd (NoteRepo_Create L n w) =
     snd (request (noteCreateQuery L (note_UserID n) (note_Title n) (note_Content n)) w)"
  by (subst snd_query_row [symmetric], subst snd_scanOne [symmetric])
     (auto simp: NoteRepo_Create_def simp del: snd_scanOne scanOne_Inr split: prod.splits sum.splits)

lemma snd_NoteRepo_GetByID [simp]: "snd (NoteRepo_GetByID L i u w) = w\<lparr>w_tick := Suc (w_tick w)\<rparr>"
proof -
  have "snd (NoteRepo_GetByID L i u w) = snd (scanOne (query_row (noteGetByIDQuery L i u) w))"
    by (auto simp: NoteRepo_GetByID_def simp del: snd_scanOne scanOne_Inr split: prod.splits sum.splits)
  then show ?thesis
    by (auto simp: noteGetByIDQuery_def intro!: read_only split: option.splits)
qed

lemma snd_NoteRepo_Update:
  "snd (NoteRepo_Update L n w) =
     snd (request (noteUpdateQuery L (note_Title n) (note_Content n) (note_ID n) (note_UserID n)) w)"
  by (auto simp: NoteRepo_Update_def split: prod.splits sum.splits)

lemma snd_NoteRepo_Delete:
  "snd (NoteRepo_Delete L i u w) = snd (request (noteDeleteQuery L i u) w)"
  by (auto simp: NoteRepo_Delete_def split: prod.splits sum.splits)

lemma snd_noteCountByUserQuery [simp]: "snd (noteCountByUserQuery L u ev w) = w"
  by (auto simp: noteCountByUserQuery_def split: option.splits)

lemma snd_NoteRepo_ListByUserID: "\<exists>k. snd (NoteRepo_ListByUserID L u l x w) = w\<lparr>w_tick := k\<rparr>"
proof -
  obtain c w1 where c: "request (noteCountByUserQuery L u) w = (c, w1)" by fastforce
  then have "w1 = w\<lparr>w_tick := Suc (w_tick w)\<rparr>"
    using read_only [of "noteCountByUserQuery L u" w] by simp
  then show ?thesis
    using c
    by (auto simp: NoteRepo_ListByUserID_def dest!: query_rows_frame split: prod.splits sum.splits)
qed

lemma NoteRepo_GetByID_Inr:
  assumes "NoteRepo_GetByID L i u w = (Inr n, w')"
  shows "\<exists>P. owned_row L i u = Some P \<and> find P (w_notes w) = Some n"
proof -
  have "scanOne (query_row (noteGetByIDQuery L i u) w) = (Inr n, w')"
    using assms
    by (auto simp: NoteRepo_GetByID_def simp del: scanOne_Inr split: prod.splits sum.splits if_splits)
  then show ?thesis
    by (auto simp: query_row_Inr noteGetByIDQuery_def dest!: request_okD split: option.splits)
qed

lemma owned_row_Some:
  "owned_row L i u = Some P \<longleftrightarrow>
     (\<exists>i' u'. uuid_in L i = Some i' \<and> uuid_in L u = Some u'
        \<and> P = (\<lambda>n. note_ID n = i' \<and> note_UserID n = u'))"
  by (auto simp: owned_row_def split: option.splits)

end
