(* ===== verification/NoteUseCase.thy ===== *)
theory NoteUseCase
  imports NoteRepository
begin

text \<open>
  The note use case of \<open>internal/app/notes.go\<close> over the repository of \<open>NoteRepository\<close>.
\<close>

definition defaultListLimit :: int where "defaultListLimit = 10"
definition maxListLimit :: int where "maxListLimit = 100"

definition CreateNote ::
  "libs \<Rightarrow> string \<Rightarrow> string \<Rightarrow> string \<Rightarrow> world \<Rightarrow> (go_error + Note) \<times> world" where
  "CreateNote L userID title content w =
     (case time_now w of (now, w1) \<Rightarrow>
       (case NewNote now userID title content of
          Inl err \<Rightarrow> (Inl (errorf_w ''create note'' err), w)
        | Inr n \<Rightarrow>
            (case NoteRepo_Create L n w1 of
               (Inl err, w2) \<Rightarrow> (Inl (errorf_w ''create note'' err), w2)
             | (Inr created, w2) \<Rightarrow> (Inr created, w2))))"

definition GetNote :: "libs \<Rightarrow> string \<Rightarrow> string \<Rightarrow> world \<Rightarrow> (go_error + Note) \<times> world" where
  "GetNote L userID noteID w =
     (case NoteRepo_GetByID L noteID userID w of
        (Inl err, w1) \<Rightarrow> (Inl (errorf_w ''get note'' err), w1)
      | (Inr n, w1) \<Rightarrow> (Inr n, w1))"

definition ListNotes ::
  "libs \<Rightarrow> string \<Rightarrow> int \<Rightarrow> int \<Rightarrow> world \<Rightarrow> (go_error + Note list \<times> int) \<times> world" where
  "ListNotes L userID limit0 offset0 w =
     (let limit1 = (if limit0 \<le> 0 then defaultListLimit else limit0);
          limit = (if limit1 > maxListLimit then maxListLimit else limit1);
          offset = (if offset0 < 0 then 0 else offset0)
      in case NoteRepo_ListByUserID L userID limit offset w of
           (Inl err, w1) \<Rightarrow> (Inl (errorf_w ''list notes'' err), w1)
         | (Inr (ns, totalCount), w1) \<Rightarrow> (Inr (ns, totalCount), w1))"

definition UpdateNote ::
  "libs \<Rightarrow> string \<Rightarrow> string \<Rightarrow> string option \<Rightarrow> string option \<Rightarrow> world \<Rightarrow> (go_error + Note) \<times> world"
where
  "UpdateNote L userID noteID title content w =
     (case NoteRepo_GetByID L noteID userID w of
        (Inl err, w1) \<Rightarrow> (Inl (errorf_w ''update note'' err), w1)
      | (Inr n, w1) \<Rightarrow>
          (case time_now w1 of (now, w2) \<Rightarrow>
            (case ApplyUpdate now n title content of
               (Some applyErr, _) \<Rightarrow> (Inl (errorf_w ''update note'' applyErr), w1)
             | (None, n1) \<Rightarrow>
                 (case NoteRepo_Update L n1 w2 of
                    (Inl updateErr, w3) \<Rightarrow> (Inl (errorf_w ''update note'' updateErr), w3)
                  | (Inr _, w3) \<Rightarrow> (Inr n1, w3)))))"

definition DeleteNote :: "libs \<Rightarrow> string \<Rightarrow> string \<Rightarrow> world \<Rightarrow> (go_error + unit) \<times> world" where
  "DeleteNote L userID noteID w =
     (case NoteRepo_Delete L noteID userID w of
        (Inl err, w1) \<Rightarrow> (Inl (errorf_w ''delete note'' err), w1)
      | (Inr _, w1) \<Rightarrow> (Inr (), w1))"

subsection \<open>Requests\<close>

datatype note_call =
    NCreate string string string
  | NGet string string
  | NList string int int
  | NUpdate string string "string option" "string option"
  | NDelete string string

fun note_caller :: "note_call \<Rightarrow> string" where
  "note_caller (NCreate u t c) = u"
| "note_caller (NGet u i) = u"
| "note_caller (NList u l x) = u"
| "note_caller (NUpdate u i t c) = u"
| "note_caller (NDelete u i) = u"

fun note_exec :: "libs \<Rightarrow> note_call \<Rightarrow> world \<Rightarrow> bool \<times> world" where
  "note_exec L (NCreate u t c) w = outcome (CreateNote L u t c w)"
| "note_exec L (NGet u i) w = outcome (GetNote L u i w)"
| "note_exec L (NList u l x) w = outcome (ListNotes L u l x w)"
| "note_exec L (NUpdate u i t c) w = outcome (UpdateNote L u i t c w)"
| "note_exec L (NDelete u i) w = outcome (DeleteNote L u i w)"

text \<open>
  What the theorems ask of UUIDs: the canonical text of a UUID reads as itself, and the
  identifiers Postgres generates are canonical.
\<close>

definition uuids_canonical :: "libs \<Rightarrow> world \<Rightarrow> bool" where
  "uuids_canonical L w \<longleftrightarrow> (\<forall>s u. uuid_in L s = Some u \<longrightarrow> uuid_in L u = Some u)
     \<and> (\<forall>n. uuid_in L (o_uuid (w_outside w n)) = Some (o_uuid (w_outside w n)))"

definition note_row_ok :: "libs \<Rightarrow> Note \<Rightarrow> bool" where
  "note_row_ok L n \<longleftrightarrow> valid_title (note_Title n) \<and> valid_content (note_Content n)
     \<and> uuid_in L (note_ID n) = Some (note_ID n) \<and> uuid_in L (note_UserID n) = Some (note_UserID n)"

definition notes_db_ok :: "libs \<Rightarrow> world \<Rightarrow> bool" where
  "notes_db_ok L w \<longleftrightarrow> uuids_canonical L w \<and> distinct (map note_ID (w_notes w))
     \<and> (\<forall>n \<in> set (w_notes w). note_row_ok L n)"

definition user_notes :: "string \<Rightarrow> world \<Rightarrow> Note list" where
  "user_notes v w = filter (\<lambda>n. note_UserID n = v) (w_notes w)"

definition note_acts :: "libs \<Rightarrow> string \<Rightarrow> note_call \<Rightarrow> bool" where
  "note_acts L v c \<longleftrightarrow> uuid_in L (note_caller c) = Some v"

lemma world_update_simps [simp]:
  "notes_db_ok L (w\<lparr>w_tick := n\<rparr>) = notes_db_ok L w" "user_notes v (w\<lparr>w_tick := n\<rparr>) = user_notes v w"
  by (simp_all add: notes_db_ok_def uuids_canonical_def user_notes_def)

subsection \<open>What one statement does to the table\<close>

text \<open>
  \<open>from_outside ev w\<close>: the event is one of the world's. A statement is only ever run on such.
\<close>

definition from_outside :: "outside \<Rightarrow> world \<Rightarrow> bool" where
  "from_outside ev w \<longleftrightarrow> (\<exists>n. ev = w_outside w n)"

lemma request_outside_invariant:
  assumes "\<And>ev w. P w \<Longrightarrow> from_outside ev w \<Longrightarrow> P (snd (stmt ev w))"
    and "\<And>w. P w \<Longrightarrow> P (w\<lparr>w_tick := Suc (w_tick w)\<rparr>)" and "P w"
  shows "P (snd (request stmt w))"
proof -
  have "from_outside (w_outside w (w_tick w)) (w\<lparr>w_tick := Suc (w_tick w)\<rparr>)"
    by (auto simp: from_outside_def)
  then show ?thesis
    using assms by (auto simp: request_def ask_def split: fault.splits)
qed

lemma noteCreateQuery_ok:
  "notes_db_ok L w \<Longrightarrow> from_outside ev w \<Longrightarrow> valid_title t \<Longrightarrow> valid_content c \<Longrightarrow>
     notes_db_ok L (snd (noteCreateQuery L u t c ev w))"
  by (auto simp: noteCreateQuery_def notes_db_ok_def uuids_canonical_def note_row_ok_def
        from_outside_def Let_def split: option.splits)

lemma noteUpdateQuery_ok:
  assumes "notes_db_ok L w" "valid_title t" "valid_content c"
  shows "notes_db_ok L (snd (noteUpdateQuery L t c i u ev w))"
proof (cases "owned_row L i u")
  case (Some P)
  let ?f = "\<lambda>n. trigger_set_timestamp ev (n\<lparr>note_Title := t, note_Content := c\<rparr>)"
  have "map note_ID (update_where P ?f (w_notes w)) = map note_ID (w_notes w)"
    by (rule map_update_where) (simp add: trigger_set_timestamp_def)
  moreover have "note_row_ok L n \<Longrightarrow> note_row_ok L (?f n)" for n
    using assms by (simp add: note_row_ok_def trigger_set_timestamp_def)
  ultimately show ?thesis
    using assms Some
    by (auto simp: noteUpdateQuery_def notes_db_ok_def uuids_canonical_def set_update_where)
qed (use assms in \<open>simp add: noteUpdateQuery_def\<close>)

lemma noteDeleteQuery_ok: "notes_db_ok L w \<Longrightarrow> notes_db_ok L (snd (noteDeleteQuery L i u ev w))"
  by (auto simp: noteDeleteQuery_def notes_db_ok_def uuids_canonical_def distinct_map_delete_where
        split: option.splits)

lemma noteCreateQuery_iso:
  "uuid_in L u \<noteq> Some v \<Longrightarrow> user_notes v (snd (noteCreateQuery L u t c ev w)) = user_notes v w"
  by (auto simp: noteCreateQuery_def user_notes_def Let_def split: option.splits)

lemma filter_update_other:
  "(\<And>r. P r \<Longrightarrow> \<not> Q r \<and> \<not> Q (f r)) \<Longrightarrow> filter Q (update_where P f rows) = filter Q rows"
  by (induction rows) auto

lemma filter_delete_other: "(\<And>r. P r \<Longrightarrow> \<not> Q r) \<Longrightarrow> filter Q (delete_where P rows) = filter Q rows"
  by (induction rows) (auto simp: delete_where_def)

lemma noteUpdateQuery_iso:
  assumes "uuid_in L u \<noteq> Some v"
  shows "user_notes v (snd (noteUpdateQuery L t c i u ev w)) = user_notes v w"
  using assms
  by (auto simp: noteUpdateQuery_def user_notes_def owned_row_Some trigger_set_timestamp_def
        intro!: filter_update_other split: option.splits)

lemma noteDeleteQuery_iso:
  assumes "uuid_in L u \<noteq> Some v"
  shows "user_notes v (snd (noteDeleteQuery L i u ev w)) = user_notes v w"
  using assms
  by (auto simp: noteDeleteQuery_def user_notes_def owned_row_Some
        intro!: filter_delete_other split: option.splits)

subsection \<open>What one request does\<close>

lemma CreateNote_snd:
  "snd (CreateNote L u t c w) =
     (if u \<noteq> [] \<and> valid_title t \<and> valid_content c
      then snd (request (noteCreateQuery L u t c) (snd (time_now w))) else w)"
proof -
  obtain now w1 where t: "time_now w = (now, w1)" by fastforce
  show ?thesis
  proof (cases "NewNote now u t c")
    case (Inl e)
    then have "\<not> (u \<noteq> [] \<and> valid_title t \<and> valid_content c)"
      using NewNote_cases [of now u t c] by fastforce
    with Inl t show ?thesis by (auto simp: CreateNote_def)
  next
    case (Inr n)
    have "snd (CreateNote L u t c w) = snd (NoteRepo_Create L n w1)"
      using t Inr by (auto simp: CreateNote_def split: prod.splits sum.splits)
    then show ?thesis
      using t Inr by (auto simp: snd_NoteRepo_Create NewNote_cases split: if_splits)
  qed
qed

lemma UpdateNote_snd:
  "(\<exists>k. snd (UpdateNote L u i t c w) = w\<lparr>w_tick := k\<rparr>) \<or>
   (\<exists>P n n1 now. owned_row L i u = Some P \<and> find P (w_notes w) = Some n
      \<and> ApplyUpdate now n t c = (None, n1)
      \<and> snd (UpdateNote L u i t c w) =
          snd (request (noteUpdateQuery L (note_Title n1) (note_Content n1) (note_ID n1) (note_UserID n1))
                 (w\<lparr>w_tick := Suc (Suc (w_tick w))\<rparr>)))"
proof -
  obtain r w1 where get: "NoteRepo_GetByID L i u w = (r, w1)" by fastforce
  then have w1: "w1 = w\<lparr>w_tick := Suc (w_tick w)\<rparr>"
    using snd_NoteRepo_GetByID [of L i u w] by simp
  show ?thesis
  proof (cases r)
    case (Inl e)
    then show ?thesis using get w1 by (auto simp: UpdateNote_def)
  next
    case (Inr n)
    obtain P where P: "owned_row L i u = Some P" "find P (w_notes w) = Some n"
      using NoteRepo_GetByID_Inr get Inr by blast
    obtain e n1 where app: "ApplyUpdate (fst (time_now w1)) n t c = (e, n1)" by fastforce
    show ?thesis
    proof (cases e)
      case None
      have "snd (UpdateNote L u i t c w) = snd (NoteRepo_Update L n1 (snd (time_now w1)))"
        using get Inr app None by (auto simp: UpdateNote_def split: prod.splits sum.splits)
      then show ?thesis
        using P app None w1 by (auto simp: snd_NoteRepo_Update)
    next
      case (Some x)
      then have "snd (UpdateNote L u i t c w) = w1"
        using get Inr app by (auto simp: UpdateNote_def split: prod.splits)
      then show ?thesis using w1 by auto
    qed
  qed
qed

lemma DeleteNote_snd: "snd (DeleteNote L u i w) = snd (request (noteDeleteQuery L i u) w)"
  unfolding snd_NoteRepo_Delete [symmetric] by (auto simp: DeleteNote_def split: prod.splits sum.splits)

lemma GetNote_snd: "snd (GetNote L u i w) = w\<lparr>w_tick := Suc (w_tick w)\<rparr>"
proof -
  have "snd (GetNote L u i w) = snd (NoteRepo_GetByID L i u w)"
    by (auto simp: GetNote_def simp del: snd_NoteRepo_GetByID split: prod.splits sum.splits)
  then show ?thesis by simp
qed

lemma ListNotes_snd: "\<exists>k. snd (ListNotes L u l x w) = w\<lparr>w_tick := k\<rparr>"
proof -
  define l' where "l' = (let limit1 = (if l \<le> 0 then defaultListLimit else l)
                         in if limit1 > maxListLimit then maxListLimit else limit1)"
  define x' where "x' = (if x < 0 then 0 else x)"
  have "snd (ListNotes L u l x w) = snd (NoteRepo_ListByUserID L u l' x' w)"
    by (simp add: ListNotes_def Let_def l'_def x'_def split: prod.splits sum.splits)
  then show ?thesis by (simp add: snd_NoteRepo_ListByUserID)
qed

lemma UpdateNote_target:
  assumes "notes_db_ok L w" and "owned_row L i u = Some P" and "find P (w_notes w) = Some n"
    and "ApplyUpdate now n t c = (None, n1)"
  shows "uuid_in L u = Some (note_UserID n1)" and "uuid_in L (note_UserID n1) = Some (note_UserID n1)"
    and "uuid_in L (note_ID n1) = Some (note_ID n1)"
    and "valid_title (note_Title n1)" and "valid_content (note_Content n1)"
proof -
  have n: "n \<in> set (w_notes w)" "P n" using find_SomeD [OF assms(3)] by auto
  then have ok: "note_row_ok L n" using assms(1) by (simp add: notes_db_ok_def)
  note own = ApplyUpdate_ownership [OF assms(4)]
  show "uuid_in L u = Some (note_UserID n1)" using assms(2) n own by (auto simp: owned_row_Some)
  show "uuid_in L (note_UserID n1) = Some (note_UserID n1)" "uuid_in L (note_ID n1) = Some (note_ID n1)"
    using ok own by (simp_all add: note_row_ok_def)
  show "valid_title (note_Title n1)" "valid_content (note_Content n1)"
    using ok assms(4) by (auto simp: note_row_ok_def ApplyUpdate_None split: option.splits)
qed

lemma note_exec_ok: "notes_db_ok L w \<Longrightarrow> notes_db_ok L (snd (note_exec L c w))"
proof (induction L c w rule: note_exec.induct)
  case (1 L u t c w)
  then show ?case
    by (auto simp: outcome_def CreateNote_snd noteCreateQuery_ok
          intro!: request_outside_invariant [where P = "notes_db_ok L"])
next
  case (3 L u l x w)
  then show ?case using ListNotes_snd [of L u l x w] by (auto simp: outcome_def)
next
  case (4 L u i t c w)
  then show ?case
    using UpdateNote_snd [of L u i t c w] UpdateNote_target(4,5)
    by (auto simp: outcome_def noteUpdateQuery_ok intro!: request_invariant [where P = "notes_db_ok L"])
next
  case (5 L u i w)
  then show ?case
    by (auto simp: outcome_def DeleteNote_snd noteDeleteQuery_ok
          intro!: request_invariant [where P = "notes_db_ok L"])
qed (simp add: outcome_def GetNote_snd)

lemma request_view:
  assumes "\<And>ev w. user_notes v (snd (stmt ev w)) = user_notes v w"
  shows "user_notes v (snd (request stmt w)) = user_notes v w"
  by (rule request_invariant [where P = "\<lambda>w'. user_notes v w' = user_notes v w"]) (simp_all add: assms)

lemma note_exec_iso:
  "notes_db_ok L w \<Longrightarrow> \<not> note_acts L v c \<Longrightarrow> user_notes v (snd (note_exec L c w)) = user_notes v w"
proof (induction L c w rule: note_exec.induct)
  case (1 L u t c w)
  then show ?case
    by (auto simp: outcome_def note_acts_def CreateNote_snd noteCreateQuery_iso request_view)
next
  case (3 L u l x w)
  then show ?case using ListNotes_snd [of L u l x w] by (auto simp: outcome_def)
next
  case (4 L u i t c w)
  then show ?case
    using UpdateNote_snd [of L u i t c w] UpdateNote_target(1,2)
    by (fastforce simp: outcome_def note_acts_def noteUpdateQuery_iso request_view)
next
  case (5 L u i w)
  then show ?case
    by (auto simp: outcome_def note_acts_def DeleteNote_snd noteDeleteQuery_iso request_view)
qed (simp add: outcome_def GetNote_snd)

interpretation notebook: tenant_store "note_exec L" "notes_db_ok L" "note_acts L" user_notes for L
  by unfold_locales (auto simp: note_exec_ok note_exec_iso)

end
