(* ===== verification/Notebook.thy ===== *)
theory Notebook
  imports NoteUseCase Samples
begin

text \<open>
  The abstract view of the note service: each user has a notebook, a map from note identifiers
  to a title and a content. The use cases are shown to be operations on the caller's notebook.
\<close>

definition notebook :: "string \<Rightarrow> world \<Rightarrow> string \<Rightarrow> (string \<times> string) option" where
  "notebook v w i =
     map_option (\<lambda>n. (note_Title n, note_Content n))
       (find (\<lambda>n. note_ID n = i \<and> note_UserID n = v) (w_notes w))"

definition notebooks :: "world \<Rightarrow> string \<Rightarrow> string \<Rightarrow> (string \<times> string) option" where
  "notebooks w v = notebook v w"

lemma notebook_tick [simp]: "notebook v (w\<lparr>w_tick := n\<rparr>) = notebook v w" "notebooks (w\<lparr>w_tick := n\<rparr>) = notebooks w"
  by (simp_all add: notebooks_def notebook_def fun_eq_iff)

subsection \<open>Statements on the notebook\<close>

lemma find_update_where:
  "(\<And>r. Q (g r) = Q r) \<Longrightarrow>
     find Q (update_where P g rows) = map_option (\<lambda>r. if P r then g r else r) (find Q rows)"
  by (induction rows) auto

lemma find_delete_where: "(\<And>r. Q r \<Longrightarrow> \<not> P r) \<Longrightarrow> find Q (delete_where P rows) = find Q rows"
  by (induction rows) (auto simp: delete_where_def)

lemma find_delete_same: "find P (delete_where P rows) = None"
  by (auto simp: find_None_iff)

lemma find_append: "find Q (xs @ ys) = (case find Q xs of None \<Rightarrow> find Q ys | Some r \<Rightarrow> Some r)"
  by (induction xs) auto

lemma filter_pos_find: "filter P rows \<noteq> [] \<longleftrightarrow> find P rows \<noteq> None"
  by (induction rows) auto

lemma noteCreateQuery_Inr:
  assumes "noteCreateQuery L u t c ev w = (Inr r, w')"
  shows "\<exists>v n. uuid_in L u = Some v \<and> r = Some n \<and> note_UserID n = v \<and> note_Title n = t
      \<and> note_Content n = c \<and> note_ID n \<notin> note_ID ` set (w_notes w)
      \<and> note_CreatedAt n = note_UpdatedAt n \<and> w' = w\<lparr>w_notes := w_notes w @ [n]\<rparr>"
  using assms by (fastforce simp: noteCreateQuery_def Let_def split: option.splits if_splits)

lemma notebook_insert:
  assumes "note_ID n \<notin> note_ID ` set (w_notes w)"
  shows "notebooks (w\<lparr>w_notes := w_notes w @ [n]\<rparr>) = (notebooks w)
     (note_UserID n := (notebook (note_UserID n) w)(note_ID n \<mapsto> (note_Title n, note_Content n)))"
proof -
  have "find (\<lambda>m. note_ID m = note_ID n \<and> note_UserID m = v) (w_notes w) = None" for v
    using assms by (auto simp: find_None_iff image_iff)
  then show ?thesis
    by (auto simp: notebooks_def notebook_def fun_eq_iff find_append split: option.splits)
qed

lemma noteUpdateQuery_Inr:
  assumes "noteUpdateQuery L t c i u ev w = (Inr k, w')" and "k \<noteq> 0"
  shows "\<exists>i' v. uuid_in L i = Some i' \<and> uuid_in L u = Some v
     \<and> notebook v w i' \<noteq> None \<and> notebooks w' = (notebooks w)(v := (notebook v w)(i' \<mapsto> (t, c)))"
proof -
  obtain i' v where own: "uuid_in L i = Some i'" "uuid_in L u = Some v"
    "owned_row L i u = Some (\<lambda>n. note_ID n = i' \<and> note_UserID n = v)"
    using assms(1) by (auto simp: noteUpdateQuery_def owned_row_Some split: option.splits)
  let ?P = "\<lambda>n. note_ID n = i' \<and> note_UserID n = v"
  let ?g = "\<lambda>n. trigger_set_timestamp ev (n\<lparr>note_Title := t, note_Content := c\<rparr>)"
  have k: "k = length (filter ?P (w_notes w))" and w': "w' = w\<lparr>w_notes := update_where ?P ?g (w_notes w)\<rparr>"
    using assms(1) own by (auto simp: noteUpdateQuery_def split: if_splits)
  then have some: "find ?P (w_notes w) \<noteq> None"
    using assms(2) filter_pos_find [of ?P "w_notes w"] by simp
  have "find (\<lambda>n. note_ID n = j \<and> note_UserID n = v') (update_where ?P ?g (w_notes w)) =
      map_option (\<lambda>r. if ?P r then ?g r else r) (find (\<lambda>n. note_ID n = j \<and> note_UserID n = v') (w_notes w))"
    for j v' by (rule find_update_where) (simp add: trigger_set_timestamp_def)
  then have "notebook v' w' j = (if v' = v then (notebook v w)(i' \<mapsto> (t, c)) else notebook v' w) j" for j v'
    using some w'
    by (auto simp: notebook_def trigger_set_timestamp_def map_option_case dest: find_SomeD
          split: option.splits)
  then show ?thesis using own some by (auto simp: notebooks_def notebook_def fun_eq_iff)
qed

lemma noteDeleteQuery_Inr:
  assumes "noteDeleteQuery L i u ev w = (Inr k, w')" and "k \<noteq> 0"
  shows "\<exists>i' v. uuid_in L i = Some i' \<and> uuid_in L u = Some v
     \<and> notebook v w i' \<noteq> None \<and> notebooks w' = (notebooks w)(v := (notebook v w)(i' := None))"
proof -
  obtain i' v where own: "uuid_in L i = Some i'" "uuid_in L u = Some v"
    "owned_row L i u = Some (\<lambda>n. note_ID n = i' \<and> note_UserID n = v)"
    using assms(1) by (auto simp: noteDeleteQuery_def owned_row_Some split: option.splits)
  let ?P = "\<lambda>n. note_ID n = i' \<and> note_UserID n = v"
  have k: "k = length (filter ?P (w_notes w))" and w': "w' = w\<lparr>w_notes := delete_where ?P (w_notes w)\<rparr>"
    using assms(1) own by (auto simp: noteDeleteQuery_def)
  then have some: "find ?P (w_notes w) \<noteq> None"
    using assms(2) filter_pos_find [of ?P "w_notes w"] by simp
  have "notebook v' w' j = (if v' = v then (notebook v w)(i' := None) else notebook v' w) j" for j v'
  proof (cases "j = i' \<and> v' = v")
    case False
    then have "find (\<lambda>n. note_ID n = j \<and> note_UserID n = v') (delete_where ?P (w_notes w)) =
        find (\<lambda>n. note_ID n = j \<and> note_UserID n = v') (w_notes w)"
      by (intro find_delete_where) auto
    then show ?thesis using False w' by (auto simp: notebook_def)
  qed (use w' in \<open>simp add: notebook_def find_delete_same\<close>)
  then show ?thesis using own some by (auto simp: notebooks_def notebook_def fun_eq_iff)
qed

subsection \<open>The use cases on the notebook\<close>

lemma CreateNote_Inr:
  assumes "CreateNote L u t c w = (Inr n, w')"
  shows "valid_title t \<and> valid_content c \<and>
     (\<exists>ev k. noteCreateQuery L u t c ev (w\<lparr>w_tick := k\<rparr>) = (Inr (Some n), w'))"
proof -
  obtain m where m: "NewNote (o_now (w_outside w (w_tick w))) u t c = Inr m"
    and rep: "NoteRepo_Create L m (w\<lparr>w_tick := Suc (w_tick w)\<rparr>) = (Inr n, w')"
    using assms by (auto simp: CreateNote_def split: sum.splits prod.splits)
  have "scanOne (query_row (noteCreateQuery L (note_UserID m) (note_Title m) (note_Content m))
      (w\<lparr>w_tick := Suc (w_tick w)\<rparr>)) = (Inr n, w')"
    using rep by (auto simp: NoteRepo_Create_def simp del: scanOne_Inr split: prod.splits sum.splits)
  then have "request (noteCreateQuery L (note_UserID m) (note_Title m) (note_Content m))
      (w\<lparr>w_tick := Suc (w_tick w)\<rparr>) = (Inr (Some n), w')"
    by (simp add: query_row_Inr)
  from request_okD [OF this] m show ?thesis by (auto simp: NewNote_cases)
qed

lemma UpdateNote_Inr:
  assumes "UpdateNote L u i t c w = (Inr n1, w')"
  shows "\<exists>P n now ev k j. owned_row L i u = Some P \<and> find P (w_notes w) = Some n
     \<and> ApplyUpdate now n t c = (None, n1) \<and> j \<noteq> 0
     \<and> noteUpdateQuery L (note_Title n1) (note_Content n1) (note_ID n1) (note_UserID n1) ev
         (w\<lparr>w_tick := k\<rparr>) = (Inr j, w')"
proof -
  obtain n w1 where get: "NoteRepo_GetByID L i u w = (Inr n, w1)"
    using assms by (auto simp: UpdateNote_def split: prod.splits sum.splits)
  then have w1: "w1 = w\<lparr>w_tick := Suc (w_tick w)\<rparr>"
    using snd_NoteRepo_GetByID [of L i u w] by simp
  define now where "now = o_now (w_outside w1 (w_tick w1))"
  have app: "ApplyUpdate now n t c = (None, n1)"
    and rep: "NoteRepo_Update L n1 (w1\<lparr>w_tick := Suc (w_tick w1)\<rparr>) = (Inr (), w')"
    using assms get by (auto simp: UpdateNote_def now_def split: prod.splits sum.splits option.splits)
  obtain j where j: "j \<noteq> 0" "request (noteUpdateQuery L (note_Title n1) (note_Content n1)
      (note_ID n1) (note_UserID n1)) (w1\<lparr>w_tick := Suc (w_tick w1)\<rparr>) = (Inr j, w')"
    using rep by (auto simp: NoteRepo_Update_def split: prod.splits sum.splits if_splits)
  from NoteRepo_GetByID_Inr [OF get] obtain P where "owned_row L i u = Some P" "find P (w_notes w) = Some n"
    by blast
  with app j(1) request_okD [OF j(2)] w1 show ?thesis
    by (intro exI [of _ P] exI [of _ n] exI [of _ now]) auto
qed

text \<open>
  A successful \<open>CreateNote\<close> adds one entry to the caller's notebook, under an identifier that no
  note had, with the title and the content it was given; the note it returns is that entry.
\<close>

lemma CreateNote_notebook:
  assumes "CreateNote L u t c w = (Inr n, w')"
  shows "uuid_in L u = Some (note_UserID n) \<and> (note_Title n, note_Content n) = (t, c)
     \<and> notebook (note_UserID n) w (note_ID n) = None
     \<and> notebooks w' = (notebooks w)(note_UserID n := (notebook (note_UserID n) w)(note_ID n \<mapsto> (t, c)))"
proof -
  obtain ev k where q: "noteCreateQuery L u t c ev (w\<lparr>w_tick := k\<rparr>) = (Inr (Some n), w')"
    using CreateNote_Inr [OF assms] by blast
  have n: "uuid_in L u = Some (note_UserID n)" "note_Title n = t" "note_Content n = c"
    and fresh: "note_ID n \<notin> note_ID ` set (w_notes w)"
    and w': "w' = w\<lparr>w_tick := k, w_notes := w_notes (w\<lparr>w_tick := k\<rparr>) @ [n]\<rparr>"
    using noteCreateQuery_Inr [OF q] by auto
  have "notebook (note_UserID n) w (note_ID n) = None"
    using fresh by (auto simp: notebook_def find_None_iff image_iff)
  moreover have "notebooks w' = (notebooks w)(note_UserID n := (notebook (note_UserID n) w)(note_ID n \<mapsto> (t, c)))"
    using notebook_insert [of n "w\<lparr>w_tick := k\<rparr>"] fresh n w' by simp
  ultimately show ?thesis using n by simp
qed

text \<open>
  A successful \<open>UpdateNote\<close> changes exactly the entry it names in the caller's notebook:
  the fields given replace the old ones, the others stay, and the note returned has the title
  and the content now stored.
\<close>

lemma UpdateNote_notebook:
  assumes "notes_db_ok L w" and "UpdateNote L u i t c w = (Inr n, w')"
  shows "\<exists>v i' old. uuid_in L u = Some v \<and> uuid_in L i = Some i' \<and> notebook v w i' = Some old
     \<and> note_ID n = i' \<and> note_UserID n = v
     \<and> note_Title n = (case t of None \<Rightarrow> fst old | Some x \<Rightarrow> x)
     \<and> note_Content n = (case c of None \<Rightarrow> snd old | Some x \<Rightarrow> x)
     \<and> notebooks w' = (notebooks w)(v := (notebook v w)(i' \<mapsto> (note_Title n, note_Content n)))"
proof -
  obtain P m now ev k j where own: "owned_row L i u = Some P" "find P (w_notes w) = Some m"
    and app: "ApplyUpdate now m t c = (None, n)" and j: "j \<noteq> 0"
    and q: "noteUpdateQuery L (note_Title n) (note_Content n) (note_ID n) (note_UserID n) ev
         (w\<lparr>w_tick := k\<rparr>) = (Inr j, w')"
    using UpdateNote_Inr [OF assms(2)] by blast
  obtain i' v where P: "uuid_in L i = Some i'" "uuid_in L u = Some v"
    "P = (\<lambda>n. note_ID n = i' \<and> note_UserID n = v)" using own(1) by (auto simp: owned_row_Some)
  have m: "note_ID m = i'" "note_UserID m = v" using find_SomeD [OF own(2)] P(3) by auto
  have n: "note_ID n = i'" "note_UserID n = v"
    "note_Title n = (case t of None \<Rightarrow> note_Title m | Some x \<Rightarrow> x)"
    "note_Content n = (case c of None \<Rightarrow> note_Content m | Some x \<Rightarrow> x)"
    using app m by (auto simp: ApplyUpdate_None)
  have canon: "uuid_in L (note_ID n) = Some (note_ID n)" "uuid_in L (note_UserID n) = Some (note_UserID n)"
    using UpdateNote_target [OF assms(1) own app] by auto
  have "notebook v w i' = Some (note_Title m, note_Content m)"
    using own(2) P(3) by (simp add: notebook_def)
  moreover have "notebooks w' = (notebooks w)(v := (notebook v w)(i' \<mapsto> (note_Title n, note_Content n)))"
    using noteUpdateQuery_Inr [OF q j] canon n by auto
  ultimately show ?thesis using P n by (simp split: option.splits)
qed

text \<open>
  A successful \<open>DeleteNote\<close> removes exactly the entry it names from the caller's notebook,
  and an entry that is not there is never reported as deleted.
\<close>

lemma DeleteNote_notebook:
  assumes "DeleteNote L u i w = (Inr (), w')"
  shows "\<exists>v i'. uuid_in L u = Some v \<and> uuid_in L i = Some i' \<and> notebook v w i' \<noteq> None
     \<and> notebooks w' = (notebooks w)(v := (notebook v w)(i' := None))"
proof -
  obtain k where "request (noteDeleteQuery L i u) w = (Inr k, w')" "k \<noteq> 0"
    using assms by (auto simp: DeleteNote_def NoteRepo_Delete_def split: prod.splits sum.splits if_splits)
  then show ?thesis using noteDeleteQuery_Inr by (fastforce dest!: request_okD)
qed

definition witness_notes :: world where
  "witness_notes = sample_world\<lparr>w_notes := [witness_note]\<rparr>"

lemmas witness_notes_defs = witness_notes_def witness_note_def sample_defs

lemma witness_notes_ok: "notes_db_ok sample_libs witness_notes"
  using witness_note_ok
  by (auto simp: notes_db_ok_def uuids_canonical_def note_row_ok_def note_ok_def witness_notes_defs)

subsection \<open>Reading\<close>

lemma NoteRepo_GetByID_calm:
  assumes "calm w"
  shows "NoteRepo_GetByID L i u w =
     ((case owned_row L i u of
         None \<Rightarrow> Inl (errorf_w ''notes.GetByID'' (errorf_w ''scan row'' (bad_uuid_error (w_outside w (w_tick w)))))
       | Some P \<Rightarrow> (case find P (w_notes w) of None \<Rightarrow> Inl (Sentinel ErrNoteNotFound) | Some n \<Rightarrow> Inr n)),
      w\<lparr>w_tick := Suc (w_tick w)\<rparr>)"
  using assms
  by (simp add: NoteRepo_GetByID_def scanOne_def query_row_def request_Served noteGetByIDQuery_def
        pgx_no_rows_def bad_uuid_error_def split: option.splits)

text \<open>
  While nothing is lost, \<open>GetNote\<close> reads the caller's notebook: it returns a note exactly
  when the identifier names an entry there, with the entry's title and content, it answers
  \<open>ErrNoteNotFound\<close> when both identifiers are UUIDs and there is none (the note of another user
  included), and it changes no table.
\<close>

lemma GetNote_reads_notebook:
  assumes "calm w" and "uuid_in L u = Some v" and "uuid_in L i = Some i'"
  shows "(case notebook v w i' of
            None \<Rightarrow> \<exists>e. fst (GetNote L u i w) = Inl e \<and> errors_is e ErrNoteNotFound
          | Some tc \<Rightarrow> \<exists>n. fst (GetNote L u i w) = Inr n \<and> note_ID n = i' \<and> note_UserID n = v
                        \<and> (note_Title n, note_Content n) = tc)
     \<and> snd (GetNote L u i w) = w\<lparr>w_tick := Suc (w_tick w)\<rparr>"
proof -
  let ?P = "\<lambda>n. note_ID n = i' \<and> note_UserID n = v"
  have own: "owned_row L i u = Some ?P" using assms by (simp add: owned_row_def)
  show ?thesis
  proof (cases "find ?P (w_notes w)")
    case None
    then show ?thesis
      using own assms(1) by (simp add: GetNote_def NoteRepo_GetByID_calm notebook_def)
  next
    case (Some n)
    then show ?thesis
      using own assms(1) find_SomeD [OF Some] by (simp add: GetNote_def NoteRepo_GetByID_calm notebook_def)
  qed
qed

lemma GetNote_reads_notebook_witness:
  "\<exists>n. fst (GetNote sample_libs ''u'' ''n'' witness_notes) = Inr n \<and> note_Title n = ''a''"
proof -
  have "calm witness_notes" by (simp add: calm_def witness_notes_defs)
  moreover have "notebook ''u'' witness_notes ''n'' = Some (''a'', '''')"
    by (simp add: notebook_def witness_notes_defs)
  ultimately show ?thesis
    using GetNote_reads_notebook [of witness_notes sample_libs "''u''" "''u''" "''n''" "''n''"]
    by (auto simp: sample_libs_def)
qed

text \<open>The listing order, and the clamps of \<open>ListNotes\<close>.\<close>

definition newest_first :: "Note list \<Rightarrow> Note list" where
  "newest_first ns = sort_key (\<lambda>n. - note_UpdatedAt n) ns"

definition page_size :: "int \<Rightarrow> nat" where
  "page_size l = nat (min maxListLimit (if l \<le> 0 then defaultListLimit else l))"

lemma nat_max_zero [simp]: "nat (max 0 x) = nat x"
  by simp

lemma ListNotes_repo:
  "ListNotes L u l x w =
     (case NoteRepo_ListByUserID L u (int (page_size l)) (max 0 x) w of
        (Inl err, w1) \<Rightarrow> (Inl (errorf_w ''list notes'' err), w1)
      | (Inr p, w1) \<Rightarrow> (Inr p, w1))"
proof -
  have "(let limit1 = (if l \<le> 0 then defaultListLimit else l)
         in if limit1 > maxListLimit then maxListLimit else limit1) = int (page_size l)"
    by (simp add: page_size_def min_def defaultListLimit_def maxListLimit_def Let_def)
  moreover have "(if x < 0 then 0 else x) = max 0 x" by simp
  ultimately show ?thesis
    unfolding ListNotes_def Let_def by (simp split: prod.splits sum.splits)
qed

lemma NoteRepo_ListByUserID_Inr:
  assumes "NoteRepo_ListByUserID L u (int l) x w = (Inr (ns, k), w')" and "0 \<le> x"
  shows "\<exists>v. uuid_in L u = Some v \<and> k = int (length (user_notes v w))
     \<and> ns = take l (drop (nat x) (newest_first (user_notes v w)))"
proof -
  obtain w1 rows where c: "request (noteCountByUserQuery L u) w = (Inr k, w1)"
    and q: "query_rows (noteListByUserQuery L u (int l) x) w1 = (Inr rows, w')" "scanAll rows [] = Inr ns"
    using assms(1) by (auto simp: NoteRepo_ListByUserID_def split: prod.splits sum.splits)
  have w1: "w_notes w1 = w_notes w"
    using read_only [of "noteCountByUserQuery L u" w] c by simp
  obtain v where v: "uuid_in L u = Some v" "k = int (length (user_notes v w))"
    using request_okD [OF c] by (auto simp: noteCountByUserQuery_def user_notes_def split: option.splits)
  obtain items where "rows = Rows (map Inr items) None"
    "noteListByUserQuery L u (int l) x (w_outside w1 (w_tick w1)) (w1\<lparr>w_tick := Suc (w_tick w1)\<rparr>) = Inr items"
    using q by (auto simp: query_rows_def ask_def split: fault.splits sum.splits)
  with q(2) v assms(2) w1 show ?thesis
    by (auto simp: scanAll_all noteListByUserQuery_def user_notes_def newest_first_def)
qed

text \<open>
  C15: A successful \<open>ListNotes\<close>, whatever limit and offset the caller sends, returns only notes
  of the caller, at most 100 of them: the page of the caller's notes, newest first, that the
  clamped limit and offset select, and the number of all of them.
\<close>

theorem ListNotes_page:
  assumes "ListNotes L u l x w = (Inr (ns, k), w')"
  shows "\<exists>v. uuid_in L u = Some v \<and> k = int (length (user_notes v w))
     \<and> ns = take (page_size l) (drop (nat x) (newest_first (user_notes v w)))
     \<and> length ns \<le> 100 \<and> list_all (\<lambda>n. note_UserID n = v) ns
     \<and> sorted_wrt (\<lambda>a b. note_UpdatedAt b \<le> note_UpdatedAt a) ns"
proof -
  have rep: "NoteRepo_ListByUserID L u (int (page_size l)) (max 0 x) w = (Inr (ns, k), w')"
    using assms by (auto simp: ListNotes_repo split: prod.splits sum.splits)
  obtain v where v: "uuid_in L u = Some v" "k = int (length (user_notes v w))"
    and ns: "ns = take (page_size l) (drop (nat x) (newest_first (user_notes v w)))"
    using NoteRepo_ListByUserID_Inr [OF rep] by auto
  have "page_size l \<le> 100" by (simp add: page_size_def maxListLimit_def)
  then have "length ns \<le> 100" using ns by simp
  moreover have "set ns \<subseteq> set (user_notes v w)"
    unfolding ns newest_first_def by (auto dest!: in_set_takeD in_set_dropD)
  moreover have "sorted (map (\<lambda>n. - note_UpdatedAt n) ns)"
    unfolding ns newest_first_def take_map [symmetric] drop_map [symmetric]
    by (intro sorted_wrt_take sorted_wrt_drop) simp
  ultimately show ?thesis
    using v ns by (auto simp: user_notes_def list_all_iff sorted_map)
qed

lemma ListNotes_calm:
  assumes "calm w" and "uuid_in L u = Some v"
  shows "fst (ListNotes L u l x w) =
     Inr (take (page_size l) (drop (nat x) (newest_first (user_notes v w))), int (length (user_notes v w)))"
  using assms
  by (simp add: ListNotes_repo NoteRepo_ListByUserID_def request_Served noteCountByUserQuery_def
        query_rows_def ask_def noteListByUserQuery_def scanAll_all newest_first_def user_notes_def)

lemma ListNotes_page_witness:
  "\<exists>ns k w'. ListNotes sample_libs ''u'' 1000 (-5) witness_notes = (Inr (ns, k), w') \<and> length ns \<le> 100"
proof -
  have "calm witness_notes" "uuid_in sample_libs ''u'' = Some ''u''"
    by (simp_all add: calm_def witness_notes_defs)
  from ListNotes_calm [OF this, of 1000 "-5"] obtain ns k w' where
    call: "ListNotes sample_libs ''u'' 1000 (-5) witness_notes = (Inr (ns, k), w')"
    by (cases "ListNotes sample_libs ''u'' 1000 (-5) witness_notes") auto
  with ListNotes_page [OF call] show ?thesis by blast
qed

lemma concat_pages: "length xs \<le> m * l \<Longrightarrow> concat (map (\<lambda>k. take l (drop (k * l) xs)) [0..<m]) = xs"
proof (induction m arbitrary: xs)
  case (Suc m)
  have "concat (map (\<lambda>k. take l (drop (k * l) (drop l xs))) [0..<m]) = drop l xs"
    using Suc.prems by (intro Suc.IH) (simp add: algebra_simps)
  moreover have "[0..<Suc m] = 0 # map Suc [0..<m]" by (simp add: map_Suc_upt upt_conv_Cons)
  ultimately show ?case by (simp add: o_def add.commute)
qed simp

text \<open>
  Walking the pages with one limit between 1 and 100 shows every note of the caller exactly
  once, newest first, when nothing is lost and nobody writes in between.
\<close>

lemma ListNotes_pages_complete:
  assumes "calm w" and "uuid_in L u = Some v" and "1 \<le> l" and "l \<le> 100"
    and "length (user_notes v w) \<le> m * l"
  shows "concat (map (\<lambda>k. case fst (ListNotes L u (int l) (int (k * l)) w) of
            Inl e \<Rightarrow> [] | Inr (ns, cnt) \<Rightarrow> ns) [0..<m]) = newest_first (user_notes v w)"
proof -
  have "page_size (int l) = l" using assms by (simp add: page_size_def maxListLimit_def min_def)
  then have "fst (ListNotes L u (int l) (int (k * l)) w) =
      Inr (take l (drop (k * l) (newest_first (user_notes v w))), int (length (user_notes v w)))" for k
    by (simp add: ListNotes_calm [OF assms(1,2)] del: of_nat_mult)
  then show ?thesis
    using concat_pages [of "newest_first (user_notes v w)" m l] assms(5)
    by (simp add: newest_first_def del: of_nat_mult)
qed

lemma ListNotes_pages_complete_witness:
  "concat (map (\<lambda>k. case fst (ListNotes sample_libs ''u'' (int 1) (int (k * 1)) witness_notes) of
            Inl e \<Rightarrow> [] | Inr (ns, cnt) \<Rightarrow> ns) [0..<2]) = [witness_note]"
proof -
  have "newest_first (user_notes ''u'' witness_notes) = [witness_note]"
    "calm witness_notes" "uuid_in sample_libs ''u'' = Some ''u''"
    "length (user_notes ''u'' witness_notes) \<le> 2 * 1"
    by (simp_all add: newest_first_def user_notes_def calm_def witness_notes_defs)
  with ListNotes_pages_complete [of witness_notes sample_libs "''u''" "''u''" 1 2] show ?thesis
    by (simp del: of_nat_mult)
qed

subsection \<open>Histories\<close>

text \<open>
  C3: Isolation of users. Whatever sequence of note requests other users make, with whatever is
  lost on the way, the rows of user \<open>v\<close> stay exactly as they are.
\<close>

theorem notes_isolated:
  assumes "notes_db_ok L w" and "list_all (\<lambda>c. uuid_in L (note_caller c) \<noteq> Some v) cs"
  shows "user_notes v (snd (run_calls (note_exec L) cs w)) = user_notes v w"
  using assms by (intro notebook.run_isolated) (auto simp: note_acts_def list_all_iff)

lemma notes_isolated_witness:
  "user_notes ''u'' (snd (run_calls (note_exec sample_libs)
     [NDelete ''eve'' ''n'', NUpdate ''eve'' ''n'' (Some ''b'') None] witness_notes)) = [witness_note]"
proof -
  have "user_notes ''u'' witness_notes = [witness_note]" by (simp add: user_notes_def witness_notes_defs)
  then show ?thesis
    using notes_isolated [OF witness_notes_ok, of "''u''"
        "[NDelete ''eve'' ''n'', NUpdate ''eve'' ''n'' (Some ''b'') None]"]
    by (simp add: sample_libs_def del: run_calls.simps)
qed

text \<open>
  C19: Every sequence of note requests keeps the table well formed: identifiers are unique, every
  title is valid (not blank, at most 255 bytes) and every content is at most 64 KiB.
\<close>

theorem notes_table_kept:
  assumes "notes_db_ok L w"
  shows "notes_db_ok L (snd (run_calls (note_exec L) cs w))"
  by (rule notebook.run_inv [OF assms])

lemma notes_table_kept_witness:
  "notes_db_ok sample_libs (snd (run_calls (note_exec sample_libs)
     [NCreate ''u'' ''b'' ''c'', NUpdate ''u'' ''n'' (Some '''') None] witness_notes))"
  by (rule notes_table_kept [OF witness_notes_ok])

end
