(* ===== verification/GrpcServer.thy ===== *)
theory GrpcServer
  imports RequestContext Accounts Notebook "HOL-Library.Word"
begin

text \<open>
  The gRPC services: the handlers of \<open>internal/adapters/grpc/auth_handler.go\<close> and
  \<open>note_handler.go\<close> with the conversions to messages, and the two servers as \<open>StartAuth\<close> and
  \<open>StartNotes\<close> put them together (request id, then authentication, then the handler).

  A message is a record of its fields; a field of type \<open>int32\<close> is a 32-bit word. A
  \<open>timestamppb.Timestamp\<close> is the time it was made of.
\<close>

unbundle bit_operations_syntax

subsection \<open>Messages\<close>

record TokenReply =
  tr_UserId :: string
  tr_Username :: string
  tr_AccessToken :: string
  tr_RefreshToken :: string
  tr_ExpiresAt :: time

record ProfileReply =
  pr_UserId :: string
  pr_Email :: string
  pr_Username :: string
  pr_CreatedAt :: time

record NoteMsg =
  nm_NoteId :: string
  nm_UserId :: string
  nm_Title :: string
  nm_Content :: string
  nm_CreatedAt :: time
  nm_UpdatedAt :: time

type_synonym NoteReply = "NoteMsg option"

record ListNotesReply =
  ln_Notes :: "NoteMsg option list"
  ln_TotalCount :: "32 word"
  ln_Offset :: "32 word"
  ln_Limit :: "32 word"

definition noteToProto :: "Note option \<Rightarrow> NoteMsg option" where
  "noteToProto note0 =
     (case note0 of
        None \<Rightarrow> None
      | Some n \<Rightarrow> Some \<lparr>nm_NoteId = note_ID n, nm_UserId = note_UserID n, nm_Title = note_Title n,
                        nm_Content = note_Content n, nm_CreatedAt = note_CreatedAt n,
                        nm_UpdatedAt = note_UpdatedAt n\<rparr>)"

definition noteFromProto :: "NoteMsg option \<Rightarrow> Note option" where
  "noteFromProto protoNote =
     (case protoNote of
        None \<Rightarrow> None
      | Some p \<Rightarrow> Some \<lparr>note_CreatedAt = nm_CreatedAt p, note_UpdatedAt = nm_UpdatedAt p,
                        note_ID = nm_NoteId p, note_UserID = nm_UserId p, note_Title = nm_Title p,
                        note_Content = nm_Content p\<rparr>)"

text \<open>The conversion \<open>int32(value)\<close> keeps the low 32 bits.\<close>

definition clampNonNegative32 :: "int \<Rightarrow> 32 word" where
  "clampNonNegative32 v =
     (if v > max_int32 then word_of_int max_int32 else if v < 0 then 0 else word_of_int v)"

subsection \<open>The handlers of the auth service\<close>

definition required :: "string \<Rightarrow> go_error" where
  "required m = StatusError CodeInvalidArgument m"

definition token_reply :: "TokenPair \<Rightarrow> TokenReply" where
  "token_reply p =
     \<lparr>tr_UserId = pair_UserID p, tr_Username = pair_Username p, tr_AccessToken = pair_AccessToken p,
      tr_RefreshToken = pair_RefreshToken p, tr_ExpiresAt = pair_ExpiresAt p\<rparr>"

definition AuthHandler_Register ::
  "libs \<Rightarrow> jwt_service \<Rightarrow> int \<Rightarrow> string \<Rightarrow> string \<Rightarrow> string \<Rightarrow> TokenReply handler" where
  "AuthHandler_Register L j cost email username password ctx w =
     (if email = '''' \<or> username = '''' \<or> password = ''''
        then (Inl (required ''email, username and password are required''), w)
      else
        (case Register L j cost email username password w of
           (Inl err, w1) \<Rightarrow> (Inl (authStatusFromError err), w1)
         | (Inr tokenPair, w1) \<Rightarrow> (Inr (token_reply tokenPair), w1)))"

definition AuthHandler_Login :: "libs \<Rightarrow> jwt_service \<Rightarrow> string \<Rightarrow> string \<Rightarrow> TokenReply handler" where
  "AuthHandler_Login L j email password ctx w =
     (if email = '''' \<or> password = '''' then (Inl (required ''email and password are required''), w)
      else
        (case Login L j email password w of
           (Inl err, w1) \<Rightarrow> (Inl (authStatusFromError err), w1)
         | (Inr tokenPair, w1) \<Rightarrow> (Inr (token_reply tokenPair), w1)))"

definition AuthHandler_RefreshTokens :: "libs \<Rightarrow> jwt_service \<Rightarrow> string \<Rightarrow> TokenReply handler" where
  "AuthHandler_RefreshTokens L j refreshToken ctx w =
     (if refreshToken = '''' then (Inl (required ''refresh token is required''), w)
      else
        (case RefreshTokens L j refreshToken w of
           (Inl err, w1) \<Rightarrow> (Inl (authStatusFromError err), w1)
         | (Inr tokenPair, w1) \<Rightarrow> (Inr (token_reply tokenPair), w1)))"

definition AuthHandler_Logout :: "libs \<Rightarrow> string \<Rightarrow> unit handler" where
  "AuthHandler_Logout L refreshToken ctx w =
     (if refreshToken = '''' then (Inl (required ''refresh token is required''), w)
      else
        (case Logout L refreshToken w of
           (Inl logoutErr, w1) \<Rightarrow> (Inl (authStatusFromError logoutErr), w1)
         | (Inr _, w1) \<Rightarrow> (Inr (), w1)))"

definition UserHandler_GetUserProfile :: "libs \<Rightarrow> ProfileReply handler" where
  "UserHandler_GetUserProfile L ctx w =
     (case userIDFromContext ctx of
        Inl err \<Rightarrow> (Inl err, w)
      | Inr userID \<Rightarrow>
          (case GetUserProfile L userID w of
             (Inl err, w1) \<Rightarrow> (Inl (authStatusFromError err), w1)
           | (Inr user, w1) \<Rightarrow>
               (Inr \<lparr>pr_UserId = user_ID user, pr_Email = user_Email user,
                     pr_Username = user_Username user, pr_CreatedAt = user_CreatedAt user\<rparr>, w1)))"

subsection \<open>The handlers of the notes service\<close>

definition NoteHandler_CreateNote :: "libs \<Rightarrow> string \<Rightarrow> string \<Rightarrow> NoteReply handler" where
  "NoteHandler_CreateNote L title content ctx w =
     (case userIDFromContext ctx of
        Inl err \<Rightarrow> (Inl err, w)
      | Inr userID \<Rightarrow>
          (case CreateNote L userID title content w of
             (Inl err, w1) \<Rightarrow> (Inl (notesStatusFromError err), w1)
           | (Inr n, w1) \<Rightarrow> (Inr (noteToProto (Some n)), w1)))"

definition NoteHandler_GetNote :: "libs \<Rightarrow> string \<Rightarrow> NoteReply handler" where
  "NoteHandler_GetNote L noteID ctx w =
     (case userIDFromContext ctx of
        Inl err \<Rightarrow> (Inl err, w)
      | Inr userID \<Rightarrow>
          (case GetNote L userID noteID w of
             (Inl err, w1) \<Rightarrow> (Inl (notesStatusFromError err), w1)
           | (Inr n, w1) \<Rightarrow> (Inr (noteToProto (Some n)), w1)))"

definition NoteHandler_ListNotes :: "libs \<Rightarrow> 32 word \<Rightarrow> 32 word \<Rightarrow> ListNotesReply handler" where
  "NoteHandler_ListNotes L limit offset ctx w =
     (case userIDFromContext ctx of
        Inl err \<Rightarrow> (Inl err, w)
      | Inr userID \<Rightarrow>
          (case ListNotes L userID (sint limit) (sint offset) w of
             (Inl err, w1) \<Rightarrow> (Inl (notesStatusFromError err), w1)
           | (Inr (ns, totalCount), w1) \<Rightarrow>
               (Inr \<lparr>ln_Notes = map (\<lambda>n. noteToProto (Some n)) ns,
                     ln_TotalCount = clampNonNegative32 totalCount, ln_Offset = offset,
                     ln_Limit = limit\<rparr>, w1)))"

definition NoteHandler_UpdateNote ::
  "libs \<Rightarrow> string \<Rightarrow> string option \<Rightarrow> string option \<Rightarrow> NoteReply handler" where
  "NoteHandler_UpdateNote L noteID title content ctx w =
     (case userIDFromContext ctx of
        Inl err \<Rightarrow> (Inl err, w)
      | Inr userID \<Rightarrow>
          (case UpdateNote L userID noteID title content w of
             (Inl err, w1) \<Rightarrow> (Inl (notesStatusFromError err), w1)
           | (Inr n, w1) \<Rightarrow> (Inr (noteToProto (Some n)), w1)))"

definition NoteHandler_DeleteNote :: "libs \<Rightarrow> string \<Rightarrow> unit handler" where
  "NoteHandler_DeleteNote L noteID ctx w =
     (case userIDFromContext ctx of
        Inl err \<Rightarrow> (Inl err, w)
      | Inr userID \<Rightarrow>
          (case DeleteNote L userID noteID w of
             (Inl deleteErr, w1) \<Rightarrow> (Inl (notesStatusFromError deleteErr), w1)
           | (Inr _, w1) \<Rightarrow> (Inr (), w1)))"

subsection \<open>The servers\<close>

text \<open>The full method names of the generated code.\<close>

definition auth_protected :: "string list" where
  "auth_protected = [''/auth.v1.UserService/GetUserProfile'']"

definition notes_protected :: "string list" where
  "notes_protected =
     [''/notes.v1.NoteService/CreateNote'', ''/notes.v1.NoteService/GetNote'',
      ''/notes.v1.NoteService/ListNotes'', ''/notes.v1.NoteService/UpdateNote'',
      ''/notes.v1.NoteService/DeleteNote'']"

text \<open>What a deployment fixes: the libraries, the configuration of the services, the process id.\<close>

record deployment =
  d_libs :: libs
  d_issuer :: jwt_service
  d_verifier :: jwt_service
  d_cost :: int
  d_pid :: string
  d_headers :: md
  d_cacheTTL :: int

definition auth_chain :: "deployment \<Rightarrow> string \<Rightarrow> 'r handler \<Rightarrow> 'r handler" where
  "auth_chain D fullMethod handler =
     unaryRequestIDInterceptor (d_pid D)
       (NewUnaryAuthInterceptor (d_libs D) (d_issuer D) auth_protected fullMethod handler)"

definition notes_chain :: "deployment \<Rightarrow> string \<Rightarrow> 'r handler \<Rightarrow> 'r handler" where
  "notes_chain D fullMethod handler =
     unaryRequestIDInterceptor (d_pid D)
       (NewUnaryAuthInterceptor (d_libs D) (d_verifier D) notes_protected fullMethod handler)"

subsection \<open>Messages keep what they carry\<close>

lemma noteFromProto_noteToProto [simp]: "noteFromProto (noteToProto n) = n"
  by (cases n) (simp_all add: noteFromProto_def noteToProto_def)

lemma sint_of_nonneg32: "0 \<le> v \<Longrightarrow> v \<le> max_int32 \<Longrightarrow> sint (word_of_int v :: 32 word) = v"
  by (simp add: max_int32_def signed_of_int signed_take_bit_int_eq_self)

lemma sint_clampNonNegative32: "sint (clampNonNegative32 v) = max 0 (min v max_int32)"
  using sint_of_nonneg32 [of v] sint_of_nonneg32 [of max_int32]
  by (auto simp: clampNonNegative32_def max_int32_def max_def min_def)

end
