(* ===== verification/Resilience.thy ===== *)
theory Resilience
  imports Complex_Main Samples
begin

text \<open>
  The retry loop and the service wrappers of \<open>internal/fault\<close>. An operation is a function on
  the world, so what it does to the databases and to the log is part of it; the breakers are
  the world's \<open>w_breakers\<close>, one per backend.

  \<open>BackoffFactor\<close> is a \<open>float64\<close>. The only retry built has the factor 2 and backoffs of at most
  a second, whose products are exact, so a rational number stands for it.
\<close>

record Retry =
  rt_InitialBackoff :: int
  rt_MaxBackoff :: int
  rt_ShouldRetry :: "go_error \<Rightarrow> bool"
  rt_BackoffFactor :: rat
  rt_MaxAttempts :: int

definition millisecond :: int where "millisecond = 1000000"
definition second :: int where "second = 1000 * millisecond"
definition minute :: int where "minute = 60 * second"
definition hour :: int where "hour = 60 * minute"

lemmas duration_defs = millisecond_def second_def minute_def hour_def

definition circuitErrorThreshold :: int where "circuitErrorThreshold = 5"
definition circuitSuccessThreshold :: int where "circuitSuccessThreshold = 2"
definition circuitTimeout :: int where "circuitTimeout = 10 * second"
definition retryMaxAttempts :: int where "retryMaxAttempts = 3"
definition retryInitialBackoff :: int where "retryInitialBackoff = 100 * millisecond"
definition retryMaxBackoff :: int where "retryMaxBackoff = 1 * second"
definition retryBackoffFactor :: rat where "retryBackoffFactor = 2"

lemmas fault_consts =
  circuitErrorThreshold_def circuitSuccessThreshold_def circuitTimeout_def retryMaxAttempts_def
  retryInitialBackoff_def retryMaxBackoff_def retryBackoffFactor_def duration_defs

text \<open>The conversion \<open>time.Duration(f)\<close> truncates towards zero.\<close>

definition duration_of :: "rat \<Rightarrow> int" where
  "duration_of f = (if 0 \<le> f then \<lfloor>f\<rfloor> else \<lceil>f\<rceil>)"

subsection \<open>\<open>retryExecute\<close>\<close>

text \<open>
  The \<open>select\<close> on the timer and \<open>ctx.Done()\<close>: nil when the timer fired, \<open>ctx.Err()\<close> when the
  context ended.
\<close>

definition wait_backoff :: "int \<Rightarrow> world \<Rightarrow> go_error option \<times> world" where
  "wait_backoff d w = ctx_err (log_event (Slept d) w)"

function retry_loop ::
  "Retry \<Rightarrow> (world \<Rightarrow> (go_error + 'a) \<times> world) \<Rightarrow> int \<Rightarrow> int \<Rightarrow> int \<Rightarrow> world \<Rightarrow> (go_error + 'a) \<times> world"
where
  "retry_loop rt operation maxAttempts attempt backoff w =
     (case operation w of
        (Inr res, w1) \<Rightarrow> (Inr res, w1)
      | (Inl err, w1) \<Rightarrow>
          if \<not> rt_ShouldRetry rt err then (Inl err, w1)
          else if attempt \<ge> maxAttempts then (Inl err, w1)
          else
            (case wait_backoff backoff w1 of
               (Some ctxErr, w2) \<Rightarrow> (Inl (errorf_ww (Sentinel ErrContextCanceled) ctxErr), w2)
             | (None, w2) \<Rightarrow>
                 retry_loop rt operation maxAttempts (attempt + 1)
                   (min (duration_of (of_int backoff * rt_BackoffFactor rt)) (rt_MaxBackoff rt)) w2))"
  by pat_completeness auto

termination
  by (relation "measure (\<lambda>(rt, operation, maxAttempts, attempt, backoff, w). nat (maxAttempts - attempt))") auto

declare retry_loop.simps [simp del]

definition retryExecute ::
  "Retry \<Rightarrow> (world \<Rightarrow> (go_error + 'a) \<times> world) \<Rightarrow> world \<Rightarrow> (go_error + 'a) \<times> world" where
  "retryExecute rt operation w =
     retry_loop rt operation (max (rt_MaxAttempts rt) 1) 1 (rt_InitialBackoff rt) w"

definition RetryExecute ::
  "Retry \<Rightarrow> (world \<Rightarrow> (go_error + unit) \<times> world) \<Rightarrow> world \<Rightarrow> (go_error + unit) \<times> world" where
  "RetryExecute rt operation w = retryExecute rt operation w"

subsection \<open>The circuit breaker of a service\<close>

definition as_err :: "go_error + 'a \<Rightarrow> go_error option" where
  "as_err r = (case r of Inl e \<Rightarrow> Some e | Inr _ \<Rightarrow> None)"

definition breaker_allow :: "svc \<Rightarrow> world \<Rightarrow> go_error option \<times> world" where
  "breaker_allow s w =
     (case time_now w of (since, w1) \<Rightarrow>
       (case time_now w1 of (now, w2) \<Rightarrow>
         (case allow since now (w_breakers w2 s) of
            (r, cb) \<Rightarrow> (r, w2\<lparr>w_breakers := (w_breakers w2)(s := cb)\<rparr>))))"

definition breaker_record :: "svc \<Rightarrow> go_error option \<Rightarrow> world \<Rightarrow> world" where
  "breaker_record s err w =
     (case time_now w of (now, w1) \<Rightarrow>
        w1\<lparr>w_breakers := (w_breakers w1)(s := record_result now err (w_breakers w1 s))\<rparr>)"

definition BreakerExecute ::
  "svc \<Rightarrow> (world \<Rightarrow> (go_error + 'a) \<times> world) \<Rightarrow> world \<Rightarrow> (go_error + 'a) \<times> world" where
  "BreakerExecute s fn w =
     (case breaker_allow s w of
        (Some allowErr, w1) \<Rightarrow> (Inl allowErr, w1)
      | (None, w1) \<Rightarrow>
          (case fn w1 of (r, w2) \<Rightarrow> (r, breaker_record s (as_err r) w2)))"

subsection \<open>\<open>ServiceResilience\<close>\<close>

record ServiceResilience =
  sr_serviceName :: string
  sr_circuitBreaker :: svc
  sr_retry :: Retry

definition shouldRetry :: "(go_error \<Rightarrow> bool) option \<Rightarrow> go_error \<Rightarrow> bool" where
  "shouldRetry isInfraError err =
     (if errors_is err Canceled then False
      else (case isInfraError of
              Some f \<Rightarrow> f err
            | None \<Rightarrow> \<not> errors_is err DeadlineExceeded))"

definition NewServiceResilience ::
  "string \<Rightarrow> svc \<Rightarrow> (go_error \<Rightarrow> bool) option \<Rightarrow> world \<Rightarrow> ServiceResilience \<times> world" where
  "NewServiceResilience serviceName s isInfraError w =
     (case time_now w of (now, w1) \<Rightarrow>
        (\<lparr>sr_serviceName = serviceName, sr_circuitBreaker = s,
          sr_retry = \<lparr>rt_InitialBackoff = retryInitialBackoff, rt_MaxBackoff = retryMaxBackoff,
                      rt_ShouldRetry = shouldRetry isInfraError,
                      rt_BackoffFactor = retryBackoffFactor, rt_MaxAttempts = retryMaxAttempts\<rparr>\<rparr>,
         w1\<lparr>w_breakers := (w_breakers w1)(s :=
              \<lparr>cb_lastChange = now, cb_Timeout = circuitTimeout, cb_IsFailure = isInfraError,
               cb_ErrorThreshold = circuitErrorThreshold,
               cb_SuccessThreshold = circuitSuccessThreshold, cb_failures = 0, cb_successes = 0,
               cb_state = StateClosed, cb_halfOpenInFlight = False\<rparr>)\<rparr>))"

definition ExecuteWithResilience ::
  "ServiceResilience \<Rightarrow> (world \<Rightarrow> (go_error + unit) \<times> world) \<Rightarrow> world \<Rightarrow> (go_error + unit) \<times> world" where
  "ExecuteWithResilience r operation w =
     BreakerExecute (sr_circuitBreaker r) (RetryExecute (sr_retry r) operation) w"

definition ExecuteCircuitOnly ::
  "ServiceResilience \<Rightarrow> (world \<Rightarrow> (go_error + unit) \<times> world) \<Rightarrow> world \<Rightarrow> (go_error + unit) \<times> world" where
  "ExecuteCircuitOnly r operation w = BreakerExecute (sr_circuitBreaker r) operation w"

definition ExecuteWithResilienceResult ::
  "ServiceResilience \<Rightarrow> (world \<Rightarrow> (go_error + 'a) \<times> world) \<Rightarrow> world \<Rightarrow> (go_error + 'a) \<times> world" where
  "ExecuteWithResilienceResult r operation w =
     BreakerExecute (sr_circuitBreaker r) (retryExecute (sr_retry r) operation) w"

definition ExecuteCircuitOnlyResult ::
  "ServiceResilience \<Rightarrow> (world \<Rightarrow> (go_error + 'a) \<times> world) \<Rightarrow> world \<Rightarrow> (go_error + 'a) \<times> world" where
  "ExecuteCircuitOnlyResult r operation w = BreakerExecute (sr_circuitBreaker r) operation w"

lemmas execute_defs =
  ExecuteWithResilience_def ExecuteCircuitOnly_def ExecuteWithResilienceResult_def
  ExecuteCircuitOnlyResult_def RetryExecute_def

subsection \<open>The loop\<close>

lemma wait_backoff_simps [simp]:
  "wait_backoff d w =
     (o_ctx (w_outside w (w_tick w)), w\<lparr>w_tick := Suc (w_tick w), w_log := w_log w @ [Slept d]\<rparr>)"
  by (simp add: wait_backoff_def log_event_def)

text \<open>One round of the loop.\<close>

lemma retry_loop_cases:
  obtains (stop) r w1 where "operation w = (r, w1)" "retry_loop rt operation m a b w = (r, w1)"
      "case r of Inr v \<Rightarrow> True | Inl e \<Rightarrow> \<not> rt_ShouldRetry rt e \<or> m \<le> a"
    | (cancelled) e w1 ce where "operation w = (Inl e, w1)" "rt_ShouldRetry rt e" "a < m"
      "o_ctx (w_outside w1 (w_tick w1)) = Some ce"
      "retry_loop rt operation m a b w =
         (Inl (errorf_ww (Sentinel ErrContextCanceled) ce), snd (wait_backoff b w1))"
    | (again) e w1 where "operation w = (Inl e, w1)" "rt_ShouldRetry rt e" "a < m"
      "o_ctx (w_outside w1 (w_tick w1)) = None"
      "retry_loop rt operation m a b w =
         retry_loop rt operation m (a + 1)
           (min (duration_of (of_int b * rt_BackoffFactor rt)) (rt_MaxBackoff rt)) (snd (wait_backoff b w1))"
proof -
  obtain r w1 where op: "operation w = (r, w1)" by fastforce
  note step = retry_loop.simps [of rt operation m a b w]
  show ?thesis
  proof (cases r)
    case (Inr v)
    then show ?thesis using stop [OF op] op step by simp
  next
    case (Inl e)
    show ?thesis
    proof (cases "rt_ShouldRetry rt e \<and> a < m")
      case False
      then show ?thesis using stop [OF op] op step Inl by auto
    next
      case True
      then show ?thesis
        using cancelled [of e w1] again [of e w1] op step Inl
        by (cases "o_ctx (w_outside w1 (w_tick w1))") simp_all
    qed
  qed
qed

lemma retry_loop_invariant:
  assumes "\<And>w. P w \<Longrightarrow> P (snd (operation w))" and "\<And>w d. P w \<Longrightarrow> P (snd (wait_backoff d w))"
    and "P w"
  shows "P (snd (retry_loop rt operation m a b w))"
  using assms(3)
proof (induction "nat (m - a)" arbitrary: a b w rule: less_induct)
  case less
  note op = assms(1) [OF less.prems]
  show ?case
  proof (cases rule: retry_loop_cases [of operation w rt m a b])
    case (again e w1)
    then have "P (snd (wait_backoff b w1))" using op assms(2) by simp
    with again less.hyps [of "a + 1"] show ?thesis by simp
  qed (use op assms(2) in auto)
qed

text \<open>\<open>f\<close> counts something an attempt adds one of at most.\<close>

lemma retry_loop_attempts:
  assumes "\<And>w. f (snd (operation w)) \<le> f w + 1" and "\<And>w d. f (snd (wait_backoff d w)) = f w"
  shows "f (snd (retry_loop rt operation m a b w)) \<le> (f w :: nat) + Suc (nat (m - a))"
proof (induction "nat (m - a)" arbitrary: a b w rule: less_induct)
  case less
  show ?case
  proof (cases rule: retry_loop_cases [of operation w rt m a b])
    case (stop r w1)
    then show ?thesis using assms(1) [of w] by simp
  next
    case (cancelled e w1 ce)
    then show ?thesis using assms(1) [of w] assms(2) [of b w1] by simp
  next
    case (again e w1)
    then have "f (snd (retry_loop rt operation m a b w)) \<le> f (snd (wait_backoff b w1)) + Suc (nat (m - (a + 1)))"
      using less.hyps [of "a + 1"] by simp
    moreover have "Suc (nat (m - (a + 1))) = nat (m - a)" using again by simp
    ultimately show ?thesis using assms(1) [of w] assms(2) [of b w1] again by simp
  qed
qed

lemma retry_loop_result:
  "(case fst (retry_loop rt operation m a b w) of
      Inr v \<Rightarrow> \<exists>w'. fst (operation w') = Inr v
    | Inl e \<Rightarrow> (\<exists>w'. fst (operation w') = Inl e) \<or> errors_is e ErrContextCanceled)"
proof (induction "nat (m - a)" arbitrary: a b w rule: less_induct)
  case less
  show ?case
  proof (cases rule: retry_loop_cases [of operation w rt m a b])
    case (stop r w1)
    then have "\<exists>w'. fst (operation w') = r" by (intro exI [of _ w]) simp
    then show ?thesis using stop by (auto split: sum.splits)
  next
    case (again e w1)
    with less.hyps [of "a + 1"] show ?thesis by simp
  qed simp
qed

text \<open>What is true of the errors of the operation, and of a context that ends, is true of the errors of the loop.\<close>

lemma retry_loop_errors:
  assumes op: "\<And>w e. P w \<Longrightarrow> fst (operation w) = Inl e \<Longrightarrow> Q e"
    and keep: "\<And>w. P w \<Longrightarrow> P (snd (operation w))" "\<And>w d. P w \<Longrightarrow> P (snd (wait_backoff d w))"
    and ended: "\<And>w e. P w \<Longrightarrow> o_ctx (w_outside w (w_tick w)) = Some e \<Longrightarrow> Q (errorf_ww (Sentinel ErrContextCanceled) e)"
    and "P w" and "fst (retry_loop rt operation m a b w) = Inl e"
  shows "Q e"
  using assms(5,6)
proof (induction "nat (m - a)" arbitrary: a b w rule: less_induct)
  case less
  show ?case
  proof (cases rule: retry_loop_cases [of operation w rt m a b])
    case (stop r w1)
    then show ?thesis using op [OF less.prems(1)] less.prems(2) by simp
  next
    case (cancelled e' w1 ce)
    then have "P w1" using keep(1) [OF less.prems(1)] by simp
    with cancelled show ?thesis using ended [of w1 ce] less.prems(2) by simp
  next
    case (again e' w1)
    then have "P (snd (wait_backoff b w1))" using keep [OF keep(1) [OF less.prems(1)]] keep(1) [OF less.prems(1)] keep(2) by simp
    with again less.hyps [of "a + 1"] less.prems(2) show ?thesis by simp
  qed
qed

lemmas retryExecute_invariant =
  retry_loop_invariant [where m = "max (rt_MaxAttempts rt) 1" and a = 1 and b = "rt_InitialBackoff rt"
    and rt = rt for rt, folded retryExecute_def]

subsection \<open>The circuit breaker around an operation\<close>

text \<open>What an admission and a record leave of the world: everything but the breaker and the tick.\<close>

lemma breaker_allow_frame:
  "\<exists>k bs. snd (breaker_allow s w) = w\<lparr>w_tick := k, w_breakers := bs\<rparr>"
  by (cases "allow (o_now (w_outside w (w_tick w))) (o_now (w_outside w (Suc (w_tick w)))) (w_breakers w s)")
     (auto simp: breaker_allow_def)

lemma breaker_record_frame: "\<exists>k bs. breaker_record s e w = w\<lparr>w_tick := k, w_breakers := bs\<rparr>"
  by (auto simp: breaker_record_def)

lemma BreakerExecute_invariant:
  assumes "\<And>w. P w \<Longrightarrow> P (snd (fn w))" and "\<And>w k bs. P w \<Longrightarrow> P (w\<lparr>w_tick := k, w_breakers := bs\<rparr>)"
    and "P w"
  shows "P (snd (BreakerExecute s fn w))"
proof -
  obtain r w1 where a: "breaker_allow s w = (r, w1)" by fastforce
  then have w1: "P w1" using breaker_allow_frame [of s w] assms(2,3) by auto
  show ?thesis
  proof (cases r)
    case None
    obtain v w2 where "fn w1 = (v, w2)" by fastforce
    then show ?thesis
      using a None assms(1) [OF w1] assms(2) breaker_record_frame [of s "as_err v" w2]
      by (auto simp: BreakerExecute_def)
  qed (use a w1 in \<open>simp add: BreakerExecute_def\<close>)
qed

lemma BreakerExecute_attempts:
  assumes "\<And>w. f (snd (fn w)) \<le> f w + n" and "\<And>w k bs. f (w\<lparr>w_tick := k, w_breakers := bs\<rparr>) = f w"
  shows "f (snd (BreakerExecute s fn w)) \<le> (f w :: nat) + n"
proof -
  obtain r w1 where a: "breaker_allow s w = (r, w1)" by fastforce
  then have w1: "f w1 = f w" using breaker_allow_frame [of s w] assms(2) by auto
  show ?thesis
  proof (cases r)
    case None
    obtain v w2 where "fn w1 = (v, w2)" by fastforce
    then show ?thesis
      using a None assms(1) [of w1] w1 assms(2) breaker_record_frame [of s "as_err v" w2]
      by (auto simp: BreakerExecute_def)
  qed (use a w1 in \<open>simp add: BreakerExecute_def\<close>)
qed

lemma BreakerExecute_result:
  assumes "BreakerExecute s fn w = (r, w')"
  shows "(r = Inl (Sentinel ErrCircuitOpen) \<and> (\<exists>k. w' = w\<lparr>w_tick := k\<rparr>)) \<or> (\<exists>w1. fst (fn w1) = r)"
proof -
  obtain a w1 where a: "breaker_allow s w = (a, w1)" by fastforce
  show ?thesis
  proof (cases a)
    case None
    obtain v w2 where "fn w1 = (v, w2)" by fastforce
    with a None assms have "fst (fn w1) = r" by (simp add: BreakerExecute_def)
    then show ?thesis by blast
  next
    case (Some e)
    have "e = Sentinel ErrCircuitOpen \<and> w1 = w\<lparr>w_tick := Suc (Suc (w_tick w))\<rparr>"
      using a Some
      by (auto simp: breaker_allow_def dest!: allow_rejectsD split: prod.splits)
    then show ?thesis using assms a Some by (auto simp: BreakerExecute_def)
  qed
qed

lemma BreakerExecute_errors:
  assumes op: "\<And>w e. P w \<Longrightarrow> fst (fn w) = Inl e \<Longrightarrow> Q e"
    and keep: "\<And>w k bs. P w \<Longrightarrow> P (w\<lparr>w_tick := k, w_breakers := bs\<rparr>)"
    and "Q (Sentinel ErrCircuitOpen)" and "P w" and "fst (BreakerExecute s fn w) = Inl e"
  shows "Q e"
proof -
  obtain a w1 where a: "breaker_allow s w = (a, w1)" by fastforce
  then have w1: "P w1" using breaker_allow_frame [of s w] keep [OF assms(4)] by auto
  show ?thesis
  proof (cases a)
    case None
    obtain v w2 where "fn w1 = (v, w2)" by fastforce
    with a None assms(5) have "fst (fn w1) = Inl e" by (simp add: BreakerExecute_def)
    then show ?thesis by (rule op [OF w1])
  next
    case (Some e')
    have "e' = Sentinel ErrCircuitOpen"
      using a Some by (auto simp: breaker_allow_def dest!: allow_rejectsD split: prod.splits)
    then show ?thesis using assms(3,5) a Some by (auto simp: BreakerExecute_def)
  qed
qed

subsection \<open>The behaviour of the wrappers\<close>

definition default_retry :: "(go_error \<Rightarrow> bool) option \<Rightarrow> Retry" where
  "default_retry isInfraError =
     \<lparr>rt_InitialBackoff = retryInitialBackoff, rt_MaxBackoff = retryMaxBackoff,
      rt_ShouldRetry = shouldRetry isInfraError, rt_BackoffFactor = retryBackoffFactor,
      rt_MaxAttempts = retryMaxAttempts\<rparr>"

lemma NewServiceResilience_retry:
  "sr_retry (fst (NewServiceResilience n s f w)) = default_retry f
   \<and> sr_circuitBreaker (fst (NewServiceResilience n s f w)) = s
   \<and> fresh_breaker (w_breakers (snd (NewServiceResilience n s f w)) s)"
  by (simp add: NewServiceResilience_def default_retry_def fresh_breaker_def breaker_ok_def fault_consts)

text \<open>
  C21: A retried read is tried at most three times, and always ends: whatever the attempts and the
  context do, the calls and the waits are a beginning of call, wait of 100 ms, call, wait of
  200 ms, call. It ends in a wait only when the context ended there, with \<open>ErrContextCanceled\<close>,
  and a backend that stays unavailable is called three times, its error returned.
\<close>

theorem retry_backoff_schedule:
  assumes call: "\<And>w. w_log (snd (operation w)) = w_log w @ [Called s]"
  shows "(\<exists>k \<in> {1..5}.
      w_log (snd (retryExecute (default_retry f) operation w)) =
        w_log w @ take k [Called s, Slept (100 * millisecond), Called s, Slept (200 * millisecond), Called s]
      \<and> (even k \<longrightarrow> (\<exists>e. fst (retryExecute (default_retry f) operation w) = Inl e \<and> errors_is e ErrContextCanceled)))
    \<and> ((\<forall>w'. \<exists>e. fst (operation w') = Inl e \<and> shouldRetry f e) \<and> (\<forall>n. o_ctx (w_outside w n) = None)
         \<and> (\<forall>w'. w_outside (snd (operation w')) = w_outside w') \<longrightarrow>
       w_log (snd (retryExecute (default_retry f) operation w)) =
         w_log w @ [Called s, Slept (100 * millisecond), Called s, Slept (200 * millisecond), Called s])"
    (is "(\<exists>k \<in> {1..5}. ?log k \<and> ?ended k) \<and> (?down \<longrightarrow> ?full)")
proof -
  let ?rt = "default_retry f"
  have rt: "rt_ShouldRetry ?rt = shouldRetry f" by (simp add: default_retry_def)
  have run: "retryExecute ?rt operation w = retry_loop ?rt operation 3 1 100000000 w"
    by (simp add: retryExecute_def default_retry_def fault_consts)
  have b: "min (duration_of (of_int 100000000 * rt_BackoffFactor ?rt)) (rt_MaxBackoff ?rt) = 200000000"
    by (simp add: default_retry_def fault_consts duration_of_def)
  have log: "w_log w1 = w_log w0 @ [Called s]" if "operation w0 = (r, w1)" for w0 r w1
    using call [of w0] that by simp
  have last: "w_log (snd (retry_loop ?rt operation 3 3 b' w0)) = w_log w0 @ [Called s]" for b' w0
    by (cases rule: retry_loop_cases [of operation w0 ?rt 3 3 b']) (auto dest: log)
  have mid: "\<exists>k \<in> {1..3}. w_log (snd (retry_loop ?rt operation 3 2 200000000 w0)) =
        w_log w0 @ take k [Called s, Slept 200000000, Called s]
      \<and> (k = 2 \<longrightarrow> (\<exists>e. fst (retry_loop ?rt operation 3 2 200000000 w0) = Inl e \<and> errors_is e ErrContextCanceled))" for w0
  proof (cases rule: retry_loop_cases [of operation w0 ?rt 3 2 200000000])
    case (stop r w1)
    then show ?thesis by (intro bexI [of _ 1]) (auto dest: log)
  next
    case (cancelled e w1 ce)
    then show ?thesis by (intro bexI [of _ 2]) (auto dest: log)
  next
    case (again e w1)
    then show ?thesis by (intro bexI [of _ 3]) (auto dest: log simp: last)
  qed
  have "\<exists>k \<in> {1..5}. ?log k \<and> ?ended k"
  proof (cases rule: retry_loop_cases [of operation w ?rt 3 1 100000000])
    case (stop r w1)
    then show ?thesis unfolding run by (intro bexI [of _ 1]) (auto dest: log)
  next
    case (cancelled e w1 ce)
    then show ?thesis unfolding run by (intro bexI [of _ 2]) (auto dest: log simp: millisecond_def)
  next
    case (again e w1)
    from mid [of "snd (wait_backoff 100000000 w1)"] obtain k where k: "k \<in> {1..3}"
      "w_log (snd (retryExecute ?rt operation w)) =
         w_log w @ Called s # Slept 100000000 # take k [Called s, Slept 200000000, Called s]"
      "k = 2 \<longrightarrow> (\<exists>e. fst (retryExecute ?rt operation w) = Inl e \<and> errors_is e ErrContextCanceled)"
      using again unfolding run b by (auto dest: log)
    then have "k = 1 \<or> k = 2 \<or> k = 3" by auto
    with k show ?thesis by (intro bexI [of _ "Suc (Suc k)"]) (auto simp: millisecond_def)
  qed
  moreover have ?full if ?down
  proof -
    have go: "\<exists>w1. w_outside w1 = w_outside w0 \<and> w_log w1 = w_log w0 @ [Called s, Slept b']
        \<and> retry_loop ?rt operation 3 a b' w0 =
           retry_loop ?rt operation 3 (a + 1) (min (duration_of (of_int b' * rt_BackoffFactor ?rt)) (rt_MaxBackoff ?rt)) w1"
      if "a < 3" and "w_outside w0 = w_outside w" for a b' w0
    proof -
      obtain e w1 where op: "operation w0 = (Inl e, w1)" "shouldRetry f e"
        using \<open>?down\<close> by (metis prod.collapse)
      then have out: "w_outside w1 = w_outside w" using \<open>?down\<close> that(2) by (metis snd_conv)
      then have "o_ctx (w_outside w1 (w_tick w1)) = None" using \<open>?down\<close> by simp
      then show ?thesis
        using op that out log [OF op(1)]
        by (intro exI [of _ "snd (wait_backoff b' w1)"])
           (auto simp: retry_loop.simps [of ?rt operation 3 a b' w0] rt wait_backoff_def log_event_def)
    qed
    from go [of 1 w 100000000] obtain w1 where w1: "w_outside w1 = w_outside w"
      "w_log w1 = w_log w @ [Called s, Slept 100000000]"
      "retryExecute ?rt operation w = retry_loop ?rt operation 3 2 200000000 w1"
      unfolding run b by auto
    from go [of 2 w1 200000000] w1(1) obtain w2 b2 where
      "w_log w2 = w_log w1 @ [Called s, Slept 200000000]"
      "retryExecute ?rt operation w = retry_loop ?rt operation 3 3 b2 w2"
      using w1(3) by auto
    then show ?thesis using w1(2) last by (simp add: millisecond_def)
  qed
  ultimately show ?thesis by blast
qed

lemma retry_backoff_schedule_witness:
  "w_log (snd (retryExecute (default_retry None)
       (\<lambda>w. (Inl (Sentinel ErrServiceUnavailable) :: go_error + unit, log_event (Called NotesSvc) w)) sample_world))
   = [Called NotesSvc, Slept (100 * millisecond), Called NotesSvc, Slept (200 * millisecond), Called NotesSvc]"
proof -
  have "w_log (snd ((Inl (Sentinel ErrServiceUnavailable) :: go_error + unit, log_event (Called NotesSvc) w)))
      = w_log w @ [Called NotesSvc]" for w
    by (simp add: log_event_def)
  from retry_backoff_schedule [where operation = "\<lambda>w. (Inl (Sentinel ErrServiceUnavailable) :: go_error + unit, log_event (Called NotesSvc) w)",
      OF this, of None sample_world]
  show ?thesis by (simp add: shouldRetry_def sample_defs log_event_def)
qed

end
