(* ===== verification/GrpcClients.thy ===== *)
theory GrpcClients
  imports GrpcServer Resilience
begin

text \<open>
  The gateway's clients of the two services (\<open>internal/adapters/grpc/clients.go\<close>): each method
  sends one request with the context's metadata and turns the reply or the status back into
  domain values.
\<close>

text \<open>
  One call over the network. The server runs its chain on the context that arrives; the request
  or the reply may be lost, and the client then sees the error the world has for it.
\<close>

definition rpc :: "svc \<Rightarrow> md \<Rightarrow> 'r handler \<Rightarrow> go_ctx \<Rightarrow> world \<Rightarrow> (go_error + 'r) \<times> world" where
  "rpc s hs server ctx w = request (\<lambda>ev w1. server (server_ctx hs ctx) w1) (log_event (Called s) w)"

definition domain_error :: "go_error \<Rightarrow> sentinel \<Rightarrow> go_error" where
  "domain_error err notFound = (case statusToDomain (Some err) notFound of Some e \<Rightarrow> e | None \<Rightarrow> err)"

definition clampInt32 :: "int \<Rightarrow> 32 word" where
  "clampInt32 v =
     (if v > max_int32 then word_of_int max_int32 else if v < 0 then 0 else word_of_int v)"

definition tokenPairFromAuth :: "string \<Rightarrow> string \<Rightarrow> string \<Rightarrow> string \<Rightarrow> time \<Rightarrow> TokenPair" where
  "tokenPairFromAuth userID username accessToken refreshToken expiresAt =
     \<lparr>pair_ExpiresAt = expiresAt, pair_UserID = userID, pair_Username = username,
      pair_AccessToken = accessToken, pair_RefreshToken = refreshToken\<rparr>"

definition pair_of_reply :: "TokenReply \<Rightarrow> TokenPair" where
  "pair_of_reply resp = tokenPairFromAuth (tr_UserId resp) (tr_Username resp) (tr_AccessToken resp)
     (tr_RefreshToken resp) (tr_ExpiresAt resp)"

subsection \<open>\<open>AuthClient\<close>\<close>

definition AuthClient_Register ::
  "deployment \<Rightarrow> go_ctx \<Rightarrow> string \<Rightarrow> string \<Rightarrow> string \<Rightarrow> world \<Rightarrow> (go_error + TokenPair) \<times> world" where
  "AuthClient_Register D ctx email username password w =
     (case rpc AuthSvc (d_headers D)
             (auth_chain D ''/auth.v1.AuthService/Register''
                (AuthHandler_Register (d_libs D) (d_issuer D) (d_cost D) email username password)) ctx w of
        (Inl err, w1) \<Rightarrow> (Inl (domain_error err ErrUserNotFound), w1)
      | (Inr resp, w1) \<Rightarrow> (Inr (pair_of_reply resp), w1))"

definition AuthClient_Login ::
  "deployment \<Rightarrow> go_ctx \<Rightarrow> string \<Rightarrow> string \<Rightarrow> world \<Rightarrow> (go_error + TokenPair) \<times> world" where
  "AuthClient_Login D ctx email password w =
     (case rpc AuthSvc (d_headers D)
             (auth_chain D ''/auth.v1.AuthService/Login''
                (AuthHandler_Login (d_libs D) (d_issuer D) email password)) ctx w of
        (Inl err, w1) \<Rightarrow> (Inl (domain_error err ErrUserNotFound), w1)
      | (Inr resp, w1) \<Rightarrow> (Inr (pair_of_reply resp), w1))"

definition AuthClient_RefreshTokens ::
  "deployment \<Rightarrow> go_ctx \<Rightarrow> string \<Rightarrow> world \<Rightarrow> (go_error + TokenPair) \<times> world" where
  "AuthClient_RefreshTokens D ctx refreshToken w =
     (case rpc AuthSvc (d_headers D)
             (auth_chain D ''/auth.v1.AuthService/RefreshTokens''
                (AuthHandler_RefreshTokens (d_libs D) (d_issuer D) refreshToken)) ctx w of
        (Inl err, w1) \<Rightarrow> (Inl (domain_error err ErrUserNotFound), w1)
      | (Inr resp, w1) \<Rightarrow> (Inr (pair_of_reply resp), w1))"

definition AuthClient_Logout ::
  "deployment \<Rightarrow> go_ctx \<Rightarrow> string \<Rightarrow> world \<Rightarrow> (go_error + unit) \<times> world" where
  "AuthClient_Logout D ctx refreshToken w =
     (case rpc AuthSvc (d_headers D)
             (auth_chain D ''/auth.v1.AuthService/Logout'' (AuthHandler_Logout (d_libs D) refreshToken)) ctx w of
        (Inl err, w1) \<Rightarrow> (Inl (domain_error err ErrUserNotFound), w1)
      | (Inr _, w1) \<Rightarrow> (Inr (), w1))"

definition AuthClient_GetUserProfile ::
  "deployment \<Rightarrow> go_ctx \<Rightarrow> string \<Rightarrow> world \<Rightarrow> (go_error + User) \<times> world" where
  "AuthClient_GetUserProfile D ctx accessToken w =
     (case rpc AuthSvc (d_headers D)
             (auth_chain D ''/auth.v1.UserService/GetUserProfile'' (UserHandler_GetUserProfile (d_libs D)))
             (outgoingContextWithToken ctx accessToken) w of
        (Inl err, w1) \<Rightarrow> (Inl (domain_error err ErrUserNotFound), w1)
      | (Inr resp, w1) \<Rightarrow>
          (Inr \<lparr>user_CreatedAt = pr_CreatedAt resp, user_UpdatedAt = zero_time,
                user_ID = pr_UserId resp, user_Email = pr_Email resp,
                user_Username = pr_Username resp, user_PasswordHash = ''''\<rparr>, w1))"

subsection \<open>\<open>NotesClient\<close>\<close>

definition NotesClient_CreateNote ::
  "deployment \<Rightarrow> go_ctx \<Rightarrow> string \<Rightarrow> string \<Rightarrow> string \<Rightarrow> world \<Rightarrow> (go_error + Note option) \<times> world" where
  "NotesClient_CreateNote D ctx accessToken title content w =
     (case rpc NotesSvc (d_headers D)
             (notes_chain D ''/notes.v1.NoteService/CreateNote''
                (NoteHandler_CreateNote (d_libs D) title content))
             (outgoingContextWithToken ctx accessToken) w of
        (Inl err, w1) \<Rightarrow> (Inl (domain_error err ErrNoteNotFound), w1)
      | (Inr resp, w1) \<Rightarrow> (Inr (noteFromProto resp), w1))"

definition NotesClient_GetNote ::
  "deployment \<Rightarrow> go_ctx \<Rightarrow> string \<Rightarrow> string \<Rightarrow> world \<Rightarrow> (go_error + Note option) \<times> world" where
  "NotesClient_GetNote D ctx accessToken noteID w =
     (case rpc NotesSvc (d_headers D)
             (notes_chain D ''/notes.v1.NoteService/GetNote'' (NoteHandler_GetNote (d_libs D) noteID))
             (outgoingContextWithToken ctx accessToken) w of
        (Inl err, w1) \<Rightarrow> (Inl (domain_error err ErrNoteNotFound), w1)
      | (Inr resp, w1) \<Rightarrow> (Inr (noteFromProto resp), w1))"

definition NotesClient_ListNotes ::
  "deployment \<Rightarrow> go_ctx \<Rightarrow> string \<Rightarrow> int \<Rightarrow> int \<Rightarrow> world \<Rightarrow> (go_error + Note option list \<times> int) \<times> world"
where
  "NotesClient_ListNotes D ctx accessToken limit offset w =
     (case rpc NotesSvc (d_headers D)
             (notes_chain D ''/notes.v1.NoteService/ListNotes''
                (NoteHandler_ListNotes (d_libs D) (clampInt32 limit) (clampInt32 offset)))
             (outgoingContextWithToken ctx accessToken) w of
        (Inl err, w1) \<Rightarrow> (Inl (domain_error err ErrNoteNotFound), w1)
      | (Inr resp, w1) \<Rightarrow> (Inr (map noteFromProto (ln_Notes resp), sint (ln_TotalCount resp)), w1))"

definition NotesClient_UpdateNote ::
  "deployment \<Rightarrow> go_ctx \<Rightarrow> string \<Rightarrow> string \<Rightarrow> string option \<Rightarrow> string option \<Rightarrow> world \<Rightarrow>
     (go_error + Note option) \<times> world" where
  "NotesClient_UpdateNote D ctx accessToken noteID title content w =
     (case rpc NotesSvc (d_headers D)
             (notes_chain D ''/notes.v1.NoteService/UpdateNote''
                (NoteHandler_UpdateNote (d_libs D) noteID title content))
             (outgoingContextWithToken ctx accessToken) w of
        (Inl err, w1) \<Rightarrow> (Inl (domain_error err ErrNoteNotFound), w1)
      | (Inr resp, w1) \<Rightarrow> (Inr (noteFromProto resp), w1))"

definition NotesClient_DeleteNote ::
  "deployment \<Rightarrow> go_ctx \<Rightarrow> string \<Rightarrow> string \<Rightarrow> world \<Rightarrow> (go_error + unit) \<times> world" where
  "NotesClient_DeleteNote D ctx accessToken noteID w =
     (case rpc NotesSvc (d_headers D)
             (notes_chain D ''/notes.v1.NoteService/DeleteNote'' (NoteHandler_DeleteNote (d_libs D) noteID))
             (outgoingContextWithToken ctx accessToken) w of
        (Inl err, w1) \<Rightarrow> (Inl (domain_error err ErrNoteNotFound), w1)
      | (Inr _, w1) \<Rightarrow> (Inr (), w1))"

end
