(* ===== verification/RedisCache.thy ===== *)
theory RedisCache
  imports Resilience
begin

text \<open>
  The cache of \<open>internal/adapters/redis\<close>: a map from keys to values with the time they expire
  at. The client sends a lifetime in whole milliseconds, at least one.
\<close>

definition defaultCacheTTL :: int where "defaultCacheTTL = 15 * minute"

definition redis_lifetime :: "int \<Rightarrow> int" where
  "redis_lifetime ttl = (if ttl < millisecond then millisecond else ttl div millisecond * millisecond)"

definition redis_nil :: go_error where
  "redis_nil = Library RedisNil ''redis: nil''"

definition redis_GET :: "string \<Rightarrow> outside \<Rightarrow> world \<Rightarrow> (go_error + string) \<times> world" where
  "redis_GET key ev w =
     (case w_cache w key of
        None \<Rightarrow> (Inl redis_nil, w)
      | Some (v, expires) \<Rightarrow> if o_now ev < expires then (Inr v, w) else (Inl redis_nil, w))"

definition redis_SET :: "string \<Rightarrow> string \<Rightarrow> int \<Rightarrow> outside \<Rightarrow> world \<Rightarrow> (go_error + unit) \<times> world" where
  "redis_SET key v ttl ev w =
     (Inr (), w\<lparr>w_cache := (w_cache w)(key \<mapsto> (v, o_now ev + redis_lifetime ttl)),
                w_log := w_log w @ [CacheWritten key v ttl]\<rparr>)"

definition redis_DEL :: "string \<Rightarrow> outside \<Rightarrow> world \<Rightarrow> (go_error + unit) \<times> world" where
  "redis_DEL key ev w = (Inr (), w\<lparr>w_cache := (w_cache w)(key := None)\<rparr>)"

definition Cache_Get :: "string \<Rightarrow> world \<Rightarrow> (go_error + string) \<times> world" where
  "Cache_Get key w =
     (case request (redis_GET key) w of
        (Inl err, w1) \<Rightarrow>
          if errors_is_library err RedisNil then (Inr '''', w1)
          else (Inl (errorf_w ''redis: get'' err), w1)
      | (Inr v, w1) \<Rightarrow> (Inr v, w1))"

text \<open>\<open>defaultTTL\<close> is the field of the \<open>Cache\<close>.\<close>

definition Cache_Set :: "int \<Rightarrow> string \<Rightarrow> string \<Rightarrow> int \<Rightarrow> world \<Rightarrow> (go_error + unit) \<times> world" where
  "Cache_Set defaultTTL key v ttl0 w =
     (let ttl = (if ttl0 \<le> 0 then defaultTTL else ttl0) in
      case request (redis_SET key v ttl) w of
        (Inl err, w1) \<Rightarrow> (Inl (errorf_w ''redis: set'' err), w1)
      | (Inr _, w1) \<Rightarrow> (Inr (), w1))"

definition Cache_Delete :: "string \<Rightarrow> world \<Rightarrow> (go_error + unit) \<times> world" where
  "Cache_Delete key w =
     (case request (redis_DEL key) w of
        (Inl err, w1) \<Rightarrow> (Inl (errorf_w ''redis: delete'' err), w1)
      | (Inr _, w1) \<Rightarrow> (Inr (), w1))"

definition Cache_Ping :: "world \<Rightarrow> (go_error + unit) \<times> world" where
  "Cache_Ping w =
     (case request (\<lambda>ev w. (Inr (), w)) w of
        (Inl err, w1) \<Rightarrow> (Inl (errorf_w ''redis: ping'' err), w1)
      | (Inr _, w1) \<Rightarrow> (Inr (), w1))"

subsection \<open>Reading and writing\<close>

lemma Cache_Get_quiet: "quiet w (snd (Cache_Get key w))"
  by (auto simp: Cache_Get_def request_def ask_def redis_GET_def
        split: fault.splits option.splits prod.splits sum.splits if_splits)

lemma Cache_Get_Inr:
  "Cache_Get key w = (Inr v, w') \<Longrightarrow> v \<noteq> '''' \<Longrightarrow>
     \<exists>expires. w_cache w key = Some (v, expires) \<and> o_now (w_outside w (w_tick w)) < expires"
  by (auto simp: Cache_Get_def request_def ask_def redis_GET_def
        split: fault.splits option.splits prod.splits sum.splits if_splits)

text \<open>What a \<open>Set\<close> leaves: nothing changed but the entry of its key, if that.\<close>

lemma Cache_Set_effect:
  assumes "Cache_Set d key v ttl w = (r, w')"
  shows "w_users w' = w_users w \<and> w_tokens w' = w_tokens w \<and> w_notes w' = w_notes w
     \<and> w_breakers w' = w_breakers w
     \<and> ((w_cache w' = w_cache w \<and> w_log w' = w_log w)
        \<or> (\<exists>t. w_cache w' = (w_cache w)(key \<mapsto> (v, t))
              \<and> w_log w' = w_log w @ [CacheWritten key v (if ttl \<le> 0 then d else ttl)]))"
  using assms
  by (auto simp: Cache_Set_def Let_def request_def ask_def redis_SET_def
        split: fault.splits prod.splits sum.splits)

text \<open>
  A value written to the cache is read back until its lifetime ends, and not later; a value
  written under another key, or never written, is not seen.
\<close>

lemma cache_set_get:
  assumes "calm w" and "Cache_Set d key v ttl w = (Inr (), w1)" and "quiet w1 w2" and "calm w2" and "v \<noteq> ''''"
  shows "fst (Cache_Get key w2) =
      Inr (if o_now (w_outside w2 (w_tick w2)) <
              o_now (w_outside w (w_tick w)) + redis_lifetime (if ttl \<le> 0 then d else ttl)
           then v else '''')
    \<and> (key' \<noteq> key \<longrightarrow> fst (Cache_Get key' w2) = fst (Cache_Get key' (w2\<lparr>w_cache := w_cache w\<rparr>)))"
proof -
  have c: "w_cache w2 = (w_cache w)(key \<mapsto> (v, o_now (w_outside w (w_tick w)) + redis_lifetime (if ttl \<le> 0 then d else ttl)))"
    using assms(1-3) by (auto simp: Cache_Set_def request_Served redis_SET_def Let_def quiet_def)
  show ?thesis
    using assms(4) c by (auto simp: Cache_Get_def request_Served redis_GET_def redis_nil_def split: option.splits)
qed

lemma cache_set_get_witness:
  "fst (Cache_Get ''k'' (snd (Cache_Set minute ''k'' ''v'' 0 sample_world))) = Inr ''v''"
proof -
  have "calm sample_world" by (simp add: calm_def sample_defs)
  moreover obtain w1 where w1: "Cache_Set minute ''k'' ''v'' 0 sample_world = (Inr (), w1)" "w_tick w1 = 1"
    "w_outside w1 = sample_outside"
    by (simp add: Cache_Set_def request_def ask_def redis_SET_def sample_defs)
  ultimately show ?thesis
    using cache_set_get [of sample_world minute "''k''" "''v''" 0 w1 w1]
    by (simp add: calm_def redis_lifetime_def duration_defs sample_outside_def sample_world_def)
qed

end
