(* ===== verification/Gateway.thy ===== *)
theory Gateway
  imports GrpcClients RedisCache
begin

text \<open>
  The gateway's services of \<open>internal/app/gateway.go\<close>: every call to a backend goes through the
  backend's circuit breaker, reads are retried, and profiles are cached.

  \<open>ra\<close> and \<open>rn\<close> are the \<open>ServiceResilience\<close> of the two services.
\<close>

definition profileCacheTTL :: int where "profileCacheTTL = 15 * minute"

definition isInfraError :: "go_error \<Rightarrow> bool" where
  "isInfraError err \<longleftrightarrow> errors_is err ErrServiceUnavailable \<or> errors_is err DeadlineExceeded"

definition NewAuthService :: "world \<Rightarrow> ServiceResilience \<times> world" where
  "NewAuthService w = NewServiceResilience ''auth-service'' AuthSvc (Some isInfraError) w"

definition NewNotesService :: "world \<Rightarrow> ServiceResilience \<times> world" where
  "NewNotesService w = NewServiceResilience ''notes-service'' NotesSvc (Some isInfraError) w"

text \<open>The operation each wrapper runs: the client's call, its error wrapped.\<close>

definition wrapped :: "string \<Rightarrow> (world \<Rightarrow> (go_error + 'a) \<times> world) \<Rightarrow> world \<Rightarrow> (go_error + 'a) \<times> world" where
  "wrapped p fn w =
     (case fn w of
        (Inl err, w1) \<Rightarrow> (Inl (errorf_w p err), w1)
      | (Inr v, w1) \<Rightarrow> (Inr v, w1))"

subsection \<open>\<open>AuthService\<close>\<close>

definition AuthService_Register ::
  "deployment \<Rightarrow> ServiceResilience \<Rightarrow> go_ctx \<Rightarrow> string \<Rightarrow> string \<Rightarrow> string \<Rightarrow> world \<Rightarrow>
     (go_error + TokenPair) \<times> world" where
  "AuthService_Register D ra ctx email username password w =
     ExecuteCircuitOnlyResult ra
       (wrapped ''register'' (AuthClient_Register D ctx email username password)) w"

definition AuthService_Login ::
  "deployment \<Rightarrow> ServiceResilience \<Rightarrow> go_ctx \<Rightarrow> string \<Rightarrow> string \<Rightarrow> world \<Rightarrow> (go_error + TokenPair) \<times> world"
where
  "AuthService_Login D ra ctx email password w =
     ExecuteCircuitOnlyResult ra (wrapped ''login'' (AuthClient_Login D ctx email password)) w"

definition AuthService_RefreshTokens ::
  "deployment \<Rightarrow> ServiceResilience \<Rightarrow> go_ctx \<Rightarrow> string \<Rightarrow> world \<Rightarrow> (go_error + TokenPair) \<times> world" where
  "AuthService_RefreshTokens D ra ctx refreshToken w =
     ExecuteCircuitOnlyResult ra (wrapped ''refresh tokens'' (AuthClient_RefreshTokens D ctx refreshToken)) w"

definition AuthService_Logout ::
  "deployment \<Rightarrow> ServiceResilience \<Rightarrow> go_ctx \<Rightarrow> string \<Rightarrow> world \<Rightarrow> (go_error + unit) \<times> world" where
  "AuthService_Logout D ra ctx refreshToken w =
     ExecuteCircuitOnly ra (wrapped ''logout'' (AuthClient_Logout D ctx refreshToken)) w"

definition profileCacheKey :: "string \<Rightarrow> string" where
  "profileCacheKey userID = ''profile:user:'' @ userID"

definition profileTokenHintKey :: "string \<Rightarrow> string" where
  "profileTokenHintKey tokenHash = ''profile:tok:'' @ tokenHash"

definition accessTokenTTLRemaining :: "libs \<Rightarrow> string \<Rightarrow> world \<Rightarrow> int \<times> world" where
  "accessTokenTTLRemaining L accessToken w =
     (case jwt_unverified_expiry L accessToken of
        Inl parseErr \<Rightarrow> (0, w)
      | Inr None \<Rightarrow> (0, w)
      | Inr (Some expiresAt) \<Rightarrow>
          (case time_now w of (now, w1) \<Rightarrow>
             (let remaining = expiresAt - now in
              if remaining \<le> 0 then (0, w1) else (remaining, w1))))"

definition cachedProfile :: "libs \<Rightarrow> string \<Rightarrow> int \<Rightarrow> world \<Rightarrow> User option \<times> world" where
  "cachedProfile L hintKey remaining w =
     (if remaining \<le> 0 then (None, w)
      else
        (case Cache_Get hintKey w of
           (Inl hintErr, w1) \<Rightarrow> (None, w1)
         | (Inr userID, w1) \<Rightarrow>
             if userID = '''' then (None, w1)
             else
               (case Cache_Get (profileCacheKey userID) w1 of
                  (Inl cacheErr, w2) \<Rightarrow> (None, w2)
                | (Inr cached, w2) \<Rightarrow>
                    if cached = '''' then (None, w2)
                    else
                      (case json_unmarshal_user L cached of
                         Inl unmarshalErr \<Rightarrow> (None, w2)
                       | Inr profile \<Rightarrow> (Some profile, w2)))))"

text \<open>The two writes after a profile was fetched; their errors are dropped.\<close>

definition cacheProfile :: "deployment \<Rightarrow> string \<Rightarrow> int \<Rightarrow> User \<Rightarrow> world \<Rightarrow> world" where
  "cacheProfile D hintKey remaining profile w =
     (if remaining > 0 \<and> user_ID profile \<noteq> '''' then
        (case json_marshal_user (d_libs D) profile of
           Inl marshalErr \<Rightarrow> w
         | Inr profileJSON \<Rightarrow>
             (let ttl = min remaining profileCacheTTL in
              case Cache_Set (d_cacheTTL D) (profileCacheKey (user_ID profile)) profileJSON ttl w of (_, w1) \<Rightarrow>
                snd (Cache_Set (d_cacheTTL D) hintKey (user_ID profile) ttl w1)))
      else w)"

definition AuthService_GetUserProfile ::
  "deployment \<Rightarrow> ServiceResilience \<Rightarrow> go_ctx \<Rightarrow> string \<Rightarrow> world \<Rightarrow> (go_error + User) \<times> world" where
  "AuthService_GetUserProfile D ra ctx accessToken w =
     (case accessTokenTTLRemaining (d_libs D) accessToken w of (remaining, w1) \<Rightarrow>
       (let hintKey = profileTokenHintKey (hashToken (d_libs D) accessToken) in
        case cachedProfile (d_libs D) hintKey remaining w1 of
          (Some cached, w2) \<Rightarrow> (Inr cached, w2)
        | (None, w2) \<Rightarrow>
            (case ExecuteWithResilienceResult ra
                    (wrapped ''get profile'' (AuthClient_GetUserProfile D ctx accessToken)) w2 of
               (Inl err, w3) \<Rightarrow> (Inl err, w3)
             | (Inr profile, w3) \<Rightarrow> (Inr profile, cacheProfile D hintKey remaining profile w3))))"

subsection \<open>\<open>NotesService\<close>\<close>

definition clampNonNegative :: "int \<Rightarrow> int" where
  "clampNonNegative v = (if v > max_int32 then max_int32 else if v < 0 then 0 else v)"

definition NotesService_CreateNote ::
  "deployment \<Rightarrow> ServiceResilience \<Rightarrow> go_ctx \<Rightarrow> string \<Rightarrow> string \<Rightarrow> string \<Rightarrow> world \<Rightarrow>
     (go_error + Note option) \<times> world" where
  "NotesService_CreateNote D rn ctx accessToken title content w =
     ExecuteCircuitOnlyResult rn
       (wrapped ''create note'' (NotesClient_CreateNote D ctx accessToken title content)) w"

definition NotesService_GetNote ::
  "deployment \<Rightarrow> ServiceResilience \<Rightarrow> go_ctx \<Rightarrow> string \<Rightarrow> string \<Rightarrow> world \<Rightarrow> (go_error + Note option) \<times> world"
where
  "NotesService_GetNote D rn ctx accessToken noteID w =
     ExecuteWithResilienceResult rn (wrapped ''get note'' (NotesClient_GetNote D ctx accessToken noteID)) w"

definition NotesService_ListNotes ::
  "deployment \<Rightarrow> ServiceResilience \<Rightarrow> go_ctx \<Rightarrow> string \<Rightarrow> int \<Rightarrow> int \<Rightarrow> world \<Rightarrow>
     (go_error + Note option list \<times> int) \<times> world" where
  "NotesService_ListNotes D rn ctx accessToken limit offset w =
     ExecuteWithResilienceResult rn
       (wrapped ''list notes''
          (NotesClient_ListNotes D ctx accessToken (clampNonNegative limit) (clampNonNegative offset))) w"

definition NotesService_UpdateNote ::
  "deployment \<Rightarrow> ServiceResilience \<Rightarrow> go_ctx \<Rightarrow> string \<Rightarrow> string \<Rightarrow> string option \<Rightarrow> string option \<Rightarrow>
     world \<Rightarrow> (go_error + Note option) \<times> world" where
  "NotesService_UpdateNote D rn ctx accessToken noteID title content w =
     ExecuteCircuitOnlyResult rn
       (wrapped ''update note'' (NotesClient_UpdateNote D ctx accessToken noteID title content)) w"

definition NotesService_DeleteNote ::
  "deployment \<Rightarrow> ServiceResilience \<Rightarrow> go_ctx \<Rightarrow> string \<Rightarrow> string \<Rightarrow> world \<Rightarrow> (go_error + unit) \<times> world" where
  "NotesService_DeleteNote D rn ctx accessToken noteID w =
     ExecuteCircuitOnly rn (wrapped ''delete note'' (NotesClient_DeleteNote D ctx accessToken noteID)) w"

subsection \<open>Calls to the backends\<close>

text \<open>The number of requests sent to a backend so far.\<close>

definition sent :: "svc \<Rightarrow> world \<Rightarrow> nat" where
  "sent s w = length (filter (\<lambda>e. e = Called s) (w_log w))"

lemma sent_update [simp]:
  "sent s (w\<lparr>w_tick := n\<rparr>) = sent s w" "sent s (w\<lparr>w_breakers := bs\<rparr>) = sent s w"
  "sent s (w\<lparr>w_cache := c\<rparr>) = sent s w" "sent s (w\<lparr>w_tokens := ts\<rparr>) = sent s w"
  "sent s (w\<lparr>w_users := us\<rparr>) = sent s w" "sent s (w\<lparr>w_notes := ns\<rparr>) = sent s w"
  by (simp_all add: sent_def)

end
