(* ===== verification/Traffic.thy ===== *)
theory Traffic
  imports Gateway
begin

text \<open>
  What the gateway sends to the backends: a service never calls another, a write is sent at most
  once, a read at most three times, and nothing is sent while the breaker is open.
\<close>

subsection \<open>The services send nothing\<close>

text \<open>
  What of the world a backend's own work leaves alone: what lies outside, the gateway's cache and
  breakers, and the log. \<open>scene\<close> is the same up to the comparisons of hashes.
\<close>

definition backdrop :: "world \<Rightarrow> (nat \<Rightarrow> outside) \<times> (string \<rightharpoonup> string \<times> time) \<times> (svc \<Rightarrow> CircuitBreaker) \<times> event list" where
  "backdrop w = (w_outside w, w_cache w, w_breakers w, w_log w)"

definition scene :: "world \<Rightarrow> (nat \<Rightarrow> outside) \<times> (string \<rightharpoonup> string \<times> time) \<times> (svc \<Rightarrow> CircuitBreaker) \<times> event list" where
  "scene w = (w_outside w, w_cache w, w_breakers w, traffic w)"

lemma backdrop_update [simp]:
  "backdrop (w\<lparr>w_tick := n\<rparr>) = backdrop w" "backdrop (w\<lparr>w_users := us\<rparr>) = backdrop w"
  "backdrop (w\<lparr>w_tokens := ts\<rparr>) = backdrop w" "backdrop (w\<lparr>w_notes := ns\<rparr>) = backdrop w"
  by (simp_all add: backdrop_def)

lemma scene_update [simp]: "scene (w\<lparr>w_tick := n\<rparr>) = scene w"
  by (simp add: scene_def)

lemma scene_backdrop: "backdrop w' = backdrop w \<Longrightarrow> scene w' = scene w"
  by (simp add: backdrop_def scene_def traffic_def)

lemma scene_quiet: "quiet w w' \<Longrightarrow> scene w' = scene w"
  by (simp add: quiet_def scene_def)

lemma request_backdrop:
  assumes "\<And>ev w. backdrop (snd (stmt ev w)) = backdrop w"
  shows "backdrop (snd (request stmt w)) = backdrop w"
  by (rule request_invariant [where P = "\<lambda>w'. backdrop w' = backdrop w"]) (simp_all add: assms)

lemma auth_statements_backdrop:
  "backdrop (snd (userCreateQuery e n h ev w)) = backdrop w" "backdrop (snd (userUpdateQuery L i e n h t ev w)) = backdrop w"
  "backdrop (snd (userDeleteQuery L i ev w)) = backdrop w" "backdrop (snd (tokenInsertQuery L u tok x r ev w)) = backdrop w"
  "backdrop (snd (tokenRevokeQuery h ev w)) = backdrop w" "backdrop (snd (tokenConsumeActiveQuery h ev w)) = backdrop w"
  "backdrop (snd (tokenCleanupQuery ev w)) = backdrop w" "backdrop (snd (tokenRevokeAllByUserQuery L u ev w)) = backdrop w"
  by (auto simp: userCreateQuery_def userUpdateQuery_def userDeleteQuery_def tokenInsertQuery_def
        tokenRevokeQuery_def tokenConsumeActiveQuery_def token_consume_def tokenCleanupQuery_def
        tokenRevokeAllByUserQuery_def Let_def split: option.splits sum.splits)

lemma note_statements_backdrop:
  "backdrop (snd (noteCreateQuery L u t c ev w)) = backdrop w" "backdrop (snd (noteUpdateQuery L t c i u ev w)) = backdrop w"
  "backdrop (snd (noteDeleteQuery L i u ev w)) = backdrop w"
  by (auto simp: noteCreateQuery_def noteUpdateQuery_def noteDeleteQuery_def Let_def split: option.splits)

lemma repo_exec_backdrop: "backdrop (snd (repo_exec L c w)) = backdrop w"
proof (cases c)
  case (RRotate h n)
  obtain r w' where call: "RotateRefreshToken L h n w = (r, w')" by fastforce
  then show ?thesis using RRotate RotateRefreshToken_effect [OF call] by auto
qed (simp_all add: snd_repo request_backdrop auth_statements_backdrop)

lemma db_steps_scene: "db_steps L j w0 w \<Longrightarrow> scene w = scene w0"
proof (induction rule: db_steps.induct)
  case (quiet w w')
  then show ?case using scene_quiet by simp
next
  case (call w c)
  then show ?case using scene_backdrop [OF repo_exec_backdrop [of L c w]] by simp
qed simp

lemma note_exec_backdrop: "backdrop (snd (note_exec L c w)) = backdrop w"
proof (induction L c w rule: note_exec.induct)
  case (3 L u l x w)
  then show ?case using ListNotes_snd [of L u l x w] by auto
next
  case (4 L u i t c w)
  then show ?case
    using UpdateNote_snd [of L u i t c w] by (auto simp: request_backdrop note_statements_backdrop)
qed (simp_all add: CreateNote_snd GetNote_snd DeleteNote_snd request_backdrop note_statements_backdrop)

lemma note_exec_scene: "scene (snd (note_exec L c w)) = scene w"
  using scene_backdrop [OF note_exec_backdrop] .

text \<open>A handler that does its own work only, whatever its context.\<close>

definition silent :: "'r handler \<Rightarrow> bool" where
  "silent h \<longleftrightarrow> (\<forall>ctx w. scene (snd (h ctx w)) = scene w)"

lemma ValidateAccessToken_quiet: "quiet w (snd (ValidateAccessToken L s t w))"
  by (auto simp: ValidateAccessToken_def split: sum.splits prod.splits)

lemma silent_chain:
  assumes "silent h"
  shows "silent (unaryRequestIDInterceptor pid (NewUnaryAuthInterceptor L s ms m h))"
proof -
  have h: "scene (snd (h ctx w)) = scene w" for ctx w using assms by (simp add: silent_def)
  have v: "scene w1 = scene w" if "ValidateAccessToken L s t w = (r, w1)" for t w r w1
    using scene_quiet [OF ValidateAccessToken_quiet [of w L s t]] that by simp
  have auth: "scene (snd (NewUnaryAuthInterceptor L s ms m h ctx w)) = scene w" for ctx w
    by (auto simp: NewUnaryAuthInterceptor_def h dest: v split: sum.splits prod.splits)
  have rid: "scene w1 = scene w" if "withRequestID pid c w = (x, w1)" for c w x w1
    using that by (auto simp: withRequestID_def NewRequestID_def Let_def split: if_splits)
  show ?thesis
    unfolding silent_def unaryRequestIDInterceptor_def
    by (auto simp: auth dest: rid split: prod.splits)
qed

lemma silent_auth:
  "silent (AuthHandler_Register L j cost e n p)" "silent (AuthHandler_Login L j e p)"
  "silent (AuthHandler_RefreshTokens L j t)" "silent (AuthHandler_Logout L t)"
  "silent (UserHandler_GetUserProfile L)"
proof -
  note steps = steps_Register steps_Login steps_RefreshTokens steps_Logout steps_GetUserProfile
  show "silent (AuthHandler_Register L j cost e n p)" "silent (AuthHandler_Login L j e p)"
    "silent (AuthHandler_RefreshTokens L j t)" "silent (AuthHandler_Logout L t)"
    "silent (UserHandler_GetUserProfile L)"
    unfolding silent_def AuthHandler_Register_def AuthHandler_Login_def AuthHandler_RefreshTokens_def
      AuthHandler_Logout_def UserHandler_GetUserProfile_def
    by (auto split: prod.splits sum.splits
          dest!: db_steps_scene [OF steps(1) [OF _ db_steps.here]]
            db_steps_scene [OF steps(2) [OF _ db_steps.here]] db_steps_scene [OF steps(3) [OF _ db_steps.here]]
            db_steps_scene [OF steps(4) [OF _ db_steps.here]] db_steps_scene [OF steps(5) [OF _ db_steps.here]])
qed

lemma silent_notes:
  "silent (NoteHandler_CreateNote L t c)" "silent (NoteHandler_GetNote L i)" "silent (NoteHandler_ListNotes L l x)"
  "silent (NoteHandler_UpdateNote L i t' c')" "silent (NoteHandler_DeleteNote L i)"
proof -
  have tr: "scene w1 = scene w" if "w1 = snd (note_exec L c w)" for c w1 w
    using note_exec_scene that by simp
  have c: "scene w1 = scene w" if "CreateNote L u t c w = (r, w1)" for u w r w1
    using tr [of w1 "NCreate u t c" w] that by simp
  have g: "scene w1 = scene w" if "GetNote L u i w = (r, w1)" for u w r w1
    using tr [of w1 "NGet u i" w] that by simp
  have l: "scene w1 = scene w" if "ListNotes L u a b w = (r, w1)" for u a b w r w1
    using tr [of w1 "NList u a b" w] that by simp
  have u: "scene w1 = scene w" if "UpdateNote L u i t' c' w = (r, w1)" for u w r w1
    using tr [of w1 "NUpdate u i t' c'" w] that by simp
  have d: "scene w1 = scene w" if "DeleteNote L u i w = (r, w1)" for u w r w1
    using tr [of w1 "NDelete u i" w] that by simp
  show "silent (NoteHandler_CreateNote L t c)" "silent (NoteHandler_GetNote L i)" "silent (NoteHandler_ListNotes L l x)"
    "silent (NoteHandler_UpdateNote L i t' c')" "silent (NoteHandler_DeleteNote L i)"
    unfolding silent_def NoteHandler_CreateNote_def NoteHandler_GetNote_def NoteHandler_ListNotes_def
      NoteHandler_UpdateNote_def NoteHandler_DeleteNote_def
    by (auto split: prod.splits sum.splits dest: c g l u d)
qed

lemma silent_auth_chain: "silent h \<Longrightarrow> silent (auth_chain D m h)"
  unfolding auth_chain_def by (rule silent_chain)

lemma silent_notes_chain: "silent h \<Longrightarrow> silent (notes_chain D m h)"
  unfolding notes_chain_def by (rule silent_chain)

lemmas silent_intros = silent_auth_chain silent_notes_chain silent_auth silent_notes

subsection \<open>The gateway's requests\<close>

lemma called_traffic [simp]: "(case e of HashCompared h \<Rightarrow> False | _ \<Rightarrow> True) \<and> e = Called s \<longleftrightarrow> e = Called s"
  by (cases e) simp_all

lemma sent_traffic: "sent s w = length (filter (\<lambda>e. e = Called s) (traffic w))"
  by (simp add: sent_def traffic_def)

text \<open>What a request to \<open>s\<close> leaves of the gateway's side of the world: one more event in the log.\<close>

definition called :: "svc \<Rightarrow> world \<Rightarrow> world \<Rightarrow> bool" where
  "called s w w' \<longleftrightarrow> w_outside w' = w_outside w \<and> w_cache w' = w_cache w \<and> w_breakers w' = w_breakers w
     \<and> traffic w' = traffic w @ [Called s]"

lemma rpc_called: "silent server \<Longrightarrow> called s w (snd (rpc s hs server ctx w))"
  unfolding rpc_def
  by (rule request_invariant [where P = "called s w"])
     (auto simp: silent_def called_def scene_def traffic_def log_event_def)

text \<open>An operation of a client: one request to \<open>s\<close>.\<close>

definition one_request :: "svc \<Rightarrow> (world \<Rightarrow> (go_error + 'a) \<times> world) \<Rightarrow> bool" where
  "one_request s fn \<longleftrightarrow> (\<forall>w. called s w (snd (fn w)))"

lemma one_request_map:
  assumes "silent server"
  shows "one_request s (\<lambda>w. case rpc s hs server ctx w of (Inl err, w1) \<Rightarrow> (Inl (f err), w1) | (Inr v, w1) \<Rightarrow> (Inr (g v), w1))"
proof -
  have "called s w w1" if "rpc s hs server ctx w = (r, w1)" for w r w1
    using rpc_called [OF assms, of s w hs ctx] that by simp
  then show ?thesis
    unfolding one_request_def by (auto split: prod.splits sum.splits)
qed

lemma one_request_wrapped: "one_request s fn \<Longrightarrow> one_request s (wrapped p fn)"
proof -
  assume one: "one_request s fn"
  have "called s w w1" if "fn w = (r, w1)" for w r w1
    using one that unfolding one_request_def by (metis snd_conv)
  then show ?thesis
    unfolding one_request_def wrapped_def by (auto split: prod.splits sum.splits)
qed

lemma one_request_auth_client:
  "one_request AuthSvc (AuthClient_Register D ctx e n p)" "one_request AuthSvc (AuthClient_Login D ctx e p)"
  "one_request AuthSvc (AuthClient_RefreshTokens D ctx t)" "one_request AuthSvc (AuthClient_Logout D ctx t)"
  "one_request AuthSvc (AuthClient_GetUserProfile D ctx t)"
  unfolding AuthClient_Register_def AuthClient_Login_def AuthClient_RefreshTokens_def
    AuthClient_Logout_def AuthClient_GetUserProfile_def
  by (rule one_request_map, intro silent_intros)+

lemma one_request_notes_client:
  "one_request NotesSvc (NotesClient_CreateNote D ctx t a c)" "one_request NotesSvc (NotesClient_GetNote D ctx t i)"
  "one_request NotesSvc (NotesClient_ListNotes D ctx t l x)" "one_request NotesSvc (NotesClient_UpdateNote D ctx t i a' c')"
  "one_request NotesSvc (NotesClient_DeleteNote D ctx t i)"
  unfolding NotesClient_CreateNote_def NotesClient_GetNote_def NotesClient_ListNotes_def
    NotesClient_UpdateNote_def NotesClient_DeleteNote_def
  by (rule one_request_map, intro silent_intros)+

lemma one_request_sent: "one_request s fn \<Longrightarrow> sent s (snd (fn w)) = sent s w + 1"
  by (simp add: one_request_def called_def sent_traffic)

lemma circuit_sent:
  assumes "one_request s fn"
  shows "sent s (snd (BreakerExecute b fn w)) \<le> sent s w + 1"
  using one_request_sent [OF assms] by (intro BreakerExecute_attempts) simp_all

lemma retried_sent:
  assumes "one_request s fn"
  shows "sent s (snd (BreakerExecute b (retryExecute (default_retry f) fn) w)) \<le> sent s w + 3"
proof (rule BreakerExecute_attempts)
  show "sent s (snd (retryExecute (default_retry f) fn w)) \<le> sent s w + 3" for w
    using retry_loop_attempts [of "sent s" fn "default_retry f" 3 1 retryInitialBackoff w] one_request_sent [OF assms]
    by (simp add: retryExecute_def default_retry_def retryMaxAttempts_def sent_def)
qed simp

lemma services_retry:
  "sr_retry (fst (NewAuthService w)) = default_retry (Some isInfraError)"
  "sr_retry (fst (NewNotesService w)) = default_retry (Some isInfraError)"
  by (simp_all add: NewAuthService_def NewNotesService_def NewServiceResilience_retry)

text \<open>
  C32: A write is sent at most once. The gateway never repeats a request that changes state
  (register, login, refresh, logout, create, update and delete a note), whatever the backend or
  the network answers: each of these calls sends at most one request to the backend.
\<close>

theorem writes_sent_once:
  "sent AuthSvc (snd (AuthService_Register D ra ctx e n p w)) \<le> sent AuthSvc w + 1
   \<and> sent AuthSvc (snd (AuthService_Login D ra ctx e p w)) \<le> sent AuthSvc w + 1
   \<and> sent AuthSvc (snd (AuthService_RefreshTokens D ra ctx t w)) \<le> sent AuthSvc w + 1
   \<and> sent AuthSvc (snd (AuthService_Logout D ra ctx t w)) \<le> sent AuthSvc w + 1
   \<and> sent NotesSvc (snd (NotesService_CreateNote D rn ctx t a c w)) \<le> sent NotesSvc w + 1
   \<and> sent NotesSvc (snd (NotesService_UpdateNote D rn ctx t i a' c' w)) \<le> sent NotesSvc w + 1
   \<and> sent NotesSvc (snd (NotesService_DeleteNote D rn ctx t i w)) \<le> sent NotesSvc w + 1"
  unfolding AuthService_Register_def AuthService_Login_def AuthService_RefreshTokens_def
    AuthService_Logout_def NotesService_CreateNote_def NotesService_UpdateNote_def
    NotesService_DeleteNote_def execute_defs
  by (intro conjI circuit_sent one_request_wrapped one_request_auth_client one_request_notes_client)

text \<open>
  A read is sent at most three times: fetching a note or a list of notes through the notes
  service of the gateway sends at most three requests to the backend.
\<close>

lemma reads_sent_three_times:
  "sent NotesSvc (snd (NotesService_GetNote D (fst (NewNotesService w0)) ctx t i w)) \<le> sent NotesSvc w + 3
   \<and> sent NotesSvc (snd (NotesService_ListNotes D (fst (NewNotesService w0)) ctx t l x w)) \<le> sent NotesSvc w + 3"
  unfolding NotesService_GetNote_def NotesService_ListNotes_def execute_defs services_retry
  by (intro conjI retried_sent one_request_wrapped one_request_notes_client)

lemma BreakerExecute_open:
  assumes "cb_state (w_breakers w b) = StateOpen"
    and "o_now (w_outside w (w_tick w)) \<le> cb_lastChange (w_breakers w b) + cb_Timeout (w_breakers w b)"
  shows "BreakerExecute b fn w = (Inl (Sentinel ErrCircuitOpen), w\<lparr>w_tick := Suc (Suc (w_tick w))\<rparr>)"
proof -
  have "breaker_allow b w = (Some (Sentinel ErrCircuitOpen), w\<lparr>w_tick := Suc (Suc (w_tick w))\<rparr>)"
    using allow_open_rejects [OF assms, of "o_now (w_outside w (Suc (w_tick w)))"]
    by (simp add: breaker_allow_def)
  then show ?thesis
    by (simp add: BreakerExecute_def)
qed

lemma quiet_tick [simp]: "quiet w (w\<lparr>w_tick := n\<rparr>) \<longleftrightarrow> w_tick w \<le> n"
  by (simp add: quiet_def)

text \<open>
  While the breaker of a backend is open and its timeout has not passed, the gateway answers
  \<open>ErrCircuitOpen\<close> without a request: no table, cache or breaker changes.
\<close>

lemma open_breaker_sends_nothing:
  assumes "cb_state (w_breakers w (sr_circuitBreaker r)) = StateOpen"
    and "o_now (w_outside w (w_tick w)) \<le> cb_lastChange (w_breakers w (sr_circuitBreaker r))
           + cb_Timeout (w_breakers w (sr_circuitBreaker r))"
  shows "fst (NotesService_GetNote D r ctx t i w) = Inl (Sentinel ErrCircuitOpen)
    \<and> quiet w (snd (NotesService_GetNote D r ctx t i w))
    \<and> fst (NotesService_CreateNote D r ctx t a c w) = Inl (Sentinel ErrCircuitOpen)
    \<and> quiet w (snd (NotesService_CreateNote D r ctx t a c w))
    \<and> fst (AuthService_Login D r ctx e p w) = Inl (Sentinel ErrCircuitOpen)
    \<and> quiet w (snd (AuthService_Login D r ctx e p w))"
  unfolding NotesService_GetNote_def NotesService_CreateNote_def AuthService_Login_def execute_defs
    BreakerExecute_open [OF assms] by simp

definition witness_deployment :: deployment where
  "witness_deployment =
     \<lparr>d_libs = sample_libs, d_issuer = witness_issuer, d_verifier = NewAccessVerifier ''k'', d_cost = 10,
      d_pid = ''1'', d_headers = Map.empty, d_cacheTTL = 900000000000\<rparr>"

theorem open_breaker_sends_nothing_witness:
  "fst (NotesService_GetNote witness_deployment (fst (NewNotesService sample_world)) background ''t'' ''i''
      (sample_world\<lparr>w_breakers := (\<lambda>_. sample_breaker\<lparr>cb_state := StateOpen\<rparr>)\<rparr>))
    = Inl (Sentinel ErrCircuitOpen)"
  using open_breaker_sends_nothing [of "sample_world\<lparr>w_breakers := (\<lambda>_. sample_breaker\<lparr>cb_state := StateOpen\<rparr>)\<rparr>"
      "fst (NewNotesService sample_world)" witness_deployment background "''t''" "''i''"]
  by (simp add: sample_defs)

end
