(* ===== verification/HttpApi.thy ===== *)
theory HttpApi
  imports Gateway
begin

text \<open>
  The HTTP handlers of the gateway (\<open>internal/adapters/http/auth.go\<close>, \<open>notes.go\<close>, \<open>helpers.go\<close>).

  A \<open>fiber.Ctx\<close> is the request, the context attached to it, the parameters of the matched
  route and the response built so far. What fiber does for the handlers is \<open>http_libs\<close>: decoding
  a body, encoding an answer (which may fail), and the parts of the router. \<open>rq_get\<close> and
  \<open>rq_query\<close> give the empty string for a header or a parameter the request does not have.
\<close>

subsection \<open>Requests and answers\<close>

record http_request =
  rq_method :: string
  rq_path :: string
  rq_get :: "string \<Rightarrow> string"
  rq_query :: "string \<Rightarrow> string"
  rq_body :: string

record RegisterRequest =
  rr_Email :: string
  rr_Username :: string
  rr_Password :: string

record LoginRequest =
  lq_Email :: string
  lq_Password :: string

record RefreshRequest =
  rf_RefreshToken :: string

record LogoutRequest =
  lo_RefreshToken :: string

record CreateNoteRequest =
  cn_Title :: string
  cn_Content :: string

record UpdateNoteRequest =
  un_Title :: "string option"
  un_Content :: "string option"

record TokenResponse =
  tk_ExpiresAt :: time
  tk_UserID :: string
  tk_Username :: string
  tk_AccessToken :: string
  tk_RefreshToken :: string

record UserProfileResponse =
  up_CreatedAt :: time
  up_UserID :: string
  up_Email :: string
  up_Username :: string

record HttpNote =
  hn_CreatedAt :: time
  hn_UpdatedAt :: time
  hn_ID :: string
  hn_UserID :: string
  hn_Title :: string
  hn_Content :: string

record ListNotesResponse =
  lr_Notes :: "HttpNote option list"
  lr_TotalCount :: int
  lr_Offset :: int
  lr_Limit :: int

text \<open>The body of an answer: nothing yet, a \<open>fiber.Map\<close>, one of the structs, or a plain text.\<close>

datatype http_body =
    NoBody
  | MapBody "(string \<times> string) list"
  | TokenBody TokenResponse
  | ProfileBody UserProfileResponse
  | NoteBody "HttpNote option"
  | ListBody ListNotesResponse
  | TextBody string

record fiber_ctx =
  fx_request :: http_request
  fx_context :: "go_ctx option"
  fx_params :: "string \<Rightarrow> string"
  fx_status :: int
  fx_headers :: "(string \<times> string) list"
  fx_body :: http_body

record http_libs =
  hl_bind_register :: "http_request \<Rightarrow> go_error + RegisterRequest"
  hl_bind_login :: "http_request \<Rightarrow> go_error + LoginRequest"
  hl_bind_refresh :: "http_request \<Rightarrow> go_error + RefreshRequest"
  hl_bind_logout :: "http_request \<Rightarrow> go_error + LogoutRequest"
  hl_bind_create :: "http_request \<Rightarrow> go_error + CreateNoteRequest"
  hl_bind_update :: "http_request \<Rightarrow> go_error + UpdateNoteRequest"
  hl_json :: "http_body \<Rightarrow> go_error option"
  hl_send_status :: "int \<Rightarrow> go_error option"
  hl_match :: "bool \<Rightarrow> string \<Rightarrow> string \<Rightarrow> http_request \<Rightarrow> (string \<Rightarrow> string) option"
  hl_no_route :: "http_request \<Rightarrow> go_error"
  hl_limited :: "string \<Rightarrow> int \<Rightarrow> int \<Rightarrow> http_request \<Rightarrow> nat \<Rightarrow> bool"
  hl_error_handler :: "go_error \<Rightarrow> int \<times> string"

text \<open>How a handler ends: it returns an error or nil, or it panics.\<close>

datatype verdict = Returned "go_error option" | Panicked string

type_synonym fiber_handler = "fiber_ctx \<Rightarrow> world \<Rightarrow> verdict \<times> fiber_ctx \<times> world"

text \<open>What the handlers are built over: the two services with what they need, and fiber.\<close>

record gateway =
  gw_deployment :: deployment
  gw_auth :: ServiceResilience
  gw_notes :: ServiceResilience
  gw_http :: http_libs

definition errorKey :: string where "errorKey = ''error''"
definition statusKey :: string where "statusKey = ''status''"

subsection \<open>Helpers\<close>

definition userCtx :: "fiber_ctx \<Rightarrow> go_ctx" where
  "userCtx fx = (case fx_context fx of Some ctx \<Rightarrow> ctx | None \<Rightarrow> background)"

definition bindJSON :: "(http_request \<Rightarrow> go_error + 'a) \<Rightarrow> fiber_ctx \<Rightarrow> go_error + 'a" where
  "bindJSON bind fx =
     (case bind (fx_request fx) of
        Inl bindErr \<Rightarrow> Inl (errorf_w ''bind json body'' bindErr)
      | Inr dst \<Rightarrow> Inr dst)"

text \<open>\<open>c.Status(status).JSON(body)\<close>\<close>

definition status_JSON :: "http_libs \<Rightarrow> fiber_ctx \<Rightarrow> int \<Rightarrow> http_body \<Rightarrow> go_error option \<times> fiber_ctx" where
  "status_JSON H fx status body =
     (case hl_json H body of
        Some e \<Rightarrow> (Some e, fx\<lparr>fx_status := status\<rparr>)
      | None \<Rightarrow> (None, fx\<lparr>fx_status := status, fx_body := body\<rparr>))"

definition jsonResponse :: "http_libs \<Rightarrow> fiber_ctx \<Rightarrow> int \<Rightarrow> http_body \<Rightarrow> go_error option \<times> fiber_ctx" where
  "jsonResponse H fx status body =
     (case status_JSON H fx status body of
        (Some writeErr, fx1) \<Rightarrow> (Some (errorf_w ''write json response'' writeErr), fx1)
      | (None, fx1) \<Rightarrow> (None, fx1))"

definition errorResponse :: "http_libs \<Rightarrow> fiber_ctx \<Rightarrow> int \<Rightarrow> string \<Rightarrow> go_error option \<times> fiber_ctx" where
  "errorResponse H fx status msg = jsonResponse H fx status (MapBody [(errorKey, msg)])"

definition queryInt :: "fiber_ctx \<Rightarrow> string \<Rightarrow> int \<Rightarrow> int" where
  "queryInt fx key def =
     (let raw = rq_query (fx_request fx) key in
      if raw = '''' then def
      else
        (case atoi raw of
           None \<Rightarrow> def
         | Some num \<Rightarrow> if num < 0 then def else num))"

definition handleError :: "http_libs \<Rightarrow> fiber_ctx \<Rightarrow> go_error \<Rightarrow> go_error option \<times> fiber_ctx" where
  "handleError H fx err =
     (case errors_as as_fiber_error err of
        Some (code, message) \<Rightarrow> jsonResponse H fx code (MapBody [(errorKey, message)])
      | None \<Rightarrow>
          (case httpErrorFromDomain (Some err) of
             (status, msg, True) \<Rightarrow> jsonResponse H fx status (MapBody [(errorKey, msg)])
           | (_, _, False) \<Rightarrow>
               jsonResponse H fx StatusInternalServerError (MapBody [(errorKey, msgInternalServerError)])))"

definition noteToAPI :: "Note option \<Rightarrow> HttpNote option" where
  "noteToAPI note0 =
     (case note0 of
        None \<Rightarrow> None
      | Some n \<Rightarrow> Some \<lparr>hn_CreatedAt = note_CreatedAt n, hn_UpdatedAt = note_UpdatedAt n,
                        hn_ID = note_ID n, hn_UserID = note_UserID n, hn_Title = note_Title n,
                        hn_Content = note_Content n\<rparr>)"

text \<open>\<open>return\<close> of an answer.\<close>

definition answer :: "go_error option \<times> fiber_ctx \<Rightarrow> world \<Rightarrow> verdict \<times> fiber_ctx \<times> world" where
  "answer p w = (Returned (fst p), snd p, w)"

subsection \<open>\<open>AuthHandler\<close>\<close>

definition token_response :: "TokenPair \<Rightarrow> TokenResponse" where
  "token_response result =
     \<lparr>tk_ExpiresAt = pair_ExpiresAt result, tk_UserID = pair_UserID result,
      tk_Username = pair_Username result, tk_AccessToken = pair_AccessToken result,
      tk_RefreshToken = pair_RefreshToken result\<rparr>"

definition HttpAuth_Register :: "gateway \<Rightarrow> fiber_handler" where
  "HttpAuth_Register G fx w =
     (let H = gw_http G; ctx = userCtx fx in
      case bindJSON (hl_bind_register H) fx of
        Inl err \<Rightarrow> answer (errorResponse H fx StatusBadRequest ''invalid request body'') w
      | Inr req \<Rightarrow>
          if rr_Email req = '''' \<or> rr_Username req = '''' \<or> rr_Password req = ''''
            then answer (errorResponse H fx StatusBadRequest ''email, username and password are required'') w
          else
            (case ValidateEmail (rr_Email req) of
               Some emailErr \<Rightarrow> answer (handleError H fx emailErr) w
             | None \<Rightarrow>
                 (case ValidatePassword (rr_Password req) of
                    Some passwordErr \<Rightarrow> answer (handleError H fx passwordErr) w
                  | None \<Rightarrow>
                      (case AuthService_Register (gw_deployment G) (gw_auth G) ctx
                              (rr_Email req) (rr_Username req) (rr_Password req) w of
                         (Inl err, w1) \<Rightarrow> answer (handleError H fx err) w1
                       | (Inr result, w1) \<Rightarrow>
                           answer (jsonResponse H fx StatusCreated (TokenBody (token_response result))) w1))))"

definition HttpAuth_Login :: "gateway \<Rightarrow> fiber_handler" where
  "HttpAuth_Login G fx w =
     (let H = gw_http G; ctx = userCtx fx in
      case bindJSON (hl_bind_login H) fx of
        Inl err \<Rightarrow> answer (errorResponse H fx StatusBadRequest ''invalid request body'') w
      | Inr req \<Rightarrow>
          if lq_Email req = '''' \<or> lq_Password req = ''''
            then answer (errorResponse H fx StatusBadRequest ''email and password are required'') w
          else
            (case ValidateEmail (lq_Email req) of
               Some emailErr \<Rightarrow> answer (handleError H fx emailErr) w
             | None \<Rightarrow>
                 (case AuthService_Login (gw_deployment G) (gw_auth G) ctx (lq_Email req) (lq_Password req) w of
                    (Inl err, w1) \<Rightarrow> answer (handleError H fx err) w1
                  | (Inr result, w1) \<Rightarrow>
                      answer (jsonResponse H fx StatusOK (TokenBody (token_response result))) w1)))"

definition HttpAuth_RefreshTokens :: "gateway \<Rightarrow> fiber_handler" where
  "HttpAuth_RefreshTokens G fx w =
     (let H = gw_http G; ctx = userCtx fx in
      case bindJSON (hl_bind_refresh H) fx of
        Inl err \<Rightarrow> answer (errorResponse H fx StatusBadRequest ''invalid request body'') w
      | Inr req \<Rightarrow>
          if rf_RefreshToken req = ''''
            then answer (errorResponse H fx StatusBadRequest ''refresh token is required'') w
          else
            (case AuthService_RefreshTokens (gw_deployment G) (gw_auth G) ctx (rf_RefreshToken req) w of
               (Inl err, w1) \<Rightarrow> answer (handleError H fx err) w1
             | (Inr result, w1) \<Rightarrow>
                 answer (jsonResponse H fx StatusOK (TokenBody (token_response result))) w1))"

definition HttpAuth_Logout :: "gateway \<Rightarrow> fiber_handler" where
  "HttpAuth_Logout G fx w =
     (let H = gw_http G; ctx = userCtx fx in
      case bindJSON (hl_bind_logout H) fx of
        Inl err \<Rightarrow> answer (errorResponse H fx StatusBadRequest ''invalid request body'') w
      | Inr req \<Rightarrow>
          if lo_RefreshToken req = ''''
            then answer (errorResponse H fx StatusBadRequest ''refresh token is required'') w
          else
            (case AuthService_Logout (gw_deployment G) (gw_auth G) ctx (lo_RefreshToken req) w of
               (Inl logoutErr, w1) \<Rightarrow> answer (handleError H fx logoutErr) w1
             | (Inr _, w1) \<Rightarrow>
                 answer (jsonResponse H fx StatusOK (MapBody [(''message'', ''logged out successfully'')])) w1))"

definition HttpAuth_GetProfile :: "gateway \<Rightarrow> fiber_handler" where
  "HttpAuth_GetProfile G fx w =
     (let H = gw_http G; ctx = userCtx fx; token = BearerTokenFrom (Some ctx) in
      if token = '''' then answer (errorResponse H fx StatusUnauthorized (sentinel_text ErrNoAuthHeader)) w
      else
        (case AuthService_GetUserProfile (gw_deployment G) (gw_auth G) ctx token w of
           (Inl err, w1) \<Rightarrow> answer (handleError H fx err) w1
         | (Inr profile, w1) \<Rightarrow>
             answer (jsonResponse H fx StatusOK
               (ProfileBody \<lparr>up_CreatedAt = user_CreatedAt profile, up_UserID = user_ID profile,
                             up_Email = user_Email profile, up_Username = user_Username profile\<rparr>)) w1))"

subsection \<open>\<open>NotesHandler\<close>\<close>

definition http_defaultListLimit :: int where "http_defaultListLimit = 10"

definition requireTokenAndNoteID :: "fiber_ctx \<Rightarrow> go_error + string \<times> string" where
  "requireTokenAndNoteID fx =
     (let token = BearerTokenFrom (Some (userCtx fx)) in
      if token = '''' then Inl (FiberError StatusUnauthorized (sentinel_text ErrNoAuthHeader))
      else
        (let noteID = fx_params fx ''note_id'' in
         if noteID = '''' then Inl (FiberError StatusBadRequest ''invalid note id'')
         else Inr (token, noteID)))"

definition HttpNotes_CreateNote :: "gateway \<Rightarrow> fiber_handler" where
  "HttpNotes_CreateNote G fx w =
     (let H = gw_http G; ctx = userCtx fx; token = BearerTokenFrom (Some ctx) in
      if token = '''' then answer (errorResponse H fx StatusUnauthorized (sentinel_text ErrNoAuthHeader)) w
      else
        (case bindJSON (hl_bind_create H) fx of
           Inl err \<Rightarrow> answer (errorResponse H fx StatusBadRequest ''invalid request body'') w
         | Inr req \<Rightarrow>
             if trim_space (cn_Title req) = '''' then answer (handleError H fx (Sentinel ErrEmptyNoteTitle)) w
             else
               (case NotesService_CreateNote (gw_deployment G) (gw_notes G) ctx token (cn_Title req) (cn_Content req) w of
                  (Inl err, w1) \<Rightarrow> answer (handleError H fx err) w1
                | (Inr note0, w1) \<Rightarrow>
                    answer (jsonResponse H fx StatusCreated (NoteBody (noteToAPI note0))) w1)))"

definition HttpNotes_GetNote :: "gateway \<Rightarrow> fiber_handler" where
  "HttpNotes_GetNote G fx w =
     (let H = gw_http G; ctx = userCtx fx in
      case requireTokenAndNoteID fx of
        Inl err \<Rightarrow> answer (handleError H fx err) w
      | Inr (token, noteID) \<Rightarrow>
          (case NotesService_GetNote (gw_deployment G) (gw_notes G) ctx token noteID w of
             (Inl err, w1) \<Rightarrow> answer (handleError H fx err) w1
           | (Inr note0, w1) \<Rightarrow> answer (jsonResponse H fx StatusOK (NoteBody (noteToAPI note0))) w1))"

definition HttpNotes_ListNotes :: "gateway \<Rightarrow> fiber_handler" where
  "HttpNotes_ListNotes G fx w =
     (let H = gw_http G; ctx = userCtx fx; token = BearerTokenFrom (Some ctx) in
      if token = '''' then answer (errorResponse H fx StatusUnauthorized (sentinel_text ErrNoAuthHeader)) w
      else
        (let limit = queryInt fx ''limit'' http_defaultListLimit; offset = queryInt fx ''offset'' 0 in
         case NotesService_ListNotes (gw_deployment G) (gw_notes G) ctx token limit offset w of
           (Inl err, w1) \<Rightarrow> answer (handleError H fx err) w1
         | (Inr (notes, totalCount), w1) \<Rightarrow>
             answer (jsonResponse H fx StatusOK
               (ListBody \<lparr>lr_Notes = map noteToAPI notes, lr_TotalCount = totalCount, lr_Offset = offset,
                          lr_Limit = limit\<rparr>)) w1))"

definition HttpNotes_UpdateNote :: "gateway \<Rightarrow> fiber_handler" where
  "HttpNotes_UpdateNote G fx w =
     (let H = gw_http G; ctx = userCtx fx in
      case requireTokenAndNoteID fx of
        Inl err \<Rightarrow> answer (handleError H fx err) w
      | Inr (token, noteID) \<Rightarrow>
          (case bindJSON (hl_bind_update H) fx of
             Inl err \<Rightarrow> answer (errorResponse H fx StatusBadRequest ''invalid request body'') w
           | Inr req \<Rightarrow>
               (case NotesService_UpdateNote (gw_deployment G) (gw_notes G) ctx token noteID
                       (un_Title req) (un_Content req) w of
                  (Inl err, w1) \<Rightarrow> answer (handleError H fx err) w1
                | (Inr note0, w1) \<Rightarrow> answer (jsonResponse H fx StatusOK (NoteBody (noteToAPI note0))) w1)))"

definition HttpNotes_ReplaceNote :: "gateway \<Rightarrow> fiber_handler" where
  "HttpNotes_ReplaceNote G fx w =
     (let H = gw_http G; ctx = userCtx fx in
      case requireTokenAndNoteID fx of
        Inl err \<Rightarrow> answer (handleError H fx err) w
      | Inr (token, noteID) \<Rightarrow>
          (case bindJSON (hl_bind_update H) fx of
             Inl err \<Rightarrow> answer (errorResponse H fx StatusBadRequest ''invalid request body'') w
           | Inr req \<Rightarrow>
               if un_Title req = None \<or> un_Content req = None
                 then answer (errorResponse H fx StatusBadRequest ''title and content are required'') w
               else
                 (case NotesService_UpdateNote (gw_deployment G) (gw_notes G) ctx token noteID
                         (un_Title req) (un_Content req) w of
                    (Inl err, w1) \<Rightarrow> answer (handleError H fx err) w1
                  | (Inr note0, w1) \<Rightarrow> answer (jsonResponse H fx StatusOK (NoteBody (noteToAPI note0))) w1)))"

definition HttpNotes_DeleteNote :: "gateway \<Rightarrow> fiber_handler" where
  "HttpNotes_DeleteNote G fx w =
     (let H = gw_http G; ctx = userCtx fx in
      case requireTokenAndNoteID fx of
        Inl err \<Rightarrow> answer (handleError H fx err) w
      | Inr (token, noteID) \<Rightarrow>
          (case NotesService_DeleteNote (gw_deployment G) (gw_notes G) ctx token noteID w of
             (Inl deleteErr, w1) \<Rightarrow> answer (handleError H fx deleteErr) w1
           | (Inr _, w1) \<Rightarrow>
               (case hl_send_status H StatusNoContent of
                  Some sendErr \<Rightarrow>
                    (Returned (Some (errorf_w ''write no-content status'' sendErr)),
                     fx\<lparr>fx_status := StatusNoContent\<rparr>, w1)
                | None \<Rightarrow> (Returned None, fx\<lparr>fx_status := StatusNoContent\<rparr>, w1))))"

lemmas http_auth_defs = HttpAuth_Register_def HttpAuth_Login_def HttpAuth_RefreshTokens_def
  HttpAuth_Logout_def HttpAuth_GetProfile_def

lemmas http_notes_defs = HttpNotes_CreateNote_def HttpNotes_GetNote_def HttpNotes_ListNotes_def
  HttpNotes_UpdateNote_def HttpNotes_ReplaceNote_def HttpNotes_DeleteNote_def

end
