(* ===== verification/HttpRouter.thy ===== *)
theory HttpRouter
  imports HttpApi
begin

text \<open>
  The middleware and the routes of the gateway (\<open>middleware.go\<close>, \<open>routes.go\<close>).

  A middleware is a function of the handler behind \<open>ctx.Next()\<close>. \<open>SetupRouter\<close> registers
  layers, and fiber runs the layers that match a request in the order of their registration:
  \<open>run_layers\<close>. Whether a pattern matches, and with which parameters, is fiber's \<open>hl_match\<close>;
  whether a limiter lets a request through is its \<open>hl_limited\<close>, which may depend on everything
  that happened before (the moment it is asked).
\<close>

type_synonym middleware = "fiber_handler \<Rightarrow> fiber_handler"

subsection \<open>Middleware\<close>

definition requestIDHeader :: string where "requestIDHeader = ''X-Request-ID''"

definition NewRequestIDMiddleware :: "string \<Rightarrow> middleware" where
  "NewRequestIDMiddleware pid next fx w =
     (let requestCtx = fx_context fx; requestID0 = rq_get (fx_request fx) requestIDHeader in
      case (if requestID0 = '''' then NewRequestID w else (requestID0, w)) of
        (requestID, w1) \<Rightarrow>
          next (fx\<lparr>fx_context := Some (NewRequestIDContext pid requestCtx requestID),
                   fx_headers := fx_headers fx @ [(requestIDHeader, requestID)]\<rparr>) w1)"

definition NewAuthMiddleware :: "http_libs \<Rightarrow> middleware" where
  "NewAuthMiddleware H next fx w =
     (let authHeader = rq_get (fx_request fx) ''Authorization'' in
      if authHeader = ''''
        then answer (status_JSON H fx StatusUnauthorized (MapBody [(errorKey, sentinel_text ErrNoAuthHeader)])) w
      else
        (case cut CHR '' '' authHeader of
           None \<Rightarrow>
             answer (status_JSON H fx StatusUnauthorized (MapBody [(errorKey, sentinel_text ErrInvalidAuthFormat)])) w
         | Some (scheme, token) \<Rightarrow>
             if \<not> equal_fold scheme ''Bearer'' \<or> trim_space token = ''''
               then answer (status_JSON H fx StatusUnauthorized
                              (MapBody [(errorKey, sentinel_text ErrInvalidAuthFormat)])) w
             else
               (case fx_context fx of
                  None \<Rightarrow> (Panicked ''cannot create context from nil parent'', fx, w)
                | Some requestCtx \<Rightarrow>
                    next (fx\<lparr>fx_context := Some (WithBearerToken requestCtx (trim_space token))\<rparr>) w)))"

text \<open>The logger wraps the error it reports; a panic passes it.\<close>

definition NewLoggerMiddleware :: "middleware" where
  "NewLoggerMiddleware next fx w =
     (case next fx w of
        (Returned (Some err), fx1, w1) \<Rightarrow> (Returned (Some (errorf_w ''request processing'' err)), fx1, w1)
      | (Returned None, fx1, w1) \<Rightarrow> (Returned None, fx1, w1)
      | (Panicked r, fx1, w1) \<Rightarrow> (Panicked r, fx1, w1))"

definition NewRecoveryMiddleware :: "http_libs \<Rightarrow> middleware" where
  "NewRecoveryMiddleware H next fx w =
     (case next fx w of
        (Panicked r, fx1, w1) \<Rightarrow>
          (Returned None,
           snd (status_JSON H fx1 StatusInternalServerError (MapBody [(errorKey, msgInternalServerError)])), w1)
      | (Returned e, fx1, w1) \<Rightarrow> (Returned e, fx1, w1))"

subsection \<open>Routes\<close>

definition loginRateLimitPerMinute :: int where "loginRateLimitPerMinute = 10"
definition registerRateLimitPerMinute :: int where "registerRateLimitPerMinute = 5"
definition refreshRateLimitPerMinute :: int where "refreshRateLimitPerMinute = 20"
definition logoutRateLimitPerMinute :: int where "logoutRateLimitPerMinute = 20"

definition limitReached :: "http_libs \<Rightarrow> fiber_handler" where
  "limitReached H fx w =
     answer (status_JSON H fx StatusTooManyRequests (MapBody [(errorKey, ''too many requests'')])) w"

text \<open>\<open>limiter.New\<close> with \<open>Expiration\<close> one minute; \<open>name\<close> tells the limiters apart.\<close>

definition limiter_New :: "http_libs \<Rightarrow> string \<Rightarrow> int \<Rightarrow> middleware" where
  "limiter_New H name maxRequests next fx w =
     (case ask w of (ev, w1) \<Rightarrow>
        if hl_limited H name maxRequests minute (fx_request fx) (w_tick w) then limitReached H fx w1
        else next fx w1)"

definition health :: "gateway \<Rightarrow> fiber_handler" where
  "health G fx w = answer (status_JSON (gw_http G) fx StatusOK (MapBody [(statusKey, ''ok'')])) w"

definition ready :: "gateway \<Rightarrow> fiber_handler" where
  "ready G fx w =
     (case Cache_Ping w of
        (Inl err, w1) \<Rightarrow>
          answer (status_JSON (gw_http G) fx StatusServiceUnavailable (MapBody [(statusKey, ''unavailable'')])) w1
      | (Inr _, w1) \<Rightarrow> answer (status_JSON (gw_http G) fx StatusOK (MapBody [(statusKey, ''ready'')])) w1)"

definition routeNotFound :: "gateway \<Rightarrow> fiber_handler" where
  "routeNotFound G fx w =
     answer (status_JSON (gw_http G) fx StatusNotFound (MapBody [(errorKey, ''route not found'')])) w"

text \<open>
  A layer: registered with \<open>Use\<close> (any method, every path under its prefix) or for a method and a
  pattern. A handler at the end of a route calls no \<open>Next\<close>.
\<close>

record layer =
  ly_use :: bool
  ly_method :: string
  ly_pattern :: string
  ly_run :: middleware

definition Use :: "string \<Rightarrow> middleware \<Rightarrow> layer" where
  "Use prefix m = \<lparr>ly_use = True, ly_method = '''', ly_pattern = prefix, ly_run = m\<rparr>"

definition Route :: "string \<Rightarrow> string \<Rightarrow> middleware \<Rightarrow> layer" where
  "Route verb pattern m = \<lparr>ly_use = False, ly_method = verb, ly_pattern = pattern, ly_run = m\<rparr>"

definition final :: "fiber_handler \<Rightarrow> middleware" where
  "final h next = h"

definition apiV1 :: string where "apiV1 = ''/api/v1''"
definition authRoutes :: string where "authRoutes = apiV1 @ ''/auth''"
definition userRoutes :: string where "userRoutes = apiV1 @ ''/user''"
definition notesRoutes :: string where "notesRoutes = apiV1 @ ''/notes''"

definition SetupRouter :: "gateway \<Rightarrow> layer list" where
  "SetupRouter G =
     (let H = gw_http G in
      [Use ''/'' (NewRequestIDMiddleware (d_pid (gw_deployment G))),
       Use ''/'' NewLoggerMiddleware,
       Use ''/'' (NewRecoveryMiddleware H),
       Route ''GET'' ''/health'' (final (health G)),
       Route ''GET'' ''/ready'' (final (ready G)),
       Route ''POST'' (authRoutes @ ''/register'')
         (\<lambda>next. limiter_New H ''register'' registerRateLimitPerMinute (HttpAuth_Register G)),
       Route ''POST'' (authRoutes @ ''/login'')
         (\<lambda>next. limiter_New H ''login'' loginRateLimitPerMinute (HttpAuth_Login G)),
       Route ''POST'' (authRoutes @ ''/refresh'')
         (\<lambda>next. limiter_New H ''refresh'' refreshRateLimitPerMinute (HttpAuth_RefreshTokens G)),
       Route ''POST'' (authRoutes @ ''/logout'')
         (\<lambda>next. limiter_New H ''logout'' logoutRateLimitPerMinute (HttpAuth_Logout G)),
       Use userRoutes (NewAuthMiddleware H),
       Route ''GET'' (userRoutes @ ''/profile'') (final (HttpAuth_GetProfile G)),
       Use notesRoutes (NewAuthMiddleware H),
       Route ''POST'' (notesRoutes @ ''/'') (final (HttpNotes_CreateNote G)),
       Route ''GET'' (notesRoutes @ ''/:note_id'') (final (HttpNotes_GetNote G)),
       Route ''GET'' (notesRoutes @ ''/'') (final (HttpNotes_ListNotes G)),
       Route ''PATCH'' (notesRoutes @ ''/:note_id'') (final (HttpNotes_UpdateNote G)),
       Route ''PUT'' (notesRoutes @ ''/:note_id'') (final (HttpNotes_ReplaceNote G)),
       Route ''DELETE'' (notesRoutes @ ''/:note_id'') (final (HttpNotes_DeleteNote G)),
       Use ''/'' (final (routeNotFound G))])"

fun run_layers :: "http_libs \<Rightarrow> layer list \<Rightarrow> fiber_handler" where
  "run_layers H [] fx w = (Returned (Some (hl_no_route H (fx_request fx))), fx, w)"
| "run_layers H (l # ls) fx w =
     (case hl_match H (ly_use l) (ly_method l) (ly_pattern l) (fx_request fx) of
        None \<Rightarrow> run_layers H ls fx w
      | Some params \<Rightarrow> ly_run l (run_layers H ls) (fx\<lparr>fx_params := params\<rparr>) w)"

text \<open>
  A request from its arrival: a fresh \<open>fiber.Ctx\<close>, the layers, and fiber's error handler for an
  error they return. \<open>None\<close> when a panic leaves the layers (fiber then kills the connection).
\<close>

definition fresh_ctx :: "http_request \<Rightarrow> fiber_ctx" where
  "fresh_ctx rq = \<lparr>fx_request = rq, fx_context = Some background, fx_params = (\<lambda>_. ''''),
     fx_status = StatusOK, fx_headers = [], fx_body = NoBody\<rparr>"

definition serve :: "gateway \<Rightarrow> http_request \<Rightarrow> world \<Rightarrow> fiber_ctx option \<times> world" where
  "serve G rq w =
     (case run_layers (gw_http G) (SetupRouter G) (fresh_ctx rq) w of
        (Returned None, fx, w1) \<Rightarrow> (Some fx, w1)
      | (Returned (Some e), fx, w1) \<Rightarrow>
          (case hl_error_handler (gw_http G) e of
             (code, msg) \<Rightarrow> (Some (fx\<lparr>fx_status := code, fx_body := TextBody msg\<rparr>), w1))
      | (Panicked r, fx, w1) \<Rightarrow> (None, w1))"

end
