(* ===== verification/HttpSafety.thy ===== *)
theory HttpSafety
  imports Traffic HttpRouter
begin

text \<open>
  What holds of every request the gateway answers: which backends it can reach without a bearer
  token, and which answers there are.
\<close>

subsection \<open>What an operation of the gateway can touch\<close>

text \<open>\<open>only_calls s n fn\<close>: \<open>fn\<close> sends at most \<open>n\<close> requests to \<open>s\<close> and none to another backend.\<close>

definition only_calls :: "svc \<Rightarrow> nat \<Rightarrow> (world \<Rightarrow> 'a \<times> world) \<Rightarrow> bool" where
  "only_calls s n fn \<longleftrightarrow>
     (\<forall>w. w_outside (snd (fn w)) = w_outside w
        \<and> sent s (snd (fn w)) \<le> sent s w + n
        \<and> (\<forall>t. t \<noteq> s \<longrightarrow> sent t (snd (fn w)) = sent t w))"

lemma only_callsD:
  "only_calls s n fn \<Longrightarrow> fn w = (r, w') \<Longrightarrow>
     w_outside w' = w_outside w \<and> sent s w' \<le> sent s w + n \<and> (t \<noteq> s \<longrightarrow> sent t w' = sent t w)"
  unfolding only_calls_def by (metis snd_conv)

lemma one_request_outside: "one_request s fn \<Longrightarrow> w_outside (snd (fn w)) = w_outside w"
  by (simp add: one_request_def called_def)

lemma one_request_other: "one_request s fn \<Longrightarrow> t \<noteq> s \<Longrightarrow> sent t (snd (fn w)) = sent t w"
  by (simp add: one_request_def called_def sent_traffic)

lemma only_calls_circuit:
  assumes "one_request s fn"
  shows "only_calls s 1 (BreakerExecute b fn)"
  unfolding only_calls_def
proof (intro allI conjI impI)
  fix w :: world and t
  show "w_outside (snd (BreakerExecute b fn w)) = w_outside w"
    by (rule BreakerExecute_invariant [where P = "\<lambda>w'. w_outside w' = w_outside w"])
       (simp_all add: one_request_outside [OF assms])
  show "sent s (snd (BreakerExecute b fn w)) \<le> sent s w + 1"
    by (rule circuit_sent [OF assms])
  assume "t \<noteq> s"
  then show "sent t (snd (BreakerExecute b fn w)) = sent t w"
    by (intro BreakerExecute_invariant [where P = "\<lambda>w'. sent t w' = sent t w"])
       (simp_all add: one_request_other [OF assms])
qed

lemma sent_wait [simp]: "sent t (w\<lparr>w_tick := n, w_log := w_log w @ [Slept d]\<rparr>) = sent t w"
  by (simp add: sent_def)

lemma only_calls_retried:
  assumes "one_request s fn"
  shows "only_calls s 3 (BreakerExecute b (retryExecute (default_retry f) fn))"
  unfolding only_calls_def
proof (intro allI conjI impI)
  fix w :: world and t
  let ?fn = "retryExecute (default_retry f) fn"
  have out: "w_outside (snd (?fn w1)) = w_outside w" if "w_outside w1 = w_outside w" for w1
    by (rule retryExecute_invariant [where P = "\<lambda>w'. w_outside w' = w_outside w"])
       (simp_all add: one_request_outside [OF assms] that)
  show "w_outside (snd (BreakerExecute b ?fn w)) = w_outside w"
    by (rule BreakerExecute_invariant [where P = "\<lambda>w'. w_outside w' = w_outside w"]) (simp_all add: out)
  show "sent s (snd (BreakerExecute b ?fn w)) \<le> sent s w + 3"
    by (rule retried_sent [OF assms])
  assume t: "t \<noteq> s"
  have other: "sent t (snd (?fn w1)) = sent t w" if "sent t w1 = sent t w" for w1
    by (rule retryExecute_invariant [where P = "\<lambda>w'. sent t w' = sent t w"])
       (simp_all add: one_request_other [OF assms t] that)
  show "sent t (snd (BreakerExecute b ?fn w)) = sent t w"
    by (rule BreakerExecute_invariant [where P = "\<lambda>w'. sent t w' = sent t w"]) (simp_all add: other)
qed

lemma only_calls_quiet: "(\<And>w. quiet w (snd (fn w))) \<Longrightarrow> only_calls s 0 fn"
  by (auto simp: only_calls_def quiet_def sent_traffic)

lemma only_calls_auth:
  "only_calls AuthSvc 1 (AuthService_Register D ra ctx e n p)" "only_calls AuthSvc 1 (AuthService_Login D ra ctx e p)"
  "only_calls AuthSvc 1 (AuthService_RefreshTokens D ra ctx t)" "only_calls AuthSvc 1 (AuthService_Logout D ra ctx t)"
  unfolding AuthService_Register_def [abs_def] AuthService_Login_def [abs_def] AuthService_RefreshTokens_def [abs_def]
    AuthService_Logout_def [abs_def] execute_defs
  by (rule only_calls_circuit, intro one_request_wrapped one_request_auth_client)+

subsection \<open>Requests without a bearer token\<close>

definition bearer :: "http_request \<Rightarrow> bool" where
  "bearer rq \<longleftrightarrow>
     (case cut CHR '' '' (rq_get rq ''Authorization'') of
        None \<Rightarrow> False
      | Some (scheme, token) \<Rightarrow> equal_fold scheme ''Bearer'' \<and> trim_space token \<noteq> '''')"

definition anonymous :: "fiber_ctx \<Rightarrow> bool" where
  "anonymous fx \<longleftrightarrow> BearerTokenFrom (Some (userCtx fx)) = '''' \<and> \<not> bearer (fx_request fx)"

text \<open>\<open>shy h\<close>: for an anonymous request, \<open>h\<close> reaches at most the auth service, once.\<close>

definition shy :: "fiber_handler \<Rightarrow> bool" where
  "shy h \<longleftrightarrow> (\<forall>fx w. anonymous fx \<longrightarrow>
     sent NotesSvc (snd (snd (h fx w))) = sent NotesSvc w
     \<and> sent AuthSvc (snd (snd (h fx w))) \<le> sent AuthSvc w + 1)"

lemma shyI:
  "(\<And>fx w v fx' w'. anonymous fx \<Longrightarrow> h fx w = (v, fx', w') \<Longrightarrow>
      sent NotesSvc w' = sent NotesSvc w \<and> sent AuthSvc w' \<le> sent AuthSvc w + 1) \<Longrightarrow> shy h"
  unfolding shy_def by (metis prod.collapse)

lemma shyD:
  "h fx w = (v, fx', w') \<Longrightarrow> shy h \<Longrightarrow> anonymous fx \<Longrightarrow>
     sent NotesSvc w' = sent NotesSvc w \<and> sent AuthSvc w' \<le> sent AuthSvc w + 1"
  unfolding shy_def by (metis snd_conv)

lemma answer_simps [simp]: "answer p w = (v, fx', w') \<longleftrightarrow> v = Returned (fst p) \<and> fx' = snd p \<and> w' = w"
  by (auto simp: answer_def)

lemma anonymous_token [simp]: "anonymous fx \<Longrightarrow> BearerTokenFrom (Some (userCtx fx)) = ''''"
  by (simp add: anonymous_def)

lemma shy_quiet: "(\<And>fx w. anonymous fx \<Longrightarrow> quiet w (snd (snd (h fx w)))) \<Longrightarrow> shy h"
  by (simp add: shy_def quiet_def sent_traffic)

lemma shy_auth_handlers:
  "shy (HttpAuth_Register G)" "shy (HttpAuth_Login G)" "shy (HttpAuth_RefreshTokens G)" "shy (HttpAuth_Logout G)"
proof -
  have q: "sent NotesSvc w' = sent NotesSvc w \<and> sent AuthSvc w' \<le> sent AuthSvc w + 1"
    if "only_calls AuthSvc 1 fn" "fn w = (r, w')" for fn :: "world \<Rightarrow> 'a \<times> world" and w r w'
    using only_callsD [OF that, of NotesSvc] by simp
  show "shy (HttpAuth_Register G)" "shy (HttpAuth_Login G)" "shy (HttpAuth_RefreshTokens G)" "shy (HttpAuth_Logout G)"
    by (rule shyI; auto simp: http_auth_defs Let_def split: sum.splits option.splits prod.splits if_splits
          dest: q [OF only_calls_auth(1)] q [OF only_calls_auth(2)] q [OF only_calls_auth(3)] q [OF only_calls_auth(4)])+
qed

lemma requireTokenAndNoteID_anonymous:
  "anonymous fx \<Longrightarrow> requireTokenAndNoteID fx = Inl (FiberError StatusUnauthorized (sentinel_text ErrNoAuthHeader))"
  by (simp add: requireTokenAndNoteID_def)

lemma shy_notes_handlers:
  "shy (HttpAuth_GetProfile G)" "shy (HttpNotes_CreateNote G)" "shy (HttpNotes_GetNote G)" "shy (HttpNotes_ListNotes G)"
  "shy (HttpNotes_UpdateNote G)" "shy (HttpNotes_ReplaceNote G)" "shy (HttpNotes_DeleteNote G)"
  by (rule shy_quiet; simp add: Let_def HttpAuth_GetProfile_def http_notes_defs answer_def requireTokenAndNoteID_anonymous)+

lemma shy_plain: "shy (health G)" "shy (routeNotFound G)" "shy (limitReached H)" "shy (ready G)"
proof -
  show "shy (health G)" "shy (routeNotFound G)" "shy (limitReached H)"
    by (rule shy_quiet; simp add: health_def routeNotFound_def limitReached_def answer_def)+
  have "quiet w (snd (Cache_Ping w))" for w
    by (auto simp: Cache_Ping_def request_def ask_def split: fault.splits)
  then have "quiet w w1" if "Cache_Ping w = (r, w1)" for w r w1 using that by (metis snd_conv)
  then show "shy (ready G)"
    by (intro shy_quiet) (auto simp: ready_def answer_def split: prod.splits sum.splits)
qed

lemma shy_limiter: "shy h \<Longrightarrow> shy (limiter_New H n m h)"
  by (rule shyI) (auto simp: limiter_New_def ask_def limitReached_def split: if_splits dest!: shyD)

lemma anonymous_request_id [simp]:
  "anonymous (fx\<lparr>fx_context := Some (NewRequestIDContext pid (fx_context fx) i), fx_headers := hs\<rparr>) = anonymous fx"
  by (auto simp: anonymous_def userCtx_def NewRequestIDContext_def BearerTokenFrom_def Let_def split: option.splits)

lemma shy_request_id: "shy h \<Longrightarrow> shy (NewRequestIDMiddleware pid h)"
  by (rule shyI) (auto simp: NewRequestIDMiddleware_def NewRequestID_def Let_def split: if_splits dest!: shyD)

lemma shy_logger: "shy h \<Longrightarrow> shy (NewLoggerMiddleware h)"
  by (rule shyI) (auto simp: NewLoggerMiddleware_def split: prod.splits verdict.splits option.splits dest: shyD)

lemma shy_recovery: "shy h \<Longrightarrow> shy (NewRecoveryMiddleware H h)"
  by (rule shyI) (auto simp: NewRecoveryMiddleware_def split: prod.splits verdict.splits dest: shyD)

text \<open>The authentication middleware answers by itself: nothing behind it runs.\<close>

lemma NewAuthMiddleware_anonymous:
  "\<not> bearer (fx_request fx) \<Longrightarrow>
     \<exists>m. NewAuthMiddleware H h fx w = answer (status_JSON H fx StatusUnauthorized (MapBody [(errorKey, m)])) w"
  by (cases "rq_get (fx_request fx) ''Authorization'' = ''''")
     (auto simp: NewAuthMiddleware_def bearer_def Let_def split: option.splits)

lemma shy_auth: "shy (NewAuthMiddleware H h)"
proof (rule shy_quiet)
  fix fx w assume "anonymous fx"
  then obtain m where "NewAuthMiddleware H h fx w = answer (status_JSON H fx StatusUnauthorized (MapBody [(errorKey, m)])) w"
    using NewAuthMiddleware_anonymous [of fx H h w] by (auto simp: anonymous_def)
  then show "quiet w (snd (snd (NewAuthMiddleware H h fx w)))" by (simp add: answer_def)
qed

lemma anonymous_params [simp]: "anonymous (fx\<lparr>fx_params := p\<rparr>) = anonymous fx"
  by (simp add: anonymous_def userCtx_def)

lemma shy_layers:
  assumes "\<And>l next. l \<in> set ls \<Longrightarrow> shy next \<Longrightarrow> shy (ly_run l next)"
  shows "shy (run_layers H ls)"
  using assms
proof (induction ls)
  case Nil
  show ?case by (rule shy_quiet) simp
next
  case (Cons l ls)
  then have l: "shy (ly_run l (run_layers H ls))" and ls: "shy (run_layers H ls)" by simp_all
  show ?case
    by (rule shyI) (auto split: option.splits dest!: shyD [OF _ l] shyD [OF _ ls])
qed

lemma shy_router: "shy (run_layers H (SetupRouter G))"
  by (rule shy_layers)
     (auto simp: SetupRouter_def Let_def Use_def Route_def final_def intro!: shy_request_id shy_logger shy_recovery
        shy_plain shy_limiter shy_auth_handlers shy_notes_handlers shy_auth)

lemma serve_run: "snd (serve G rq w) = snd (snd (run_layers (gw_http G) (SetupRouter G) (fresh_ctx rq) w))"
  by (auto simp: serve_def split: prod.splits verdict.splits option.splits)

text \<open>The routes that stand before the groups behind the authentication.\<close>

definition public_routes :: "(string \<times> string) list" where
  "public_routes =
     [(''GET'', ''/health''), (''GET'', ''/ready''), (''POST'', authRoutes @ ''/register''),
      (''POST'', authRoutes @ ''/login''), (''POST'', authRoutes @ ''/refresh''),
      (''POST'', authRoutes @ ''/logout'')]"

text \<open>
  A request under one of the two groups: no public route matches it, and its path is in the group of
  the user, or in that of the notes, and then it is not the route of the profile.
\<close>

definition grouped :: "http_libs \<Rightarrow> http_request \<Rightarrow> bool" where
  "grouped H rq \<longleftrightarrow> (\<forall>(m, p) \<in> set public_routes. hl_match H False m p rq = None)
     \<and> (hl_match H True '''' userRoutes rq \<noteq> None
        \<or> hl_match H True '''' notesRoutes rq \<noteq> None \<and> hl_match H False ''GET'' (userRoutes @ ''/profile'') rq = None)"

text \<open>\<open>refuses rq h\<close>: an anonymous request \<open>rq\<close> gets 401 from \<open>h\<close>, and no backend is asked.\<close>

definition refuses :: "http_request \<Rightarrow> fiber_handler \<Rightarrow> bool" where
  "refuses rq h \<longleftrightarrow> (\<forall>fx w. anonymous fx \<and> fx_request fx = rq \<longrightarrow>
     (\<exists>fx' w'. h fx w = (Returned None, fx', w') \<and> fx_status fx' = StatusUnauthorized
        \<and> sent AuthSvc w' = sent AuthSvc w))"

lemma refusesD:
  "refuses rq h \<Longrightarrow> anonymous fx \<Longrightarrow> fx_request fx = rq \<Longrightarrow>
     \<exists>fx' w'. h fx w = (Returned None, fx', w') \<and> fx_status fx' = StatusUnauthorized
        \<and> sent AuthSvc w' = sent AuthSvc w"
  by (simp add: refuses_def)

lemma refuses_auth:
  assumes "\<forall>b. hl_json H b = None" and "\<not> bearer rq"
  shows "refuses rq (NewAuthMiddleware H h)"
  unfolding refuses_def
proof (intro allI impI)
  fix fx :: fiber_ctx and w :: world
  assume "anonymous fx \<and> fx_request fx = rq"
  then obtain m where "NewAuthMiddleware H h fx w = answer (status_JSON H fx StatusUnauthorized (MapBody [(errorKey, m)])) w"
    using NewAuthMiddleware_anonymous [of fx H h w] assms(2) by auto
  then show "\<exists>fx' w'. NewAuthMiddleware H h fx w = (Returned None, fx', w') \<and> fx_status fx' = StatusUnauthorized
      \<and> sent AuthSvc w' = sent AuthSvc w"
    using assms(1) by (simp add: answer_def status_JSON_def)
qed

lemma refuses_after:
  assumes "refuses rq h" and "\<And>fx w fx' w'. h fx w = (Returned None, fx', w') \<Longrightarrow> g fx w = (Returned None, fx', w')"
  shows "refuses rq g"
  using refusesD [OF assms(1)] assms(2) unfolding refuses_def by metis

lemma refuses_through:
  assumes "refuses rq h"
  shows "refuses rq (NewRequestIDMiddleware pid h)" "refuses rq (NewLoggerMiddleware h)"
    "refuses rq (NewRecoveryMiddleware H h)"
proof -
  show "refuses rq (NewRequestIDMiddleware pid h)"
    unfolding refuses_def
  proof (intro allI impI)
    fix fx :: fiber_ctx and w :: world
    assume *: "anonymous fx \<and> fx_request fx = rq"
    obtain i w1 where i: "(if rq_get rq requestIDHeader = '''' then NewRequestID w else (rq_get rq requestIDHeader, w)) = (i, w1)"
      by fastforce
    then have "sent AuthSvc w1 = sent AuthSvc w" by (auto simp: NewRequestID_def split: if_splits)
    with refusesD [OF assms, of "fx\<lparr>fx_context := Some (NewRequestIDContext pid (fx_context fx) i),
          fx_headers := fx_headers fx @ [(requestIDHeader, i)]\<rparr>" w1] *
    show "\<exists>fx' w'. NewRequestIDMiddleware pid h fx w = (Returned None, fx', w') \<and> fx_status fx' = StatusUnauthorized
        \<and> sent AuthSvc w' = sent AuthSvc w"
      using i by (auto simp: NewRequestIDMiddleware_def Let_def)
  qed
  show "refuses rq (NewLoggerMiddleware h)" "refuses rq (NewRecoveryMiddleware H h)"
    by (rule refuses_after [OF assms]; simp add: NewLoggerMiddleware_def NewRecoveryMiddleware_def)+
qed

lemma refuses_layers:
  "refuses rq (run_layers H ls) \<Longrightarrow> (\<And>h. refuses rq h \<Longrightarrow> refuses rq (m h)) \<Longrightarrow> refuses rq (run_layers H (Use p m # ls))"
  "hl_match H False verb p rq = None \<Longrightarrow> refuses rq (run_layers H ls) \<Longrightarrow> refuses rq (run_layers H (Route verb p m # ls))"
  "hl_match H True '''' p rq = None \<Longrightarrow> refuses rq (run_layers H ls) \<Longrightarrow> refuses rq (run_layers H (Use p m # ls))"
  "hl_match H True '''' p rq \<noteq> None \<Longrightarrow> refuses rq (m (run_layers H ls)) \<Longrightarrow> refuses rq (run_layers H (Use p m # ls))"
  by (auto simp: refuses_def Use_def Route_def split: option.splits)

text \<open>
  C4: Nobody reaches a service without a bearer token, except for the public routes: a request whose
  \<open>Authorization\<close> header is missing or malformed sends nothing to the notes service, whatever its
  path, method and body, and at most one request to the auth service (a public route); under the
  path of the user and under that of the notes, whatever comes behind it, it is answered with 401
  and sends nothing at all.
\<close>

theorem unauthenticated_requests_stay_out:
  assumes "\<not> bearer rq"
  shows "sent NotesSvc (snd (serve G rq w)) = sent NotesSvc w
    \<and> sent AuthSvc (snd (serve G rq w)) \<le> sent AuthSvc w + 1
    \<and> (grouped (gw_http G) rq \<and> (\<forall>b. hl_json (gw_http G) b = None) \<longrightarrow>
       (\<exists>fx. fst (serve G rq w) = Some fx \<and> fx_status fx = StatusUnauthorized
             \<and> sent AuthSvc (snd (serve G rq w)) = sent AuthSvc w))"
proof -
  let ?H = "gw_http G"
  have anon: "anonymous (fresh_ctx rq)"
    using assms by (simp add: anonymous_def fresh_ctx_def userCtx_def background_def BearerTokenFrom_def)
  obtain v fx w' where run: "run_layers ?H (SetupRouter G) (fresh_ctx rq) w = (v, fx, w')"
    using prod_cases3 by blast
  have "refuses rq (run_layers ?H (SetupRouter G))" if g: "grouped ?H rq" and json: "\<forall>b. hl_json ?H b = None"
  proof -
    note pub = conjunct1 [OF g [unfolded grouped_def], unfolded public_routes_def]
    show ?thesis
    proof (cases "hl_match ?H True '''' userRoutes rq = None")
      case False
      have user: "refuses rq (run_layers ?H (Use userRoutes (NewAuthMiddleware ?H) # ls))" for ls
        by (intro refuses_layers(4) refuses_auth False json assms)
      show ?thesis
        unfolding SetupRouter_def Let_def
        by ((rule refuses_layers(1) [rotated], erule refuses_through)+,
            (rule refuses_layers(2), use pub in simp)+, rule user)
    next
      case True
      then have grp: "hl_match ?H False ''GET'' (userRoutes @ ''/profile'') rq = None" "hl_match ?H True '''' notesRoutes rq \<noteq> None"
        using g unfolding grouped_def by blast+
      show ?thesis
        unfolding SetupRouter_def Let_def
        by (intro refuses_layers refuses_through refuses_auth True grp json assms) (use pub in simp_all)
    qed
  qed
  then show ?thesis
    using shyD [OF run shy_router anon] run refusesD [OF _ anon, of rq "run_layers ?H (SetupRouter G)" w]
    by (auto simp: serve_def fresh_ctx_def split: verdict.splits option.splits prod.splits)
qed

text \<open>
  A concrete fiber: a \<open>Use\<close> matches by prefix, a route by its pattern as it is written except
  for the segment \<open>:note_id\<close>, a limiter lets everything through, and a request to create a note
  binds its body as the title.
\<close>

definition sample_match :: "bool \<Rightarrow> string \<Rightarrow> string \<Rightarrow> http_request \<Rightarrow> (string \<Rightarrow> string) option" where
  "sample_match use verb pattern rq =
     (if use then (if pattern = ''/'' \<or> starts_with (rq_path rq) pattern then Some (\<lambda>_. '''') else None)
      else if verb \<noteq> rq_method rq then None
      else if pattern = rq_path rq then Some (\<lambda>_. '''')
      else if pattern = notesRoutes @ ''/:note_id'' \<and> starts_with (rq_path rq) (notesRoutes @ ''/'')
        then Some (\<lambda>k. if k = ''note_id'' then drop (length notesRoutes + 1) (rq_path rq) else '''')
      else None)"

definition sample_http :: http_libs where
  "sample_http =
     \<lparr>hl_bind_register = (\<lambda>rq. Inl (Library OtherLibrary ''bind'')),
      hl_bind_login = (\<lambda>rq. Inl (Library OtherLibrary ''bind'')),
      hl_bind_refresh = (\<lambda>rq. Inl (Library OtherLibrary ''bind'')),
      hl_bind_logout = (\<lambda>rq. Inl (Library OtherLibrary ''bind'')),
      hl_bind_create = (\<lambda>rq. Inr \<lparr>cn_Title = rq_body rq, cn_Content = ''''\<rparr>),
      hl_bind_update = (\<lambda>rq. Inr \<lparr>un_Title = Some (rq_body rq), un_Content = None\<rparr>),
      hl_json = (\<lambda>b. None), hl_send_status = (\<lambda>n. None), hl_match = sample_match,
      hl_no_route = (\<lambda>rq. FiberError 404 ''no route''), hl_limited = (\<lambda>n m e rq t. False),
      hl_error_handler = (\<lambda>e. (500, error_text e))\<rparr>"

definition sample_gateway :: gateway where
  "sample_gateway =
     \<lparr>gw_deployment = witness_deployment, gw_auth = fst (NewAuthService sample_world),
      gw_notes = fst (NewNotesService sample_world), gw_http = sample_http\<rparr>"

definition sample_request :: "string \<Rightarrow> string \<Rightarrow> http_request" where
  "sample_request verb path =
     \<lparr>rq_method = verb, rq_path = path, rq_get = (\<lambda>_. ''''), rq_query = (\<lambda>_. ''''), rq_body = ''t''\<rparr>"

lemma unauthenticated_requests_stay_out_witness:
  "\<exists>fx fx'. fst (serve sample_gateway (sample_request ''GET'' ''/api/v1/notes/n1'') sample_world) = Some fx
     \<and> fx_status fx = StatusUnauthorized
     \<and> fst (serve sample_gateway (sample_request ''GET'' ''/api/v1/user/profile'') sample_world) = Some fx'
     \<and> fx_status fx' = StatusUnauthorized"
proof -
  have plain: "\<not> bearer (sample_request m p)" "\<forall>b. hl_json (gw_http sample_gateway) b = None" for m p
    by (simp_all add: bearer_def sample_request_def sample_gateway_def sample_http_def)
  have "grouped (gw_http sample_gateway) (sample_request ''GET'' ''/api/v1/notes/n1'')"
    "grouped (gw_http sample_gateway) (sample_request ''GET'' ''/api/v1/user/profile'')"
    by (simp_all add: grouped_def sample_gateway_def sample_http_def sample_match_def sample_request_def public_routes_def
          notesRoutes_def userRoutes_def authRoutes_def apiV1_def)
  then show ?thesis
    using unauthenticated_requests_stay_out [OF plain(1), of sample_gateway "''GET''" _ sample_world] plain(2) by blast
qed

end
