(* ===== verification/HttpAnswers.thy ===== *)
theory HttpAnswers
  imports HttpSafety
begin

text \<open>
  Which answers there are: every request gets an answer of the form of its route in the table
  \<open>api\<close>, or an error. The errors fiber itself defines would carry any status into an answer;
  \<open>plain\<close> says that an error carries none, and the errors from outside (the transport, the
  context) are assumed to be of that kind.
\<close>

subsection \<open>Errors without a fiber error\<close>

definition plain :: "go_error \<Rightarrow> bool" where
  "plain e \<longleftrightarrow> (\<forall>x \<in> set (err_chain e). as_fiber_error x = None)"

lemma plain_simps [simp]:
  "plain (Sentinel s)" "plain (StatusError c m)" "plain (errorf_w p e) = plain e"
  "plain (errorf_ww e1 e2) \<longleftrightarrow> plain e1 \<and> plain e2" "plain (errorf_ws e m) = plain e" "plain (Library k t)"
  by (auto simp: plain_def errorf_w_def errorf_ww_def errorf_ws_def)

lemma first_some_None: "first_some f xs = None \<longleftrightarrow> (\<forall>x \<in> set xs. f x = None)"
  by (induction xs) (auto split: option.splits)

lemma plain_as: "plain e \<Longrightarrow> errors_as as_fiber_error e = None"
  by (simp add: plain_def errors_as_def first_some_None)

definition outside_plain :: "world \<Rightarrow> bool" where
  "outside_plain w \<longleftrightarrow>
     (\<forall>n. (\<forall>e. o_fault (w_outside w n) = LostRequest e \<or> o_fault (w_outside w n) = LostReply e \<longrightarrow> plain e)
        \<and> (\<forall>e. o_ctx (w_outside w n) = Some e \<longrightarrow> plain e))"

lemma outside_plain_cong: "w_outside w' = w_outside w \<Longrightarrow> outside_plain w' = outside_plain w"
  by (simp add: outside_plain_def)

lemma outside_plain_update [simp]:
  "outside_plain (w\<lparr>w_tick := n\<rparr>) = outside_plain w" "outside_plain (w\<lparr>w_breakers := bs\<rparr>) = outside_plain w"
  "outside_plain (w\<lparr>w_log := l\<rparr>) = outside_plain w"
  by (simp_all add: outside_plain_def)

subsection \<open>The services answer with statuses\<close>

definition status_only :: "'r handler \<Rightarrow> bool" where
  "status_only h \<longleftrightarrow> (\<forall>ctx w e. fst (h ctx w) = Inl e \<longrightarrow> (\<exists>c m. e = StatusError c m))"

lemma status_of_StatusError: "\<exists>c' m. status_of c s = StatusError c' m"
  by (simp add: status_of_def)

lemma statuses:
  "\<exists>c m. authStatusFromError e = StatusError c m" "\<exists>c m. notesStatusFromError e = StatusError c m"
  "\<exists>c m. required t = StatusError c m" "userIDFromContext ctx = Inl e \<Longrightarrow> \<exists>c m. e = StatusError c m"
  by (auto simp: authStatusFromError_def notesStatusFromError_def required_def internal_status_def
        userIDFromContext_def Let_def status_of_def split: if_splits)

lemma status_only_chain:
  assumes "status_only h"
  shows "status_only (auth_chain D m h)" "status_only (notes_chain D m h)"
proof -
  have i: "status_only (NewUnaryAuthInterceptor L s ms m h)" for L s ms
    using assms unfolding status_only_def
    by (auto simp: NewUnaryAuthInterceptor_def status_of_def split: sum.splits prod.splits)
  have c: "status_only (unaryRequestIDInterceptor pid g)" if "status_only g" for pid and g :: "'a handler"
    using that unfolding status_only_def by (auto simp: unaryRequestIDInterceptor_def split: prod.splits)
  show "status_only (auth_chain D m h)" "status_only (notes_chain D m h)"
    unfolding auth_chain_def notes_chain_def by (rule c [OF i])+
qed

lemma status_only_handlers:
  "status_only (AuthHandler_Register L j cost e n p)" "status_only (AuthHandler_Login L j e p)"
  "status_only (AuthHandler_RefreshTokens L j t)" "status_only (AuthHandler_Logout L t)"
  "status_only (UserHandler_GetUserProfile L)"
  "status_only (NoteHandler_CreateNote L a b)" "status_only (NoteHandler_GetNote L i)"
  "status_only (NoteHandler_ListNotes L l x)" "status_only (NoteHandler_UpdateNote L i a' c')"
  "status_only (NoteHandler_DeleteNote L i)"
  unfolding status_only_def AuthHandler_Register_def AuthHandler_Login_def AuthHandler_RefreshTokens_def
    AuthHandler_Logout_def UserHandler_GetUserProfile_def NoteHandler_CreateNote_def NoteHandler_GetNote_def
    NoteHandler_ListNotes_def NoteHandler_UpdateNote_def NoteHandler_DeleteNote_def
  by (auto simp: statuses split: sum.splits prod.splits if_splits)

lemmas status_intros = status_only_chain status_only_handlers

subsection \<open>The gateway's operations have plain errors\<close>

definition plain_errors :: "(world \<Rightarrow> (go_error + 'a) \<times> world) \<Rightarrow> bool" where
  "plain_errors fn \<longleftrightarrow> (\<forall>w e. outside_plain w \<and> fst (fn w) = Inl e \<longrightarrow> plain e)"

lemma plain_errorsD: "plain_errors fn \<Longrightarrow> outside_plain w \<Longrightarrow> fst (fn w) = Inl e \<Longrightarrow> plain e"
  by (auto simp: plain_errors_def)

lemma rpc_plain:
  assumes "status_only server" and "outside_plain w" and "fst (rpc s hs server ctx w) = Inl e"
  shows "plain e"
proof -
  have "plain e'" if "fst (server c w1) = Inl e'" for c w1 e'
    using assms(1) that unfolding status_only_def by (metis plain_simps(2))
  then show ?thesis
    using assms(2,3)
    by (auto simp: rpc_def request_def ask_def log_event_def outside_plain_def split: fault.splits)
qed

lemma domain_error_plain: "plain e \<Longrightarrow> plain (domain_error e nf)"
  by (auto simp: domain_error_def statusToDomain_def statusMessageError_def split: option.splits prod.splits grpc_code.splits)

lemma plain_errors_map:
  assumes "status_only server"
  shows "plain_errors (\<lambda>w. case rpc s hs server ctx w of
    (Inl err, w1) \<Rightarrow> (Inl (domain_error err nf), w1) | (Inr v, w1) \<Rightarrow> (Inr (g v), w1))"
  unfolding plain_errors_def
proof (intro allI impI)
  fix w :: world and e
  assume *: "outside_plain w \<and> fst (case rpc s hs server ctx w of
    (Inl err, w1) \<Rightarrow> (Inl (domain_error err nf), w1) | (Inr v, w1) \<Rightarrow> (Inr (g v), w1)) = Inl e"
  then obtain err where "fst (rpc s hs server ctx w) = Inl err" "e = domain_error err nf"
    by (auto split: prod.splits sum.splits)
  then show "plain e" using rpc_plain [OF assms] * domain_error_plain by blast
qed

lemma plain_clients:
  "plain_errors (AuthClient_Register D ctx e n p)" "plain_errors (AuthClient_Login D ctx e p)"
  "plain_errors (AuthClient_RefreshTokens D ctx t)" "plain_errors (AuthClient_Logout D ctx t)"
  "plain_errors (AuthClient_GetUserProfile D ctx t)"
  "plain_errors (NotesClient_CreateNote D ctx t a c)" "plain_errors (NotesClient_GetNote D ctx t i)"
  "plain_errors (NotesClient_ListNotes D ctx t l x)" "plain_errors (NotesClient_UpdateNote D ctx t i a' c')"
  "plain_errors (NotesClient_DeleteNote D ctx t i)"
  unfolding AuthClient_Register_def AuthClient_Login_def AuthClient_RefreshTokens_def AuthClient_Logout_def
    AuthClient_GetUserProfile_def NotesClient_CreateNote_def NotesClient_GetNote_def
    NotesClient_ListNotes_def NotesClient_UpdateNote_def NotesClient_DeleteNote_def
  by (rule plain_errors_map, intro status_intros)+

lemma plain_wrapped: "plain_errors fn \<Longrightarrow> plain_errors (wrapped p fn)"
proof -
  assume fn: "plain_errors fn"
  have "plain x" if "fn w = (Inl x, w')" "outside_plain w" for w x w'
    using plain_errorsD [OF fn that(2)] that(1) by simp
  then show ?thesis
    by (auto simp: plain_errors_def wrapped_def split: sum.splits prod.splits)
qed

lemma plain_circuit: "plain_errors fn \<Longrightarrow> plain_errors (BreakerExecute b fn)"
  unfolding plain_errors_def
  by (intro allI impI, erule conjE)
     (rule BreakerExecute_errors [where P = outside_plain and Q = plain and fn = fn], auto)

lemma plain_retried:
  assumes "one_request s fn" and "plain_errors fn"
  shows "plain_errors (retryExecute rt fn)"
  unfolding plain_errors_def
proof (intro allI impI, erule conjE)
  fix w :: world and e
  assume w: "outside_plain w" and e: "fst (retryExecute rt fn w) = Inl e"
  have keep: "outside_plain (snd (fn w'))" if "outside_plain w'" for w'
    using outside_plain_cong [OF one_request_outside [OF assms(1)]] that by blast
  show "plain e"
    by (rule retry_loop_errors [where P = outside_plain and Q = plain and operation = fn,
          OF plain_errorsD [OF assms(2)] keep _ _ w e [unfolded retryExecute_def]])
       (auto simp: outside_plain_def)
qed

lemma plain_services:
  "plain_errors (AuthService_Register D ra ctx e n p)" "plain_errors (AuthService_Login D ra ctx e p)"
  "plain_errors (AuthService_RefreshTokens D ra ctx t)" "plain_errors (AuthService_Logout D ra ctx t)"
  "plain_errors (NotesService_CreateNote D rn ctx t a c)" "plain_errors (NotesService_GetNote D rn ctx t i)"
  "plain_errors (NotesService_ListNotes D rn ctx t l x)" "plain_errors (NotesService_UpdateNote D rn ctx t i a' c')"
  "plain_errors (NotesService_DeleteNote D rn ctx t i)"
  unfolding AuthService_Register_def [abs_def] AuthService_Login_def [abs_def] AuthService_RefreshTokens_def [abs_def]
    AuthService_Logout_def [abs_def] NotesService_CreateNote_def [abs_def] NotesService_GetNote_def [abs_def]
    NotesService_ListNotes_def [abs_def] NotesService_UpdateNote_def [abs_def] NotesService_DeleteNote_def [abs_def] execute_defs
  by (intro plain_circuit plain_retried [where s = NotesSvc] plain_wrapped one_request_wrapped one_request_notes_client plain_clients)+

subsection \<open>The profile\<close>

lemma cachedProfile_quiet: "quiet w (snd (cachedProfile L k r w))"
proof -
  have g: "quiet w1 w2" if "Cache_Get key w1 = (x, w2)" for key w1 x w2
    using Cache_Get_quiet [of w1 key] that by simp
  show ?thesis
    by (auto simp: cachedProfile_def split: sum.splits prod.splits dest!: g intro: quiet_trans)
qed

lemma accessTokenTTLRemaining_quiet: "quiet w (snd (accessTokenTTLRemaining L t w))"
  by (auto simp: accessTokenTTLRemaining_def Let_def split: sum.splits option.splits)

text \<open>The stages of \<open>GetUserProfile\<close>.\<close>

lemma AuthService_GetUserProfile_cases:
  obtains (hit) remaining w1 u w2 where
      "accessTokenTTLRemaining (d_libs D) t w = (remaining, w1)" "quiet w w1"
      "cachedProfile (d_libs D) (profileTokenHintKey (hashToken (d_libs D) t)) remaining w1 = (Some u, w2)" "quiet w w2"
      "AuthService_GetUserProfile D ra ctx t w = (Inr u, w2)"
    | (failed) w2 e w3 where "quiet w w2"
      "ExecuteWithResilienceResult ra (wrapped ''get profile'' (AuthClient_GetUserProfile D ctx t)) w2 = (Inl e, w3)"
      "AuthService_GetUserProfile D ra ctx t w = (Inl e, w3)"
    | (fetched) remaining w1 w2 u w3 where
      "accessTokenTTLRemaining (d_libs D) t w = (remaining, w1)" "quiet w w1" "quiet w w2"
      "ExecuteWithResilienceResult ra (wrapped ''get profile'' (AuthClient_GetUserProfile D ctx t)) w2 = (Inr u, w3)"
      "AuthService_GetUserProfile D ra ctx t w =
         (Inr u, cacheProfile D (profileTokenHintKey (hashToken (d_libs D) t)) remaining u w3)"
proof -
  let ?k = "profileTokenHintKey (hashToken (d_libs D) t)"
  obtain remaining w1 where r: "accessTokenTTLRemaining (d_libs D) t w = (remaining, w1)" by fastforce
  then have q1: "quiet w w1" using accessTokenTTLRemaining_quiet [of w "d_libs D" t] by simp
  obtain c w2 where c: "cachedProfile (d_libs D) ?k remaining w1 = (c, w2)" by fastforce
  then have q2: "quiet w w2" using quiet_trans [OF q1] cachedProfile_quiet [of w1 "d_libs D" ?k remaining] by simp
  obtain x w3 where x: "ExecuteWithResilienceResult ra (wrapped ''get profile'' (AuthClient_GetUserProfile D ctx t)) w2 = (x, w3)"
    by fastforce
  show ?thesis
    using hit [OF r q1] failed [OF q2] fetched [OF r q1 q2] r c q2 x
    by (cases c; cases x) (simp_all add: AuthService_GetUserProfile_def)
qed

lemma plain_GetUserProfile: "plain_errors (AuthService_GetUserProfile D ra ctx t)"
  unfolding plain_errors_def
proof (intro allI impI, erule conjE)
  fix w :: world and e
  assume w: "outside_plain w" and e: "fst (AuthService_GetUserProfile D ra ctx t w) = Inl e"
  have call: "plain_errors (ExecuteWithResilienceResult ra (wrapped ''get profile'' (AuthClient_GetUserProfile D ctx t)))"
    unfolding execute_defs [abs_def]
    by (intro plain_circuit plain_retried [where s = AuthSvc] plain_wrapped one_request_wrapped one_request_auth_client plain_clients)
  show "plain e"
  proof (cases rule: AuthService_GetUserProfile_cases [of D t w ra ctx])
    case (failed w2 e' w3)
    then have "outside_plain w2" using w outside_plain_cong [of w2 w] by (simp add: quiet_def)
    with failed e show ?thesis using plain_errorsD [OF call, of w2 e] by simp
  qed (use e in auto)
qed

subsection \<open>Well-formed answers\<close>

definition error_statuses :: "int set" where
  "error_statuses = {StatusBadRequest, StatusUnauthorized, StatusNotFound, StatusConflict,
     StatusTooManyRequests, StatusInternalServerError, StatusServiceUnavailable}"

text \<open>An error: one message under \<open>error\<close>, with a status of an error.\<close>

definition error_answer :: "http_body \<Rightarrow> int \<Rightarrow> bool" where
  "error_answer b s \<longleftrightarrow> (\<exists>m. b = MapBody [(errorKey, m)]) \<and> s \<in> error_statuses"

lemma error_answer_map [simp]: "error_answer (MapBody [(errorKey, m)]) s \<longleftrightarrow> s \<in> error_statuses"
  by (simp add: error_answer_def)

text \<open>The answers of a route beside the errors: bodies with their status.\<close>

type_synonym answer_form = "http_body \<Rightarrow> int \<Rightarrow> bool"

definition status_answer :: "(string \<times> int) list \<Rightarrow> answer_form" where
  "status_answer vs b s \<longleftrightarrow> (\<exists>v. (v, s) \<in> set vs \<and> b = MapBody [(statusKey, v)])"

definition token_answer :: "int \<Rightarrow> answer_form" where
  "token_answer status b s \<longleftrightarrow> s = status \<and> (\<exists>t. b = TokenBody t)"

definition message_answer :: "string \<Rightarrow> answer_form" where
  "message_answer m b s \<longleftrightarrow> s = StatusOK \<and> b = MapBody [(''message'', m)]"

definition profile_answer :: answer_form where
  "profile_answer b s \<longleftrightarrow> s = StatusOK \<and> (\<exists>p. b = ProfileBody p)"

definition note_answer :: "int \<Rightarrow> answer_form" where
  "note_answer status b s \<longleftrightarrow> s = status \<and> (\<exists>n. b = NoteBody n)"

definition list_answer :: answer_form where
  "list_answer b s \<longleftrightarrow> s = StatusOK \<and> (\<exists>l. b = ListBody l)"

definition empty_answer :: answer_form where
  "empty_answer b s \<longleftrightarrow> s = StatusNoContent \<and> b = NoBody"

text \<open>The API: what a request of each method and pattern is answered with.\<close>

definition api :: "(string \<times> string \<times> answer_form) list" where
  "api =
     [(''GET'', ''/health'', status_answer [(''ok'', StatusOK)]),
      (''GET'', ''/ready'', status_answer [(''ready'', StatusOK), (''unavailable'', StatusServiceUnavailable)]),
      (''POST'', ''/api/v1/auth/register'', token_answer StatusCreated),
      (''POST'', ''/api/v1/auth/login'', token_answer StatusOK),
      (''POST'', ''/api/v1/auth/refresh'', token_answer StatusOK),
      (''POST'', ''/api/v1/auth/logout'', message_answer ''logged out successfully''),
      (''GET'', ''/api/v1/user/profile'', profile_answer),
      (''POST'', ''/api/v1/notes/'', note_answer StatusCreated),
      (''GET'', ''/api/v1/notes/:note_id'', note_answer StatusOK),
      (''GET'', ''/api/v1/notes/'', list_answer),
      (''PATCH'', ''/api/v1/notes/:note_id'', note_answer StatusOK),
      (''PUT'', ''/api/v1/notes/:note_id'', note_answer StatusOK),
      (''DELETE'', ''/api/v1/notes/:note_id'', empty_answer)]"

text \<open>The answers of the first route that matches a request; none when no route does.\<close>

fun route_answer :: "http_libs \<Rightarrow> http_request \<Rightarrow> (string \<times> string \<times> answer_form) list \<Rightarrow> answer_form" where
  "route_answer H rq [] b s \<longleftrightarrow> False"
| "route_answer H rq ((verb, pattern, form) # rs) b s \<longleftrightarrow>
     (if hl_match H False verb pattern rq \<noteq> None then form b s else route_answer H rq rs b s)"

definition well_formed :: "answer_form \<Rightarrow> fiber_ctx \<Rightarrow> bool" where
  "well_formed F fx \<longleftrightarrow> error_answer (fx_body fx) (fx_status fx) \<or> F (fx_body fx) (fx_status fx)"

text \<open>Fiber can encode every answer and send every status.\<close>
text \<open>Fiber can encode every answer and send every status.\<close>

definition encodes :: "http_libs \<Rightarrow> bool" where
  "encodes H \<longleftrightarrow> (\<forall>b. hl_json H b = None) \<and> (\<forall>n. hl_send_status H n = None)"

lemma status_JSON_encodes: "encodes H \<Longrightarrow> status_JSON H fx s b = (None, fx\<lparr>fx_status := s, fx_body := b\<rparr>)"
  by (simp add: encodes_def status_JSON_def)

lemma jsonResponse_encodes: "encodes H \<Longrightarrow> jsonResponse H fx s b = (None, fx\<lparr>fx_status := s, fx_body := b\<rparr>)"
  by (simp add: jsonResponse_def status_JSON_encodes)

lemma httpErrorFromDomain_total:
  "\<exists>status msg. httpErrorFromDomain (Some e) = (status, msg, True) \<and> status \<in> error_statuses"
  by (simp add: httpErrorFromDomain_def error_statuses_def)

definition answers :: "answer_form \<Rightarrow> go_error option \<times> fiber_ctx \<Rightarrow> bool" where
  "answers F p \<longleftrightarrow> fst p = None \<and> well_formed F (snd p)"

lemma answers_json: "encodes H \<Longrightarrow> error_answer b s \<or> F b s \<Longrightarrow> answers F (jsonResponse H fx s b)"
  by (simp add: answers_def jsonResponse_encodes well_formed_def)

lemma answers_status_json: "encodes H \<Longrightarrow> error_answer b s \<or> F b s \<Longrightarrow> answers F (status_JSON H fx s b)"
  by (simp add: answers_def status_JSON_encodes well_formed_def)

lemma answers_error: "encodes H \<Longrightarrow> s \<in> error_statuses \<Longrightarrow> answers F (errorResponse H fx s m)"
  by (simp add: errorResponse_def answers_json)

lemma answers_handleError:
  assumes "encodes H" and "plain e \<or> (\<exists>c m. e = FiberError c m \<and> c \<in> error_statuses)"
  shows "answers F (handleError H fx e)"
proof -
  obtain s m where "httpErrorFromDomain (Some e) = (s, m, True)" "s \<in> error_statuses"
    using httpErrorFromDomain_total by blast
  then show ?thesis
    using assms by (auto simp: handleError_def plain_as answers_json)
qed

text \<open>
  \<open>good F rq h\<close>: the request \<open>rq\<close>, when nobody answered it yet, gets from \<open>h\<close> an error or an answer
  of the form \<open>F\<close>.
\<close>

definition pending :: "fiber_ctx \<Rightarrow> world \<Rightarrow> bool" where
  "pending fx w \<longleftrightarrow> outside_plain w \<and> fx_context fx \<noteq> None \<and> fx_body fx = NoBody"

definition ends_well :: "answer_form \<Rightarrow> verdict \<times> fiber_ctx \<times> world \<Rightarrow> bool" where
  "ends_well F r \<longleftrightarrow> fst r = Returned None \<and> well_formed F (fst (snd r))"

definition good :: "answer_form \<Rightarrow> http_request \<Rightarrow> fiber_handler \<Rightarrow> bool" where
  "good F rq h \<longleftrightarrow> (\<forall>fx w. pending fx w \<and> fx_request fx = rq \<longrightarrow> ends_well F (h fx w))"

lemma goodD: "good F rq h \<Longrightarrow> pending fx w \<Longrightarrow> fx_request fx = rq \<Longrightarrow> ends_well F (h fx w)"
  by (simp add: good_def)

lemma ends_well_answer [simp]: "ends_well F (answer p w) = answers F p"
  by (simp add: ends_well_def answer_def answers_def)

lemma error_statuses_simps [simp]:
  "StatusBadRequest \<in> error_statuses" "StatusUnauthorized \<in> error_statuses" "StatusNotFound \<in> error_statuses"
  "StatusTooManyRequests \<in> error_statuses" "StatusInternalServerError \<in> error_statuses"
  by (simp_all add: error_statuses_def)

lemma Validate_plain: "ValidateEmail e = Some x \<Longrightarrow> plain x" "ValidatePassword p = Some y \<Longrightarrow> plain y"
  by (auto simp: ValidateEmail_def ValidatePassword_def split: if_splits)

text \<open>A service's operation that has plain errors, answered by \<open>handleError\<close> or by a body that fits.\<close>

lemma answer_service:
  assumes "encodes H" and "plain_errors fn" and "outside_plain w" and "\<And>v w1. ends_well F (k v w1)"
  shows "ends_well F (case fn w of (Inl err, w1) \<Rightarrow> answer (handleError H fx err) w1 | (Inr v, w1) \<Rightarrow> k v w1)"
proof -
  obtain r w1 where fn: "fn w = (r, w1)" by fastforce
  show ?thesis
  proof (cases r)
    case (Inl e)
    then have "plain e" using plain_errorsD [OF assms(2,3), of e] fn by simp
    then show ?thesis using fn Inl answers_handleError [OF assms(1)] by simp
  qed (use fn assms(4) in simp)
qed

lemmas answer_forms = status_answer_def token_answer_def message_answer_def profile_answer_def note_answer_def
  list_answer_def empty_answer_def

lemma good_auth_handlers:
  assumes "encodes (gw_http G)"
  shows "good (token_answer StatusCreated) rq (HttpAuth_Register G)" "good (token_answer StatusOK) rq (HttpAuth_Login G)"
    "good (token_answer StatusOK) rq (HttpAuth_RefreshTokens G)"
    "good (message_answer ''logged out successfully'') rq (HttpAuth_Logout G)"
    "good profile_answer rq (HttpAuth_GetProfile G)"
proof -
  note e = answers_error [OF assms] answers_json [OF assms] answers_handleError [OF assms] answer_forms
  note s = plain_services plain_GetUserProfile
  show "good (token_answer StatusCreated) rq (HttpAuth_Register G)" "good (token_answer StatusOK) rq (HttpAuth_Login G)"
    "good (token_answer StatusOK) rq (HttpAuth_RefreshTokens G)"
    "good (message_answer ''logged out successfully'') rq (HttpAuth_Logout G)"
    "good profile_answer rq (HttpAuth_GetProfile G)"
    unfolding good_def pending_def http_auth_defs Let_def
    by (auto split: sum.splits option.splits intro!: answer_service [OF assms] s simp: e dest!: Validate_plain)
qed

lemma requireTokenAndNoteID_error:
  "requireTokenAndNoteID fx = Inl e \<Longrightarrow> \<exists>c m. e = FiberError c m \<and> c \<in> error_statuses"
  by (auto simp: requireTokenAndNoteID_def Let_def split: if_splits)

lemma good_notes_handlers:
  assumes "encodes (gw_http G)"
  shows "good (note_answer StatusCreated) rq (HttpNotes_CreateNote G)" "good (note_answer StatusOK) rq (HttpNotes_GetNote G)"
    "good list_answer rq (HttpNotes_ListNotes G)" "good (note_answer StatusOK) rq (HttpNotes_UpdateNote G)"
    "good (note_answer StatusOK) rq (HttpNotes_ReplaceNote G)" "good empty_answer rq (HttpNotes_DeleteNote G)"
proof -
  note e = answers_error [OF assms] answers_json [OF assms] answers_handleError [OF assms] answer_forms
  have r: "answers F (handleError (gw_http G) fx err)" if "requireTokenAndNoteID fx = Inl err" for F fx err
    using requireTokenAndNoteID_error [OF that] answers_handleError [OF assms] by blast
  have n: "ends_well empty_answer (Returned None, fx\<lparr>fx_status := StatusNoContent\<rparr>, w)" if "fx_body fx = NoBody" for fx w
    using that by (simp add: ends_well_def well_formed_def empty_answer_def)
  have d: "hl_send_status (gw_http G) n = None" for n using assms by (simp add: encodes_def)
  show "good (note_answer StatusCreated) rq (HttpNotes_CreateNote G)" "good (note_answer StatusOK) rq (HttpNotes_GetNote G)"
    "good list_answer rq (HttpNotes_ListNotes G)" "good (note_answer StatusOK) rq (HttpNotes_UpdateNote G)"
    "good (note_answer StatusOK) rq (HttpNotes_ReplaceNote G)"
    unfolding good_def pending_def http_notes_defs Let_def
    by (auto split: sum.splits intro!: answer_service [OF assms] plain_services simp: e r)
  show "good empty_answer rq (HttpNotes_DeleteNote G)"
    unfolding good_def pending_def HttpNotes_DeleteNote_def Let_def
    by (auto split: sum.splits intro!: answer_service [OF assms] plain_services simp: r d n)
qed

lemma good_plain:
  assumes "encodes (gw_http G)"
  shows "good (status_answer [(''ok'', StatusOK)]) rq (health G)"
    "good (status_answer [(''ready'', StatusOK), (''unavailable'', StatusServiceUnavailable)]) rq (ready G)"
    "good F rq (routeNotFound G)"
  unfolding good_def health_def ready_def routeNotFound_def
  by (auto simp: answers_status_json [OF assms] status_answer_def split: prod.splits sum.splits)

lemma pending_later [simp]: "pending fx (w\<lparr>w_tick := n\<rparr>) = pending fx w"
  by (simp add: pending_def)

lemma pending_params [simp]: "pending (fx\<lparr>fx_params := p\<rparr>) w = pending fx w"
  by (simp add: pending_def)

lemma good_limiter: "encodes H \<Longrightarrow> good F rq h \<Longrightarrow> good F rq (limiter_New H n m h)"
  by (simp add: good_def limiter_New_def ask_def limitReached_def answers_status_json)

lemma good_request_id: "good F rq h \<Longrightarrow> good F rq (NewRequestIDMiddleware pid h)"
  unfolding good_def NewRequestIDMiddleware_def Let_def
  by (auto simp: NewRequestID_def pending_def)

lemma ends_well_through:
  "ends_well F (h fx w) \<Longrightarrow> ends_well F (NewLoggerMiddleware h fx w)"
  "ends_well F (h fx w) \<Longrightarrow> ends_well F (NewRecoveryMiddleware H h fx w)"
  by (cases "h fx w", simp add: ends_well_def NewLoggerMiddleware_def NewRecoveryMiddleware_def)+

lemma good_through:
  "good F rq h \<Longrightarrow> good F rq (NewLoggerMiddleware h)" "good F rq h \<Longrightarrow> good F rq (NewRecoveryMiddleware H h)"
  by (simp_all add: good_def ends_well_through)

lemma good_auth: "encodes H \<Longrightarrow> good F rq h \<Longrightarrow> good F rq (NewAuthMiddleware H h)"
  unfolding good_def NewAuthMiddleware_def Let_def
  by (auto simp: answers_status_json pending_def split: option.splits)

text \<open>Layers: middleware keeps a good answer good, and a route that matches decides the answer.\<close>

lemma good_layers:
  "good F rq (run_layers H ls) \<Longrightarrow> (\<And>h. good F rq h \<Longrightarrow> good F rq (m h)) \<Longrightarrow> good F rq (run_layers H (Use p m # ls))"
  "(\<And>h. good form rq (m h)) \<Longrightarrow> good (route_answer H rq rs) rq (run_layers H ls) \<Longrightarrow>
     good (route_answer H rq ((verb, p, form) # rs)) rq (run_layers H (Route verb p m # ls))"
  "hl_match H True '''' p rq \<noteq> None \<Longrightarrow> good F rq h \<Longrightarrow> good F rq (run_layers H [Use p (final h)])"
  by (auto simp: good_def Use_def Route_def final_def ends_well_def well_formed_def split: option.splits)

text \<open>\<open>app.Use\<close> at the root matches every request.\<close>

definition root_matches :: "http_libs \<Rightarrow> bool" where
  "root_matches H \<longleftrightarrow> (\<forall>rq. hl_match H True '''' ''/'' rq \<noteq> None)"

lemma good_router:
  assumes "encodes (gw_http G)" and "root_matches (gw_http G)"
  shows "good (route_answer (gw_http G) rq api) rq (run_layers (gw_http G) (SetupRouter G))"
proof -
  note e = assms(1)
  have root: "hl_match (gw_http G) True '''' ''/'' rq \<noteq> None" using assms(2) by (simp add: root_matches_def)
  have f: "good F rq (final h next)" if "good F rq h" for F h "next" using that by (simp add: final_def)
  show ?thesis
    unfolding SetupRouter_def api_def Let_def authRoutes_def userRoutes_def notesRoutes_def apiV1_def append.simps
    by (intro good_layers good_request_id good_through good_plain [OF e] f good_limiter [OF e] good_auth [OF e]
          good_auth_handlers [OF e] good_notes_handlers [OF e] root)
qed

text \<open>
  C31: Every request is answered, with the answer of its route: the first route of the API that
  matches it answers with its own kind of body and status (tokens with 201 or 200, a profile, a
  note, a list, nothing with 204), or with an error, which is one message under \<open>error\<close> and one of
  400, 401, 404, 409, 429, 500 and 503; a request that no route matches gets such an error. No
  handler panics, and no error reaches fiber's own error handler.
\<close>

theorem answers_well_formed:
  assumes "encodes (gw_http G)" and "root_matches (gw_http G)" and "outside_plain w"
  shows "\<exists>fx. fst (serve G rq w) = Some fx
     \<and> (error_answer (fx_body fx) (fx_status fx) \<or> route_answer (gw_http G) rq api (fx_body fx) (fx_status fx))"
proof -
  have "pending (fresh_ctx rq) w" "fx_request (fresh_ctx rq) = rq" using assms(3) by (simp_all add: pending_def fresh_ctx_def)
  from goodD [OF good_router [OF assms(1,2)] this] show ?thesis
    by (cases "run_layers (gw_http G) (SetupRouter G) (fresh_ctx rq) w")
       (simp add: serve_def ends_well_def well_formed_def)
qed

lemma answers_well_formed_witness:
  "\<exists>fx. fst (serve sample_gateway (sample_request ''PATCH'' ''/nowhere'') sample_world) = Some fx
     \<and> error_answer (fx_body fx) (fx_status fx)"
proof -
  have "encodes (gw_http sample_gateway)" "root_matches (gw_http sample_gateway)" "outside_plain sample_world"
    by (simp_all add: sample_gateway_def sample_http_def encodes_def root_matches_def sample_match_def
        outside_plain_def sample_world_def sample_outside_def)
  from answers_well_formed [OF this, of "sample_request ''PATCH'' ''/nowhere''"] show ?thesis
    by (simp add: api_def sample_gateway_def sample_http_def sample_match_def sample_request_def notesRoutes_def apiV1_def)
qed

end
