(* ===== verification/Requests.thy ===== *)
theory Requests
  imports HttpAnswers
begin

text \<open>
  A request from the gateway's client to the use case that serves it: what a success says of the
  token it was made with, and of what the backend did.
\<close>

declare to_lower.simps [simp del]

definition validated :: "libs \<Rightarrow> jwt_service \<Rightarrow> string \<Rightarrow> string \<Rightarrow> bool" where
  "validated L s token u \<longleftrightarrow>
     (\<exists>now c. jwt_parse L (access_keyfunc s) now token = Inr (True, c) \<and> cl_UserID c = u \<and> u \<noteq> ''''
        \<and> cl_TokenUse c = tokenUseAccess)"

lemma ValidateAccessToken_validated:
  "ValidateAccessToken L s t w = (Inr u, w') \<Longrightarrow> validated L s t u \<and> quiet w w'"
  by (auto simp: ValidateAccessToken_def validated_def split: sum.splits prod.splits if_splits)

lemma withRequestID_incoming:
  assumes "withRequestID pid (Some c) w = (c', w')"
  shows "cx_incoming c' = cx_incoming c \<and> quiet w w'"
  using assms
  by (auto simp: withRequestID_def NewRequestID_def NewRequestIDContext_def Let_def split: if_splits)

lemma extractBearerToken_sent:
  assumes "cx_incoming c = cx_incoming (server_ctx hs (outgoingContextWithToken ctx t))"
    and "extractBearerToken c = Inr token"
  shows "token = trim_space t"
proof -
  obtain m where "cx_incoming c = Some m" "m ''authorization'' = Some [''Bearer '' @ t]"
    using outgoing_headers [of ctx t] assms(1) by (auto simp: server_ctx_def map_add_def)
  then show ?thesis
    using assms(2) bearer_cut [of t]
    by (simp add: extractBearerToken_def md_get_def Let_def split: if_splits)
qed

lemma UserIDFrom_WithUserID [simp]: "UserIDFrom (Some (WithUserID ctx u)) = u"
  by (simp add: UserIDFrom_def WithUserID_def)

text \<open>A success of a protected method: the handler ran as the user of a token the context carries.\<close>

lemma chain_token:
  assumes "unaryRequestIDInterceptor pid (NewUnaryAuthInterceptor L s ms m h) ctx w = (Inr v, w')" and "m \<in> set ms"
  obtains token u c w1 where "extractBearerToken ctx = Inr token" "validated L s token u" "u \<noteq> ''''" "quiet w w1"
    "UserIDFrom (Some c) = u" "h c w1 = (Inr v, w')"
proof -
  obtain c w0 where r: "withRequestID pid (Some ctx) w = (c, w0)" by fastforce
  note c = withRequestID_incoming [OF r]
  from c have same: "extractBearerToken c = extractBearerToken ctx" by (simp add: extractBearerToken_def)
  from assms r obtain token where token: "extractBearerToken c = Inr token"
    by (cases "extractBearerToken c") (auto simp: unaryRequestIDInterceptor_def NewUnaryAuthInterceptor_def)
  obtain x w1 where v: "ValidateAccessToken L s token w0 = (x, w1)" by fastforce
  with assms r token obtain u where u: "x = Inr u" "h (WithUserID c u) w1 = (Inr v, w')"
    by (cases x) (auto simp: unaryRequestIDInterceptor_def NewUnaryAuthInterceptor_def)
  have "validated L s token u \<and> quiet w0 w1" using ValidateAccessToken_validated v u(1) by blast
  then show ?thesis
    using that [of token u w1 "WithUserID c u"] u(2) c same token quiet_trans by (auto simp: validated_def)
qed

text \<open>With the gateway's context, it is the token the gateway sent.\<close>

lemma chain_authenticated:
  assumes "unaryRequestIDInterceptor pid (NewUnaryAuthInterceptor L s ms m h)
      (server_ctx hs (outgoingContextWithToken ctx t)) w = (Inr v, w')" and "m \<in> set ms"
  obtains u c w1 where "validated L s (trim_space t) u" "u \<noteq> ''''" "quiet w w1"
    "UserIDFrom (Some c) = u" "h c w1 = (Inr v, w')"
  by (rule chain_token [OF assms]) (rule that, auto dest!: extractBearerToken_sent [OF refl])

text \<open>A success of a call over the network: the server's own success.\<close>

lemma rpc_success:
  assumes "rpc s hs server ctx w = (Inr v, w')"
  obtains w1 where "quiet (log_event (Called s) w) w1" "server (server_ctx hs ctx) w1 = (Inr v, w')"
proof -
  from request_okD [OF assms [unfolded rpc_def]]
  have "server (server_ctx hs ctx) (log_event (Called s) w\<lparr>w_tick := Suc (w_tick (log_event (Called s) w))\<rparr>) = (Inr v, w')"
    by simp
  then show ?thesis by (rule that [rotated]) simp
qed

text \<open>A success behind a breaker, with or without retries, is a success of the operation.\<close>

lemma wrapped_success: "wrapped p fn w = (Inr v, w') \<Longrightarrow> fn w = (Inr v, w')"
  by (auto simp: wrapped_def split: sum.splits prod.splits)

lemma wrapped_Inr: "fst (wrapped p fn w) = Inr v \<Longrightarrow> fst (fn w) = Inr v"
  by (auto simp: wrapped_def split: sum.splits prod.splits)

lemma circuit_success:
  assumes "BreakerExecute b fn w = (Inr v, w')"
  obtains k bs w1 k' bs' where "fn (w\<lparr>w_tick := k, w_breakers := bs\<rparr>) = (Inr v, w1)"
    "w' = w1\<lparr>w_tick := k', w_breakers := bs'\<rparr>"
proof -
  obtain a w0 where a: "breaker_allow b w = (a, w0)" by fastforce
  then obtain k bs where w0: "w0 = w\<lparr>w_tick := k, w_breakers := bs\<rparr>"
    using breaker_allow_frame [of b w] by auto
  obtain r w1 where fn: "fn w0 = (r, w1)" by fastforce
  have none: "a = None" using assms a by (cases a) (auto simp: BreakerExecute_def)
  then have "r = Inr v" "w' = breaker_record b (as_err r) w1"
    using assms a fn by (auto simp: BreakerExecute_def)
  then show ?thesis
    using that fn w0 breaker_record_frame [of b "as_err r" w1] by auto
qed

lemma retried_success:
  assumes "fst (BreakerExecute b (retryExecute rt fn) w) = Inr v"
  shows "\<exists>w1. fst (fn w1) = Inr v"
proof -
  obtain w' where "BreakerExecute b (retryExecute rt fn) w = (Inr v, w')"
    using assms by (metis prod.collapse)
  from BreakerExecute_result [OF this] obtain w1 where "fst (retryExecute rt fn w1) = Inr v" by blast
  then show ?thesis
    using retry_loop_result [where rt = rt and operation = fn and m = "max (rt_MaxAttempts rt) 1" and a = 1
        and b = "rt_InitialBackoff rt" and w = w1]
    by (simp add: retryExecute_def)
qed

end
