(* ===== verification/ProfileCache.thy ===== *)
theory ProfileCache
  imports Requests
begin

text \<open>
  The profile cache of the gateway over its whole history: a profile answered to a token is the
  profile of the user the token was issued to, cached or not, and nothing stays cached longer
  than the token lives or than 15 minutes.
\<close>

subsection \<open>What the auth service answers\<close>

lemma request_cases:
  assumes "request (f :: outside \<Rightarrow> world \<Rightarrow> (go_error + 'a) \<times> world) w = (Inr v, w')"
  shows "\<exists>ev w0. w_users w0 = w_users w \<and> f ev w0 = (Inr v, w')"
  using request_okD [OF assms] by (metis world.select_convs(1) world.surjective world.update_convs(7))

lemma FindByID_Inr:
  assumes "FindByID L i w = (Inr u, w')"
  shows "uuid_in L i = Some (user_ID u)"
  using assms
  by (auto simp: FindByID_def findUser_def scanOne_def query_row_def request_def ask_def userFindByIDQuery_def
        dest!: find_SomeD split: prod.splits sum.splits option.splits fault.splits if_splits)

lemma AuthClient_GetUserProfile_own:
  assumes "AuthClient_GetUserProfile D ctx t w = (Inr p, w')"
  shows "\<exists>u. validated (d_libs D) (d_issuer D) (trim_space t) u \<and> uuid_in (d_libs D) u = Some (user_ID p)"
proof -
  let ?server = "auth_chain D ''/auth.v1.UserService/GetUserProfile'' (UserHandler_GetUserProfile (d_libs D))"
  obtain resp where rpc: "rpc AuthSvc (d_headers D) ?server (outgoingContextWithToken ctx t) w = (Inr resp, w')"
    and p: "user_ID p = pr_UserId resp"
    using assms by (auto simp: AuthClient_GetUserProfile_def split: prod.splits sum.splits)
  obtain w1 where "?server (server_ctx (d_headers D) (outgoingContextWithToken ctx t)) w1 = (Inr resp, w')"
    using rpc_success [OF rpc] by blast
  then obtain u c w2 where u: "validated (d_libs D) (d_issuer D) (trim_space t) u" "UserIDFrom (Some c) = u"
    "u \<noteq> ''''" "UserHandler_GetUserProfile (d_libs D) c w2 = (Inr resp, w')"
    unfolding auth_chain_def by (rule chain_authenticated) (auto simp: auth_protected_def)
  obtain user where "GetUserProfile (d_libs D) u w2 = (Inr user, w')" "pr_UserId resp = user_ID user"
    using u(2-4) by (auto simp: UserHandler_GetUserProfile_def userIDFromContext_def split: prod.splits sum.splits)
  then have "uuid_in (d_libs D) u = Some (pr_UserId resp)"
    by (auto simp: GetUserProfile_def dest: FindByID_Inr split: if_splits prod.splits sum.splits)
  then show ?thesis using u(1) p by auto
qed

lemma fetched_own:
  assumes "ExecuteWithResilienceResult ra (wrapped m (AuthClient_GetUserProfile D ctx t)) w = (Inr p, w')"
  shows "\<exists>u. validated (d_libs D) (d_issuer D) (trim_space t) u \<and> uuid_in (d_libs D) u = Some (user_ID p)"
proof -
  obtain w1 where "fst (wrapped m (AuthClient_GetUserProfile D ctx t) w1) = Inr p"
    using retried_success [of "sr_circuitBreaker ra" "sr_retry ra" "wrapped m (AuthClient_GetUserProfile D ctx t)" w p]
      assms by (auto simp: execute_defs)
  then have "fst (AuthClient_GetUserProfile D ctx t w1) = Inr p" by (rule wrapped_Inr)
  then show ?thesis using AuthClient_GetUserProfile_own by (metis prod.collapse)
qed

subsection \<open>What the cache holds\<close>

text \<open>\<open>belongs D t i\<close>: the auth service accepts the token \<open>t\<close> as one of the user whose id is \<open>i\<close>.\<close>

definition belongs :: "deployment \<Rightarrow> string \<Rightarrow> string \<Rightarrow> bool" where
  "belongs D t i \<longleftrightarrow>
     (\<exists>u. validated (d_libs D) (d_issuer D) (trim_space t) u \<and> uuid_in (d_libs D) u = Some i)"

text \<open>
  \<open>cache_ok D T w\<close>: a hint was written for one of the tokens in \<open>T\<close>, and a profile under the
  identifier it has, which is a UUID.
\<close>

definition cache_ok :: "deployment \<Rightarrow> string set \<Rightarrow> world \<Rightarrow> bool" where
  "cache_ok D T w \<longleftrightarrow>
     (\<forall>h i x. w_cache w (profileTokenHintKey h) = Some (i, x) \<longrightarrow>
        (\<exists>t \<in> T. hashToken (d_libs D) t = h \<and> belongs D t i))
   \<and> (\<forall>i s x. w_cache w (profileCacheKey i) = Some (s, x) \<longrightarrow>
        (\<exists>p. json_marshal_user (d_libs D) p = Inr s \<and> user_ID p = i \<and> i \<in> ran (uuid_in (d_libs D))))"

lemma cache_keys [simp]:
  "profileTokenHintKey h = profileTokenHintKey h' \<longleftrightarrow> h = h'" "profileCacheKey i = profileCacheKey i' \<longleftrightarrow> i = i'"
  "profileTokenHintKey h \<noteq> profileCacheKey i" "profileCacheKey i \<noteq> profileTokenHintKey h"
  by (simp_all add: profileTokenHintKey_def profileCacheKey_def)

lemma cache_ok_mono: "cache_ok D T w \<Longrightarrow> w_cache w' \<subseteq>\<^sub>m w_cache w \<Longrightarrow> T \<subseteq> T' \<Longrightarrow> cache_ok D T' w'"
  unfolding cache_ok_def map_le_def dom_def by (smt (verit, best) mem_Collect_eq option.distinct(1) subsetD)

lemma cache_ok_same: "cache_ok D T w \<Longrightarrow> w_cache w' = w_cache w \<Longrightarrow> cache_ok D T w'"
  by (simp add: cache_ok_def)

lemma belongs_uuid: "belongs D t i \<Longrightarrow> i \<in> ran (uuid_in (d_libs D))"
  by (auto simp: belongs_def ran_def)

lemma cache_ok_put:
  assumes "cache_ok D T w"
  shows "json_marshal_user (d_libs D) p = Inr s \<Longrightarrow> user_ID p \<in> ran (uuid_in (d_libs D)) \<Longrightarrow>
           w_cache w' = (w_cache w)(profileCacheKey (user_ID p) \<mapsto> (s, x)) \<Longrightarrow> cache_ok D T w'"
    and "belongs D t i \<Longrightarrow> t \<in> T \<Longrightarrow> w_cache w' = (w_cache w)(profileTokenHintKey (hashToken (d_libs D) t) \<mapsto> (i, x)) \<Longrightarrow>
           cache_ok D T w'"
  using assms by (auto simp: cache_ok_def)

text \<open>
  JSON: a profile read back is that of its user. (The encoding replaces bytes that are not UTF-8;
  a UUID has none.)
\<close>

definition profile_json_ok :: "libs \<Rightarrow> bool" where
  "profile_json_ok L \<longleftrightarrow>
     (\<forall>p s q. user_ID p \<in> ran (uuid_in L) \<and> json_marshal_user L p = Inr s \<and> json_unmarshal_user L s = Inr q
        \<longrightarrow> user_ID q = user_ID p)"

lemma cachedProfile_hit:
  assumes "cachedProfile L k r w = (Some p, w')"
  obtains i x s y where "0 < r" "w_cache w k = Some (i, x)" "w_cache w (profileCacheKey i) = Some (s, y)"
    "json_unmarshal_user L s = Inr p"
proof -
  from assms obtain i w1 s where *: "0 < r" "Cache_Get k w = (Inr i, w1)" "i \<noteq> ''''"
    "Cache_Get (profileCacheKey i) w1 = (Inr s, w')" "s \<noteq> ''''" "json_unmarshal_user L s = Inr p"
    by (auto simp: cachedProfile_def split: if_splits sum.splits prod.splits)
  have "w_cache w1 = w_cache w" using Cache_Get_quiet [of w k] *(2) by (simp add: quiet_def)
  then show ?thesis using that Cache_Get_Inr [OF *(2,3)] Cache_Get_Inr [OF *(4,5)] * by auto
qed

lemma hit_own:
  assumes "cache_ok D T w" and "profile_json_ok (d_libs D)" and "inj_on (hashToken (d_libs D)) (insert t T)"
    and "cachedProfile (d_libs D) (profileTokenHintKey (hashToken (d_libs D) t)) r w = (Some p, w')"
  shows "belongs D t (user_ID p)"
proof -
  obtain i x s y where hit: "w_cache w (profileTokenHintKey (hashToken (d_libs D) t)) = Some (i, x)"
    "w_cache w (profileCacheKey i) = Some (s, y)" "json_unmarshal_user (d_libs D) s = Inr p"
    using cachedProfile_hit [OF assms(4)] by metis
  obtain t' where t': "t' \<in> T" "hashToken (d_libs D) t' = hashToken (d_libs D) t" "belongs D t' i"
    using assms(1) hit(1) unfolding cache_ok_def by blast
  obtain q where "json_marshal_user (d_libs D) q = Inr s" "user_ID q = i" "i \<in> ran (uuid_in (d_libs D))"
    using assms(1) hit(2) unfolding cache_ok_def by blast
  moreover have "t' = t" using t'(1,2) assms(3) by (simp add: inj_on_def)
  ultimately show ?thesis using t'(3) hit(3) assms(2) unfolding profile_json_ok_def by metis
qed

text \<open>What the two writes after a fetch may leave: the old cache, or it with one or both entries.\<close>

lemma cacheProfile_cases:
  obtains (kept) "w_cache (cacheProfile D k r p w) = w_cache w" "w_log (cacheProfile D k r p w) = w_log w"
    | (put) s c1 l1 where "0 < r" "json_marshal_user (d_libs D) p = Inr s"
      "c1 = w_cache w \<and> l1 = [] \<or> (\<exists>x. c1 = (w_cache w)(profileCacheKey (user_ID p) \<mapsto> (s, x))
          \<and> l1 = [CacheWritten (profileCacheKey (user_ID p)) s (min r profileCacheTTL)])"
      "w_cache (cacheProfile D k r p w) = c1 \<and> w_log (cacheProfile D k r p w) = w_log w @ l1
       \<or> (\<exists>x. w_cache (cacheProfile D k r p w) = c1(k \<mapsto> (user_ID p, x))
          \<and> w_log (cacheProfile D k r p w) = w_log w @ l1 @ [CacheWritten k (user_ID p) (min r profileCacheTTL)])"
proof (cases "0 < r \<and> user_ID p \<noteq> '''' \<and> (\<exists>s. json_marshal_user (d_libs D) p = Inr s)")
  case False
  then have "cacheProfile D k r p w = w"
    by (cases "json_marshal_user (d_libs D) p") (auto simp: cacheProfile_def)
  then show ?thesis using kept by simp
next
  case True
  then obtain s where s: "json_marshal_user (d_libs D) p = Inr s" by blast
  let ?ttl = "min r profileCacheTTL"
  have ttl: "\<not> ?ttl \<le> 0" using True by (simp add: profileCacheTTL_def duration_defs min_def)
  obtain r1 w1 where w1: "Cache_Set (d_cacheTTL D) (profileCacheKey (user_ID p)) s ?ttl w = (r1, w1)" by fastforce
  obtain r2 w2 where w2: "Cache_Set (d_cacheTTL D) k (user_ID p) ?ttl w1 = (r2, w2)" by fastforce
  have res: "cacheProfile D k r p w = w2"
    using True s w1 w2 by (simp add: cacheProfile_def Let_def)
  have l1: "\<exists>l1. w_log w1 = w_log w @ l1 \<and> (w_cache w1 = w_cache w \<and> l1 = [] \<or>
      (\<exists>x. w_cache w1 = (w_cache w)(profileCacheKey (user_ID p) \<mapsto> (s, x))
         \<and> l1 = [CacheWritten (profileCacheKey (user_ID p)) s ?ttl]))"
    using Cache_Set_effect [OF w1] ttl by auto
  then obtain l1 where "w_log w1 = w_log w @ l1" "w_cache w1 = w_cache w \<and> l1 = [] \<or>
      (\<exists>x. w_cache w1 = (w_cache w)(profileCacheKey (user_ID p) \<mapsto> (s, x))
         \<and> l1 = [CacheWritten (profileCacheKey (user_ID p)) s ?ttl])"
    by blast
  then show ?thesis
    using put [of s "w_cache w1" l1] True s Cache_Set_effect [OF w2] ttl res by auto
qed

lemma ExecuteWithResilienceResult_cache:
  assumes "ExecuteWithResilienceResult ra (wrapped m (AuthClient_GetUserProfile D ctx t)) w = (x, w')"
  shows "w_cache w' = w_cache w"
proof -
  have one: "one_request AuthSvc (wrapped m (AuthClient_GetUserProfile D ctx t))"
    by (intro one_request_wrapped one_request_auth_client)
  have "w_cache (snd (retryExecute (sr_retry ra) (wrapped m (AuthClient_GetUserProfile D ctx t)) w1)) = w_cache w"
    if "w_cache w1 = w_cache w" for w1
    by (rule retryExecute_invariant [where P = "\<lambda>w'. w_cache w' = w_cache w"])
       (use one that in \<open>simp_all add: one_request_def called_def\<close>)
  then have "w_cache (snd (BreakerExecute (sr_circuitBreaker ra)
      (retryExecute (sr_retry ra) (wrapped m (AuthClient_GetUserProfile D ctx t))) w)) = w_cache w"
    by (intro BreakerExecute_invariant [where P = "\<lambda>w'. w_cache w' = w_cache w"]) simp_all
  then show ?thesis using assms by (simp add: execute_defs)
qed

lemma GetUserProfile_cache_ok:
  assumes "cache_ok D T w" and "t \<in> T"
  shows "cache_ok D T (snd (AuthService_GetUserProfile D ra ctx t w))"
proof (cases rule: AuthService_GetUserProfile_cases [of D t w ra ctx])
  case (hit remaining w1 u w2)
  then show ?thesis using cache_ok_same [OF assms(1), of w2] by (simp add: quiet_def)
next
  case (failed w2 e w3)
  then have "w_cache w3 = w_cache w"
    using ExecuteWithResilienceResult_cache [OF failed(2)] by (simp add: quiet_def)
  with failed show ?thesis using cache_ok_same [OF assms(1), of w3] by simp
next
  case (fetched remaining w1 w2 u w3)
  let ?k = "profileTokenHintKey (hashToken (d_libs D) t)"
  have w3: "cache_ok D T w3"
    using cache_ok_same [OF assms(1), of w3] ExecuteWithResilienceResult_cache [OF fetched(4)] fetched(3)
    by (simp add: quiet_def)
  have own: "belongs D t (user_ID u)"
    using fetched_own [OF fetched(4)] by (simp add: belongs_def)
  show ?thesis
  proof (cases rule: cacheProfile_cases [of D ?k remaining u w3])
    case kept
    then show ?thesis using cache_ok_same [OF w3] fetched(5) by simp
  next
    case (put s c1 l1)
    then have "cache_ok D T (w3\<lparr>w_cache := c1\<rparr>)"
      using w3 cache_ok_put(1) [OF w3 put(2) belongs_uuid [OF own], of "w3\<lparr>w_cache := c1\<rparr>"] by auto
    then show ?thesis
      using put(4) cache_ok_same [of D T "w3\<lparr>w_cache := c1\<rparr>"] fetched(5)
        cache_ok_put(2) [OF \<open>cache_ok D T (w3\<lparr>w_cache := c1\<rparr>)\<close> own assms(2)] by auto
  qed
qed

text \<open>
  The histories of the cache, with the set of tokens profiles were asked for: it starts empty, any profile may be asked for at any time with any
  token, and in between anything may happen to the rest of the world (other requests, other
  services, breakers, the clock) and entries may disappear, but nothing else writes.
\<close>

inductive cache_history :: "deployment \<Rightarrow> string set \<Rightarrow> world \<Rightarrow> bool" for D where
  start: "w_cache w = Map.empty \<Longrightarrow> cache_history D {} w"
| other: "cache_history D T w \<Longrightarrow> w_cache w' \<subseteq>\<^sub>m w_cache w \<Longrightarrow> cache_history D T w'"
| profile: "cache_history D T w \<Longrightarrow> cache_history D (insert t T) (snd (AuthService_GetUserProfile D ra ctx t w))"

lemma cache_history_ok: "cache_history D T w \<Longrightarrow> cache_ok D T w"
proof (induction rule: cache_history.induct)
  case (start w)
  then show ?case by (simp add: cache_ok_def)
next
  case (other T w w')
  then show ?case using cache_ok_mono by blast
next
  case (profile T w t ra ctx)
  then have "cache_ok D (insert t T) w" using cache_ok_mono [of D T w w "insert t T"] by auto
  then show ?case by (rule GetUserProfile_cache_ok) simp
qed

lemma cache_history_finite: "cache_history D T w \<Longrightarrow> finite T"
  by (induction rule: cache_history.induct) simp_all

text \<open>
  C13: The profile cache never mixes up users: whatever profiles were asked for before, with
  whatever tokens, and whatever the rest of the system did, a profile the gateway answers to a
  token is the profile of the user the auth service issued the token to, whether it comes from
  the cache or from the service, as long as no two of the finitely many tokens that profiles were
  asked for have the same hash.
\<close>

theorem profile_answers_own:
  assumes "cache_history D T w" and "inj_on (hashToken (d_libs D)) (insert t T)" and "profile_json_ok (d_libs D)"
    and "AuthService_GetUserProfile D ra ctx t w = (Inr p, w')"
  shows "\<exists>u. validated (d_libs D) (d_issuer D) (trim_space t) u \<and> uuid_in (d_libs D) u = Some (user_ID p)"
proof (cases rule: AuthService_GetUserProfile_cases [of D t w ra ctx])
  case (hit remaining w1 u w2)
  have "cache_ok D T w1"
    using cache_ok_same [OF cache_history_ok [OF assms(1)], of w1] hit(2) by (simp add: quiet_def)
  from hit_own [OF this assms(3,2) hit(3)] show ?thesis
    using hit(5) assms(4) by (simp add: belongs_def)
next
  case (fetched remaining w1 w2 u w3)
  then show ?thesis using fetched_own [OF fetched(4)] assms(4) by simp
qed (use assms(4) in simp)

subsection \<open>How long it is cached\<close>

text \<open>The writes to the cache so far, with the lifetime each asked for.\<close>

definition cache_writes :: "world \<Rightarrow> (string \<times> string \<times> int) list" where
  "cache_writes w = concat (map (\<lambda>e. case e of CacheWritten k v ttl \<Rightarrow> [(k, v, ttl)] | _ \<Rightarrow> []) (w_log w))"

lemma cache_writes_traffic:
  "cache_writes w = concat (map (\<lambda>e. case e of CacheWritten k v ttl \<Rightarrow> [(k, v, ttl)] | _ \<Rightarrow> []) (traffic w))"
proof -
  have *: "concat (map f (filter (\<lambda>e. case e of HashCompared h \<Rightarrow> False | _ \<Rightarrow> True) xs)) = concat (map f xs)"
    if "\<And>h. f (HashCompared h) = []" for f :: "event \<Rightarrow> 'b list" and xs
    using that by (induction xs) (auto split: event.splits)
  show ?thesis unfolding cache_writes_def traffic_def by (rule * [symmetric]) simp
qed

lemma cache_writes_update [simp]:
  "cache_writes (w\<lparr>w_tick := n, w_breakers := bs\<rparr>) = cache_writes w"
  "cache_writes (w\<lparr>w_tick := n, w_log := w_log w @ [Slept d]\<rparr>) = cache_writes w"
  by (simp_all add: cache_writes_def)

lemma cache_writes_quiet: "quiet w w' \<Longrightarrow> cache_writes w' = cache_writes w"
  by (simp add: cache_writes_traffic quiet_def)

lemma cache_writes_called: "called s w w' \<Longrightarrow> cache_writes w' = cache_writes w"
  by (simp add: cache_writes_traffic called_def)

lemma cache_writes_log: "w_log w' = w_log w @ l \<Longrightarrow>
   cache_writes w' = cache_writes w @ concat (map (\<lambda>e. case e of CacheWritten k v ttl \<Rightarrow> [(k, v, ttl)] | _ \<Rightarrow> []) l)"
  by (simp add: cache_writes_def)

lemma ExecuteWithResilienceResult_writes:
  assumes "ExecuteWithResilienceResult ra (wrapped m (AuthClient_GetUserProfile D ctx t)) w = (x, w')"
  shows "cache_writes w' = cache_writes w"
proof -
  have one: "one_request AuthSvc (wrapped m (AuthClient_GetUserProfile D ctx t))"
    by (intro one_request_wrapped one_request_auth_client)
  then have op: "cache_writes (snd (wrapped m (AuthClient_GetUserProfile D ctx t) w1)) = cache_writes w1" for w1
    unfolding one_request_def by (metis cache_writes_called)
  have "cache_writes (snd (retryExecute (sr_retry ra) (wrapped m (AuthClient_GetUserProfile D ctx t)) w1)) = cache_writes w"
    if "cache_writes w1 = cache_writes w" for w1
    by (rule retryExecute_invariant [where P = "\<lambda>w'. cache_writes w' = cache_writes w"]) (use op that in simp_all)
  then have "cache_writes (snd (BreakerExecute (sr_circuitBreaker ra)
      (retryExecute (sr_retry ra) (wrapped m (AuthClient_GetUserProfile D ctx t))) w)) = cache_writes w"
    by (intro BreakerExecute_invariant [where P = "\<lambda>w'. cache_writes w' = cache_writes w"]) simp_all
  then show ?thesis using assms by (simp add: execute_defs)
qed

text \<open>
  C14: Nothing is cached for longer than the token lives or than 15 minutes: a profile request
  writes at most two entries, each with a lifetime that is positive, at most 15 minutes, and at
  most what is left of the token's own lifetime when the request arrives; for a token without a
  readable expiry, or past it, nothing is written.
\<close>

theorem profile_cache_bounded:
  "\<exists>new. cache_writes (snd (AuthService_GetUserProfile D ra ctx t w)) = cache_writes w @ new \<and> length new \<le> 2
     \<and> list_all (\<lambda>(k, v, ttl). 0 < ttl \<and> ttl \<le> 15 * minute
         \<and> (\<exists>x. jwt_unverified_expiry (d_libs D) t = Inr (Some x) \<and> ttl \<le> x - o_now (w_outside w (w_tick w)))) new"
proof (cases rule: AuthService_GetUserProfile_cases [of D t w ra ctx])
  case (hit remaining w1 u w2)
  then show ?thesis by (intro exI [of _ "[]"]) (simp add: cache_writes_quiet)
next
  case (failed w2 e w3)
  then show ?thesis
    using ExecuteWithResilienceResult_writes [OF failed(2)] by (intro exI [of _ "[]"]) (simp add: cache_writes_quiet)
next
  case (fetched remaining w1 w2 u w3)
  let ?k = "profileTokenHintKey (hashToken (d_libs D) t)"
  have w3: "cache_writes w3 = cache_writes w"
    using ExecuteWithResilienceResult_writes [OF fetched(4)] cache_writes_quiet [OF fetched(3)] by simp
  have rem: "\<exists>x. jwt_unverified_expiry (d_libs D) t = Inr (Some x) \<and> remaining = x - o_now (w_outside w (w_tick w))"
    if "0 < remaining"
    using fetched(1) that
    by (auto simp: accessTokenTTLRemaining_def Let_def split: sum.splits option.splits if_splits)
  show ?thesis
  proof (cases rule: cacheProfile_cases [of D ?k remaining u w3])
    case kept
    then have "cache_writes (cacheProfile D ?k remaining u w3) = cache_writes w3" by (simp add: cache_writes_def)
    then show ?thesis using fetched(5) w3 by (intro exI [of _ "[]"]) simp
  next
    case (put s c1 l1)
    let ?ttl = "min remaining profileCacheTTL"
    have ok: "0 < ?ttl" "?ttl \<le> 15 * minute" "?ttl \<le> remaining"
      using put(1) by (simp_all add: profileCacheTTL_def duration_defs)
    obtain l2 where l2: "l2 = [] \<or> l2 = [CacheWritten ?k (user_ID u) ?ttl]"
      and log: "w_log (cacheProfile D ?k remaining u w3) = w_log w3 @ (l1 @ l2)"
      using put(4) by auto
    have l1: "l1 = [] \<or> l1 = [CacheWritten (profileCacheKey (user_ID u)) s ?ttl]" using put(3) by auto
    show ?thesis
      using cache_writes_log [OF log] w3 fetched(5) l1 l2 ok rem [OF put(1)] by auto
  qed
qed

subsection \<open>A profile fetched, then read from the cache\<close>

definition profile_libs :: libs where
  "profile_libs = token_libs\<lparr>jwt_unverified_expiry := (\<lambda>s. Inr (Some 900000000000)),
     json_unmarshal_user := (\<lambda>s. Inr \<lparr>user_CreatedAt = 0, user_UpdatedAt = 0, user_ID = s, user_Email = '''',
                                user_Username = '''', user_PasswordHash = ''''\<rparr>)\<rparr>"

definition profile_world :: world where
  "profile_world = sample_world\<lparr>w_users :=
     [\<lparr>user_CreatedAt = 0, user_UpdatedAt = 0, user_ID = ''u'', user_Email = ''e'', user_Username = ''n'',
       user_PasswordHash = ''h''\<rparr>]\<rparr>"

definition profile_deployment :: deployment where
  "profile_deployment = witness_deployment\<lparr>d_libs := profile_libs\<rparr>"

definition first_profile :: "(go_error + User) \<times> world" where
  "first_profile = AuthService_GetUserProfile profile_deployment (fst (NewAuthService sample_world)) background
     ''k.a'' profile_world"

definition second_profile :: "(go_error + User) \<times> world" where
  "second_profile = AuthService_GetUserProfile profile_deployment (fst (NewAuthService sample_world)) background
     ''k.a'' (snd first_profile)"

lemma second_profile_value:
  "map_sum (\<lambda>_. ()) user_ID (fst second_profile) = Inr ''u''
   \<and> sent AuthSvc (snd first_profile) = 1 \<and> sent AuthSvc (snd second_profile) = 1"
  by code_simp

text \<open>The second answer is the cached one: only one request was sent.\<close>

lemma profile_answers_own_witness:
  "sent AuthSvc (snd second_profile) = 1
   \<and> (\<exists>p u. fst second_profile = Inr p \<and> validated profile_libs witness_issuer (trim_space ''k.a'') u
        \<and> uuid_in profile_libs u = Some (user_ID p))"
proof -
  have "cache_history profile_deployment {} profile_world"
    by (rule cache_history.start) (simp add: profile_world_def sample_world_def)
  then have h: "cache_history profile_deployment {''k.a''} (snd first_profile)"
    unfolding first_profile_def by (rule cache_history.profile)
  have l: "profile_json_ok (d_libs profile_deployment)"
    by (auto simp: profile_json_ok_def profile_deployment_def witness_deployment_def profile_libs_def token_libs_def
          sample_libs_def)
  obtain p where p: "fst second_profile = Inr p"
    using second_profile_value by (cases "fst second_profile") auto
  then obtain w' where "second_profile = (Inr p, w')" by (metis prod.collapse)
  from profile_answers_own [OF h _ l this [unfolded second_profile_def]] p second_profile_value
  show ?thesis by (auto simp: profile_deployment_def witness_deployment_def)
qed

end
