(* ===== verification/CalmPath.thy ===== *)
theory CalmPath
  imports ProfileCache
begin

text \<open>
  The way of a request while everything outside behaves: with a token the service accepts and a
  closed breaker, an operation of the notes API reaches the use case and its answer comes back.
\<close>

definition breaker_closed :: "svc \<Rightarrow> world \<Rightarrow> bool" where
  "breaker_closed s w \<longleftrightarrow> cb_state (w_breakers w s) = StateClosed"

text \<open>\<open>accepts L s token u w\<close>: from \<open>w\<close> on, the service takes the token as one of user \<open>u\<close>.\<close>

definition accepts :: "libs \<Rightarrow> jwt_service \<Rightarrow> string \<Rightarrow> string \<Rightarrow> world \<Rightarrow> bool" where
  "accepts L s token u w \<longleftrightarrow> u \<noteq> '''' \<and> token \<noteq> ''''
     \<and> (\<forall>n \<ge> w_tick w. \<exists>c. jwt_parse L (access_keyfunc s) (o_now (w_outside w n)) token = Inr (True, c)
          \<and> cl_UserID c = u \<and> cl_TokenUse c = tokenUseAccess)"

lemma accepts_later: "accepts L s token u w \<Longrightarrow> w_outside w' = w_outside w \<Longrightarrow> w_tick w \<le> w_tick w' \<Longrightarrow> accepts L s token u w'"
  unfolding accepts_def by (metis le_trans)

lemma calm_later: "calm w \<Longrightarrow> w_outside w' = w_outside w \<Longrightarrow> w_tick w \<le> w_tick w' \<Longrightarrow> calm w'"
  unfolding calm_def by (metis le_trans)

lemma accepts_validates:
  "accepts L s token u w \<Longrightarrow> ValidateAccessToken L s token w = (Inr u, w\<lparr>w_tick := Suc (w_tick w)\<rparr>)"
  by (fastforce simp: accepts_def ValidateAccessToken_def)

text \<open>Nothing but time passes from \<open>w\<close> to \<open>w'\<close>.\<close>

definition waits :: "world \<Rightarrow> world \<Rightarrow> bool" where
  "waits w w' \<longleftrightarrow> (\<exists>k. w_tick w \<le> k \<and> w' = w\<lparr>w_tick := k\<rparr>)"

lemma waits_tick [simp, intro]: "w_tick w \<le> k \<Longrightarrow> waits w (w\<lparr>w_tick := k\<rparr>)" "waits w w"
  unfolding waits_def by (auto intro: exI [of _ "w_tick w"])

lemma waits_trans: "waits w w' \<Longrightarrow> waits w' w'' \<Longrightarrow> waits w w''"
  unfolding waits_def by (elim exE conjE) (rule_tac x = ka in exI, simp)

lemma withRequestID_waits: "withRequestID pid (Some c) w = (c', w') \<Longrightarrow> waits w w' \<and> cx_incoming c' = cx_incoming c"
  by (auto simp: withRequestID_def NewRequestID_def NewRequestIDContext_def Let_def split: if_splits)

lemma extractBearerToken_forward:
  assumes "cx_incoming c = cx_incoming (server_ctx hs (outgoingContextWithToken ctx t))" and "trim_space t \<noteq> ''''"
  shows "extractBearerToken c = Inr (trim_space t)"
proof -
  obtain m where "cx_incoming c = Some m" "m ''authorization'' = Some [''Bearer '' @ t]"
    using outgoing_headers [of ctx t] assms(1) by (auto simp: server_ctx_def map_add_def)
  then show ?thesis
    using assms(2) bearer_cut [of t] by (simp add: extractBearerToken_def md_get_def Let_def)
qed

lemma chain_forward:
  assumes "accepts L s (trim_space t) u w" and "m \<in> set ms"
  obtains c w1 where "unaryRequestIDInterceptor pid (NewUnaryAuthInterceptor L s ms m h)
      (server_ctx hs (outgoingContextWithToken ctx t)) w = h c w1" "userIDFromContext c = Inr u" "waits w w1"
proof -
  let ?s = "server_ctx hs (outgoingContextWithToken ctx t)"
  obtain c w0 where r: "withRequestID pid (Some ?s) w = (c, w0)" by fastforce
  note c = withRequestID_waits [OF r]
  have t: "extractBearerToken c = Inr (trim_space t)"
    using extractBearerToken_forward c assms(1) by (simp add: accepts_def)
  have "accepts L s (trim_space t) u w0"
    using accepts_later [OF assms(1), of w0] c by (auto simp: waits_def)
  from accepts_validates [OF this] show ?thesis
    using that [of "WithUserID c u" "w0\<lparr>w_tick := Suc (w_tick w0)\<rparr>"] r t assms c waits_trans [of w w0]
    by (simp add: unaryRequestIDInterceptor_def NewUnaryAuthInterceptor_def userIDFromContext_def accepts_def Let_def)
qed

text \<open>One call to the notes service, up to its handler.\<close>

lemma notes_rpc_forward:
  assumes "calm w" and "accepts (d_libs D) (d_verifier D) (trim_space t) u w" and "m \<in> set notes_protected"
  obtains c w1 where "rpc NotesSvc hs (notes_chain D m h) (outgoingContextWithToken ctx t) w = h c w1"
    "userIDFromContext c = Inr u" "waits (log_event (Called NotesSvc) w) w1"
proof -
  let ?w = "(log_event (Called NotesSvc) w)\<lparr>w_tick := Suc (w_tick w)\<rparr>"
  have "accepts (d_libs D) (d_verifier D) (trim_space t) u ?w" by (rule accepts_later [OF assms(2)]) (simp_all add: log_event_def)
  then obtain c w1 where c: "notes_chain D m h (server_ctx hs (outgoingContextWithToken ctx t)) ?w = h c w1"
    "userIDFromContext c = Inr u" "waits ?w w1"
    unfolding notes_chain_def by (rule chain_forward [OF _ assms(3)])
  have "rpc NotesSvc hs (notes_chain D m h) (outgoingContextWithToken ctx t) w = h c w1"
    using assms(1) c(1) by (simp add: rpc_def log_event_def request_Served)
  then show ?thesis
    using that c(2,3) waits_trans [of "log_event (Called NotesSvc) w" ?w w1] by (simp add: log_event_def)
qed

lemma breaker_closed_forward:
  assumes "breaker_closed b w" and "fn (w\<lparr>w_tick := Suc (Suc (w_tick w))\<rparr>) = (Inr v, w1)"
    and "w_breakers w1 = w_breakers w"
  obtains w' where "BreakerExecute b fn w = (Inr v, w')" "breaker_closed b w'" "w_outside w' = w_outside w1"
    "w_tick w1 \<le> w_tick w'" "w_notes w' = w_notes w1"
proof -
  have a: "breaker_allow b w = (None, w\<lparr>w_tick := Suc (Suc (w_tick w))\<rparr>)"
    using assms(1) by (simp add: breaker_allow_def allow_def breaker_closed_def)
  have "cb_state (record_result t None (w_breakers w1 b)) = StateClosed" for t
    using assms(1,3) by (simp add: record_result_def Let_def breaker_closed_def)
  then show ?thesis
    using that [of "breaker_record b None w1"] a assms(2)
    by (simp add: BreakerExecute_def breaker_record_def as_err_def breaker_closed_def)
qed

text \<open>A first attempt that succeeds is the only one.\<close>

lemma retry_forward: "fn w = (Inr v, w1) \<Longrightarrow> retryExecute rt fn w = (Inr v, w1)"
  by (simp add: retryExecute_def retry_loop.simps)

lemma wrapped_forward: "fn w = (Inr v, w1) \<Longrightarrow> wrapped p fn w = (Inr v, w1)"
  by (simp add: wrapped_def)


subsection \<open>Creating and reading a note\<close>

text \<open>The database draws identifiers that no note has.\<close>

definition fresh_ids :: "world \<Rightarrow> bool" where
  "fresh_ids w \<longleftrightarrow> (\<forall>n \<ge> w_tick w. o_uuid (w_outside w n) \<notin> note_ID ` set (w_notes w))"

lemma CreateNote_calm:
  assumes "calm w" and "fresh_ids w" and "u \<noteq> ''''" and "uuid_in L u = Some v" and "valid_title t" and "valid_content c"
  obtains n w' where "CreateNote L u t c w = (Inr n, w')" "w_notes w' = w_notes w @ [n]"
    "w_outside w' = w_outside w" "w_tick w \<le> w_tick w'" "w_breakers w' = w_breakers w"
    "note_ID n \<in> range (\<lambda>k. o_uuid (w_outside w k))" "note_UserID n = v" "note_Title n = t" "note_Content n = c"
    "note_ID n \<notin> note_ID ` set (w_notes w)"
proof -
  let ?now = "o_now (w_outside w (w_tick w))"
  let ?w = "w\<lparr>w_tick := Suc (w_tick w)\<rparr>"
  let ?ev = "w_outside w (Suc (w_tick w))"
  let ?n = "\<lparr>note_CreatedAt = o_now ?ev, note_UpdatedAt = o_now ?ev, note_ID = o_uuid ?ev, note_UserID = v,
      note_Title = t, note_Content = c\<rparr>"
  have new: "NewNote ?now u t c = Inr \<lparr>note_CreatedAt = ?now, note_UpdatedAt = ?now, note_ID = '''', note_UserID = u,
      note_Title = t, note_Content = c\<rparr>"
    using assms by (simp add: NewNote_cases)
  have short: "\<not> char_count t > 255"
    using assms(5) char_count_le [of t] by (simp add: valid_title_def maxNoteTitleLen_def)
  have new_id: "o_uuid ?ev \<notin> note_ID ` set (w_notes w)" using assms(2) by (simp add: fresh_ids_def)
  then have "\<not> (\<exists>r \<in> set (w_notes ?w). note_ID r = o_uuid ?ev)" by (auto simp: image_iff)
  then have "noteCreateQuery L u t c ?ev (w\<lparr>w_tick := Suc (Suc (w_tick w))\<rparr>)
      = (Inr (Some ?n), (w\<lparr>w_tick := Suc (Suc (w_tick w))\<rparr>)\<lparr>w_notes := w_notes w @ [?n]\<rparr>)"
    using assms(4) short by (simp add: noteCreateQuery_def Let_def)
  then have "query_row (noteCreateQuery L u t c) ?w = (Inr ?n, (w\<lparr>w_tick := Suc (Suc (w_tick w))\<rparr>)\<lparr>w_notes := w_notes w @ [?n]\<rparr>)"
    using assms(1) by (simp add: query_row_def request_Served)
  with new show ?thesis
    by (intro that [of ?n "(w\<lparr>w_tick := Suc (Suc (w_tick w))\<rparr>)\<lparr>w_notes := w_notes w @ [?n]\<rparr>"])
       (use new_id in \<open>simp_all add: CreateNote_def NoteRepo_Create_def scanOne_def\<close>)
qed

text \<open>
  \<open>healthy G t v w\<close>: nothing outside fails, the breaker of the notes service is closed, and the
  notes service takes the token \<open>t\<close> as one of the user with identifier \<open>v\<close>.
\<close>

definition healthy :: "deployment \<Rightarrow> ServiceResilience \<Rightarrow> string \<Rightarrow> string \<Rightarrow> world \<Rightarrow> bool" where
  "healthy D rn t v w \<longleftrightarrow> calm w \<and> breaker_closed (sr_circuitBreaker rn) w
     \<and> (\<exists>u. accepts (d_libs D) (d_verifier D) (trim_space t) u w \<and> uuid_in (d_libs D) u = Some v)"

lemma healthy_token: "healthy D rn t v w \<Longrightarrow> t \<noteq> ''''"
  by (auto simp: healthy_def accepts_def)

text \<open>A call behind the closed breaker: the operation runs, and all is as healthy afterwards.\<close>

lemma healthy_forward:
  assumes "healthy D rn t v w" and "fn (w\<lparr>w_tick := Suc (Suc (w_tick w))\<rparr>) = (Inr r, w1)"
    and "w_breakers w1 = w_breakers w" "w_outside w1 = w_outside w" "w_tick w \<le> w_tick w1"
  obtains w' where "BreakerExecute (sr_circuitBreaker rn) fn w = (Inr r, w')" "healthy D rn t v w'" "w_notes w' = w_notes w1"
proof -
  have b: "breaker_closed (sr_circuitBreaker rn) w" and h: "calm w"
    using assms(1) by (auto simp: healthy_def)
  obtain u where u: "accepts (d_libs D) (d_verifier D) (trim_space t) u w" "uuid_in (d_libs D) u = Some v"
    using assms(1) by (auto simp: healthy_def)
  obtain w' where w': "BreakerExecute (sr_circuitBreaker rn) fn w = (Inr r, w')" "breaker_closed (sr_circuitBreaker rn) w'"
    "w_outside w' = w_outside w1" "w_tick w1 \<le> w_tick w'" "w_notes w' = w_notes w1"
    by (rule breaker_closed_forward [where fn = fn, OF b assms(2,3)])
  have "w_outside w' = w_outside w" "w_tick w \<le> w_tick w'" using w' assms(4,5) by simp_all
  then have "healthy D rn t v w'"
    using w'(2) u(2) calm_later [OF h] accepts_later [OF u(1)] by (auto simp: healthy_def)
  then show ?thesis using that w'(1,5) by blast
qed

text \<open>A call to a method of the notes service: its handler runs as the token's user.\<close>

lemma healthy_rpc:
  assumes "healthy D rn t v w" and "m \<in> set notes_protected"
  obtains u c w1 where "rpc NotesSvc hs (notes_chain D m h) (outgoingContextWithToken ctx t) (w\<lparr>w_tick := Suc (Suc (w_tick w))\<rparr>) = h c w1"
    "userIDFromContext c = Inr u" "u \<noteq> ''''" "uuid_in (d_libs D) u = Some v" "calm w1" "w_breakers w1 = w_breakers w"
    "w_outside w1 = w_outside w" "w_tick w \<le> w_tick w1" "w_notes w1 = w_notes w"
proof -
  let ?w = "w\<lparr>w_tick := Suc (Suc (w_tick w))\<rparr>"
  obtain u where u: "accepts (d_libs D) (d_verifier D) (trim_space t) u w" "uuid_in (d_libs D) u = Some v" and h: "calm w"
    using assms(1) by (auto simp: healthy_def)
  have "calm ?w" and a: "accepts (d_libs D) (d_verifier D) (trim_space t) u ?w"
    using calm_later [OF h] accepts_later [OF u(1)] by simp_all
  then obtain c w1 where c: "rpc NotesSvc hs (notes_chain D m h) (outgoingContextWithToken ctx t) ?w = h c w1"
    "userIDFromContext c = Inr u" "waits (log_event (Called NotesSvc) ?w) w1"
    by (rule notes_rpc_forward [OF _ _ assms(2)])
  have "w_outside w1 = w_outside w" "w_tick w \<le> w_tick w1" "w_breakers w1 = w_breakers w" "w_notes w1 = w_notes w"
    using c(3) by (auto simp: waits_def log_event_def)
  then show ?thesis
    using that [OF c(1,2)] u calm_later [OF h, of w1] by (simp add: accepts_def)
qed

lemma in_notes_protected:
  "''/notes.v1.NoteService/CreateNote'' \<in> set notes_protected" "''/notes.v1.NoteService/GetNote'' \<in> set notes_protected"
  "''/notes.v1.NoteService/ListNotes'' \<in> set notes_protected" "''/notes.v1.NoteService/UpdateNote'' \<in> set notes_protected"
  "''/notes.v1.NoteService/DeleteNote'' \<in> set notes_protected"
  by (simp_all add: notes_protected_def)

lemma NotesService_CreateNote_forward:
  assumes h: "healthy D rn t v w" and fresh: "fresh_ids w" and "valid_title title" and "valid_content content"
  obtains n w' where "NotesService_CreateNote D rn ctx t title content w = (Inr (Some n), w')" "healthy D rn t v w'"
    "w_notes w' = w_notes w @ [n]" "note_ID n \<in> range (\<lambda>k. o_uuid (w_outside w k))"
    "note_UserID n = v" "note_Title n = title" "note_Content n = content" "note_ID n \<notin> note_ID ` set (w_notes w)"
proof -
  let ?m = "''/notes.v1.NoteService/CreateNote''"
  obtain u c w1 where r: "rpc NotesSvc (d_headers D) (notes_chain D ?m (NoteHandler_CreateNote (d_libs D) title content))
      (outgoingContextWithToken ctx t) (w\<lparr>w_tick := Suc (Suc (w_tick w))\<rparr>) = NoteHandler_CreateNote (d_libs D) title content c w1"
    "userIDFromContext c = Inr u" "u \<noteq> ''''" "uuid_in (d_libs D) u = Some v" "calm w1" "w_breakers w1 = w_breakers w"
    "w_outside w1 = w_outside w" "w_tick w \<le> w_tick w1" "w_notes w1 = w_notes w"
    by (rule healthy_rpc [OF h in_notes_protected(1)])
  have "fresh_ids w1" using fresh r(7-9) by (auto simp: fresh_ids_def)
  then obtain n w2 where n: "CreateNote (d_libs D) u title content w1 = (Inr n, w2)" "w_notes w2 = w_notes w1 @ [n]"
    "w_outside w2 = w_outside w1" "w_tick w1 \<le> w_tick w2" "w_breakers w2 = w_breakers w1"
    "note_ID n \<in> range (\<lambda>k. o_uuid (w_outside w1 k))" "note_UserID n = v" "note_Title n = title" "note_Content n = content"
    "note_ID n \<notin> note_ID ` set (w_notes w1)"
    by (rule CreateNote_calm [OF r(5) _ r(3,4) assms(3,4)])
  have "wrapped ''create note'' (NotesClient_CreateNote D ctx t title content) (w\<lparr>w_tick := Suc (Suc (w_tick w))\<rparr>) = (Inr (Some n), w2)"
    using r(1,2) n(1) by (intro wrapped_forward) (simp add: NotesClient_CreateNote_def NoteHandler_CreateNote_def noteFromProto_def noteToProto_def)
  moreover have "w_breakers w2 = w_breakers w" "w_outside w2 = w_outside w" "w_tick w \<le> w_tick w2" using r n by simp_all
  ultimately obtain w' where "BreakerExecute (sr_circuitBreaker rn) (wrapped ''create note'' (NotesClient_CreateNote D ctx t title content)) w
      = (Inr (Some n), w')" "healthy D rn t v w'" "w_notes w' = w_notes w2"
    by (rule healthy_forward [where fn = "wrapped ''create note'' (NotesClient_CreateNote D ctx t title content)", OF h])
  then show ?thesis
    using that [of n w'] r n by (simp add: NotesService_CreateNote_def execute_defs)
qed

lemma NotesService_GetNote_forward:
  assumes h: "healthy D rn t v w" and "uuid_in (d_libs D) i = Some i'"
    and "find (\<lambda>n. note_ID n = i' \<and> note_UserID n = v) (w_notes w) = Some n"
  obtains w' where "NotesService_GetNote D rn ctx t i w = (Inr (Some n), w')" "healthy D rn t v w'" "w_notes w' = w_notes w"
proof -
  let ?m = "''/notes.v1.NoteService/GetNote''"
  obtain u c w1 where r: "rpc NotesSvc (d_headers D) (notes_chain D ?m (NoteHandler_GetNote (d_libs D) i))
      (outgoingContextWithToken ctx t) (w\<lparr>w_tick := Suc (Suc (w_tick w))\<rparr>) = NoteHandler_GetNote (d_libs D) i c w1"
    "userIDFromContext c = Inr u" "u \<noteq> ''''" "uuid_in (d_libs D) u = Some v" "calm w1" "w_breakers w1 = w_breakers w"
    "w_outside w1 = w_outside w" "w_tick w \<le> w_tick w1" "w_notes w1 = w_notes w"
    by (rule healthy_rpc [OF h in_notes_protected(2)])
  have "GetNote (d_libs D) u i w1 = (Inr n, w1\<lparr>w_tick := Suc (w_tick w1)\<rparr>)"
    using assms(2,3) r by (simp add: GetNote_def NoteRepo_GetByID_calm owned_row_def)
  then have "retryExecute (sr_retry rn) (wrapped ''get note'' (NotesClient_GetNote D ctx t i)) (w\<lparr>w_tick := Suc (Suc (w_tick w))\<rparr>)
      = (Inr (Some n), w1\<lparr>w_tick := Suc (w_tick w1)\<rparr>)"
    using r(1,2) by (intro retry_forward wrapped_forward) (simp add: NotesClient_GetNote_def NoteHandler_GetNote_def noteFromProto_def noteToProto_def)
  moreover have "w_breakers (w1\<lparr>w_tick := Suc (w_tick w1)\<rparr>) = w_breakers w" "w_outside (w1\<lparr>w_tick := Suc (w_tick w1)\<rparr>) = w_outside w"
    "w_tick w \<le> w_tick (w1\<lparr>w_tick := Suc (w_tick w1)\<rparr>)" using r by simp_all
  ultimately obtain w' where "BreakerExecute (sr_circuitBreaker rn) (retryExecute (sr_retry rn) (wrapped ''get note'' (NotesClient_GetNote D ctx t i))) w
      = (Inr (Some n), w')" "healthy D rn t v w'" "w_notes w' = w_notes (w1\<lparr>w_tick := Suc (w_tick w1)\<rparr>)"
    by (rule healthy_forward [where fn = "retryExecute (sr_retry rn) (wrapped ''get note'' (NotesClient_GetNote D ctx t i))", OF h])
  then show ?thesis
    using that [of w'] r by (simp add: NotesService_GetNote_def execute_defs)
qed

end
