(* ===== verification/EndToEnd.thy ===== *)
theory EndToEnd
  imports CalmPath
begin

text \<open>
  The notes API from the HTTP handler of the gateway to the table of the notes service: what an
  answer of success says. Nothing is assumed of the outside here; requests and replies may be
  lost, breakers may open, contexts may end.
\<close>

subsection \<open>From the handler to the use case\<close>

lemma notes_client_success:
  assumes "(case rpc NotesSvc hs (notes_chain D m h) (outgoingContextWithToken ctx t) w of
      (Inl err, w1) \<Rightarrow> (Inl (f err), w1) | (Inr resp, w1) \<Rightarrow> (Inr (g resp), w1)) = (Inr v, w')"
    and "m \<in> set notes_protected"
  obtains u c w1 resp where "validated (d_libs D) (d_verifier D) (trim_space t) u" "w_notes w1 = w_notes w" "w_outside w1 = w_outside w"
    "userIDFromContext c = Inr u" "h c w1 = (Inr resp, w')" "v = g resp"
proof -
  obtain resp where rpc: "rpc NotesSvc hs (notes_chain D m h) (outgoingContextWithToken ctx t) w = (Inr resp, w')"
    and v: "v = g resp"
    using assms(1) by (auto split: prod.splits sum.splits)
  obtain w1 where w1: "quiet (log_event (Called NotesSvc) w) w1"
    "notes_chain D m h (server_ctx hs (outgoingContextWithToken ctx t)) w1 = (Inr resp, w')"
    using rpc_success [OF rpc] by blast
  obtain u c w2 where "validated (d_libs D) (d_verifier D) (trim_space t) u" "u \<noteq> ''''" "quiet w1 w2"
    "UserIDFrom (Some c) = u" "h c w2 = (Inr resp, w')"
    using chain_authenticated [OF w1(2) [unfolded notes_chain_def] assms(2)] by blast
  then show ?thesis
    using that [of u w2 c resp] w1(1) v by (simp add: quiet_def log_event_def userIDFromContext_def Let_def)
qed

lemma notes_write_success:
  assumes "BreakerExecute b (wrapped p fn) w = (Inr v, w')"
  obtains w0 w1 where "w_notes w0 = w_notes w" "w_outside w0 = w_outside w" "fn w0 = (Inr v, w1)" "w_notes w' = w_notes w1"
proof -
  obtain k bs w1 k' bs' where *: "wrapped p fn (w\<lparr>w_tick := k, w_breakers := bs\<rparr>) = (Inr v, w1)"
    "w' = w1\<lparr>w_tick := k', w_breakers := bs'\<rparr>"
    using circuit_success [OF assms] by metis
  show ?thesis by (rule that [OF _ _ wrapped_success [OF *(1)]]) (simp_all add: *(2))
qed

lemma notebook_cong:
  "w_notes w' = w_notes w \<Longrightarrow> notebook v w' = notebook v w" "w_notes w' = w_notes w \<Longrightarrow> notebooks w' = notebooks w"
  by (simp_all add: notebooks_def notebook_def fun_eq_iff)

lemma NotesService_CreateNote_success:
  assumes "NotesService_CreateNote D rn ctx t title content w = (Inr note0, w')"
  obtains u n w1 w2 where "validated (d_libs D) (d_verifier D) (trim_space t) u" "w_notes w1 = w_notes w"
    "CreateNote (d_libs D) u title content w1 = (Inr n, w2)" "note0 = Some n" "w_notes w' = w_notes w2"
proof -
  obtain w0 w2 where w0: "w_notes w0 = w_notes w" "w_outside w0 = w_outside w" "NotesClient_CreateNote D ctx t title content w0 = (Inr note0, w2)"
    "w_notes w' = w_notes w2"
    using notes_write_success [OF assms [unfolded NotesService_CreateNote_def execute_defs]] by metis
  obtain u c w1 resp where h: "validated (d_libs D) (d_verifier D) (trim_space t) u" "w_notes w1 = w_notes w0" "w_outside w1 = w_outside w0"
    "userIDFromContext c = Inr u" "NoteHandler_CreateNote (d_libs D) title content c w1 = (Inr resp, w2)"
    "note0 = noteFromProto resp"
    by (rule notes_client_success [OF w0(3) [unfolded NotesClient_CreateNote_def] in_notes_protected(1)])
  from h(4,5) obtain n where "CreateNote (d_libs D) u title content w1 = (Inr n, w2)" "resp = noteToProto (Some n)"
    by (auto simp: NoteHandler_CreateNote_def split: prod.splits sum.splits)
  then show ?thesis using that [of u w1 n w2] h w0 by simp
qed

lemma NotesService_UpdateNote_success:
  assumes "NotesService_UpdateNote D rn ctx t i title content w = (Inr note0, w')"
  obtains u n w1 w2 where "validated (d_libs D) (d_verifier D) (trim_space t) u" "w_notes w1 = w_notes w" "w_outside w1 = w_outside w"
    "UpdateNote (d_libs D) u i title content w1 = (Inr n, w2)" "note0 = Some n" "w_notes w' = w_notes w2"
proof -
  obtain w0 w2 where w0: "w_notes w0 = w_notes w" "w_outside w0 = w_outside w" "NotesClient_UpdateNote D ctx t i title content w0 = (Inr note0, w2)"
    "w_notes w' = w_notes w2"
    using notes_write_success [OF assms [unfolded NotesService_UpdateNote_def execute_defs]] by metis
  obtain u c w1 resp where h: "validated (d_libs D) (d_verifier D) (trim_space t) u" "w_notes w1 = w_notes w0" "w_outside w1 = w_outside w0"
    "userIDFromContext c = Inr u" "NoteHandler_UpdateNote (d_libs D) i title content c w1 = (Inr resp, w2)"
    "note0 = noteFromProto resp"
    by (rule notes_client_success [OF w0(3) [unfolded NotesClient_UpdateNote_def] in_notes_protected(4)])
  from h(4,5) obtain n where "UpdateNote (d_libs D) u i title content w1 = (Inr n, w2)" "resp = noteToProto (Some n)"
    by (auto simp: NoteHandler_UpdateNote_def split: prod.splits sum.splits)
  then show ?thesis using that [of u w1 n w2] h w0 by simp
qed

lemma NotesService_DeleteNote_success:
  assumes "NotesService_DeleteNote D rn ctx t i w = (Inr x, w')"
  obtains u w1 w2 where "validated (d_libs D) (d_verifier D) (trim_space t) u" "w_notes w1 = w_notes w"
    "DeleteNote (d_libs D) u i w1 = (Inr (), w2)" "w_notes w' = w_notes w2"
proof -
  obtain w0 w2 where w0: "w_notes w0 = w_notes w" "w_outside w0 = w_outside w" "NotesClient_DeleteNote D ctx t i w0 = (Inr x, w2)"
    "w_notes w' = w_notes w2"
    using notes_write_success [OF assms [unfolded NotesService_DeleteNote_def execute_defs]] by metis
  obtain u c w1 resp where h: "validated (d_libs D) (d_verifier D) (trim_space t) u" "w_notes w1 = w_notes w0" "w_outside w1 = w_outside w0"
    "userIDFromContext c = Inr u" "NoteHandler_DeleteNote (d_libs D) i c w1 = (Inr resp, w2)"
    by (rule notes_client_success [OF w0(3) [unfolded NotesClient_DeleteNote_def] in_notes_protected(5)])
  from h(4,5) have "DeleteNote (d_libs D) u i w1 = (Inr (), w2)"
    by (auto simp: NoteHandler_DeleteNote_def split: prod.splits sum.splits)
  then show ?thesis using that [of u w1 w2] h w0 by simp
qed

subsection \<open>What an answer of success says\<close>

text \<open>The token a handler works with.\<close>

definition request_token :: "fiber_ctx \<Rightarrow> string" where
  "request_token fx = BearerTokenFrom (Some (userCtx fx))"

lemma answered:
  "answer (jsonResponse H fx s b) w = (Returned None, fx', w') \<longleftrightarrow>
     hl_json H b = None \<and> fx' = fx\<lparr>fx_status := s, fx_body := b\<rparr> \<and> w' = w"
  by (auto simp: jsonResponse_def status_JSON_def split: option.splits)

lemma answered_error:
  "answer (errorResponse H fx s m) w = (Returned None, fx', w') \<Longrightarrow> fx_body fx' = MapBody [(errorKey, m)]"
  "answer (handleError H fx e) w = (Returned None, fx', w') \<Longrightarrow> \<exists>m. fx_body fx' = MapBody [(errorKey, m)]"
  by (auto simp: errorResponse_def handleError_def answered simp del: answer_simps
        split: option.splits prod.splits bool.splits)

text \<open>An answer that is no error message is the answer to a success of the service.\<close>

lemma no_error:
  assumes "\<And>m. fx_body fx' \<noteq> MapBody [(errorKey, m)]"
  shows "answer (errorResponse H fx s m) w \<noteq> (Returned None, fx', w')"
    and "answer (handleError H fx e) w \<noteq> (Returned None, fx', w')"
  using assms answered_error(1) [of H fx s m w fx' w'] answered_error(2) [of H fx e w fx' w'] by blast+

lemma answered_service:
  assumes "(case fn w of (Inl err, w1) \<Rightarrow> answer (handleError H fx err) w1
      | (Inr v, w1) \<Rightarrow> answer (jsonResponse H fx s (g v)) w1) = (Returned None, fx', w')"
    and "\<And>m. fx_body fx' \<noteq> MapBody [(errorKey, m)]"
  obtains v where "fn w = (Inr v, w')" "fx' = fx\<lparr>fx_status := s, fx_body := g v\<rparr>"
proof -
  obtain r w1 where fn: "fn w = (r, w1)" by fastforce
  show ?thesis
  proof (cases r)
    case (Inl e)
    then show ?thesis using assms(1) fn no_error(2) [OF assms(2), of H fx e w1 w'] by simp
  next
    case (Inr v)
    then have "answer (jsonResponse H fx s (g v)) w1 = (Returned None, fx', w')" using assms(1) fn by simp
    then show ?thesis using that [of v] fn Inr by (simp add: answered del: answer_simps)
  qed
qed

lemma requireTokenAndNoteID_Inr:
  "requireTokenAndNoteID fx = Inr (token, i) \<Longrightarrow> token = request_token fx \<and> i = fx_params fx ''note_id''"
  by (auto simp: requireTokenAndNoteID_def request_token_def Let_def split: if_splits)

lemma bindJSON_Inr: "bindJSON bind fx = Inr r \<longleftrightarrow> bind (fx_request fx) = Inr r"
  by (auto simp: bindJSON_def split: sum.splits)

text \<open>
  C5: A note that the API reports as created is created, once, for the right user: when
  \<open>POST /api/v1/notes\<close> answers with a note, the status is 201, the bearer token is one the notes
  service accepts, and in the table of the notes service exactly one notebook changed, that of the
  token's user, by exactly one entry under a new identifier with the title and content of the
  request; the note in the answer is that entry.
\<close>

theorem create_note_end_to_end:
  assumes "HttpNotes_CreateNote G fx w = (Returned None, fx', w')" and "fx_body fx' = NoteBody b"
  shows "\<exists>req u n. fx_status fx' = StatusCreated \<and> hl_bind_create (gw_http G) (fx_request fx) = Inr req
     \<and> validated (d_libs (gw_deployment G)) (d_verifier (gw_deployment G)) (trim_space (request_token fx)) u
     \<and> b = noteToAPI (Some n) \<and> uuid_in (d_libs (gw_deployment G)) u = Some (note_UserID n)
     \<and> note_Title n = cn_Title req \<and> note_Content n = cn_Content req
     \<and> notebook (note_UserID n) w (note_ID n) = None
     \<and> notebooks w' = (notebooks w)(note_UserID n :=
          (notebook (note_UserID n) w)(note_ID n \<mapsto> (cn_Title req, cn_Content req)))"
proof -
  let ?H = "gw_http G" and ?D = "gw_deployment G"
  have good: "\<And>m. fx_body fx' \<noteq> MapBody [(errorKey, m)]" using assms(2) by simp
  note no = no_error [OF good]
  obtain req where req: "bindJSON (hl_bind_create ?H) fx = Inr req"
    and run: "(case NotesService_CreateNote ?D (gw_notes G) (userCtx fx) (request_token fx) (cn_Title req) (cn_Content req) w of
         (Inl err, w1) \<Rightarrow> answer (handleError ?H fx err) w1
       | (Inr note0, w1) \<Rightarrow> answer (jsonResponse ?H fx StatusCreated (NoteBody (noteToAPI note0))) w1) = (Returned None, fx', w')"
    using assms(1) unfolding HttpNotes_CreateNote_def Let_def request_token_def
    by (cases "bindJSON (hl_bind_create ?H) fx") (auto simp: no simp del: answer_simps split: if_splits)
  obtain note0 where svc: "NotesService_CreateNote ?D (gw_notes G) (userCtx fx) (request_token fx) (cn_Title req)
      (cn_Content req) w = (Inr note0, w')" and ans: "fx' = fx\<lparr>fx_status := StatusCreated, fx_body := NoteBody (noteToAPI note0)\<rparr>"
    by (rule answered_service [where fn = "NotesService_CreateNote ?D (gw_notes G) (userCtx fx) (request_token fx)
          (cn_Title req) (cn_Content req)", OF run good])
  obtain u n w2 w3 where u: "validated (d_libs ?D) (d_verifier ?D) (trim_space (request_token fx)) u"
    "w_notes w2 = w_notes w" "CreateNote (d_libs ?D) u (cn_Title req) (cn_Content req) w2 = (Inr n, w3)"
    "note0 = Some n" "w_notes w' = w_notes w3"
    by (rule NotesService_CreateNote_success [OF svc])
  note same = notebook_cong(1) [OF u(2)] notebook_cong(2) [OF u(2)] notebook_cong(2) [OF u(5)]
  have b: "b = noteToAPI (Some n)" using ans assms(2) u(4) by simp
  show ?thesis
    using CreateNote_notebook [OF u(3)] req u(1) ans b unfolding same bindJSON_Inr
    by (intro exI [of _ req] exI [of _ u] exI [of _ n]) simp
qed

subsection \<open>While everything outside behaves\<close>

lemma HttpNotes_CreateNote_forward:
  assumes "request_token fx \<noteq> ''''" and "hl_bind_create (gw_http G) (fx_request fx) = Inr req"
    and "trim_space (cn_Title req) \<noteq> ''''" and "hl_json (gw_http G) (NoteBody (noteToAPI note0)) = None"
    and "NotesService_CreateNote (gw_deployment G) (gw_notes G) (userCtx fx) (request_token fx) (cn_Title req)
      (cn_Content req) w = (Inr note0, w')"
  shows "HttpNotes_CreateNote G fx w =
     (Returned None, fx\<lparr>fx_status := StatusCreated, fx_body := NoteBody (noteToAPI note0)\<rparr>, w')"
  using assms by (simp add: HttpNotes_CreateNote_def Let_def request_token_def [symmetric] bindJSON_def answered del: answer_simps)

lemma HttpNotes_GetNote_forward:
  assumes "request_token fx \<noteq> ''''" and "fx_params fx ''note_id'' \<noteq> ''''"
    and "hl_json (gw_http G) (NoteBody (noteToAPI note0)) = None"
    and "NotesService_GetNote (gw_deployment G) (gw_notes G) (userCtx fx) (request_token fx) (fx_params fx ''note_id'') w
      = (Inr note0, w')"
  shows "HttpNotes_GetNote G fx w =
     (Returned None, fx\<lparr>fx_status := StatusOK, fx_body := NoteBody (noteToAPI note0)\<rparr>, w')"
  using assms by (simp add: HttpNotes_GetNote_def requireTokenAndNoteID_def Let_def request_token_def [symmetric] answered
        del: answer_simps)

text \<open>
  C6: A created note can be read back. While nothing outside fails and the breaker of the notes
  service is closed, \<open>POST /api/v1/notes\<close> with an accepted token and a valid title and content
  answers 201 with a note of the token's user, and the next \<open>GET\<close> of the identifier in that
  answer, by the same token, answers 200 with the very same note.
\<close>

theorem create_then_get:
  assumes "healthy (gw_deployment G) (gw_notes G) (request_token fx) v w" and "fresh_ids w"
    and "uuids_canonical (d_libs (gw_deployment G)) w" and "uuid_in (d_libs (gw_deployment G)) '''' = None"
    and "\<forall>b. hl_json (gw_http G) (NoteBody b) = None"
    and "hl_bind_create (gw_http G) (fx_request fx) = Inr req" and "valid_title (cn_Title req)" and "valid_content (cn_Content req)"
  shows "\<exists>b fx1 w1. HttpNotes_CreateNote G fx w = (Returned None, fx1, w1)
     \<and> fx_status fx1 = StatusCreated \<and> fx_body fx1 = NoteBody (Some b)
     \<and> hn_UserID b = v \<and> hn_Title b = cn_Title req \<and> hn_Content b = cn_Content req
     \<and> (\<forall>fx2. request_token fx2 = request_token fx \<and> fx_params fx2 ''note_id'' = hn_ID b \<longrightarrow>
          (\<exists>fx3 w3. HttpNotes_GetNote G fx2 w1 = (Returned None, fx3, w3)
             \<and> fx_status fx3 = StatusOK \<and> fx_body fx3 = NoteBody (Some b)))"
proof -
  let ?D = "gw_deployment G" and ?rn = "gw_notes G" and ?t = "request_token fx"
  obtain n w1 where c: "NotesService_CreateNote ?D ?rn (userCtx fx) ?t (cn_Title req) (cn_Content req) w = (Inr (Some n), w1)"
    "healthy ?D ?rn ?t v w1" "w_notes w1 = w_notes w @ [n]" "note_ID n \<in> range (\<lambda>k. o_uuid (w_outside w k))"
    "note_UserID n = v" "note_Title n = cn_Title req" "note_Content n = cn_Content req" "note_ID n \<notin> note_ID ` set (w_notes w)"
    by (rule NotesService_CreateNote_forward [OF assms(1,2,7,8)])
  have token: "?t \<noteq> ''''" by (rule healthy_token [OF assms(1)])
  have id: "uuid_in (d_libs ?D) (note_ID n) = Some (note_ID n)" "note_ID n \<noteq> ''''"
    using c(4) assms(3,4) unfolding uuids_canonical_def by (metis option.distinct(1) rangeE)+
  have post: "HttpNotes_CreateNote G fx w =
      (Returned None, fx\<lparr>fx_status := StatusCreated, fx_body := NoteBody (noteToAPI (Some n))\<rparr>, w1)"
    using assms(5,6,7) c(1) token by (intro HttpNotes_CreateNote_forward) (simp_all add: valid_title_def)
  have found: "find (\<lambda>m. note_ID m = note_ID n \<and> note_UserID m = v) (w_notes w1) = Some n"
    using c(3,5,8) by (auto simp: find_append image_iff split: option.splits dest!: find_SomeD)
  have "\<exists>fx3 w3. HttpNotes_GetNote G fx2 w1 = (Returned None, fx3, w3) \<and> fx_status fx3 = StatusOK
      \<and> fx_body fx3 = NoteBody (noteToAPI (Some n))"
    if "request_token fx2 = ?t" "fx_params fx2 ''note_id'' = note_ID n" for fx2
  proof -
    obtain w3 where "NotesService_GetNote ?D ?rn (userCtx fx2) ?t (note_ID n) w1 = (Inr (Some n), w3)"
      by (rule NotesService_GetNote_forward [OF c(2) id(1) found])
    then have "HttpNotes_GetNote G fx2 w1 =
        (Returned None, fx2\<lparr>fx_status := StatusOK, fx_body := NoteBody (noteToAPI (Some n))\<rparr>, w3)"
      using that token id(2) assms(5) by (intro HttpNotes_GetNote_forward) simp_all
    then show ?thesis by simp
  qed
  then show ?thesis using post c(5-7) by (auto simp: noteToAPI_def)
qed

text \<open>A gateway in front of services that accept the token \<open>k.a\<close>, and a request that carries it.\<close>

definition witness_gateway :: gateway where
  "witness_gateway = sample_gateway\<lparr>gw_deployment := profile_deployment\<rparr>"

definition witness_fx :: fiber_ctx where
  "witness_fx = (fresh_ctx (sample_request ''POST'' ''/api/v1/notes/''))
     \<lparr>fx_context := Some (WithBearerToken background ''k.a''), fx_params := (\<lambda>_. ''n'')\<rparr>"

text \<open>A world in which the clock stands still, so that no token expires.\<close>

definition still_world :: world where
  "still_world = sample_world\<lparr>w_outside := (\<lambda>n. (sample_outside n)\<lparr>o_now := 0\<rparr>)\<rparr>"

lemmas witness_http_defs = witness_gateway_def sample_gateway_def sample_http_def witness_fx_def fresh_ctx_def
  sample_request_def profile_deployment_def witness_deployment_def profile_libs_def token_libs_def

lemma trim_samples: "trim_space ''t'' = ''t''" "trim_space ''k.a'' = ''k.a''"
  by code_simp+

lemma witness_token: "request_token witness_fx = ''k.a''"
  by (simp add: request_token_def userCtx_def witness_fx_def BearerTokenFrom_def WithBearerToken_def)

lemma still_accepts:
  "accepts (d_libs (gw_deployment witness_gateway)) (d_verifier (gw_deployment witness_gateway)) ''k.a'' ''u'' still_world"
  by (simp add: accepts_def witness_http_defs still_world_def sample_defs access_keyfunc_def NewAccessVerifier_def
        signed_claims_def tokenUseAccess_def)

lemma still_healthy:
  "healthy (gw_deployment witness_gateway) (gw_notes witness_gateway) (request_token witness_fx) ''u'' still_world"
  "fresh_ids still_world" "uuids_canonical (d_libs (gw_deployment witness_gateway)) still_world"
proof -
  have "calm still_world" "fresh_ids still_world" by (simp_all add: calm_def fresh_ids_def still_world_def sample_defs)
  moreover have "breaker_closed b still_world" for b by (simp add: breaker_closed_def still_world_def sample_defs)
  moreover have "uuid_in (d_libs (gw_deployment witness_gateway)) ''u'' = Some ''u''" by (simp add: witness_http_defs sample_defs)
  ultimately show "healthy (gw_deployment witness_gateway) (gw_notes witness_gateway) (request_token witness_fx) ''u'' still_world"
    "fresh_ids still_world"
    using still_accepts by (auto simp: healthy_def witness_token trim_samples)
  show "uuids_canonical (d_libs (gw_deployment witness_gateway)) still_world"
    by (simp add: uuids_canonical_def witness_http_defs still_world_def sample_defs)
qed

lemma witness_bind: "hl_bind_create (gw_http witness_gateway) (fx_request witness_fx) = Inr \<lparr>cn_Title = ''t'', cn_Content = ''''\<rparr>"
  by (simp add: witness_http_defs)

theorem create_then_get_witness:
  "\<exists>b fx1 w1. HttpNotes_CreateNote witness_gateway witness_fx still_world = (Returned None, fx1, w1)
     \<and> fx_status fx1 = StatusCreated \<and> fx_body fx1 = NoteBody (Some b) \<and> hn_Title b = ''t''"
proof -
  have "\<forall>b. hl_json (gw_http witness_gateway) (NoteBody b) = None" "uuid_in (d_libs (gw_deployment witness_gateway)) '''' = None"
    by (simp_all add: witness_http_defs sample_defs)
  moreover have "valid_title ''t''" "valid_content ''''"
    by (simp_all add: valid_title_def valid_content_def trim_samples maxNoteTitleLen_def maxNoteContentLen_def)
  ultimately show ?thesis
    using create_then_get [OF still_healthy, of "\<lparr>cn_Title = ''t'', cn_Content = ''''\<rparr>"] witness_bind by auto
qed

lemma witness_post:
  "\<exists>n w'. HttpNotes_CreateNote witness_gateway witness_fx still_world = (Returned None, witness_fx\<lparr>fx_status := StatusCreated, fx_body := NoteBody (noteToAPI (Some n))\<rparr>, w')"
proof -
  have v: "valid_title ''t''" "valid_content ''''"
    by (simp_all add: valid_title_def valid_content_def trim_samples maxNoteTitleLen_def maxNoteContentLen_def)
  obtain n w' where "NotesService_CreateNote (gw_deployment witness_gateway) (gw_notes witness_gateway) (userCtx witness_fx)
      (request_token witness_fx) ''t'' '''' still_world = (Inr (Some n), w')"
    by (rule NotesService_CreateNote_forward [OF still_healthy(1,2) v])
  moreover have "hl_json (gw_http witness_gateway) b = None" for b by (simp add: witness_gateway_def sample_gateway_def sample_http_def)
  ultimately show ?thesis
    using HttpNotes_CreateNote_forward [OF _ witness_bind] by (auto simp: witness_token trim_samples)
qed

lemma create_note_end_to_end_witness:
  "\<exists>fx w u n. HttpNotes_CreateNote witness_gateway witness_fx still_world = (Returned None, fx, w)
     \<and> fx_status fx = StatusCreated \<and> notebook u w n = Some (''t'', '''')"
proof -
  obtain fx w b where r: "HttpNotes_CreateNote witness_gateway witness_fx still_world = (Returned None, fx, w)"
    "fx_body fx = NoteBody b"
    using witness_post by fastforce
  obtain n :: Note where "fx_status fx = StatusCreated" and n: "notebooks w = (notebooks still_world)(note_UserID n :=
      (notebook (note_UserID n) still_world)(note_ID n \<mapsto> (''t'', '''')))"
    using create_note_end_to_end [OF r] witness_bind by clarsimp
  moreover have "notebook (note_UserID n) w (note_ID n) = Some (''t'', '''')"
    using fun_cong [OF fun_cong [OF n, of "note_UserID n"], of "note_ID n"] by (simp add: notebooks_def)
  ultimately show ?thesis using r by blast
qed

end
