(* ===== verification/NotesEdits.thy ===== *)
theory NotesEdits
  imports EndToEnd
begin

text \<open>
  Changing and removing notes through the HTTP API: what an answer of success says of the tables,
  and what a caller sees of a note that is not theirs.
\<close>

subsection \<open>Changing a note\<close>

text \<open>The two handlers that change a note run the same call once they have accepted the request.\<close>

lemma HttpNotes_edit_success:
  assumes "HttpNotes_UpdateNote G fx w = (Returned None, fx', w') \<or> HttpNotes_ReplaceNote G fx w = (Returned None, fx', w')"
    and good: "\<And>m. fx_body fx' \<noteq> MapBody [(errorKey, m)]"
  obtains req note0 where "hl_bind_update (gw_http G) (fx_request fx) = Inr req"
    "NotesService_UpdateNote (gw_deployment G) (gw_notes G) (userCtx fx) (request_token fx) (fx_params fx ''note_id'')
       (un_Title req) (un_Content req) w = (Inr note0, w')"
    "fx' = fx\<lparr>fx_status := StatusOK, fx_body := NoteBody (noteToAPI note0)\<rparr>"
proof -
  let ?H = "gw_http G" and ?D = "gw_deployment G"
  note no = no_error [OF good]
  let ?svc = "\<lambda>req. NotesService_UpdateNote ?D (gw_notes G) (userCtx fx) (request_token fx) (fx_params fx ''note_id'')
      (un_Title req) (un_Content req)"
  obtain req where req: "hl_bind_update ?H (fx_request fx) = Inr req"
    and run: "(case ?svc req w of (Inl err, w1) \<Rightarrow> answer (handleError ?H fx err) w1
       | (Inr note0, w1) \<Rightarrow> answer (jsonResponse ?H fx StatusOK (NoteBody (noteToAPI note0))) w1) = (Returned None, fx', w')"
    using assms(1) unfolding HttpNotes_UpdateNote_def HttpNotes_ReplaceNote_def Let_def
    by (cases "requireTokenAndNoteID fx"; cases "bindJSON (hl_bind_update ?H) fx")
       (auto simp: no bindJSON_Inr simp del: answer_simps split: if_splits dest!: requireTokenAndNoteID_Inr)
  show ?thesis
    by (rule answered_service [where fn = "?svc req", OF run good]) (rule that [OF req])
qed

text \<open>
  C8: An edit that the API reports is stored, and nothing else is: when \<open>PATCH\<close> or \<open>PUT\<close> answers
  with a note, the status is 200, the token is one the notes service accepts, and the only change
  in the table is the named entry of the token's user: the fields of the request replace the old
  ones, absent ones stay; the note in the answer carries the title and content now stored.
\<close>

theorem update_note_end_to_end:
  assumes "notes_db_ok (d_libs (gw_deployment G)) w"
    and "HttpNotes_UpdateNote G fx w = (Returned None, fx', w') \<or> HttpNotes_ReplaceNote G fx w = (Returned None, fx', w')"
    and "fx_body fx' = NoteBody b"
  shows "\<exists>req u n old. fx_status fx' = StatusOK \<and> hl_bind_update (gw_http G) (fx_request fx) = Inr req
     \<and> validated (d_libs (gw_deployment G)) (d_verifier (gw_deployment G)) (trim_space (request_token fx)) u
     \<and> b = noteToAPI (Some n) \<and> uuid_in (d_libs (gw_deployment G)) u = Some (note_UserID n)
     \<and> uuid_in (d_libs (gw_deployment G)) (fx_params fx ''note_id'') = Some (note_ID n)
     \<and> notebook (note_UserID n) w (note_ID n) = Some old
     \<and> note_Title n = (case un_Title req of None \<Rightarrow> fst old | Some x \<Rightarrow> x)
     \<and> note_Content n = (case un_Content req of None \<Rightarrow> snd old | Some x \<Rightarrow> x)
     \<and> notebooks w' = (notebooks w)(note_UserID n :=
          (notebook (note_UserID n) w)(note_ID n \<mapsto> (note_Title n, note_Content n)))"
proof -
  let ?D = "gw_deployment G"
  have good: "\<And>m. fx_body fx' \<noteq> MapBody [(errorKey, m)]" using assms(3) by simp
  obtain req note0 where req: "hl_bind_update (gw_http G) (fx_request fx) = Inr req"
    and svc: "NotesService_UpdateNote ?D (gw_notes G) (userCtx fx) (request_token fx) (fx_params fx ''note_id'')
      (un_Title req) (un_Content req) w = (Inr note0, w')"
    and ans: "fx' = fx\<lparr>fx_status := StatusOK, fx_body := NoteBody (noteToAPI note0)\<rparr>"
    by (rule HttpNotes_edit_success [OF assms(2) good])
  obtain u n w2 w3 where u: "validated (d_libs ?D) (d_verifier ?D) (trim_space (request_token fx)) u"
    "w_notes w2 = w_notes w" "w_outside w2 = w_outside w"
    "UpdateNote (d_libs ?D) u (fx_params fx ''note_id'') (un_Title req) (un_Content req) w2 = (Inr n, w3)"
    "note0 = Some n" "w_notes w' = w_notes w3"
    by (rule NotesService_UpdateNote_success [OF svc])
  note same = notebook_cong(1) [OF u(2)] notebook_cong(2) [OF u(2)] notebook_cong(2) [OF u(6)]
  have "notes_db_ok (d_libs ?D) w2" using assms(1) u(2,3) by (simp add: notes_db_ok_def uuids_canonical_def)
  from UpdateNote_notebook [OF this u(4)] obtain v i old where
    "uuid_in (d_libs ?D) u = Some v" "uuid_in (d_libs ?D) (fx_params fx ''note_id'') = Some i" "notebook v w2 i = Some old"
    "note_ID n = i" "note_UserID n = v" "note_Title n = (case un_Title req of None \<Rightarrow> fst old | Some x \<Rightarrow> x)"
    "note_Content n = (case un_Content req of None \<Rightarrow> snd old | Some x \<Rightarrow> x)"
    "notebooks w3 = (notebooks w2)(v := (notebook v w2)(i \<mapsto> (note_Title n, note_Content n)))"
    by blast
  then show ?thesis
    using req u(1,5) ans assms(3) unfolding same
    by (intro exI [of _ req] exI [of _ u] exI [of _ n] exI [of _ old]) simp
qed

subsection \<open>Removing a note\<close>

text \<open>
  C9: A removal that the API reports has happened, and nothing else has: when \<open>DELETE\<close> answers
  without a body, the status is 204, the token is one the notes service accepts, and the only
  change in the table is that the named entry of the token's user, which was there, is gone.
\<close>

theorem delete_note_end_to_end:
  assumes "HttpNotes_DeleteNote G fx w = (Returned None, fx', w')" and "fx_body fx' = NoBody"
  shows "fx_status fx' = StatusNoContent \<and> (\<exists>u v i.
       validated (d_libs (gw_deployment G)) (d_verifier (gw_deployment G)) (trim_space (request_token fx)) u
     \<and> uuid_in (d_libs (gw_deployment G)) u = Some v \<and> uuid_in (d_libs (gw_deployment G)) (fx_params fx ''note_id'') = Some i
     \<and> notebook v w i \<noteq> None \<and> notebooks w' = (notebooks w)(v := (notebook v w)(i := None)))"
proof -
  let ?D = "gw_deployment G"
  have good: "\<And>m. fx_body fx' \<noteq> MapBody [(errorKey, m)]" using assms(2) by simp
  note no = no_error [OF good]
  obtain x where svc: "NotesService_DeleteNote ?D (gw_notes G) (userCtx fx) (request_token fx) (fx_params fx ''note_id'') w = (Inr x, w')"
    and st: "fx_status fx' = StatusNoContent"
    using assms(1) unfolding HttpNotes_DeleteNote_def Let_def
    by (cases "requireTokenAndNoteID fx")
       (auto simp: no simp del: answer_simps split: prod.splits sum.splits option.splits dest!: requireTokenAndNoteID_Inr)
  obtain u w1 w2 where u: "validated (d_libs ?D) (d_verifier ?D) (trim_space (request_token fx)) u" "w_notes w1 = w_notes w"
    "DeleteNote (d_libs ?D) u (fx_params fx ''note_id'') w1 = (Inr (), w2)" "w_notes w' = w_notes w2"
    by (rule NotesService_DeleteNote_success [OF svc])
  note same = notebook_cong(1) [OF u(2)] notebook_cong(2) [OF u(2)] notebook_cong(2) [OF u(4)]
  show ?thesis using DeleteNote_notebook [OF u(3)] u(1) st unfolding same by blast
qed


subsection \<open>While everything outside behaves\<close>

lemma healthy_handler:
  assumes h: "healthy D rn t v w" and "m \<in> set notes_protected"
    and served: "\<And>c u w1. userIDFromContext c = Inr u \<Longrightarrow> uuid_in (d_libs D) u = Some v \<Longrightarrow> calm w1 \<Longrightarrow> w_notes w1 = w_notes w
       \<Longrightarrow> w_outside w1 = w_outside w \<Longrightarrow> \<exists>w2. handler c w1 = (r, w2) \<and> w_notes w2 = ns"
  obtains w2 where "rpc NotesSvc (d_headers D) (notes_chain D m handler) (outgoingContextWithToken ctx t)
      (w\<lparr>w_tick := Suc (Suc (w_tick w))\<rparr>) = (r, w2)" "w_notes w2 = ns"
proof -
  obtain u c w1 where "rpc NotesSvc (d_headers D) (notes_chain D m handler) (outgoingContextWithToken ctx t)
      (w\<lparr>w_tick := Suc (Suc (w_tick w))\<rparr>) = handler c w1"
    and k: "userIDFromContext c = Inr u" "uuid_in (d_libs D) u = Some v" "calm w1" "w_notes w1 = w_notes w" "w_outside w1 = w_outside w"
    by (rule healthy_rpc [where h = handler and hs = "d_headers D" and ctx = ctx, OF h assms(2)]) blast
  with served [OF k] that show ?thesis by auto
qed

text \<open>Behind a closed breaker an operation runs, whatever becomes of it.\<close>

lemma breaker_closed_runs:
  assumes "breaker_closed b w" and "fn (w\<lparr>w_tick := Suc (Suc (w_tick w))\<rparr>) = (r, w1)"
  obtains w' where "BreakerExecute b fn w = (r, w')" "w_notes w' = w_notes w1"
proof -
  have "breaker_allow b w = (None, w\<lparr>w_tick := Suc (Suc (w_tick w))\<rparr>)"
    using assms(1) by (simp add: breaker_allow_def allow_def breaker_closed_def)
  then show ?thesis
    using that [of "breaker_record b (as_err r) w1"] assms(2) by (simp add: BreakerExecute_def breaker_record_def)
qed

lemma retry_final:
  "fn w = (Inl e, w1) \<Longrightarrow> \<not> rt_ShouldRetry rt e \<Longrightarrow> retryExecute rt fn w = (Inl e, w1)"
  by (simp add: retryExecute_def retry_loop.simps)

lemma DeleteNote_calm:
  assumes "calm w" and "uuid_in L u = Some v" and "uuid_in L i = Some i'" and "notebook v w i' \<noteq> None"
  shows "\<exists>w'. DeleteNote L u i w = (Inr (), w') \<and> w_notes w' = delete_where (\<lambda>n. note_ID n = i' \<and> note_UserID n = v) (w_notes w)"
proof -
  have "filter (\<lambda>n. note_ID n = i' \<and> note_UserID n = v) (w_notes w) \<noteq> []"
    using assms(4) by (simp add: filter_pos_find notebook_def)
  then show ?thesis
    using assms(1-3) by (simp add: DeleteNote_def NoteRepo_Delete_def noteDeleteQuery_def owned_row_def request_Served)
qed

lemma NotesService_DeleteNote_forward:
  assumes h: "healthy D rn t v w" and i: "uuid_in (d_libs D) i = Some i'" and n: "notebook v w i' \<noteq> None"
  obtains w' where "NotesService_DeleteNote D rn ctx t i w = (Inr (), w')"
proof -
  let ?ns = "delete_where (\<lambda>n. note_ID n = i' \<and> note_UserID n = v) (w_notes w)"
  have "\<exists>w2. NoteHandler_DeleteNote (d_libs D) i c w1 = (Inr (), w2) \<and> w_notes w2 = ?ns"
    if "userIDFromContext c = Inr u" "uuid_in (d_libs D) u = Some v" "calm w1" "w_notes w1 = w_notes w" "w_outside w1 = w_outside w" for c u w1
    using DeleteNote_calm [OF that(3,2) i] n that by (auto simp: NoteHandler_DeleteNote_def notebook_cong(1) [OF that(4)])
  then obtain w2 where "rpc NotesSvc (d_headers D) (notes_chain D ''/notes.v1.NoteService/DeleteNote'' (NoteHandler_DeleteNote (d_libs D) i))
      (outgoingContextWithToken ctx t) (w\<lparr>w_tick := Suc (Suc (w_tick w))\<rparr>) = (Inr (), w2)" "w_notes w2 = ?ns"
    by (rule healthy_handler [OF h in_notes_protected(5)])
  then have "wrapped ''delete note'' (NotesClient_DeleteNote D ctx t i) (w\<lparr>w_tick := Suc (Suc (w_tick w))\<rparr>) = (Inr (), w2)"
    by (intro wrapped_forward) (simp add: NotesClient_DeleteNote_def)
  from breaker_closed_runs [where fn = "wrapped ''delete note'' (NotesClient_DeleteNote D ctx t i)", OF _ this] h that show ?thesis
    by (auto simp: healthy_def NotesService_DeleteNote_def execute_defs)
qed

lemma GetNote_missing:
  assumes "calm w" and "uuid_in L u = Some v" and "uuid_in L i = Some i'" and "notebook v w i' = None"
  shows "GetNote L u i w = (Inl (errorf_w ''get note'' (Sentinel ErrNoteNotFound)), w\<lparr>w_tick := Suc (w_tick w)\<rparr>)"
  using assms by (simp add: GetNote_def NoteRepo_GetByID_calm owned_row_def notebook_def)

text \<open>
  C10: Notes of others do not exist for a caller. While nothing outside fails and the breaker is
  closed, \<open>GET\<close> of an identifier that names no note of the token's user answers 404 with one
  fixed message, whether the identifier names a note of somebody else or none at all, and it
  changes no row.
\<close>

theorem missing_note_answers_404:
  assumes h: "healthy (gw_deployment G) (gw_notes G) (request_token fx) v w" and rn: "gw_notes G = fst (NewNotesService w0)"
    and i: "uuid_in (d_libs (gw_deployment G)) (fx_params fx ''note_id'') = Some i" and n: "notebook v w i = None"
    and "fx_params fx ''note_id'' \<noteq> ''''" and json: "\<forall>b. hl_json (gw_http G) b = None"
  shows "\<exists>w'. HttpNotes_GetNote G fx w = (Returned None, fx\<lparr>fx_status := StatusNotFound,
       fx_body := MapBody [(errorKey, ''get note: note not found'')]\<rparr>, w') \<and> w_notes w' = w_notes w"
proof -
  let ?D = "gw_deployment G" and ?t = "request_token fx" and ?i = "fx_params fx ''note_id''" and ?nf = "Sentinel ErrNoteNotFound"
  let ?op = "wrapped ''get note'' (NotesClient_GetNote ?D (userCtx fx) ?t ?i)"
  have "\<exists>w2. NoteHandler_GetNote (d_libs ?D) ?i c w1 = (Inl (status_of CodeNotFound ErrNoteNotFound), w2) \<and> w_notes w2 = w_notes w"
    if "userIDFromContext c = Inr u" "uuid_in (d_libs ?D) u = Some v" "calm w1" "w_notes w1 = w_notes w" "w_outside w1 = w_outside w" for c u w1
    using GetNote_missing [OF that(3,2) i] n that
    by (simp add: NoteHandler_GetNote_def notebook_cong(1) [OF that(4)] notesStatusFromError_def)
  then obtain w2 where "rpc NotesSvc (d_headers ?D) (notes_chain ?D ''/notes.v1.NoteService/GetNote'' (NoteHandler_GetNote (d_libs ?D) ?i))
      (outgoingContextWithToken (userCtx fx) ?t) (w\<lparr>w_tick := Suc (Suc (w_tick w))\<rparr>) = (Inl (status_of CodeNotFound ErrNoteNotFound), w2)"
    and w2: "w_notes w2 = w_notes w"
    by (rule healthy_handler [OF h in_notes_protected(2)])
  then have "?op (w\<lparr>w_tick := Suc (Suc (w_tick w))\<rparr>) = (Inl (errorf_w ''get note'' ?nf), w2)"
    by (simp add: wrapped_def NotesClient_GetNote_def domain_error_def statusToDomain_table table_errors_def)
  then have "retryExecute (sr_retry (gw_notes G)) ?op (w\<lparr>w_tick := Suc (Suc (w_tick w))\<rparr>) = (Inl (errorf_w ''get note'' ?nf), w2)"
    by (rule retry_final) (simp add: rn services_retry default_retry_def shouldRetry_def isInfraError_def)
  from breaker_closed_runs [where fn = "retryExecute (sr_retry (gw_notes G)) ?op", OF _ this] h obtain w' where
    svc: "NotesService_GetNote ?D (gw_notes G) (userCtx fx) ?t ?i w = (Inl (errorf_w ''get note'' ?nf), w')" "w_notes w' = w_notes w2"
    by (auto simp: healthy_def NotesService_GetNote_def execute_defs)
  have "handleError (gw_http G) fx (errorf_w ''get note'' ?nf)
      = (None, fx\<lparr>fx_status := StatusNotFound, fx_body := MapBody [(errorKey, ''get note: note not found'')]\<rparr>)"
    using json by (simp add: handleError_def httpErrorFromDomain_def jsonResponse_def status_JSON_def)
  then show ?thesis
    using svc w2 healthy_token [OF h] assms(5)
    by (simp add: HttpNotes_GetNote_def requireTokenAndNoteID_def Let_def request_token_def)
qed

lemma UpdateNote_calm:
  assumes "calm w" and db: "notes_db_ok L w" and u: "uuid_in L u = Some v" and i: "uuid_in L i = Some i'" and n: "notebook v w i' \<noteq> None"
    and t: "\<forall>x. t = Some x \<longrightarrow> valid_title x" and c: "\<forall>x. c = Some x \<longrightarrow> valid_content x"
  shows "\<exists>n w'. UpdateNote L u i t c w = (Inr n, w')"
proof -
  let ?P = "\<lambda>n. note_ID n = i' \<and> note_UserID n = v"
  let ?w = "w\<lparr>w_tick := Suc (Suc (w_tick w))\<rparr>"
  obtain m where m: "find ?P (w_notes w) = Some m" using n by (auto simp: notebook_def)
  have own: "owned_row L i u = Some ?P" using u i by (simp add: owned_row_def)
  have get: "NoteRepo_GetByID L i u w = (Inr m, w\<lparr>w_tick := Suc (w_tick w)\<rparr>)"
    using assms(1) own m by (simp add: NoteRepo_GetByID_calm)
  define now where "now = o_now (w_outside w (Suc (w_tick w)))"
  obtain n1 where app: "ApplyUpdate now m t c = (None, n1)" using t c by (auto simp: ApplyUpdate_None)
  have m': "note_ID m = i'" "note_UserID m = v" using find_SomeD [OF m] by auto
  then have n1: "note_ID n1 = i'" "note_UserID n1 = v" using ApplyUpdate_ownership [OF app] by auto
  have canon: "uuid_in L i' = Some i'" "uuid_in L v = Some v" and short: "\<not> char_count (note_Title n1) > 255"
    using UpdateNote_target [OF db own m app] n1 char_count_le [of "note_Title n1"]
    by (auto simp: valid_title_def maxNoteTitleLen_def)
  have "filter ?P (w_notes w) \<noteq> []" using n by (simp add: filter_pos_find notebook_def)
  moreover have "owned_row L i' v = Some ?P" using canon by (simp add: owned_row_def)
  ultimately have "fst (NoteRepo_Update L n1 ?w) = Inr ()"
    using assms(1) n1 short by (simp add: NoteRepo_Update_def request_Served noteUpdateQuery_def)
  then show ?thesis
    using get app by (cases "NoteRepo_Update L n1 ?w") (simp add: UpdateNote_def now_def [symmetric])
qed

lemma NotesService_UpdateNote_forward:
  assumes h: "healthy D rn t v w" and db: "notes_db_ok (d_libs D) w" and i: "uuid_in (d_libs D) i = Some i'" and n: "notebook v w i' \<noteq> None"
    and valid: "\<forall>x. title = Some x \<longrightarrow> valid_title x" "\<forall>x. content = Some x \<longrightarrow> valid_content x"
  obtains n w' where "NotesService_UpdateNote D rn ctx t i title content w = (Inr (Some n), w')"
proof -
  let ?m = "''/notes.v1.NoteService/UpdateNote''"
  obtain u c w1 where r: "rpc NotesSvc (d_headers D) (notes_chain D ?m (NoteHandler_UpdateNote (d_libs D) i title content))
      (outgoingContextWithToken ctx t) (w\<lparr>w_tick := Suc (Suc (w_tick w))\<rparr>) = NoteHandler_UpdateNote (d_libs D) i title content c w1"
    "userIDFromContext c = Inr u" "uuid_in (d_libs D) u = Some v" "calm w1" "w_outside w1 = w_outside w" "w_notes w1 = w_notes w"
    by (rule healthy_rpc [where h = "NoteHandler_UpdateNote (d_libs D) i title content" and hs = "d_headers D" and ctx = ctx,
          OF h in_notes_protected(4)]) blast
  have "notes_db_ok (d_libs D) w1" using db r(5,6) by (simp add: notes_db_ok_def uuids_canonical_def)
  then obtain m w2 where "UpdateNote (d_libs D) u i title content w1 = (Inr m, w2)"
    using UpdateNote_calm [OF r(4) _ r(3) i _ valid] n notebook_cong(1) [OF r(6)] by metis
  then have "wrapped ''update note'' (NotesClient_UpdateNote D ctx t i title content) (w\<lparr>w_tick := Suc (Suc (w_tick w))\<rparr>) = (Inr (Some m), w2)"
    using r(1,2) by (intro wrapped_forward)
      (simp add: NotesClient_UpdateNote_def NoteHandler_UpdateNote_def noteFromProto_def noteToProto_def)
  from breaker_closed_runs [where fn = "wrapped ''update note'' (NotesClient_UpdateNote D ctx t i title content)", OF _ this] h that
  show ?thesis by (auto simp: healthy_def NotesService_UpdateNote_def execute_defs)
qed

subsection \<open>A request of each kind\<close>

definition still_notes :: world where
  "still_notes = still_world\<lparr>w_notes := [witness_note]\<rparr>"

lemma still_notes_healthy:
  "healthy (gw_deployment witness_gateway) (gw_notes witness_gateway) (request_token witness_fx) ''u'' still_notes"
  using still_healthy(1) by (simp add: healthy_def accepts_def breaker_closed_def still_notes_def)

lemma still_notes_has:
  "notebook ''u'' still_notes ''n'' = Some (''a'', '''')" "notebook ''u'' still_notes ''x'' = None"
  "uuid_in (d_libs (gw_deployment witness_gateway)) i = (if i = '''' then None else Some i)"
  "fx_params witness_fx ''note_id'' = ''n''" "hl_json (gw_http witness_gateway) b = None"
  "hl_bind_update (gw_http witness_gateway) (fx_request witness_fx) = Inr \<lparr>un_Title = Some ''t'', un_Content = None\<rparr>"
  "hl_send_status (gw_http witness_gateway) s = None" "fx_body witness_fx = NoBody"
  by (simp_all add: notebook_def still_notes_def witness_note_def witness_http_defs sample_defs)

lemma still_notes_ok: "notes_db_ok (d_libs (gw_deployment witness_gateway)) still_notes"
  using still_healthy(3) witness_note_ok
  by (auto simp: notes_db_ok_def uuids_canonical_def note_row_ok_def still_notes_has note_ok_def still_notes_def witness_note_def)

lemma update_note_end_to_end_witness:
  "\<exists>fx w v. HttpNotes_UpdateNote witness_gateway witness_fx still_notes = (Returned None, fx, w)
     \<and> fx_status fx = StatusOK \<and> notebook v w ''n'' = Some (''t'', '''')"
proof -
  have "valid_title ''t''" by (simp add: valid_title_def trim_samples maxNoteTitleLen_def)
  then obtain m w' where "NotesService_UpdateNote (gw_deployment witness_gateway) (gw_notes witness_gateway) (userCtx witness_fx)
      (request_token witness_fx) ''n'' (Some ''t'') None still_notes = (Inr (Some m), w')"
    using NotesService_UpdateNote_forward [OF still_notes_healthy still_notes_ok, of "''n''" "''n''" "Some ''t''" None]
    by (auto simp: still_notes_has)
  then have r: "HttpNotes_UpdateNote witness_gateway witness_fx still_notes =
      (Returned None, witness_fx\<lparr>fx_status := StatusOK, fx_body := NoteBody (noteToAPI (Some m))\<rparr>, w')"
    by (simp add: HttpNotes_UpdateNote_def Let_def requireTokenAndNoteID_def request_token_def [symmetric] witness_token
          still_notes_has bindJSON_def answered del: answer_simps)
  obtain n :: Note and old where n: "note_ID n = ''n''" "notebook (note_UserID n) still_notes ''n'' = Some old" "note_Title n = ''t''"
    "note_Content n = snd old" "notebooks w' = (notebooks still_notes)(note_UserID n :=
       (notebook (note_UserID n) still_notes)(''n'' \<mapsto> (''t'', note_Content n)))"
    using update_note_end_to_end [OF still_notes_ok, of witness_fx _ w', OF disjI1, OF r] by (auto simp: still_notes_has)
  have "old = (''a'', '''')" using n(2) by (auto simp: notebook_def still_notes_def witness_note_def split: if_splits)
  then have "notebook (note_UserID n) w' ''n'' = Some (''t'', '''')"
    using fun_cong [OF fun_cong [OF n(5), of "note_UserID n"], of "''n''"] n(4) by (simp add: notebooks_def)
  then show ?thesis using r by auto
qed

lemma delete_note_end_to_end_witness:
  "\<exists>fx w v. HttpNotes_DeleteNote witness_gateway witness_fx still_notes = (Returned None, fx, w)
     \<and> fx_status fx = StatusNoContent \<and> notebook v still_notes ''n'' \<noteq> None \<and> notebook v w ''n'' = None"
proof -
  obtain w' where "NotesService_DeleteNote (gw_deployment witness_gateway) (gw_notes witness_gateway) (userCtx witness_fx)
      (request_token witness_fx) ''n'' still_notes = (Inr (), w')"
    using NotesService_DeleteNote_forward [OF still_notes_healthy, of "''n''" "''n''"] by (auto simp: still_notes_has)
  then have r: "HttpNotes_DeleteNote witness_gateway witness_fx still_notes =
      (Returned None, witness_fx\<lparr>fx_status := StatusNoContent\<rparr>, w')"
    by (simp add: HttpNotes_DeleteNote_def Let_def requireTokenAndNoteID_def request_token_def [symmetric] witness_token
          still_notes_has del: answer_simps)
  obtain v where v: "notebook v still_notes ''n'' \<noteq> None"
    "notebooks w' = (notebooks still_notes)(v := (notebook v still_notes)(''n'' := None))"
    using delete_note_end_to_end [OF r] by (auto simp: still_notes_has)
  have "notebook v w' ''n'' = None"
    using fun_cong [OF fun_cong [OF v(2), of v], of "''n''"] by (simp add: notebooks_def)
  then show ?thesis using r v(1) by auto
qed

lemma missing_note_answers_404_witness:
  "\<exists>fx w. HttpNotes_GetNote witness_gateway (witness_fx\<lparr>fx_params := (\<lambda>_. ''x'')\<rparr>) still_notes = (Returned None, fx, w)
     \<and> fx_status fx = StatusNotFound"
proof -
  let ?fx = "witness_fx\<lparr>fx_params := (\<lambda>_. ''x'')\<rparr>"
  have "request_token ?fx = request_token witness_fx" by (simp add: request_token_def userCtx_def)
  then have "healthy (gw_deployment witness_gateway) (gw_notes witness_gateway) (request_token ?fx) ''u'' still_notes"
    using still_notes_healthy by simp
  moreover have "gw_notes witness_gateway = fst (NewNotesService sample_world)"
    by (simp add: witness_gateway_def sample_gateway_def)
  ultimately show ?thesis
    using missing_note_answers_404 [of witness_gateway ?fx "''u''" still_notes sample_world "''x''"] by (auto simp: still_notes_has)
qed

end
