(* ===== verification/LoginNotes.thy ===== *)
theory LoginNotes
  imports NotesEdits
begin

text \<open>
  From a login to the notebook: what the auth service hands out opens the notes of that user in
  the notes service, although the two share nothing but the access secret.
\<close>

subsection \<open>A login that succeeds\<close>

lemma Verify_True:
  "Verify L p h w = (Inr True, w') \<Longrightarrow> bcrypt_compare L h p = None"
  by (auto simp: Verify_def Let_def split: if_splits prod.splits option.splits)

lemma Login_Inr:
  assumes "Login L j e p w = (Inr pair, w')"
  obtains u w1 where "u \<in> set (w_users w)" "user_Email u = e" "bcrypt_compare L (user_PasswordHash u) p = None"
    "generateTokenPair L j u w1 = (Inr pair, w')"
proof -
  obtain found w1 where f: "FindByEmail e w = (found, w1)" by fastforce
  obtain u w2 where u: "found = Inr u" "Verify L p (user_PasswordHash u) w1 = (Inr True, w2)" "generateTokenPair L j u w2 = (Inr pair, w')"
    using assms f by (auto simp: Login_def Let_def split: sum.splits prod.splits option.splits if_splits)
  show ?thesis using that FindByEmail_ok f u Verify_True by blast
qed

lemma generateTokenPair_Inr:
  assumes "generateTokenPair L j u w = (Inr pair, w')"
  obtains now rid where "js_accessKey j \<noteq> ''''" "jwt_sign L (js_accessKey j)
      (signed_claims L (user_ID u) (user_Username u) tokenUseAccess now (pair_ExpiresAt pair) rid) = Inr (pair_AccessToken pair)"
proof -
  obtain t x w1 where g: "GenerateAccessToken L j (user_ID u) (user_Username u) w = (Inr (t, x), w1)"
    and p: "pair_AccessToken pair = t" "pair_ExpiresAt pair = x"
    using assms by (auto simp: generateTokenPair_def split: sum.splits prod.splits)
  from generateToken_Inr [OF g [unfolded GenerateAccessToken_def]] show ?thesis using that p by auto
qed

text \<open>The way of a login over the network: the method needs no token.\<close>

lemma AuthService_Login_success:
  assumes "AuthService_Login D ra ctx e p w = (Inr pair, w')"
  obtains u now rid where "u \<in> set (w_users w)" "user_Email u = e" "bcrypt_compare (d_libs D) (user_PasswordHash u) p = None"
    "js_accessKey (d_issuer D) \<noteq> ''''" "jwt_sign (d_libs D) (js_accessKey (d_issuer D))
      (signed_claims (d_libs D) (user_ID u) (user_Username u) tokenUseAccess now (pair_ExpiresAt pair) rid) = Inr (pair_AccessToken pair)"
proof -
  let ?h = "AuthHandler_Login (d_libs D) (d_issuer D) e p"
  obtain k bs w1 where "wrapped ''login'' (AuthClient_Login D ctx e p) (w\<lparr>w_tick := k, w_breakers := bs\<rparr>) = (Inr pair, w1)"
    using circuit_success [OF assms [unfolded AuthService_Login_def execute_defs]] by metis
  from wrapped_success [OF this] obtain resp where rpc:
    "rpc AuthSvc (d_headers D) (auth_chain D ''/auth.v1.AuthService/Login'' ?h) ctx (w\<lparr>w_tick := k, w_breakers := bs\<rparr>) = (Inr resp, w1)"
    and resp: "pair = pair_of_reply resp"
    by (auto simp: AuthClient_Login_def split: sum.splits prod.splits)
  obtain w2 where w2: "quiet (log_event (Called AuthSvc) (w\<lparr>w_tick := k, w_breakers := bs\<rparr>)) w2"
    "auth_chain D ''/auth.v1.AuthService/Login'' ?h (server_ctx (d_headers D) ctx) w2 = (Inr resp, w1)"
    by (rule rpc_success [OF rpc])
  obtain c w3 where r: "withRequestID (d_pid D) (Some (server_ctx (d_headers D) ctx)) w2 = (c, w3)" by fastforce
  have "?h c w3 = (Inr resp, w1)"
    using w2(2) r by (simp add: auth_chain_def unaryRequestIDInterceptor_def NewUnaryAuthInterceptor_def auth_protected_def)
  then obtain pair' where l: "Login (d_libs D) (d_issuer D) e p w3 = (Inr pair', w1)" and p': "resp = token_reply pair'"
    by (auto simp: AuthHandler_Login_def split: if_splits sum.splits prod.splits)
  have users: "w_users w3 = w_users w"
    using w2(1) withRequestID_incoming [OF r] by (auto simp: quiet_def log_event_def)
  have same: "pair_AccessToken pair = pair_AccessToken pair'" "pair_ExpiresAt pair = pair_ExpiresAt pair'"
    using resp p' by (simp_all add: pair_of_reply_def token_reply_def tokenPairFromAuth_def)
  obtain u w4 where u: "u \<in> set (w_users w3)" "user_Email u = e" "bcrypt_compare (d_libs D) (user_PasswordHash u) p = None"
    "generateTokenPair (d_libs D) (d_issuer D) u w4 = (Inr pair', w1)"
    by (rule Login_Inr [OF l])
  show ?thesis
    by (rule generateTokenPair_Inr [OF u(4)]) (rule that, use u same users in simp_all)
qed

lemma HttpAuth_Login_success:
  assumes "HttpAuth_Login G fx w = (Returned None, fx', w')" and good: "\<And>m. fx_body fx' \<noteq> MapBody [(errorKey, m)]"
  obtains req pair where "hl_bind_login (gw_http G) (fx_request fx) = Inr req"
    "AuthService_Login (gw_deployment G) (gw_auth G) (userCtx fx) (lq_Email req) (lq_Password req) w = (Inr pair, w')"
    "fx' = fx\<lparr>fx_status := StatusOK, fx_body := TokenBody (token_response pair)\<rparr>"
proof -
  note no = no_error [OF good]
  let ?svc = "\<lambda>req. AuthService_Login (gw_deployment G) (gw_auth G) (userCtx fx) (lq_Email req) (lq_Password req)"
  obtain req where req: "hl_bind_login (gw_http G) (fx_request fx) = Inr req"
    and run: "(case ?svc req w of (Inl err, w1) \<Rightarrow> answer (handleError (gw_http G) fx err) w1
       | (Inr result, w1) \<Rightarrow> answer (jsonResponse (gw_http G) fx StatusOK (TokenBody (token_response result))) w1) = (Returned None, fx', w')"
    using assms(1) unfolding HttpAuth_Login_def Let_def
    by (cases "bindJSON (hl_bind_login (gw_http G)) fx")
       (auto simp: no bindJSON_Inr simp del: answer_simps split: if_splits option.splits)
  show ?thesis
    by (rule answered_service [where fn = "?svc req", OF run good]) (rule that [OF req])
qed

subsection \<open>The token at the notes service\<close>

lemma signed_accepted:
  assumes "jwt_ok L" and "js_accessKey s \<noteq> ''''"
    and "jwt_sign L (js_accessKey s) (signed_claims L u name tokenUseAccess now x rid) = Inr t"
    and "js_accessKey v = js_accessKey s" and "u \<noteq> ''''" and "t \<noteq> ''''"
    and "\<forall>n \<ge> w_tick w. o_now (w_outside w n) < numeric_date L x"
  shows "accepts L v t u w"
proof -
  let ?c = "signed_claims L u name tokenUseAccess now x rid"
  have "jwt_parse L (access_keyfunc v) (o_now (w_outside w n)) t = Inr (True, ?c)" if "n \<ge> w_tick w" for n
    using jwt_okD(2) [OF assms(1,2) signed_claims_dated [OF assms(1)] assms(3)] assms(2,4,7) that
    by (simp add: access_keyfunc_def)
  then show ?thesis using assms(5,6) by (auto simp: accepts_def)
qed

text \<open>
  C7: What a login hands out opens the user's notebook. When \<open>POST /api/v1/auth/login\<close> answers with
  tokens, the email and password of the request are those of a user of the auth service's table,
  and, with both services configured with one access secret, the access token makes the next
  \<open>POST /api/v1/notes\<close> answer 201 with a note of exactly that user, as long as the token has not
  expired, nothing outside fails any more and the breaker of the notes service is closed.
\<close>

theorem login_opens_notebook:
  assumes "jwt_ok (d_libs (gw_deployment G))"
    and "js_accessKey (d_verifier (gw_deployment G)) = js_accessKey (d_issuer (gw_deployment G))"
    and "HttpAuth_Login G fx w = (Returned None, fx1, w1)" and "fx_body fx1 = TokenBody tk"
    and "tk_AccessToken tk \<noteq> ''''" and "trim_space (tk_AccessToken tk) = tk_AccessToken tk"
    and "\<forall>u \<in> set (w_users w). user_ID u \<noteq> '''' \<and> uuid_in (d_libs (gw_deployment G)) (user_ID u) = Some (user_ID u)"
    and "\<forall>n \<ge> w_tick w1. o_now (w_outside w1 n) < numeric_date (d_libs (gw_deployment G)) (tk_ExpiresAt tk)"
    and "calm w1" and "breaker_closed (sr_circuitBreaker (gw_notes G)) w1" and "fresh_ids w1"
    and "request_token fx2 = tk_AccessToken tk" and "hl_bind_create (gw_http G) (fx_request fx2) = Inr note"
    and "valid_title (cn_Title note)" and "valid_content (cn_Content note)" and "\<forall>b. hl_json (gw_http G) (NoteBody b) = None"
  shows "fx_status fx1 = StatusOK \<and> (\<exists>req u b fx3 w3. hl_bind_login (gw_http G) (fx_request fx) = Inr req
     \<and> u \<in> set (w_users w) \<and> user_Email u = lq_Email req
     \<and> bcrypt_compare (d_libs (gw_deployment G)) (user_PasswordHash u) (lq_Password req) = None
     \<and> HttpNotes_CreateNote G fx2 w1 = (Returned None, fx3, w3) \<and> fx_status fx3 = StatusCreated
     \<and> fx_body fx3 = NoteBody (Some b) \<and> hn_UserID b = user_ID u
     \<and> hn_Title b = cn_Title note \<and> hn_Content b = cn_Content note)"
proof -
  let ?D = "gw_deployment G" and ?rn = "gw_notes G" and ?t = "tk_AccessToken tk"
  obtain req pair where l: "hl_bind_login (gw_http G) (fx_request fx) = Inr req"
    "AuthService_Login ?D (gw_auth G) (userCtx fx) (lq_Email req) (lq_Password req) w = (Inr pair, w1)"
    "fx1 = fx\<lparr>fx_status := StatusOK, fx_body := TokenBody (token_response pair)\<rparr>"
    by (rule HttpAuth_Login_success [OF assms(3)]) (simp add: assms(4))
  have pair: "pair_AccessToken pair = ?t" "pair_ExpiresAt pair = tk_ExpiresAt tk"
    using l(3) assms(4) by (auto simp: token_response_def)
  obtain u now rid where u: "u \<in> set (w_users w)" "user_Email u = lq_Email req"
    "bcrypt_compare (d_libs ?D) (user_PasswordHash u) (lq_Password req) = None" "js_accessKey (d_issuer ?D) \<noteq> ''''"
    "jwt_sign (d_libs ?D) (js_accessKey (d_issuer ?D)) (signed_claims (d_libs ?D) (user_ID u) (user_Username u)
       tokenUseAccess now (pair_ExpiresAt pair) rid) = Inr (pair_AccessToken pair)"
    by (rule AuthService_Login_success [OF l(2)])
  have id: "user_ID u \<noteq> ''''" "uuid_in (d_libs ?D) (user_ID u) = Some (user_ID u)" using assms(7) u(1) by auto
  have "accepts (d_libs ?D) (d_verifier ?D) (trim_space ?t) (user_ID u) w1"
    using signed_accepted [OF assms(1) u(4,5) assms(2) id(1)] assms(5,6,8) pair by simp
  then have h: "healthy ?D ?rn ?t (user_ID u) w1" using assms(9,10) id(2) by (auto simp: healthy_def)
  obtain n w3 where c: "NotesService_CreateNote ?D ?rn (userCtx fx2) ?t (cn_Title note) (cn_Content note) w1 = (Inr (Some n), w3)"
    "note_UserID n = user_ID u" "note_Title n = cn_Title note" "note_Content n = cn_Content note"
    by (rule NotesService_CreateNote_forward [OF h assms(11,14,15)])
  have "HttpNotes_CreateNote G fx2 w1 =
      (Returned None, fx2\<lparr>fx_status := StatusCreated, fx_body := NoteBody (noteToAPI (Some n))\<rparr>, w3)"
    using assms(5,12-14,16) c(1) by (intro HttpNotes_CreateNote_forward) (simp_all add: valid_title_def)
  then show ?thesis
    using l(1,3) u(1-3) c(2-4) by (auto simp: noteToAPI_def)
qed

text \<open>A user of the auth service logs in, in a world whose clock and random values stand still.\<close>

definition login_gateway :: gateway where
  "login_gateway = witness_gateway\<lparr>gw_http := sample_http
     \<lparr>hl_bind_login := (\<lambda>_. Inr \<lparr>lq_Email = ''a@b.cd'', lq_Password = ''pw''\<rparr>)\<rparr>\<rparr>"

definition login_outside :: "nat \<Rightarrow> outside" where
  "login_outside n = (sample_outside n)\<lparr>o_now := 0, o_random := ''r0''\<rparr>"

definition login_world :: world where
  "login_world = sample_world\<lparr>w_users := [witness_user], w_outside := login_outside\<rparr>"

lemma login_runs:
  assumes "w_users w = [witness_user]" and "w_tokens w = []" and "w_outside w = login_outside"
  shows "\<exists>pair w1. Login (d_libs profile_deployment) (d_issuer profile_deployment) ''a@b.cd'' ''pw'' w = (Inr pair, w1)
     \<and> pair_AccessToken pair = ''k.a'' \<and> pair_ExpiresAt pair = 900000000000
     \<and> w_outside w1 = login_outside \<and> w_notes w1 = w_notes w \<and> w_breakers w1 = w_breakers w"
proof -
  have c: "calm w" using assms(3) by (simp add: calm_def login_outside_def sample_outside_def)
  have u: "find (\<lambda>u. user_Email u = ''a@b.cd'') (w_users w) = Some witness_user"
    using assms(1) by (simp add: witness_user_def)
  then have h: "login_hash ''a@b.cd'' w = ''$pw''" by (simp add: login_hash_def witness_user_def)
  have "bcrypt_compare (d_libs profile_deployment) ''$pw'' ''pw'' = None"
    by (simp add: profile_deployment_def profile_libs_def token_libs_def sample_libs_def)
  then show ?thesis
    using u h assms c
    by (simp add: Login_calm generateTokenPair_def GenerateAccessToken_def GenerateRefreshToken_def generateToken_def
        profile_deployment_def witness_deployment_def profile_libs_def token_libs_def witness_issuer_def NewIssuer_def
        witness_user_def Let_def signed_claims_def login_outside_def sample_outside_def sample_libs_def tokenUseAccess_def tokenUseRefresh_def
        StoreRefreshToken_def request_def ask_def tokenInsertQuery_def token_insert_def hashToken_def)
qed

lemma login_answered:
  "\<exists>tk w1. HttpAuth_Login login_gateway witness_fx login_world
       = (Returned None, witness_fx\<lparr>fx_status := StatusOK, fx_body := TokenBody tk\<rparr>, w1)
     \<and> tk_AccessToken tk = ''k.a'' \<and> tk_ExpiresAt tk = 900000000000
     \<and> w_outside w1 = login_outside \<and> w_notes w1 = [] \<and> breaker_closed NotesSvc w1"
proof -
  let ?D = "profile_deployment" and ?ra = "fst (NewAuthService sample_world)"
  let ?h = "AuthHandler_Login (d_libs ?D) (d_issuer ?D) ''a@b.cd'' ''pw''" and ?w = "login_world\<lparr>w_tick := 2\<rparr>"
  let ?op = "wrapped ''login'' (AuthClient_Login ?D (userCtx witness_fx) ''a@b.cd'' ''pw'')"
  let ?s = "server_ctx (d_headers ?D) (userCtx witness_fx)"
  have served: "o_fault (login_outside n) = Served" for n by (simp add: login_outside_def sample_outside_def)
  obtain c w0 where r: "withRequestID (d_pid ?D) (Some ?s) ((log_event (Called AuthSvc) ?w)\<lparr>w_tick := 3\<rparr>) = (c, w0)" by fastforce
  have w0: "w_users w0 = [witness_user]" "w_tokens w0 = []" "w_outside w0 = login_outside" "w_notes w0 = []" "w_breakers w0 = (\<lambda>_. sample_breaker)"
    using withRequestID_incoming [OF r] by (auto simp: quiet_def log_event_def login_world_def sample_world_def)
  obtain pair w1 where l: "Login (d_libs ?D) (d_issuer ?D) ''a@b.cd'' ''pw'' w0 = (Inr pair, w1)"
    "pair_AccessToken pair = ''k.a''" "pair_ExpiresAt pair = 900000000000"
    "w_outside w1 = login_outside" "w_notes w1 = w_notes w0" "w_breakers w1 = w_breakers w0"
    using login_runs [OF w0(1-3)] by blast
  have "rpc AuthSvc (d_headers ?D) (auth_chain ?D ''/auth.v1.AuthService/Login'' ?h) (userCtx witness_fx) ?w = (Inr (token_reply pair), w1)"
    using r l(1) served
    by (simp add: rpc_def request_def ask_def log_event_def auth_chain_def unaryRequestIDInterceptor_def NewUnaryAuthInterceptor_def
          auth_protected_def AuthHandler_Login_def login_world_def)
  then have op: "?op ?w = (Inr (pair_of_reply (token_reply pair)), w1)"
    by (simp add: wrapped_def AuthClient_Login_def)
  have "breaker_closed AuthSvc login_world" by (simp add: breaker_closed_def login_world_def sample_defs)
  moreover have "?op (login_world\<lparr>w_tick := Suc (Suc (w_tick login_world))\<rparr>) = (Inr (pair_of_reply (token_reply pair)), w1)"
    using op by (simp add: login_world_def sample_world_def numeral_2_eq_2)
  moreover have "breaker_allow AuthSvc login_world = (None, login_world\<lparr>w_tick := Suc (Suc (w_tick login_world))\<rparr>)"
    using \<open>breaker_closed AuthSvc login_world\<close> by (simp add: breaker_allow_def allow_def breaker_closed_def)
  ultimately have b: "BreakerExecute AuthSvc ?op login_world = (Inr (pair_of_reply (token_reply pair)), breaker_record AuthSvc None w1)"
    by (simp add: BreakerExecute_def as_err_def)
  have "ValidateEmail ''a@b.cd'' = None" by code_simp
  moreover have "sr_circuitBreaker ?ra = AuthSvc" by (simp add: NewAuthService_def NewServiceResilience_retry)
  ultimately have "HttpAuth_Login login_gateway witness_fx login_world = (Returned None, witness_fx\<lparr>fx_status := StatusOK,
      fx_body := TokenBody (token_response (pair_of_reply (token_reply pair)))\<rparr>, breaker_record AuthSvc None w1)"
    using b by (simp add: HttpAuth_Login_def login_gateway_def witness_gateway_def sample_gateway_def sample_http_def bindJSON_def
        AuthService_Login_def execute_defs answered del: answer_simps)
  then show ?thesis
    using l w0
    by (intro exI [of _ "token_response (pair_of_reply (token_reply pair))"] exI [of _ "breaker_record AuthSvc None w1"])
       (simp add: token_response_def pair_of_reply_def token_reply_def tokenPairFromAuth_def breaker_record_def breaker_closed_def sample_breaker_def)
qed

lemma login_opens_notebook_witness:
  "\<exists>tk w1 b fx3 w3. HttpAuth_Login login_gateway witness_fx login_world
       = (Returned None, witness_fx\<lparr>fx_status := StatusOK, fx_body := TokenBody tk\<rparr>, w1)
     \<and> HttpNotes_CreateNote login_gateway witness_fx w1 = (Returned None, fx3, w3) \<and> fx_body fx3 = NoteBody (Some b)
     \<and> hn_UserID b = ''u'' \<and> hn_Title b = ''t''"
proof -
  obtain tk w1 where l: "HttpAuth_Login login_gateway witness_fx login_world
       = (Returned None, witness_fx\<lparr>fx_status := StatusOK, fx_body := TokenBody tk\<rparr>, w1)"
    and tk: "tk_AccessToken tk = ''k.a''" "tk_ExpiresAt tk = 900000000000"
    and w1: "w_outside w1 = login_outside" "w_notes w1 = []" "breaker_closed NotesSvc w1"
    using login_answered by blast
  have libs: "d_libs (gw_deployment login_gateway) = profile_libs" "sr_circuitBreaker (gw_notes login_gateway) = NotesSvc"
    by (simp_all add: login_gateway_def witness_gateway_def sample_gateway_def profile_deployment_def NewNotesService_def NewServiceResilience_retry)
  have "jwt_ok profile_libs = jwt_ok token_libs" unfolding jwt_ok_def dated_def by (simp add: profile_libs_def)
  then have jwt: "jwt_ok profile_libs" using token_libs_ok by simp
  have keys: "js_accessKey (d_verifier (gw_deployment login_gateway)) = js_accessKey (d_issuer (gw_deployment login_gateway))"
    by (simp add: login_gateway_def witness_gateway_def profile_deployment_def witness_deployment_def NewAccessVerifier_def witness_issuer_def NewIssuer_def)
  have ids: "\<forall>u \<in> set (w_users login_world). user_ID u \<noteq> '''' \<and> uuid_in profile_libs (user_ID u) = Some (user_ID u)"
    by (simp add: login_world_def witness_user_def profile_libs_def token_libs_def sample_libs_def)
  have live: "\<forall>n \<ge> w_tick w1. o_now (w_outside w1 n) < numeric_date profile_libs 900000000000"
    by (simp add: w1 login_outside_def profile_libs_def token_libs_def sample_libs_def)
  have calm: "calm w1" "fresh_ids w1"
    by (simp_all add: calm_def fresh_ids_def w1 login_outside_def sample_outside_def)
  have bind: "hl_bind_create (gw_http login_gateway) (fx_request witness_fx) = Inr \<lparr>cn_Title = ''t'', cn_Content = ''''\<rparr>"
    "hl_json (gw_http login_gateway) b = None" for b
    by (simp_all add: login_gateway_def sample_http_def witness_fx_def fresh_ctx_def sample_request_def)
  have v: "valid_title ''t''" "valid_content ''''"
    by (simp_all add: valid_title_def valid_content_def trim_samples maxNoteTitleLen_def maxNoteContentLen_def)
  have token: "tk_AccessToken tk \<noteq> ''''" "trim_space (tk_AccessToken tk) = tk_AccessToken tk" "request_token witness_fx = tk_AccessToken tk"
    by (simp_all add: tk trim_samples witness_token)
  have expiry: "\<forall>n \<ge> w_tick w1. o_now (w_outside w1 n) < numeric_date profile_libs (tk_ExpiresAt tk)" using live by (simp add: tk)
  have body: "fx_body (witness_fx\<lparr>fx_status := StatusOK, fx_body := TokenBody tk\<rparr>) = TokenBody tk" by simp
  have valid: "valid_title (cn_Title \<lparr>cn_Title = ''t'', cn_Content = ''''\<rparr>)" "valid_content (cn_Content \<lparr>cn_Title = ''t'', cn_Content = ''''\<rparr>)"
    using v by simp_all
  have "\<forall>b. hl_json (gw_http login_gateway) (NoteBody b) = None" using bind(2) by simp
  from login_opens_notebook [of login_gateway witness_fx login_world, unfolded libs, OF jwt keys l body token(1,2) ids expiry calm(1) w1(3)
      calm(2) token(3) bind(1) valid this]
  obtain u b fx3 w3 where "HttpNotes_CreateNote login_gateway witness_fx w1 = (Returned None, fx3, w3)" "fx_body fx3 = NoteBody (Some b)"
    "u \<in> set (w_users login_world)" "hn_UserID b = user_ID u" "hn_Title b = ''t''"
    by (elim conjE exE) (rule that, assumption+, simp)
  then show ?thesis using l by (auto simp: login_world_def witness_user_def)
qed

end
