(* ===== verification/Config.thy ===== *)
theory Config
  imports JwtService BcryptService
begin

text \<open>
  The configuration (\<open>internal/config/config.go\<close>) and the checks of \<open>internal/bootstrap/helpers.go\<close>
  on it. A section is a pointer in the code, so it may be missing; durations are nanoseconds.
\<close>

subsection \<open>The sections\<close>

record PostgresConfig =
  pg_Host :: string
  pg_User :: string
  pg_Password :: string
  pg_Database :: string
  pg_SSLMode :: string
  pg_Port :: int
  pg_MinConn :: int
  pg_MaxConn :: int

record LoggingConfig =
  lc_Level :: string
  lc_Mode :: string

record ShutdownConfig =
  sd_Timeout :: int

record GRPCConfig =
  gc_Host :: string
  gc_Port :: int
  gc_Reflection :: bool

record GRPCServiceConfig =
  gs_Host :: string
  gs_Port :: int
  gs_ConnectTimeout :: int

record GRPCClientConfig =
  gcl_AuthService :: GRPCServiceConfig
  gcl_NotesService :: GRPCServiceConfig
  gcl_RequestTimeout :: int
  gcl_Insecure :: bool

record JWTConfig =
  jc_AccessSecretKey :: string
  jc_RefreshSecretKey :: string
  jc_SecretKey :: string
  jc_AccessTokenTTL :: string
  jc_RefreshTokenTTL :: string
  jc_BCryptCost :: int

record HTTPConfig =
  hc_Host :: string
  hc_ReadTimeout :: int
  hc_WriteTimeout :: int
  hc_ShutdownTimeout :: int
  hc_Port :: int
  hc_TrustProxy :: bool
  hc_TrustPrivateProxies :: bool

record RedisConfig =
  rd_Host :: string
  rd_Password :: string
  rd_ConnectTimeout :: int
  rd_ReadTimeout :: int
  rd_WriteTimeout :: int
  rd_IdleTimeout :: int
  rd_MaxConnLifetime :: int
  rd_DefaultTTL :: int
  rd_Port :: int
  rd_DB :: int
  rd_PoolSize :: int
  rd_MinIdle :: int

record Config =
  cfg_Postgres :: "PostgresConfig option"
  cfg_Logging :: "LoggingConfig option"
  cfg_Shutdown :: "ShutdownConfig option"
  cfg_GRPC :: "GRPCConfig option"
  cfg_GRPCClient :: "GRPCClientConfig option"
  cfg_JWT :: "JWTConfig option"
  cfg_HTTP :: "HTTPConfig option"
  cfg_Redis :: "RedisConfig option"

subsection \<open>The secrets\<close>

text \<open>The two methods allow a nil receiver.\<close>

definition ResolvedAccessSecret :: "JWTConfig option \<Rightarrow> string" where
  "ResolvedAccessSecret j0 =
     (case j0 of
        None \<Rightarrow> ''''
      | Some j \<Rightarrow>
          (let access = trim_space (jc_AccessSecretKey j) in
           if access \<noteq> '''' then access else trim_space (jc_SecretKey j)))"

definition ResolvedRefreshSecret :: "JWTConfig option \<Rightarrow> string" where
  "ResolvedRefreshSecret j0 =
     (case j0 of
        None \<Rightarrow> ''''
      | Some j \<Rightarrow>
          (let refresh = trim_space (jc_RefreshSecretKey j) in
           if refresh \<noteq> '''' then refresh else trim_space (jc_SecretKey j)))"

subsection \<open>The checks\<close>

definition minJWTSecretLength :: nat where "minJWTSecretLength = 32"

definition invalid_config :: "string \<Rightarrow> go_error" where
  "invalid_config msg = errorf_ws (Sentinel ErrInvalidConfig) msg"

definition ensurePostgresAndGRPC :: "Config \<Rightarrow> go_error option" where
  "ensurePostgresAndGRPC cfg =
     (case cfg_Postgres cfg of
        None \<Rightarrow> Some (invalid_config ''postgres section is required'')
      | Some postgres \<Rightarrow>
          if cfg_GRPC cfg = None then Some (invalid_config ''grpc section is required'')
          else if cfg_Shutdown cfg = None then Some (invalid_config ''shutdown section is required'')
          else if trim_space (pg_Password postgres) = ''''
            then Some (invalid_config ''postgres password is required (set POSTGRES_PASSWORD)'')
          else None)"

definition ensureAuthJWT :: "Config \<Rightarrow> go_error option" where
  "ensureAuthJWT cfg =
     (if cfg_JWT cfg = None then Some (invalid_config ''jwt section is required'')
      else
        (let access = ResolvedAccessSecret (cfg_JWT cfg); refresh = ResolvedRefreshSecret (cfg_JWT cfg) in
         if access = ''''
           then Some (invalid_config ''jwt access secret is required (set JWT_ACCESS_SECRET_KEY)'')
         else if refresh = ''''
           then Some (invalid_config ''jwt refresh secret is required (set JWT_REFRESH_SECRET_KEY)'')
         else if length access < minJWTSecretLength \<or> length refresh < minJWTSecretLength
           then Some (invalid_config ''jwt secrets must be at least 32 bytes'')
         else if access = refresh
           then Some (invalid_config ''jwt access and refresh secrets must differ'')
         else None))"

definition ensureNotesJWT :: "Config \<Rightarrow> go_error option" where
  "ensureNotesJWT cfg =
     (if cfg_JWT cfg = None then Some (invalid_config ''jwt section is required'')
      else
        (let access = ResolvedAccessSecret (cfg_JWT cfg) in
         if access = ''''
           then Some (invalid_config ''jwt access secret is required (set JWT_ACCESS_SECRET_KEY)'')
         else if length access < minJWTSecretLength
           then Some (invalid_config ''jwt access secret must be at least 32 bytes'')
         else None))"

definition requireGatewayConfig :: "Config \<Rightarrow> go_error option" where
  "requireGatewayConfig cfg =
     (if cfg_GRPCClient cfg = None then Some (invalid_config ''grpc client section is required'')
      else if cfg_Redis cfg = None then Some (invalid_config ''redis section is required'')
      else if cfg_HTTP cfg = None then Some (invalid_config ''http section is required'')
      else if cfg_Shutdown cfg = None then Some (invalid_config ''shutdown section is required'')
      else None)"

text \<open>\<open>parse\<close> is \<open>time.ParseDuration\<close>, \<open>None\<close> for an error.\<close>

definition parseDurationOrDefault :: "(string \<Rightarrow> int option) \<Rightarrow> string \<Rightarrow> int \<Rightarrow> int" where
  "parseDurationOrDefault parse raw fallback =
     (case parse raw of Some parsed \<Rightarrow> parsed | None \<Rightarrow> fallback)"

definition migrationSourceURL :: "string \<Rightarrow> string" where
  "migrationSourceURL service = ''file://migrations/'' @ service"

subsection \<open>What the checks promise\<close>

lemma ensurePostgresAndGRPC_None:
  "ensurePostgresAndGRPC cfg = None \<longleftrightarrow>
     (\<exists>pg. cfg_Postgres cfg = Some pg \<and> trim_space (pg_Password pg) \<noteq> '''')
     \<and> cfg_GRPC cfg \<noteq> None \<and> cfg_Shutdown cfg \<noteq> None"
  by (auto simp: ensurePostgresAndGRPC_def split: option.splits)

lemma ensureAuthJWT_None:
  "ensureAuthJWT cfg = None \<longleftrightarrow> cfg_JWT cfg \<noteq> None
     \<and> 32 \<le> length (ResolvedAccessSecret (cfg_JWT cfg)) \<and> 32 \<le> length (ResolvedRefreshSecret (cfg_JWT cfg))
     \<and> ResolvedAccessSecret (cfg_JWT cfg) \<noteq> ResolvedRefreshSecret (cfg_JWT cfg)"
  by (auto simp: ensureAuthJWT_def minJWTSecretLength_def Let_def)

lemma ensureNotesJWT_None:
  "ensureNotesJWT cfg = None \<longleftrightarrow> cfg_JWT cfg \<noteq> None \<and> 32 \<le> length (ResolvedAccessSecret (cfg_JWT cfg))"
  by (auto simp: ensureNotesJWT_def minJWTSecretLength_def Let_def)

lemma requireGatewayConfig_None:
  "requireGatewayConfig cfg = None \<longleftrightarrow> cfg_GRPCClient cfg \<noteq> None \<and> cfg_Redis cfg \<noteq> None
     \<and> cfg_HTTP cfg \<noteq> None \<and> cfg_Shutdown cfg \<noteq> None"
  by (simp add: requireGatewayConfig_def)

text \<open>
  The shared secret \<open>JWT_SECRET_KEY\<close> both methods fall back to cannot configure the auth service
  on its own: the two secrets are then equal, or missing, and the check refuses them.
\<close>

lemma shared_secret_refused:
  assumes "cfg_JWT cfg = Some j" and "trim_space (jc_AccessSecretKey j) = ''''" "trim_space (jc_RefreshSecretKey j) = ''''"
  shows "ensureAuthJWT cfg \<noteq> None"
  using assms by (simp add: ensureAuthJWT_None ResolvedAccessSecret_def ResolvedRefreshSecret_def)

end
