(* ===== verification/Logging.thy ===== *)
theory Logging
  imports RequestContext
begin

text \<open>
  The loggers of \<open>internal/logger/logger.go\<close>. A \<open>zap_logger\<close> is what a \<open>*zap.Logger\<close> is configured
  with; a \<open>Logger\<close> is a pointer that may be nil to a struct whose embedded pointer may be nil.
  \<open>zap_libs\<close> is what zap contributes: reading a level and building a logger, which may fail.
\<close>

datatype zap_level = DebugLevel | InfoLevel | WarnLevel | ErrorLevel | DPanicLevel | PanicLevel | FatalLevel

fun severity :: "zap_level \<Rightarrow> int" where
  "severity DebugLevel = -1"
| "severity InfoLevel = 0"
| "severity WarnLevel = 1"
| "severity ErrorLevel = 2"
| "severity DPanicLevel = 3"
| "severity PanicLevel = 4"
| "severity FatalLevel = 5"

type_synonym field = "string \<times> string"

record zap_logger =
  zl_production :: bool
  zl_level :: zap_level
  zl_name :: string
  zl_fields :: "field list"
  zl_nop :: bool

type_synonym Logger = "zap_logger option option"

record zap_libs =
  zp_ParseLevel :: "string \<Rightarrow> zap_level option"
  zp_Build :: "bool \<Rightarrow> zap_level \<Rightarrow> go_error option"

definition RequestID :: string where "RequestID = ''request_id''"
definition Development :: string where "Development = ''development''"
definition Production :: string where "Production = ''production''"

definition nilChecking :: "Logger \<Rightarrow> bool" where
  "nilChecking l \<longleftrightarrow> l = None \<or> l = Some None"

definition built :: "bool \<Rightarrow> zap_level \<Rightarrow> zap_logger" where
  "built production lvl = \<lparr>zl_production = production, zl_level = lvl, zl_name = '''', zl_fields = [], zl_nop = False\<rparr>"

definition buildFallbackLogger :: "zap_libs \<Rightarrow> zap_logger" where
  "buildFallbackLogger Z =
     (case zp_Build Z True WarnLevel of
        Some err \<Rightarrow> (built True WarnLevel)\<lparr>zl_nop := True\<rparr>
      | None \<Rightarrow> (built True WarnLevel)\<lparr>zl_name := ''fallback''\<rparr>)"

definition NewLogger :: "zap_libs \<Rightarrow> string \<Rightarrow> string \<Rightarrow> go_error + Logger" where
  "NewLogger Z env level =
     (let lvl = (case zp_ParseLevel Z level of
                   Some l \<Rightarrow> l
                 | None \<Rightarrow> if env = Production then InfoLevel else DebugLevel);
          production = (env = Production)
      in case zp_Build Z production lvl of
           Some err \<Rightarrow> Inl (errorf_w ''build zap logger'' err)
         | None \<Rightarrow> Inr (Some (Some (built production lvl))))"

subsection \<open>The global logger\<close>

text \<open>The atomic pointer starts nil. \<open>Global\<close> is up to three atomic accesses to it.\<close>

definition SetGlobalLogger :: "Logger \<Rightarrow> zap_logger option \<Rightarrow> zap_logger option" where
  "SetGlobalLogger lg g = (case lg of Some (Some l) \<Rightarrow> Some l | _ \<Rightarrow> g)"

definition Global_load :: "zap_logger option \<Rightarrow> Logger option" where
  "Global_load g = (case g of Some l \<Rightarrow> Some (Some (Some l)) | None \<Rightarrow> None)"

definition Global_swap :: "zap_libs \<Rightarrow> zap_logger option \<Rightarrow> Logger option \<times> zap_logger option" where
  "Global_swap Z g =
     (let fallback = buildFallbackLogger Z in
      if g = None then (Some (Some (Some fallback)), Some fallback) else (None, g))"

definition Global_reload :: "zap_logger option \<Rightarrow> Logger" where
  "Global_reload g = Some g"

definition Global :: "zap_libs \<Rightarrow> zap_logger option \<Rightarrow> Logger \<times> zap_logger option" where
  "Global Z g =
     (case Global_load g of
        Some lg \<Rightarrow> (lg, g)
      | None \<Rightarrow>
          (case Global_swap Z g of
             (Some lg, g1) \<Rightarrow> (lg, g1)
           | (None, g1) \<Rightarrow> (Global_reload g1, g1)))"

text \<open>
  Goroutines that call \<open>Global\<close> and \<open>SetGlobalLogger\<close> at any moment: a goroutine that found the
  pointer nil goes on to the swap, one that lost the swap goes on to the second load.
\<close>

record log_sys =
  ls_global :: "zap_logger option"
  ls_swapping :: nat
  ls_reloading :: nat
  ls_results :: "Logger list"

inductive log_step :: "zap_libs \<Rightarrow> log_sys \<Rightarrow> log_sys \<Rightarrow> bool" for Z where
  set: "log_step Z s (s\<lparr>ls_global := SetGlobalLogger lg (ls_global s)\<rparr>)"
| found: "Global_load (ls_global s) = Some lg \<Longrightarrow> log_step Z s (s\<lparr>ls_results := lg # ls_results s\<rparr>)"
| missing: "Global_load (ls_global s) = None \<Longrightarrow> log_step Z s (s\<lparr>ls_swapping := Suc (ls_swapping s)\<rparr>)"
| swapped: "ls_swapping s = Suc n \<Longrightarrow> Global_swap Z (ls_global s) = (Some lg, g) \<Longrightarrow>
     log_step Z s (s\<lparr>ls_global := g, ls_swapping := n, ls_results := lg # ls_results s\<rparr>)"
| lost: "ls_swapping s = Suc n \<Longrightarrow> Global_swap Z (ls_global s) = (None, g) \<Longrightarrow>
     log_step Z s (s\<lparr>ls_global := g, ls_swapping := n, ls_reloading := Suc (ls_reloading s)\<rparr>)"
| reloaded: "ls_reloading s = Suc n \<Longrightarrow>
     log_step Z s (s\<lparr>ls_reloading := n, ls_results := Global_reload (ls_global s) # ls_results s\<rparr>)"

inductive log_reach :: "zap_libs \<Rightarrow> log_sys \<Rightarrow> bool" for Z where
  start: "log_reach Z \<lparr>ls_global = None, ls_swapping = 0, ls_reloading = 0, ls_results = []\<rparr>"
| step: "log_reach Z s \<Longrightarrow> log_step Z s s' \<Longrightarrow> log_reach Z s'"

text \<open>
  Whatever the interleaving, \<open>Global\<close> never returns a logger that is nil: the pointer never goes
  back to nil, and only a goroutine that saw it set is still to load it again.
\<close>

lemma global_logger_usable:
  assumes "log_reach Z s"
  shows "list_all (\<lambda>lg. \<not> nilChecking lg) (ls_results s) \<and> (ls_reloading s > 0 \<longrightarrow> ls_global s \<noteq> None)"
  using assms
proof (induction rule: log_reach.induct)
  case (step s s')
  from step.hyps(2) step.IH show ?case
    by (cases rule: log_step.cases)
       (auto simp: SetGlobalLogger_def Global_load_def Global_swap_def Global_reload_def nilChecking_def Let_def
          split: option.splits if_splits)
qed simp

subsection \<open>Writing\<close>

text \<open>A context may carry a logger besides what the requests need.\<close>

record log_ctx = go_ctx +
  cx_logger :: "Logger option"

definition Log :: "zap_libs \<Rightarrow> log_ctx option \<Rightarrow> zap_logger option \<Rightarrow> Logger \<times> zap_logger option" where
  "Log Z ctx0 g =
     (case ctx0 of
        None \<Rightarrow> Global Z g
      | Some ctx \<Rightarrow>
          (case cx_logger ctx of
             Some (Some l) \<Rightarrow> (Some l, g)
           | _ \<Rightarrow> Global Z g))"

definition ContextWithLogger :: "log_ctx \<Rightarrow> log_ctx option \<Rightarrow> Logger \<Rightarrow> log_ctx" where
  "ContextWithLogger bg ctx0 lg =
     (let ctx = (case ctx0 of None \<Rightarrow> bg | Some c \<Rightarrow> c) in
      if nilChecking lg then ctx else ctx\<lparr>cx_logger := Some lg\<rparr>)"

definition Logger_With :: "Logger \<Rightarrow> field list \<Rightarrow> Logger" where
  "Logger_With l fs =
     (case l of Some (Some z) \<Rightarrow> Some (Some (z\<lparr>zl_fields := zl_fields z @ fs\<rparr>)) | _ \<Rightarrow> l)"

definition Logger_Method :: "zap_libs \<Rightarrow> log_ctx option \<Rightarrow> string \<Rightarrow> zap_logger option \<Rightarrow> Logger \<times> zap_logger option" where
  "Logger_Method Z ctx m g = (case Log Z ctx g of (l, g1) \<Rightarrow> (Logger_With l [(''method'', m)], g1))"

definition addRequestID :: "log_ctx option \<Rightarrow> field list \<Rightarrow> field list" where
  "addRequestID ctx0 fs =
     (case ctx0 of
        None \<Rightarrow> fs
      | Some ctx \<Rightarrow>
          (let i = RequestIDFromContext (Some (go_ctx.truncate ctx)) in
           if i \<noteq> '''' then fs @ [(RequestID, i)] else fs))"

text \<open>A line: its level, message and fields; zap writes it if the logger's level allows.\<close>

definition zap_write :: "zap_logger \<Rightarrow> zap_level \<Rightarrow> string \<Rightarrow> field list \<Rightarrow> (zap_level \<times> string \<times> field list) list" where
  "zap_write z lvl msg fs =
     (if \<not> zl_nop z \<and> severity (zl_level z) \<le> severity lvl then [(lvl, msg, zl_fields z @ fs)] else [])"

definition Logger_write :: "zap_level \<Rightarrow> Logger \<Rightarrow> log_ctx option \<Rightarrow> string \<Rightarrow> field list \<Rightarrow> (zap_level \<times> string \<times> field list) list" where
  "Logger_write lvl l ctx msg fs =
     (case l of Some (Some z) \<Rightarrow> zap_write z lvl msg (addRequestID ctx fs) | _ \<Rightarrow> [])"

definition Logger_Info :: "Logger \<Rightarrow> log_ctx option \<Rightarrow> string \<Rightarrow> field list \<Rightarrow> (zap_level \<times> string \<times> field list) list" where
  "Logger_Info = Logger_write InfoLevel"

definition Logger_Warn :: "Logger \<Rightarrow> log_ctx option \<Rightarrow> string \<Rightarrow> field list \<Rightarrow> (zap_level \<times> string \<times> field list) list" where
  "Logger_Warn = Logger_write WarnLevel"

definition Logger_Error :: "Logger \<Rightarrow> log_ctx option \<Rightarrow> string \<Rightarrow> field list \<Rightarrow> (zap_level \<times> string \<times> field list) list" where
  "Logger_Error = Logger_write ErrorLevel"

definition Logger_Debug :: "Logger \<Rightarrow> log_ctx option \<Rightarrow> string \<Rightarrow> field list \<Rightarrow> (zap_level \<times> string \<times> field list) list" where
  "Logger_Debug = Logger_write DebugLevel"

definition Logger_Sync :: "go_error option \<Rightarrow> Logger \<Rightarrow> go_error option" where
  "Logger_Sync flushed l = (if nilChecking l then None else map_option (errorf_w ''flush logger'') flushed)"

text \<open>
  Log lines can be joined by request: in every interleaving the logger a goroutine gets is
  usable, and every line any logger writes for the context of a request, after the context was
  given its identifier, carries that identifier.
\<close>

lemma log_lines_carry_request_id:
  assumes "log_reach Z s" and "l \<in> set (ls_results s)" and "cx_request_id ctx = Some i" and "i \<noteq> ''''"
  shows "\<not> nilChecking l
     \<and> (\<forall>line \<in> set (Logger_write lvl l (Some ctx) msg fs). (RequestID, i) \<in> set (snd (snd line)))"
proof -
  have "\<not> nilChecking l" using global_logger_usable [OF assms(1)] assms(2) by (simp add: list_all_iff)
  moreover have "(RequestID, i) \<in> set (addRequestID (Some ctx) fs)"
    using assms(3,4) by (simp add: addRequestID_def RequestIDFromContext_def go_ctx.truncate_def Let_def)
  ultimately show ?thesis by (auto simp: Logger_write_def zap_write_def split: option.splits)
qed

definition witness_zap :: zap_libs where
  "witness_zap = \<lparr>zp_ParseLevel = (\<lambda>_. None), zp_Build = (\<lambda>_ _. None)\<rparr>"

definition witness_logger :: Logger where
  "witness_logger = Some (Some (buildFallbackLogger witness_zap))"

definition witness_log_ctx :: log_ctx where
  "witness_log_ctx = \<lparr>cx_bearer_token = None, cx_user_id = None, cx_request_id = Some ''r1'', cx_incoming = None,
     cx_outgoing = None, cx_logger = None\<rparr>"

lemma witness_log_reach:
  "log_reach witness_zap \<lparr>ls_global = Some (buildFallbackLogger witness_zap), ls_swapping = 0, ls_reloading = 0,
     ls_results = [witness_logger]\<rparr>"
proof -
  let ?s = "\<lparr>ls_global = None, ls_swapping = 0, ls_reloading = 0, ls_results = []\<rparr>"
  have "log_reach witness_zap (?s\<lparr>ls_swapping := 1\<rparr>)"
    using log_reach.step [OF log_reach.start log_step.missing] by (simp add: Global_load_def)
  then have "log_reach witness_zap (?s\<lparr>ls_swapping := 1\<rparr>\<lparr>ls_global := Some (buildFallbackLogger witness_zap),
      ls_swapping := 0, ls_results := [witness_logger]\<rparr>)"
    by (rule log_reach.step) (use log_step.swapped [where s = "?s\<lparr>ls_swapping := 1\<rparr>" and n = 0
        and Z = witness_zap and lg = witness_logger and g = "Some (buildFallbackLogger witness_zap)"] in
        \<open>simp add: Global_swap_def witness_logger_def Let_def\<close>)
  then show ?thesis by simp
qed

lemma log_lines_carry_request_id_witness:
  "Logger_Error witness_logger (Some witness_log_ctx) ''m'' [] = [(ErrorLevel, ''m'', [(RequestID, ''r1'')])]
   \<and> (\<forall>line \<in> set (Logger_write ErrorLevel witness_logger (Some witness_log_ctx) ''m'' []). (RequestID, ''r1'') \<in> set (snd (snd line)))"
  using log_lines_carry_request_id [OF witness_log_reach, of witness_logger witness_log_ctx "''r1''" ErrorLevel "''m''" "[]"]
  by (simp add: witness_log_ctx_def Logger_Error_def Logger_write_def zap_write_def witness_logger_def buildFallbackLogger_def
        witness_zap_def built_def addRequestID_def RequestIDFromContext_def go_ctx.truncate_def Let_def)

end
