(* ===== verification/Process.thy ===== *)
theory Process
  imports Dsn Logging RedisCache "HOL-Library.Word"
begin

text \<open>
  What a process holds while it starts, serves and stops: \<open>internal/adapters/postgres/database.go\<close>,
  the connections of \<open>internal/adapters/grpc\<close>, \<open>NewRedisCache\<close>, the gRPC server and \<open>Wait\<close>.

  A process is the trace of what it opened and closed. What each call to the outside does (its
  error, the state of a connection, what wakes the process) is read from \<open>pr_outside\<close>, one element
  per call, so the theorems hold for every behaviour of the outside.
\<close>

subsection \<open>Processes\<close>

datatype resource =
    Pool | Migrator | Client svc | Redis | GrpcServer | CleanupTask | HttpServer

record http_settings =
  hs_ReadTimeout :: int
  hs_WriteTimeout :: int
  hs_BodyLimit :: int
  hs_TrustProxy :: bool
  hs_TrustPrivate :: bool

datatype transport = InsecureTransport | TLSTransport

text \<open>The options of a connection: its transport, and the timeout the interceptor gives each call.\<close>

record dial_options =
  do_Transport :: transport
  do_Timeout :: "int option"

datatype pevent =
    Opened resource
  | Closed resource
  | NotServing
  | ForcedStop
  | Dialled svc string dial_options
  | ServesAuth jwt_service int
  | ServesNotes jwt_service
  | ServesGateway http_settings
  | LoggerSet Logger

datatype conn_state = ConnIdle | ConnConnecting | ConnReady | ConnTransientFailure | ConnShutdown

datatype wake = ServeEnded "go_error option" | Interrupted

record moment =
  mo_error :: "go_error option"
  mo_state :: conn_state
  mo_alive :: bool
  mo_ctx_err :: go_error
  mo_now :: time
  mo_wake :: wake

record process =
  pr_trace :: "pevent list"
  pr_outside :: "nat \<Rightarrow> moment"
  pr_tick :: nat

definition consult :: "process \<Rightarrow> moment \<times> process" where
  "consult p = (pr_outside p (pr_tick p), p\<lparr>pr_tick := Suc (pr_tick p)\<rparr>)"

text \<open>A call that either fails or works.\<close>

definition attempt :: "process \<Rightarrow> go_error option \<times> process" where
  "attempt p = (case consult p of (m, p1) \<Rightarrow> (mo_error m, p1))"

definition emit :: "pevent \<Rightarrow> process \<Rightarrow> process" where
  "emit e p = p\<lparr>pr_trace := pr_trace p @ [e]\<rparr>"

text \<open>The libraries of the start: files, environment, zap, durations, connection strings, \<open>%q\<close>.\<close>

record pool_config =
  pc_MinConns :: "32 word"
  pc_MaxConns :: "32 word"

record boot_libs =
  bl_stat :: "string \<Rightarrow> bool option"
  bl_ReadConfig :: "string \<Rightarrow> go_error + Config"
  bl_ReadEnv :: "Config \<Rightarrow> go_error + Config"
  bl_zap :: zap_libs
  bl_ParseDuration :: "string \<Rightarrow> int option"
  bl_ParseConfig :: "string \<Rightarrow> go_error + pool_config"
  bl_quote :: "string \<Rightarrow> string"

subsection \<open>The database\<close>

text \<open>The two bounds of the pool; \<open>int32(n)\<close> keeps the low 32 bits.\<close>

definition pool_bounds :: "int \<Rightarrow> int \<Rightarrow> pool_config \<Rightarrow> pool_config" where
  "pool_bounds minConn maxConn cfg =
     (let cfg1 = (if 0 < minConn \<and> minConn \<le> max_int32 then cfg\<lparr>pc_MinConns := word_of_int minConn\<rparr> else cfg) in
      if 0 < maxConn \<and> maxConn \<le> max_int32 then cfg1\<lparr>pc_MaxConns := word_of_int maxConn\<rparr> else cfg1)"

definition NewDatabase ::
  "boot_libs \<Rightarrow> string \<Rightarrow> int \<Rightarrow> int \<Rightarrow> process \<Rightarrow> (go_error + pool_config) \<times> process" where
  "NewDatabase B dsn minConn maxConn p =
     (case bl_ParseConfig B dsn of
        Inl err \<Rightarrow> (Inl (errorf_w ''postgres: parse config'' err), p)
      | Inr cfg0 \<Rightarrow>
          (let cfg = pool_bounds minConn maxConn cfg0 in
           case attempt p of
             (Some err, p1) \<Rightarrow> (Inl (errorf_w ''postgres: connect'' err), p1)
           | (None, p1) \<Rightarrow>
               (let p2 = emit (Opened Pool) p1 in
                case attempt p2 of
                  (Some pingErr, p3) \<Rightarrow> (Inl (errorf_w ''postgres: ping'' pingErr), emit (Closed Pool) p3)
                | (None, p3) \<Rightarrow> (Inr cfg, p3))))"

definition Database_Close :: "process \<Rightarrow> process" where
  "Database_Close p = emit (Closed Pool) p"

text \<open>The migrator is closed when the function returns.\<close>

definition Migrate :: "boot_libs \<Rightarrow> string \<Rightarrow> string \<Rightarrow> process \<Rightarrow> go_error option \<times> process" where
  "Migrate B dsn migrationsPath p =
     (case attempt p of
        (Some err, p1) \<Rightarrow> (Some (errorf_w (''postgres: init migrations from '' @ bl_quote B migrationsPath) err), p1)
      | (None, p1) \<Rightarrow>
          (case attempt (emit (Opened Migrator) p1) of
             (upErr, p2) \<Rightarrow>
               ((case upErr of
                   Some e \<Rightarrow>
                     if \<not> errors_is_library e MigrateNoChange then Some (errorf_w ''postgres: apply migrations'' e)
                     else None
                 | None \<Rightarrow> None),
                emit (Closed Migrator) p2)))"

subsection \<open>Connections to the services\<close>

text \<open>
  The loop has no bound of its own: \<open>None\<close> is a call that never returns. \<open>WaitForStateChange\<close> says
  false once the context has ended: because the context of the process did (\<open>mo_alive\<close>), or because
  the deadline of the dial has passed.
\<close>

definition context_ended :: "time option \<Rightarrow> moment \<Rightarrow> bool" where
  "context_ended deadline m \<longleftrightarrow> \<not> mo_alive m \<or> (case deadline of None \<Rightarrow> False | Some d \<Rightarrow> d \<le> mo_now m)"

partial_function (option) waitUntilReady :: "time option \<Rightarrow> process \<Rightarrow> (go_error option \<times> process) option" where
  "waitUntilReady deadline p =
     (case consult p of (m, p1) \<Rightarrow>
        if mo_state m = ConnReady then Some (None, p1)
        else
          (case consult p1 of (m2, p2) \<Rightarrow>
             if context_ended deadline m2
               then Some (Some (errorf_ww (Sentinel ErrServiceUnavailable) (mo_ctx_err m2)), p2)
             else waitUntilReady deadline p2))"

definition newClientConn ::
  "boot_libs \<Rightarrow> svc \<Rightarrow> string \<Rightarrow> dial_options \<Rightarrow> time option \<Rightarrow> process \<Rightarrow> (go_error option \<times> process) option" where
  "newClientConn B s target opts deadline p =
     (case attempt p of
        (Some err, p1) \<Rightarrow> Some (Some (errorf_w (''grpc dial '' @ bl_quote B target) err), p1)
      | (None, p1) \<Rightarrow>
          (case waitUntilReady deadline (emit (Opened (Client s)) (emit (Dialled s target opts) p1)) of
             None \<Rightarrow> None
           | Some (Some readyErr, p2) \<Rightarrow> Some (Some readyErr, emit (Closed (Client s)) p2)
           | Some (None, p2) \<Rightarrow> Some (None, p2)))"

text \<open>The context of a dial: with a timeout, it ends that long after now.\<close>

definition dial_context :: "int \<Rightarrow> process \<Rightarrow> time option \<times> process" where
  "dial_context connectTimeout p =
     (if connectTimeout > 0 then (case consult p of (m, p1) \<Rightarrow> (Some (mo_now m + connectTimeout), p1))
      else (None, p))"

definition withClientTransport :: "Config \<Rightarrow> transport" where
  "withClientTransport cfg =
     (case cfg_GRPCClient cfg of
        None \<Rightarrow> InsecureTransport
      | Some g \<Rightarrow> if gcl_Insecure g then InsecureTransport else TLSTransport)"

definition clientDialOptions :: "Config \<Rightarrow> dial_options" where
  "clientDialOptions cfg =
     (let requestTimeout = (case cfg_GRPCClient cfg of None \<Rightarrow> 0 | Some g \<Rightarrow> gcl_RequestTimeout g) in
      \<lparr>do_Transport = withClientTransport cfg,
       do_Timeout = (if requestTimeout > 0 then Some requestTimeout else None)\<rparr>)"

definition NewAuthClient :: "boot_libs \<Rightarrow> Config \<Rightarrow> process \<Rightarrow> (go_error option \<times> process) option" where
  "NewAuthClient B cfg p =
     (case cfg_GRPCClient cfg of
        None \<Rightarrow> Some (Some (errorf_w ''auth service'' (Sentinel ErrServiceUnavailable)), p)
      | Some g \<Rightarrow>
          (let target = JoinHostPort (gs_Host (gcl_AuthService g)) (itoa (gs_Port (gcl_AuthService g))) in
           case dial_context (gs_ConnectTimeout (gcl_AuthService g)) p of (dialCtx, p1) \<Rightarrow>
             map_option (\<lambda>(err, p2). (map_option (errorf_w ''connect auth service'') err, p2))
               (newClientConn B AuthSvc target (clientDialOptions cfg) dialCtx p1)))"

definition NewNotesClient :: "boot_libs \<Rightarrow> Config \<Rightarrow> process \<Rightarrow> (go_error option \<times> process) option" where
  "NewNotesClient B cfg p =
     (case cfg_GRPCClient cfg of
        None \<Rightarrow> Some (Some (errorf_w ''notes service'' (Sentinel ErrServiceUnavailable)), p)
      | Some g \<Rightarrow>
          (let target = JoinHostPort (gs_Host (gcl_NotesService g)) (itoa (gs_Port (gcl_NotesService g))) in
           case dial_context (gs_ConnectTimeout (gcl_NotesService g)) p of (dialCtx, p1) \<Rightarrow>
             map_option (\<lambda>(err, p2). (map_option (errorf_w ''connect notes service'') err, p2))
               (newClientConn B NotesSvc target (clientDialOptions cfg) dialCtx p1)))"

text \<open>Closing a connection releases it whatever the call returns; \<open>conn\<close> is false for a nil connection.\<close>

definition AuthClient_Close :: "bool \<Rightarrow> process \<Rightarrow> go_error option \<times> process" where
  "AuthClient_Close conn p =
     (if \<not> conn then (None, p)
      else
        (case attempt p of (err, p1) \<Rightarrow>
           (map_option (errorf_w ''close auth grpc connection'') err, emit (Closed (Client AuthSvc)) p1)))"

definition NotesClient_Close :: "bool \<Rightarrow> process \<Rightarrow> go_error option \<times> process" where
  "NotesClient_Close conn p =
     (if \<not> conn then (None, p)
      else
        (case attempt p of (err, p1) \<Rightarrow>
           (map_option (errorf_w ''close notes grpc connection'') err, emit (Closed (Client NotesSvc)) p1)))"

text \<open>
  The deadline of a call, from that of its context (\<open>deadline\<close>) and the two readings of the clock:
  \<open>time.Until\<close> and \<open>context.WithTimeout\<close>, which keeps an earlier deadline of the parent.
\<close>

definition WithTimeout :: "time \<Rightarrow> int \<Rightarrow> time option \<Rightarrow> time option" where
  "WithTimeout now timeout deadline =
     Some (case deadline of None \<Rightarrow> now + timeout | Some d \<Rightarrow> min d (now + timeout))"

definition unaryClientTimeoutInterceptor :: "int \<Rightarrow> time \<Rightarrow> time \<Rightarrow> time option \<Rightarrow> time option" where
  "unaryClientTimeoutInterceptor timeout until_now now deadline =
     (if timeout \<le> 0 then deadline
      else
        (case deadline of
           Some d \<Rightarrow>
             (let remaining = d - until_now in
              if remaining > 0 \<and> remaining \<le> timeout then deadline else WithTimeout now timeout deadline)
         | None \<Rightarrow> WithTimeout now timeout deadline))"

subsection \<open>Redis\<close>

definition defaultHost :: string where "defaultHost = ''localhost''"
definition defaultPort :: int where "defaultPort = 6379"

record redis_options =
  ro_Addr :: string
  ro_Password :: string
  ro_DB :: int
  ro_DialTimeout :: int
  ro_ReadTimeout :: int
  ro_WriteTimeout :: int
  ro_PoolSize :: int
  ro_MinIdleConns :: int
  ro_ConnMaxIdleTime :: int
  ro_ConnMaxLifetime :: int

definition redis_options_of :: "RedisConfig \<Rightarrow> redis_options" where
  "redis_options_of redCfg =
     (let host0 = trim_space (rd_Host redCfg); host = (if host0 = '''' then defaultHost else host0);
          port = (if rd_Port redCfg \<le> 0 then defaultPort else rd_Port redCfg)
      in \<lparr>ro_Addr = JoinHostPort host (itoa port), ro_Password = rd_Password redCfg, ro_DB = rd_DB redCfg,
          ro_DialTimeout = rd_ConnectTimeout redCfg, ro_ReadTimeout = rd_ReadTimeout redCfg,
          ro_WriteTimeout = rd_WriteTimeout redCfg, ro_PoolSize = rd_PoolSize redCfg,
          ro_MinIdleConns = rd_MinIdle redCfg, ro_ConnMaxIdleTime = rd_IdleTimeout redCfg,
          ro_ConnMaxLifetime = rd_MaxConnLifetime redCfg\<rparr>)"

text \<open>A cache is its client's options and its lifetime for entries without one.\<close>

definition NewRedisCache :: "Config option \<Rightarrow> process \<Rightarrow> (go_error + redis_options \<times> int) \<times> process" where
  "NewRedisCache cfg0 p =
     (case Option.bind cfg0 cfg_Redis of
        None \<Rightarrow> (Inl (Sentinel ErrRedisConfigRequired), p)
      | Some redCfg \<Rightarrow>
          (let defaultTTL = (if rd_DefaultTTL redCfg \<le> 0 then defaultCacheTTL else rd_DefaultTTL redCfg);
               p1 = emit (Opened Redis) p
           in case attempt p1 of
                (Some pingErr, p2) \<Rightarrow> (Inl (errorf_w ''redis: connect'' pingErr), p2)
              | (None, p2) \<Rightarrow> (Inr (redis_options_of redCfg, defaultTTL), p2)))"

definition Redis_Close :: "process \<Rightarrow> go_error option \<times> process" where
  "Redis_Close p =
     (case attempt p of (err, p1) \<Rightarrow> (map_option (errorf_w ''redis: close'') err, emit (Closed Redis) p1))"

subsection \<open>The gRPC server\<close>

definition maxMessageBytes :: nat where "maxMessageBytes = 1048576"

text \<open>\<open>Crashed\<close>: a section that is missing was read.\<close>

datatype 'a ran = Ran 'a | Crashed

definition reflectionEnabled :: "Config option \<Rightarrow> bool" where
  "reflectionEnabled cfg0 = (case Option.bind cfg0 cfg_GRPC of None \<Rightarrow> False | Some g \<Rightarrow> gc_Reflection g)"

definition Server_Start :: "Config \<Rightarrow> process \<Rightarrow> go_error option ran \<times> process" where
  "Server_Start cfg p =
     (case cfg_GRPC cfg of
        None \<Rightarrow> (Crashed, p)
      | Some g \<Rightarrow>
          (let address = JoinHostPort (gc_Host g) (itoa (gc_Port g)) in
           case attempt p of
             (Some err, p1) \<Rightarrow> (Ran (Some (errorf_w (''start grpc server on '' @ address) err)), p1)
           | (None, p1) \<Rightarrow> (Ran None, emit (Opened GrpcServer) p1)))"

text \<open>
  \<open>mo_alive\<close>: the calls in flight end before the context does. Waiting for \<open>GracefulStop\<close> on the
  channel \<open>stopped\<close> is part of the step that closes the server.
\<close>

definition Server_Stop :: "process \<Rightarrow> process" where
  "Server_Stop p =
     (case consult (emit NotServing p) of (m, p1) \<Rightarrow>
        emit (Closed GrpcServer) (if mo_alive m then p1 else emit ForcedStop p1))"

subsection \<open>\<open>Wait\<close>\<close>

type_synonym hook = "process \<Rightarrow> go_error option \<times> process"

fun run_hooks :: "hook list \<Rightarrow> go_error option \<Rightarrow> hook" where
  "run_hooks [] shutdownErr p = (shutdownErr, p)"
| "run_hooks (hook # hooks) shutdownErr p =
     (case hook p of
        (Some err, p1) \<Rightarrow> run_hooks hooks (errors_join [shutdownErr, Some err]) p1
      | (None, p1) \<Rightarrow> run_hooks hooks shutdownErr p1)"

text \<open>
  The moment \<open>Wait\<close> consults is the one at which its \<open>select\<close> goes on: with a signal, the end of
  the context, or the end of the server. Until then it blocks, for as long as the process serves;
  that such a moment comes is not claimed, so \<open>Wait\<close> says what happens from it on.
\<close>

definition Wait :: "hook list \<Rightarrow> hook" where
  "Wait hooks p =
     (case consult p of (m, p1) \<Rightarrow>
       (let runErr = (case mo_wake m of
                        ServeEnded (Some err) \<Rightarrow> Some (errorf_w ''server terminated unexpectedly'' err)
                      | _ \<Rightarrow> None)
        in case run_hooks hooks None p1 of (shutdownErr, p2) \<Rightarrow> (errors_join [runErr, shutdownErr], p2)))"

end
