(* ===== verification/RestProxy.thy ===== *)
theory RestProxy
  imports NotesEdits Process
begin

text \<open>
  The REST proxies of \<open>gen\<close> (\<open>note_service.pb.gw.go\<close>, \<open>auth_service.pb.gw.go\<close>, \<open>user_service.pb.gw.go\<close>):
  HTTP handlers that decode a request into a message, call the service and forward its reply.
  They are an alternative to the gateway, over a client of a service or over the service itself.

  \<open>runtime_libs\<close> is what \<open>grpc-gateway\<close> contributes: decoding into a message (with the message as it
  is when decoding fails), query parameters, path parameters and the context of the call. The
  metadata of a reply is left out: no handler of the services sets any.
\<close>

subsection \<open>Messages\<close>

record RegisterMsg =
  rm_Email :: string
  rm_Username :: string
  rm_Password :: string

record LoginMsg =
  lm_Email :: string
  lm_Password :: string

record RefreshMsg =
  fm_RefreshToken :: string

record LogoutMsg =
  om_RefreshToken :: string

record CreateNoteMsg =
  cm_Title :: string
  cm_Content :: string

record GetNoteMsg =
  gm_NoteId :: string

record ListNotesMsg =
  im_Limit :: "32 word"
  im_Offset :: "32 word"

record UpdateNoteMsg =
  um_NoteId :: string
  um_Title :: "string option"
  um_Content :: "string option"

record DeleteNoteMsg =
  dm_NoteId :: string

datatype proto_message =
    TokenResponseMsg TokenReply
  | ProfileResponseMsg ProfileReply
  | NoteResponseMsg NoteReply
  | ListNotesResponseMsg ListNotesReply
  | EmptyMsg

text \<open>The services, as the generated client and server interfaces have them.\<close>

record NoteService =
  ns_CreateNote :: "CreateNoteMsg \<Rightarrow> NoteReply handler"
  ns_GetNote :: "GetNoteMsg \<Rightarrow> NoteReply handler"
  ns_ListNotes :: "ListNotesMsg \<Rightarrow> ListNotesReply handler"
  ns_UpdateNote :: "UpdateNoteMsg \<Rightarrow> NoteReply handler"
  ns_DeleteNote :: "DeleteNoteMsg \<Rightarrow> unit handler"

record AuthServiceApi =
  as_Register :: "RegisterMsg \<Rightarrow> TokenReply handler"
  as_Login :: "LoginMsg \<Rightarrow> TokenReply handler"
  as_RefreshTokens :: "RefreshMsg \<Rightarrow> TokenReply handler"
  as_Logout :: "LogoutMsg \<Rightarrow> unit handler"

record UserService =
  us_GetUserProfile :: "ProfileReply handler"

record runtime_libs =
  rt_Decode_Register :: "http_request \<Rightarrow> RegisterMsg \<times> go_error option"
  rt_Decode_Login :: "http_request \<Rightarrow> LoginMsg \<times> go_error option"
  rt_Decode_Refresh :: "http_request \<Rightarrow> RefreshMsg \<times> go_error option"
  rt_Decode_Logout :: "http_request \<Rightarrow> LogoutMsg \<times> go_error option"
  rt_Decode_CreateNote :: "http_request \<Rightarrow> CreateNoteMsg \<times> go_error option"
  rt_Decode_UpdateNote :: "http_request \<Rightarrow> UpdateNoteMsg \<times> go_error option"
  rt_ParseForm :: "http_request \<Rightarrow> go_error option"
  rt_Populate_ListNotes :: "http_request \<Rightarrow> ListNotesMsg \<times> go_error option"
  rt_String :: "string \<Rightarrow> go_error + string"
  rt_Context :: "http_request \<Rightarrow> go_ctx"
  rt_AnnotateContext :: "go_ctx \<Rightarrow> http_request \<Rightarrow> string \<Rightarrow> string \<Rightarrow> go_error + go_ctx"
  rt_AnnotateIncomingContext :: "go_ctx \<Rightarrow> http_request \<Rightarrow> string \<Rightarrow> string \<Rightarrow> go_error + go_ctx"

type_synonym path_params = "string \<Rightarrow> string option"

type_synonym 'r proxy_call = "go_ctx \<Rightarrow> http_request \<Rightarrow> path_params \<Rightarrow> world \<Rightarrow> (go_error + 'r) \<times> world"

subsection \<open>Decoding\<close>

text \<open>\<open>status.Errorf(codes.InvalidArgument, ..)\<close>; an empty body is the empty message.\<close>

definition invalid_argument :: "string \<Rightarrow> go_error" where
  "invalid_argument m = StatusError CodeInvalidArgument m"

definition decoded :: "'m \<times> go_error option \<Rightarrow> go_error + 'm" where
  "decoded r =
     (case r of
        (protoReq, Some err) \<Rightarrow>
          if \<not> errors_is_library err IoEOF then Inl (invalid_argument (error_text err)) else Inr protoReq
      | (protoReq, None) \<Rightarrow> Inr protoReq)"

definition path_parameter :: "runtime_libs \<Rightarrow> string \<Rightarrow> path_params \<Rightarrow> go_error + string" where
  "path_parameter R name pathParams =
     (case pathParams name of
        None \<Rightarrow> Inl (invalid_argument (''missing parameter '' @ name))
      | Some val \<Rightarrow>
          (case rt_String R val of
             Inl err \<Rightarrow> Inl (invalid_argument (''type mismatch, parameter: '' @ name @ '', error: '' @ error_text err))
           | Inr s \<Rightarrow> Inr s))"

definition list_parameters :: "runtime_libs \<Rightarrow> http_request \<Rightarrow> go_error + ListNotesMsg" where
  "list_parameters R req =
     (case rt_ParseForm R req of
        Some err \<Rightarrow> Inl (invalid_argument (error_text err))
      | None \<Rightarrow>
          (case rt_Populate_ListNotes R req of
             (protoReq, Some err) \<Rightarrow> Inl (invalid_argument (error_text err))
           | (protoReq, None) \<Rightarrow> Inr protoReq))"

subsection \<open>The calls\<close>

text \<open>
  One function over a client and one over the server for each route. What a client call drains of
  the body has no effect.
\<close>

definition request_NoteService_CreateNote_0 :: "runtime_libs \<Rightarrow> NoteService \<Rightarrow> NoteReply proxy_call" where
  "request_NoteService_CreateNote_0 R service ctx req pathParams w =
     (case decoded (rt_Decode_CreateNote R req) of
        Inl err \<Rightarrow> (Inl err, w)
      | Inr protoReq \<Rightarrow> ns_CreateNote service protoReq ctx w)"

definition request_NoteService_GetNote_0 :: "runtime_libs \<Rightarrow> NoteService \<Rightarrow> NoteReply proxy_call" where
  "request_NoteService_GetNote_0 R service ctx req pathParams w =
     (case path_parameter R ''note_id'' pathParams of
        Inl err \<Rightarrow> (Inl err, w)
      | Inr noteId \<Rightarrow> ns_GetNote service \<lparr>gm_NoteId = noteId\<rparr> ctx w)"

definition request_NoteService_ListNotes_0 :: "runtime_libs \<Rightarrow> NoteService \<Rightarrow> ListNotesReply proxy_call" where
  "request_NoteService_ListNotes_0 R service ctx req pathParams w =
     (case list_parameters R req of
        Inl err \<Rightarrow> (Inl err, w)
      | Inr protoReq \<Rightarrow> ns_ListNotes service protoReq ctx w)"

definition request_NoteService_UpdateNote_0 :: "runtime_libs \<Rightarrow> NoteService \<Rightarrow> NoteReply proxy_call" where
  "request_NoteService_UpdateNote_0 R service ctx req pathParams w =
     (case decoded (rt_Decode_UpdateNote R req) of
        Inl err \<Rightarrow> (Inl err, w)
      | Inr protoReq \<Rightarrow>
          (case path_parameter R ''note_id'' pathParams of
             Inl err \<Rightarrow> (Inl err, w)
           | Inr noteId \<Rightarrow> ns_UpdateNote service (protoReq\<lparr>um_NoteId := noteId\<rparr>) ctx w))"

definition request_NoteService_UpdateNote_1 :: "runtime_libs \<Rightarrow> NoteService \<Rightarrow> NoteReply proxy_call" where
  "request_NoteService_UpdateNote_1 R service ctx req pathParams w =
     (case decoded (rt_Decode_UpdateNote R req) of
        Inl err \<Rightarrow> (Inl err, w)
      | Inr protoReq \<Rightarrow>
          (case path_parameter R ''note_id'' pathParams of
             Inl err \<Rightarrow> (Inl err, w)
           | Inr noteId \<Rightarrow> ns_UpdateNote service (protoReq\<lparr>um_NoteId := noteId\<rparr>) ctx w))"

definition request_NoteService_DeleteNote_0 :: "runtime_libs \<Rightarrow> NoteService \<Rightarrow> unit proxy_call" where
  "request_NoteService_DeleteNote_0 R service ctx req pathParams w =
     (case path_parameter R ''note_id'' pathParams of
        Inl err \<Rightarrow> (Inl err, w)
      | Inr noteId \<Rightarrow> ns_DeleteNote service \<lparr>dm_NoteId = noteId\<rparr> ctx w)"

definition local_request_NoteService_CreateNote_0 :: "runtime_libs \<Rightarrow> NoteService \<Rightarrow> NoteReply proxy_call" where
  "local_request_NoteService_CreateNote_0 R service ctx req pathParams w =
     (case decoded (rt_Decode_CreateNote R req) of
        Inl err \<Rightarrow> (Inl err, w)
      | Inr protoReq \<Rightarrow> ns_CreateNote service protoReq ctx w)"

definition local_request_NoteService_GetNote_0 :: "runtime_libs \<Rightarrow> NoteService \<Rightarrow> NoteReply proxy_call" where
  "local_request_NoteService_GetNote_0 R service ctx req pathParams w =
     (case path_parameter R ''note_id'' pathParams of
        Inl err \<Rightarrow> (Inl err, w)
      | Inr noteId \<Rightarrow> ns_GetNote service \<lparr>gm_NoteId = noteId\<rparr> ctx w)"

definition local_request_NoteService_ListNotes_0 :: "runtime_libs \<Rightarrow> NoteService \<Rightarrow> ListNotesReply proxy_call" where
  "local_request_NoteService_ListNotes_0 R service ctx req pathParams w =
     (case list_parameters R req of
        Inl err \<Rightarrow> (Inl err, w)
      | Inr protoReq \<Rightarrow> ns_ListNotes service protoReq ctx w)"

definition local_request_NoteService_UpdateNote_0 :: "runtime_libs \<Rightarrow> NoteService \<Rightarrow> NoteReply proxy_call" where
  "local_request_NoteService_UpdateNote_0 R service ctx req pathParams w =
     (case decoded (rt_Decode_UpdateNote R req) of
        Inl err \<Rightarrow> (Inl err, w)
      | Inr protoReq \<Rightarrow>
          (case path_parameter R ''note_id'' pathParams of
             Inl err \<Rightarrow> (Inl err, w)
           | Inr noteId \<Rightarrow> ns_UpdateNote service (protoReq\<lparr>um_NoteId := noteId\<rparr>) ctx w))"

definition local_request_NoteService_UpdateNote_1 :: "runtime_libs \<Rightarrow> NoteService \<Rightarrow> NoteReply proxy_call" where
  "local_request_NoteService_UpdateNote_1 R service ctx req pathParams w =
     (case decoded (rt_Decode_UpdateNote R req) of
        Inl err \<Rightarrow> (Inl err, w)
      | Inr protoReq \<Rightarrow>
          (case path_parameter R ''note_id'' pathParams of
             Inl err \<Rightarrow> (Inl err, w)
           | Inr noteId \<Rightarrow> ns_UpdateNote service (protoReq\<lparr>um_NoteId := noteId\<rparr>) ctx w))"

definition local_request_NoteService_DeleteNote_0 :: "runtime_libs \<Rightarrow> NoteService \<Rightarrow> unit proxy_call" where
  "local_request_NoteService_DeleteNote_0 R service ctx req pathParams w =
     (case path_parameter R ''note_id'' pathParams of
        Inl err \<Rightarrow> (Inl err, w)
      | Inr noteId \<Rightarrow> ns_DeleteNote service \<lparr>dm_NoteId = noteId\<rparr> ctx w)"

definition request_AuthService_Register_0 :: "runtime_libs \<Rightarrow> AuthServiceApi \<Rightarrow> TokenReply proxy_call" where
  "request_AuthService_Register_0 R service ctx req pathParams w =
     (case decoded (rt_Decode_Register R req) of
        Inl err \<Rightarrow> (Inl err, w)
      | Inr protoReq \<Rightarrow> as_Register service protoReq ctx w)"

definition request_AuthService_Login_0 :: "runtime_libs \<Rightarrow> AuthServiceApi \<Rightarrow> TokenReply proxy_call" where
  "request_AuthService_Login_0 R service ctx req pathParams w =
     (case decoded (rt_Decode_Login R req) of
        Inl err \<Rightarrow> (Inl err, w)
      | Inr protoReq \<Rightarrow> as_Login service protoReq ctx w)"

definition request_AuthService_RefreshTokens_0 :: "runtime_libs \<Rightarrow> AuthServiceApi \<Rightarrow> TokenReply proxy_call" where
  "request_AuthService_RefreshTokens_0 R service ctx req pathParams w =
     (case decoded (rt_Decode_Refresh R req) of
        Inl err \<Rightarrow> (Inl err, w)
      | Inr protoReq \<Rightarrow> as_RefreshTokens service protoReq ctx w)"

definition request_AuthService_Logout_0 :: "runtime_libs \<Rightarrow> AuthServiceApi \<Rightarrow> unit proxy_call" where
  "request_AuthService_Logout_0 R service ctx req pathParams w =
     (case decoded (rt_Decode_Logout R req) of
        Inl err \<Rightarrow> (Inl err, w)
      | Inr protoReq \<Rightarrow> as_Logout service protoReq ctx w)"

definition request_UserService_GetUserProfile_0 :: "runtime_libs \<Rightarrow> UserService \<Rightarrow> ProfileReply proxy_call" where
  "request_UserService_GetUserProfile_0 R service ctx req pathParams w = us_GetUserProfile service ctx w"

definition local_request_AuthService_Register_0 :: "runtime_libs \<Rightarrow> AuthServiceApi \<Rightarrow> TokenReply proxy_call" where
  "local_request_AuthService_Register_0 R service ctx req pathParams w =
     (case decoded (rt_Decode_Register R req) of
        Inl err \<Rightarrow> (Inl err, w)
      | Inr protoReq \<Rightarrow> as_Register service protoReq ctx w)"

definition local_request_AuthService_Login_0 :: "runtime_libs \<Rightarrow> AuthServiceApi \<Rightarrow> TokenReply proxy_call" where
  "local_request_AuthService_Login_0 R service ctx req pathParams w =
     (case decoded (rt_Decode_Login R req) of
        Inl err \<Rightarrow> (Inl err, w)
      | Inr protoReq \<Rightarrow> as_Login service protoReq ctx w)"

definition local_request_AuthService_RefreshTokens_0 :: "runtime_libs \<Rightarrow> AuthServiceApi \<Rightarrow> TokenReply proxy_call" where
  "local_request_AuthService_RefreshTokens_0 R service ctx req pathParams w =
     (case decoded (rt_Decode_Refresh R req) of
        Inl err \<Rightarrow> (Inl err, w)
      | Inr protoReq \<Rightarrow> as_RefreshTokens service protoReq ctx w)"

definition local_request_AuthService_Logout_0 :: "runtime_libs \<Rightarrow> AuthServiceApi \<Rightarrow> unit proxy_call" where
  "local_request_AuthService_Logout_0 R service ctx req pathParams w =
     (case decoded (rt_Decode_Logout R req) of
        Inl err \<Rightarrow> (Inl err, w)
      | Inr protoReq \<Rightarrow> as_Logout service protoReq ctx w)"

definition local_request_UserService_GetUserProfile_0 :: "runtime_libs \<Rightarrow> UserService \<Rightarrow> ProfileReply proxy_call" where
  "local_request_UserService_GetUserProfile_0 R service ctx req pathParams w = us_GetUserProfile service ctx w"

subsection \<open>The registrations\<close>

text \<open>
  A pattern is the program of the matcher of \<open>runtime\<close>, as the generator wrote it; the template is
  the text the handlers pass on. A handler answers with an error or forwards a reply; both are then
  rendered by the library.
\<close>

record pattern =
  pn_version :: nat
  pn_ops :: "nat list"
  pn_pool :: "string list"
  pn_verb :: string

datatype proxy_answer = HTTPError go_error | Forwarded proto_message

type_synonym proxy_handler = "http_request \<Rightarrow> path_params \<Rightarrow> world \<Rightarrow> proxy_answer \<times> world"

record proxy_route =
  px_method :: string
  px_pattern :: pattern
  px_template :: string
  px_handler :: proxy_handler

definition NewPattern :: "nat \<Rightarrow> nat list \<Rightarrow> string list \<Rightarrow> string \<Rightarrow> pattern" where
  "NewPattern version ops pool verb = \<lparr>pn_version = version, pn_ops = ops, pn_pool = pool, pn_verb = verb\<rparr>"

definition answered_by :: "(go_error + 'r) \<times> world \<Rightarrow> ('r \<Rightarrow> proto_message) \<Rightarrow> proxy_answer \<times> world" where
  "answered_by result msg =
     (case result of
        (Inl err, w1) \<Rightarrow> (HTTPError err, w1)
      | (Inr resp, w1) \<Rightarrow> (Forwarded (msg resp), w1))"

definition client_route ::
  "runtime_libs \<Rightarrow> string \<Rightarrow> pattern \<Rightarrow> string \<Rightarrow> string \<Rightarrow> 'r proxy_call \<Rightarrow> ('r \<Rightarrow> proto_message) \<Rightarrow> proxy_route" where
  "client_route R method pat fullMethod template call msg =
     \<lparr>px_method = method, px_pattern = pat, px_template = template,
      px_handler = (\<lambda>req pathParams w.
        case rt_AnnotateContext R (rt_Context R req) req fullMethod template of
          Inl err \<Rightarrow> (HTTPError err, w)
        | Inr annotatedContext \<Rightarrow> answered_by (call annotatedContext req pathParams w) msg)\<rparr>"

definition server_route ::
  "runtime_libs \<Rightarrow> string \<Rightarrow> pattern \<Rightarrow> string \<Rightarrow> string \<Rightarrow> 'r proxy_call \<Rightarrow> ('r \<Rightarrow> proto_message) \<Rightarrow> proxy_route" where
  "server_route R method pat fullMethod template call msg =
     \<lparr>px_method = method, px_pattern = pat, px_template = template,
      px_handler = (\<lambda>req pathParams w.
        case rt_AnnotateIncomingContext R (rt_Context R req) req fullMethod template of
          Inl err \<Rightarrow> (HTTPError err, w)
        | Inr annotatedContext \<Rightarrow> answered_by (call annotatedContext req pathParams w) msg)\<rparr>"

definition pattern_NoteService_CreateNote_0 :: pattern where
  "pattern_NoteService_CreateNote_0 = NewPattern 1 [2, 0, 2, 1, 2, 2] [''api'', ''v1'', ''notes''] ''''"

definition pattern_NoteService_GetNote_0 :: pattern where
  "pattern_NoteService_GetNote_0 = NewPattern 1 [2, 0, 2, 1, 2, 2, 1, 0, 4, 1, 5, 3] [''api'', ''v1'', ''notes'', ''note_id''] ''''"

definition pattern_NoteService_ListNotes_0 :: pattern where
  "pattern_NoteService_ListNotes_0 = NewPattern 1 [2, 0, 2, 1, 2, 2] [''api'', ''v1'', ''notes''] ''''"

definition pattern_NoteService_UpdateNote_0 :: pattern where
  "pattern_NoteService_UpdateNote_0 = NewPattern 1 [2, 0, 2, 1, 2, 2, 1, 0, 4, 1, 5, 3] [''api'', ''v1'', ''notes'', ''note_id''] ''''"

definition pattern_NoteService_UpdateNote_1 :: pattern where
  "pattern_NoteService_UpdateNote_1 = NewPattern 1 [2, 0, 2, 1, 2, 2, 1, 0, 4, 1, 5, 3] [''api'', ''v1'', ''notes'', ''note_id''] ''''"

definition pattern_NoteService_DeleteNote_0 :: pattern where
  "pattern_NoteService_DeleteNote_0 = NewPattern 1 [2, 0, 2, 1, 2, 2, 1, 0, 4, 1, 5, 3] [''api'', ''v1'', ''notes'', ''note_id''] ''''"

definition RegisterNoteServiceHandlerServer :: "runtime_libs \<Rightarrow> NoteService \<Rightarrow> proxy_route list" where
  "RegisterNoteServiceHandlerServer R service =
     [server_route R ''POST'' pattern_NoteService_CreateNote_0 ''/notes.v1.NoteService/CreateNote'' ''/api/v1/notes''
        (local_request_NoteService_CreateNote_0 R service) NoteResponseMsg,
      server_route R ''GET'' pattern_NoteService_GetNote_0 ''/notes.v1.NoteService/GetNote'' ''/api/v1/notes/{note_id}''
        (local_request_NoteService_GetNote_0 R service) NoteResponseMsg,
      server_route R ''GET'' pattern_NoteService_ListNotes_0 ''/notes.v1.NoteService/ListNotes'' ''/api/v1/notes''
        (local_request_NoteService_ListNotes_0 R service) ListNotesResponseMsg,
      server_route R ''PATCH'' pattern_NoteService_UpdateNote_0 ''/notes.v1.NoteService/UpdateNote'' ''/api/v1/notes/{note_id}''
        (local_request_NoteService_UpdateNote_0 R service) NoteResponseMsg,
      server_route R ''PUT'' pattern_NoteService_UpdateNote_1 ''/notes.v1.NoteService/UpdateNote'' ''/api/v1/notes/{note_id}''
        (local_request_NoteService_UpdateNote_1 R service) NoteResponseMsg,
      server_route R ''DELETE'' pattern_NoteService_DeleteNote_0 ''/notes.v1.NoteService/DeleteNote'' ''/api/v1/notes/{note_id}''
        (local_request_NoteService_DeleteNote_0 R service) (\<lambda>_. EmptyMsg)]"

definition RegisterNoteServiceHandlerClient :: "runtime_libs \<Rightarrow> NoteService \<Rightarrow> proxy_route list" where
  "RegisterNoteServiceHandlerClient R service =
     [client_route R ''POST'' pattern_NoteService_CreateNote_0 ''/notes.v1.NoteService/CreateNote'' ''/api/v1/notes''
        (request_NoteService_CreateNote_0 R service) NoteResponseMsg,
      client_route R ''GET'' pattern_NoteService_GetNote_0 ''/notes.v1.NoteService/GetNote'' ''/api/v1/notes/{note_id}''
        (request_NoteService_GetNote_0 R service) NoteResponseMsg,
      client_route R ''GET'' pattern_NoteService_ListNotes_0 ''/notes.v1.NoteService/ListNotes'' ''/api/v1/notes''
        (request_NoteService_ListNotes_0 R service) ListNotesResponseMsg,
      client_route R ''PATCH'' pattern_NoteService_UpdateNote_0 ''/notes.v1.NoteService/UpdateNote'' ''/api/v1/notes/{note_id}''
        (request_NoteService_UpdateNote_0 R service) NoteResponseMsg,
      client_route R ''PUT'' pattern_NoteService_UpdateNote_1 ''/notes.v1.NoteService/UpdateNote'' ''/api/v1/notes/{note_id}''
        (request_NoteService_UpdateNote_1 R service) NoteResponseMsg,
      client_route R ''DELETE'' pattern_NoteService_DeleteNote_0 ''/notes.v1.NoteService/DeleteNote'' ''/api/v1/notes/{note_id}''
        (request_NoteService_DeleteNote_0 R service) (\<lambda>_. EmptyMsg)]"

definition pattern_AuthService_Register_0 :: pattern where
  "pattern_AuthService_Register_0 = NewPattern 1 [2, 0, 2, 1, 2, 2, 2, 3] [''api'', ''v1'', ''auth'', ''register''] ''''"

definition pattern_AuthService_Login_0 :: pattern where
  "pattern_AuthService_Login_0 = NewPattern 1 [2, 0, 2, 1, 2, 2, 2, 3] [''api'', ''v1'', ''auth'', ''login''] ''''"

definition pattern_AuthService_RefreshTokens_0 :: pattern where
  "pattern_AuthService_RefreshTokens_0 = NewPattern 1 [2, 0, 2, 1, 2, 2, 2, 3] [''api'', ''v1'', ''auth'', ''refresh''] ''''"

definition pattern_AuthService_Logout_0 :: pattern where
  "pattern_AuthService_Logout_0 = NewPattern 1 [2, 0, 2, 1, 2, 2, 2, 3] [''api'', ''v1'', ''auth'', ''logout''] ''''"

definition RegisterAuthServiceHandlerServer :: "runtime_libs \<Rightarrow> AuthServiceApi \<Rightarrow> proxy_route list" where
  "RegisterAuthServiceHandlerServer R service =
     [server_route R ''POST'' pattern_AuthService_Register_0 ''/auth.v1.AuthService/Register'' ''/api/v1/auth/register''
        (local_request_AuthService_Register_0 R service) TokenResponseMsg,
      server_route R ''POST'' pattern_AuthService_Login_0 ''/auth.v1.AuthService/Login'' ''/api/v1/auth/login''
        (local_request_AuthService_Login_0 R service) TokenResponseMsg,
      server_route R ''POST'' pattern_AuthService_RefreshTokens_0 ''/auth.v1.AuthService/RefreshTokens'' ''/api/v1/auth/refresh''
        (local_request_AuthService_RefreshTokens_0 R service) TokenResponseMsg,
      server_route R ''POST'' pattern_AuthService_Logout_0 ''/auth.v1.AuthService/Logout'' ''/api/v1/auth/logout''
        (local_request_AuthService_Logout_0 R service) (\<lambda>_. EmptyMsg)]"

definition RegisterAuthServiceHandlerClient :: "runtime_libs \<Rightarrow> AuthServiceApi \<Rightarrow> proxy_route list" where
  "RegisterAuthServiceHandlerClient R service =
     [client_route R ''POST'' pattern_AuthService_Register_0 ''/auth.v1.AuthService/Register'' ''/api/v1/auth/register''
        (request_AuthService_Register_0 R service) TokenResponseMsg,
      client_route R ''POST'' pattern_AuthService_Login_0 ''/auth.v1.AuthService/Login'' ''/api/v1/auth/login''
        (request_AuthService_Login_0 R service) TokenResponseMsg,
      client_route R ''POST'' pattern_AuthService_RefreshTokens_0 ''/auth.v1.AuthService/RefreshTokens'' ''/api/v1/auth/refresh''
        (request_AuthService_RefreshTokens_0 R service) TokenResponseMsg,
      client_route R ''POST'' pattern_AuthService_Logout_0 ''/auth.v1.AuthService/Logout'' ''/api/v1/auth/logout''
        (request_AuthService_Logout_0 R service) (\<lambda>_. EmptyMsg)]"

definition pattern_UserService_GetUserProfile_0 :: pattern where
  "pattern_UserService_GetUserProfile_0 = NewPattern 1 [2, 0, 2, 1, 2, 2, 2, 3] [''api'', ''v1'', ''user'', ''profile''] ''''"

definition RegisterUserServiceHandlerServer :: "runtime_libs \<Rightarrow> UserService \<Rightarrow> proxy_route list" where
  "RegisterUserServiceHandlerServer R service =
     [server_route R ''GET'' pattern_UserService_GetUserProfile_0 ''/auth.v1.UserService/GetUserProfile'' ''/api/v1/user/profile''
        (local_request_UserService_GetUserProfile_0 R service) ProfileResponseMsg]"

definition RegisterUserServiceHandlerClient :: "runtime_libs \<Rightarrow> UserService \<Rightarrow> proxy_route list" where
  "RegisterUserServiceHandlerClient R service =
     [client_route R ''GET'' pattern_UserService_GetUserProfile_0 ''/auth.v1.UserService/GetUserProfile'' ''/api/v1/user/profile''
        (request_UserService_GetUserProfile_0 R service) ProfileResponseMsg]"

subsection \<open>Over a connection\<close>

text \<open>
  The generated clients over a connection to the services of a deployment: a call goes over the
  network and through the interceptors of the server.
\<close>

definition NewNoteServiceClient :: "deployment \<Rightarrow> NoteService" where
  "NewNoteServiceClient D =
     \<lparr>ns_CreateNote = (\<lambda>r. rpc NotesSvc (d_headers D) (notes_chain D ''/notes.v1.NoteService/CreateNote''
        (NoteHandler_CreateNote (d_libs D) (cm_Title r) (cm_Content r)))),
      ns_GetNote = (\<lambda>r. rpc NotesSvc (d_headers D) (notes_chain D ''/notes.v1.NoteService/GetNote''
        (NoteHandler_GetNote (d_libs D) (gm_NoteId r)))),
      ns_ListNotes = (\<lambda>r. rpc NotesSvc (d_headers D) (notes_chain D ''/notes.v1.NoteService/ListNotes''
        (NoteHandler_ListNotes (d_libs D) (im_Limit r) (im_Offset r)))),
      ns_UpdateNote = (\<lambda>r. rpc NotesSvc (d_headers D) (notes_chain D ''/notes.v1.NoteService/UpdateNote''
        (NoteHandler_UpdateNote (d_libs D) (um_NoteId r) (um_Title r) (um_Content r)))),
      ns_DeleteNote = (\<lambda>r. rpc NotesSvc (d_headers D) (notes_chain D ''/notes.v1.NoteService/DeleteNote''
        (NoteHandler_DeleteNote (d_libs D) (dm_NoteId r))))\<rparr>"

definition NewAuthServiceClient :: "deployment \<Rightarrow> AuthServiceApi" where
  "NewAuthServiceClient D =
     \<lparr>as_Register = (\<lambda>r. rpc AuthSvc (d_headers D) (auth_chain D ''/auth.v1.AuthService/Register''
        (AuthHandler_Register (d_libs D) (d_issuer D) (d_cost D) (rm_Email r) (rm_Username r) (rm_Password r)))),
      as_Login = (\<lambda>r. rpc AuthSvc (d_headers D) (auth_chain D ''/auth.v1.AuthService/Login''
        (AuthHandler_Login (d_libs D) (d_issuer D) (lm_Email r) (lm_Password r)))),
      as_RefreshTokens = (\<lambda>r. rpc AuthSvc (d_headers D) (auth_chain D ''/auth.v1.AuthService/RefreshTokens''
        (AuthHandler_RefreshTokens (d_libs D) (d_issuer D) (fm_RefreshToken r)))),
      as_Logout = (\<lambda>r. rpc AuthSvc (d_headers D) (auth_chain D ''/auth.v1.AuthService/Logout''
        (AuthHandler_Logout (d_libs D) (om_RefreshToken r))))\<rparr>"

definition NewUserServiceClient :: "deployment \<Rightarrow> UserService" where
  "NewUserServiceClient D =
     \<lparr>us_GetUserProfile = rpc AuthSvc (d_headers D) (auth_chain D ''/auth.v1.UserService/GetUserProfile''
        (UserHandler_GetUserProfile (d_libs D)))\<rparr>"

text \<open>The handlers of the services, as a proxy in the process of the service would call them.\<close>

definition NoteHandler_service :: "libs \<Rightarrow> NoteService" where
  "NoteHandler_service L =
     \<lparr>ns_CreateNote = (\<lambda>r. NoteHandler_CreateNote L (cm_Title r) (cm_Content r)),
      ns_GetNote = (\<lambda>r. NoteHandler_GetNote L (gm_NoteId r)),
      ns_ListNotes = (\<lambda>r. NoteHandler_ListNotes L (im_Limit r) (im_Offset r)),
      ns_UpdateNote = (\<lambda>r. NoteHandler_UpdateNote L (um_NoteId r) (um_Title r) (um_Content r)),
      ns_DeleteNote = (\<lambda>r. NoteHandler_DeleteNote L (dm_NoteId r))\<rparr>"

definition UserHandler_service :: "libs \<Rightarrow> UserService" where
  "UserHandler_service L = \<lparr>us_GetUserProfile = UserHandler_GetUserProfile L\<rparr>"

definition RegisterNoteServiceHandler :: "runtime_libs \<Rightarrow> deployment \<Rightarrow> proxy_route list" where
  "RegisterNoteServiceHandler R conn = RegisterNoteServiceHandlerClient R (NewNoteServiceClient conn)"

definition RegisterAuthServiceHandler :: "runtime_libs \<Rightarrow> deployment \<Rightarrow> proxy_route list" where
  "RegisterAuthServiceHandler R conn = RegisterAuthServiceHandlerClient R (NewAuthServiceClient conn)"

definition RegisterUserServiceHandler :: "runtime_libs \<Rightarrow> deployment \<Rightarrow> proxy_route list" where
  "RegisterUserServiceHandler R conn = RegisterUserServiceHandlerClient R (NewUserServiceClient conn)"

text \<open>
  Dialling first: the connection stays open until the context is done. The registrations never
  fail, so the deferred close on an error is never reached. \<open>connection_done\<close> is the goroutine's end.
\<close>

definition RegisterNoteServiceHandlerFromEndpoint ::
  "runtime_libs \<Rightarrow> deployment \<Rightarrow> process \<Rightarrow> (go_error + proxy_route list) \<times> process" where
  "RegisterNoteServiceHandlerFromEndpoint R conn p =
     (case attempt p of
        (Some err, p1) \<Rightarrow> (Inl err, p1)
      | (None, p1) \<Rightarrow> (Inr (RegisterNoteServiceHandler R conn), emit (Opened (Client NotesSvc)) p1))"

definition RegisterAuthServiceHandlerFromEndpoint ::
  "runtime_libs \<Rightarrow> deployment \<Rightarrow> process \<Rightarrow> (go_error + proxy_route list) \<times> process" where
  "RegisterAuthServiceHandlerFromEndpoint R conn p =
     (case attempt p of
        (Some err, p1) \<Rightarrow> (Inl err, p1)
      | (None, p1) \<Rightarrow> (Inr (RegisterAuthServiceHandler R conn), emit (Opened (Client AuthSvc)) p1))"

definition RegisterUserServiceHandlerFromEndpoint ::
  "runtime_libs \<Rightarrow> deployment \<Rightarrow> process \<Rightarrow> (go_error + proxy_route list) \<times> process" where
  "RegisterUserServiceHandlerFromEndpoint R conn p =
     (case attempt p of
        (Some err, p1) \<Rightarrow> (Inl err, p1)
      | (None, p1) \<Rightarrow> (Inr (RegisterUserServiceHandler R conn), emit (Opened (Client AuthSvc)) p1))"

definition connection_done :: "svc \<Rightarrow> process \<Rightarrow> process" where
  "connection_done s p = emit (Closed (Client s)) (snd (attempt p))"

end
