(* ===== verification/RestSafety.thy ===== *)
theory RestSafety
  imports RestProxy
begin

text \<open>
  What the REST proxies promise: over a client they do what the gateway does for the caller of the
  token they pass on, over the server itself they do nothing for the protected methods, because no
  interceptor authenticates the caller.
\<close>

lemmas notes_routes = RegisterNoteServiceHandlerServer_def RegisterNoteServiceHandlerClient_def

lemmas route_defs = server_route_def client_route_def answered_by_def

subsection \<open>Over the server\<close>

text \<open>\<open>AnnotateIncomingContext\<close> adds metadata and the name of the method to a context, and no user.\<close>

definition annotates_metadata_only :: "runtime_libs \<Rightarrow> bool" where
  "annotates_metadata_only R \<longleftrightarrow>
     (\<forall>ctx req m t ctx'. rt_AnnotateIncomingContext R ctx req m t = Inr ctx' \<longrightarrow> cx_user_id ctx' = cx_user_id ctx)"

lemma anonymous_handlers:
  assumes "cx_user_id ctx = None"
  shows "ns_CreateNote (NoteHandler_service L) r1 ctx w = (Inl (status_of CodeUnauthenticated ErrUnauthorized), w)"
    and "ns_GetNote (NoteHandler_service L) r2 ctx w = (Inl (status_of CodeUnauthenticated ErrUnauthorized), w)"
    and "ns_ListNotes (NoteHandler_service L) r3 ctx w = (Inl (status_of CodeUnauthenticated ErrUnauthorized), w)"
    and "ns_UpdateNote (NoteHandler_service L) r4 ctx w = (Inl (status_of CodeUnauthenticated ErrUnauthorized), w)"
    and "ns_DeleteNote (NoteHandler_service L) r5 ctx w = (Inl (status_of CodeUnauthenticated ErrUnauthorized), w)"
    and "us_GetUserProfile (UserHandler_service L) ctx w = (Inl (status_of CodeUnauthenticated ErrUnauthorized), w)"
  using assms
  by (simp_all add: NoteHandler_service_def UserHandler_service_def NoteHandler_CreateNote_def NoteHandler_GetNote_def
        NoteHandler_ListNotes_def NoteHandler_UpdateNote_def NoteHandler_DeleteNote_def UserHandler_GetUserProfile_def
        userIDFromContext_def UserIDFrom_def Let_def)

lemmas local_requests = local_request_NoteService_CreateNote_0_def local_request_NoteService_GetNote_0_def
  local_request_NoteService_ListNotes_0_def local_request_NoteService_UpdateNote_0_def
  local_request_NoteService_UpdateNote_1_def local_request_NoteService_DeleteNote_0_def
  local_request_UserService_GetUserProfile_0_def

lemma server_route_refuses:
  assumes "annotates_metadata_only R" and "cx_user_id (rt_Context R req) = None"
    and "\<And>ctx. cx_user_id ctx = None \<Longrightarrow> \<exists>e. call ctx req params w = (Inl e, w)"
  shows "\<exists>e. px_handler (server_route R method pat m t call msg) req params w = (HTTPError e, w)"
proof (cases "rt_AnnotateIncomingContext R (rt_Context R req) req m t")
  case (Inr ctx)
  then have "cx_user_id ctx = None" using assms(1,2) unfolding annotates_metadata_only_def by metis
  from assms(3) [OF this] show ?thesis using Inr by (auto simp: route_defs)
qed (simp add: route_defs)

text \<open>
  C12: A proxy over the server itself is no way around the authentication. Registered in the process
  of the notes or the auth service, where no interceptor runs, it answers every request for a note
  or a profile with an error, and neither the tables nor anything else is touched.
\<close>

theorem local_proxy_refuses:
  assumes "annotates_metadata_only R" and "cx_user_id (rt_Context R req) = None"
    and "route \<in> set (RegisterNoteServiceHandlerServer R (NoteHandler_service L))
       \<union> set (RegisterUserServiceHandlerServer R (UserHandler_service L))"
  shows "\<exists>e. px_handler route req params w = (HTTPError e, w)"
  using assms(3)
  by (auto simp: RegisterNoteServiceHandlerServer_def RegisterUserServiceHandlerServer_def
        intro!: server_route_refuses [OF assms(1,2)])
     (auto simp: local_requests anonymous_handlers split: sum.splits)

text \<open>A proxy that passes the token \<open>k.a\<close> on, and whose requests name another note in the body.\<close>

definition sample_runtime :: runtime_libs where
  "sample_runtime =
     \<lparr>rt_Decode_Register = (\<lambda>_. (\<lparr>rm_Email = '''', rm_Username = '''', rm_Password = ''''\<rparr>, None)),
      rt_Decode_Login = (\<lambda>_. (\<lparr>lm_Email = '''', lm_Password = ''''\<rparr>, None)),
      rt_Decode_Refresh = (\<lambda>_. (\<lparr>fm_RefreshToken = ''''\<rparr>, None)),
      rt_Decode_Logout = (\<lambda>_. (\<lparr>om_RefreshToken = ''''\<rparr>, None)),
      rt_Decode_CreateNote = (\<lambda>_. (\<lparr>cm_Title = ''t'', cm_Content = ''''\<rparr>, None)),
      rt_Decode_UpdateNote = (\<lambda>_. (\<lparr>um_NoteId = ''other'', um_Title = Some ''t'', um_Content = None\<rparr>, None)),
      rt_ParseForm = (\<lambda>_. None),
      rt_Populate_ListNotes = (\<lambda>_. (\<lparr>im_Limit = 0, im_Offset = 0\<rparr>, None)),
      rt_String = Inr,
      rt_Context = (\<lambda>_. background),
      rt_AnnotateContext = (\<lambda>ctx req method template. Inr (outgoingContextWithToken ctx ''k.a'')),
      rt_AnnotateIncomingContext =
        (\<lambda>ctx req method template. Inr (ctx\<lparr>cx_incoming := Some (md_pair ''authorization'' ''Bearer k.a'')\<rparr>))\<rparr>"

lemma local_proxy_refuses_witness:
  "\<exists>route e. route \<in> set (RegisterNoteServiceHandlerServer sample_runtime (NoteHandler_service sample_libs))
     \<and> px_handler route (sample_request ''POST'' ''/api/v1/notes'') Map.empty sample_world = (HTTPError e, sample_world)"
proof -
  let ?routes = "RegisterNoteServiceHandlerServer sample_runtime (NoteHandler_service sample_libs)"
  have "annotates_metadata_only sample_runtime" "cx_user_id (rt_Context sample_runtime req) = None" for req
    by (auto simp: annotates_metadata_only_def sample_runtime_def background_def)
  moreover have "hd ?routes \<in> set ?routes" by (simp add: RegisterNoteServiceHandlerServer_def)
  ultimately show ?thesis using local_proxy_refuses [of sample_runtime _ "hd ?routes" sample_libs] by blast
qed

subsection \<open>Over a client\<close>

lemma notes_call_success:
  assumes "rpc NotesSvc (d_headers D) (notes_chain D m h) ctx w = (Inr v, w')" and "m \<in> set notes_protected"
  obtains token u c w1 where "extractBearerToken (server_ctx (d_headers D) ctx) = Inr token"
    "validated (d_libs D) (d_verifier D) token u" "w_notes w1 = w_notes w" "w_outside w1 = w_outside w"
    "userIDFromContext c = Inr u" "h c w1 = (Inr v, w')"
proof -
  obtain w0 where w0: "quiet (log_event (Called NotesSvc) w) w0" "notes_chain D m h (server_ctx (d_headers D) ctx) w0 = (Inr v, w')"
    using rpc_success [OF assms(1)] by blast
  show ?thesis
    by (rule chain_token [OF w0(2) [unfolded notes_chain_def] assms(2)])
       (rule that, use w0(1) in \<open>auto simp: quiet_def log_event_def userIDFromContext_def Let_def\<close>)
qed

lemma path_parameter_Inr: "path_parameter R name params = Inr i \<longleftrightarrow> (\<exists>val. params name = Some val \<and> rt_String R val = Inr i)"
  by (auto simp: path_parameter_def split: option.splits sum.splits)

lemmas update_routes = RegisterNoteServiceHandler_def RegisterNoteServiceHandlerClient_def client_route_def answered_by_def
  request_NoteService_UpdateNote_0_def request_NoteService_UpdateNote_1_def NewNoteServiceClient_def

text \<open>Both routes that change a note make the same call.\<close>

lemma proxy_update_call:
  assumes "route \<in> set (RegisterNoteServiceHandler R D)" and "px_method route = ''PATCH'' \<or> px_method route = ''PUT''"
    and "px_handler route req params w = (Forwarded fwd, w')"
  obtains msg ctx i b where "decoded (rt_Decode_UpdateNote R req) = Inr msg" "path_parameter R ''note_id'' params = Inr i"
    "rt_AnnotateContext R (rt_Context R req) req ''/notes.v1.NoteService/UpdateNote'' ''/api/v1/notes/{note_id}'' = Inr ctx"
    "rpc NotesSvc (d_headers D) (notes_chain D ''/notes.v1.NoteService/UpdateNote''
       (NoteHandler_UpdateNote (d_libs D) i (um_Title msg) (um_Content msg))) ctx w = (Inr b, w')" "fwd = NoteResponseMsg b"
  using assms by (auto simp: update_routes split: sum.splits prod.splits)

text \<open>
  C11: An edit through the REST proxy goes to the note of the path. When a \<open>PATCH\<close> or \<open>PUT\<close> route
  over a connection to the notes service forwards a reply, the caller sent a token the service
  accepts, and the only change in the table is the entry of the token's user that the path names,
  whatever identifier the body carries: the fields of the body replace the old ones, absent ones
  stay, and the reply is the note now stored.
\<close>

theorem proxy_update_end_to_end:
  assumes "notes_db_ok (d_libs D) w" and "route \<in> set (RegisterNoteServiceHandler R D)"
    and "px_method route = ''PATCH'' \<or> px_method route = ''PUT''"
    and "px_handler route req params w = (Forwarded fwd, w')"
  shows "\<exists>msg ctx token u val i n old. decoded (rt_Decode_UpdateNote R req) = Inr msg
     \<and> rt_AnnotateContext R (rt_Context R req) req ''/notes.v1.NoteService/UpdateNote'' ''/api/v1/notes/{note_id}'' = Inr ctx
     \<and> extractBearerToken (server_ctx (d_headers D) ctx) = Inr token
     \<and> validated (d_libs D) (d_verifier D) token u \<and> uuid_in (d_libs D) u = Some (note_UserID n)
     \<and> params ''note_id'' = Some val \<and> rt_String R val = Inr i \<and> uuid_in (d_libs D) i = Some (note_ID n)
     \<and> notebook (note_UserID n) w (note_ID n) = Some old \<and> fwd = NoteResponseMsg (noteToProto (Some n))
     \<and> note_Title n = (case um_Title msg of None \<Rightarrow> fst old | Some x \<Rightarrow> x)
     \<and> note_Content n = (case um_Content msg of None \<Rightarrow> snd old | Some x \<Rightarrow> x)
     \<and> notebooks w' = (notebooks w)(note_UserID n :=
          (notebook (note_UserID n) w)(note_ID n \<mapsto> (note_Title n, note_Content n)))"
proof -
  obtain msg ctx i b where call: "decoded (rt_Decode_UpdateNote R req) = Inr msg" "path_parameter R ''note_id'' params = Inr i"
    "rt_AnnotateContext R (rt_Context R req) req ''/notes.v1.NoteService/UpdateNote'' ''/api/v1/notes/{note_id}'' = Inr ctx"
    "rpc NotesSvc (d_headers D) (notes_chain D ''/notes.v1.NoteService/UpdateNote''
       (NoteHandler_UpdateNote (d_libs D) i (um_Title msg) (um_Content msg))) ctx w = (Inr b, w')" "fwd = NoteResponseMsg b"
    by (rule proxy_update_call [OF assms(2-4)])
  obtain token u c w1 where t: "extractBearerToken (server_ctx (d_headers D) ctx) = Inr token"
    "validated (d_libs D) (d_verifier D) token u" "w_notes w1 = w_notes w" "w_outside w1 = w_outside w"
    "userIDFromContext c = Inr u" "NoteHandler_UpdateNote (d_libs D) i (um_Title msg) (um_Content msg) c w1 = (Inr b, w')"
    by (rule notes_call_success [OF call(4) in_notes_protected(4)])
  from t(5,6) obtain n where n: "UpdateNote (d_libs D) u i (um_Title msg) (um_Content msg) w1 = (Inr n, w')" "b = noteToProto (Some n)"
    by (auto simp: NoteHandler_UpdateNote_def split: prod.splits sum.splits)
  have "notes_db_ok (d_libs D) w1" using assms(1) t(3,4) by (simp add: notes_db_ok_def uuids_canonical_def)
  from UpdateNote_notebook [OF this n(1)] obtain v i' old where "uuid_in (d_libs D) u = Some v" "uuid_in (d_libs D) i = Some i'"
    "notebook v w i' = Some old" "note_ID n = i'" "note_UserID n = v" "note_Title n = (case um_Title msg of None \<Rightarrow> fst old | Some x \<Rightarrow> x)"
    "note_Content n = (case um_Content msg of None \<Rightarrow> snd old | Some x \<Rightarrow> x)"
    "notebooks w' = (notebooks w)(v := (notebook v w)(i' \<mapsto> (note_Title n, note_Content n)))"
    unfolding notebook_cong(1) [OF t(3)] notebook_cong(2) [OF t(3)] by blast
  moreover obtain val where "params ''note_id'' = Some val" "rt_String R val = Inr i"
    using call(2) by (auto simp: path_parameter_Inr)
  ultimately show ?thesis
    using call(1,3,5) t(1,2) n(2)
    by (intro exI [of _ msg] exI [of _ ctx] exI [of _ token] exI [of _ u] exI [of _ val] exI [of _ i] exI [of _ n] exI [of _ old]) simp
qed

lemma proxy_update_end_to_end_witness:
  "\<exists>route fwd w w' v. route \<in> set (RegisterNoteServiceHandler sample_runtime (gw_deployment witness_gateway))
     \<and> px_handler route (fx_request witness_fx) [''note_id'' \<mapsto> ''n''] w = (Forwarded fwd, w')
     \<and> notebook v w ''n'' = Some (''a'', '''') \<and> notebook v w' ''n'' = Some (''t'', '''')"
proof -
  let ?D = "gw_deployment witness_gateway" and ?m = "''/notes.v1.NoteService/UpdateNote''"
    and ?w = "still_notes\<lparr>w_tick := Suc (Suc (w_tick still_notes))\<rparr>"
  let ?h = "NoteHandler_UpdateNote (d_libs ?D) ''n'' (Some ''t'') None"
  let ?route = "RegisterNoteServiceHandler sample_runtime ?D ! 3"
  have route: "?route \<in> set (RegisterNoteServiceHandler sample_runtime ?D)" "px_method ?route = ''PATCH''"
    by (simp_all add: RegisterNoteServiceHandler_def RegisterNoteServiceHandlerClient_def client_route_def numeral_3_eq_3)
  obtain u c w1 where r: "rpc NotesSvc (d_headers ?D) (notes_chain ?D ?m ?h) (outgoingContextWithToken background ''k.a'') ?w = ?h c w1"
    "userIDFromContext c = Inr u" "uuid_in (d_libs ?D) u = Some ''u''" "calm w1" "w_outside w1 = w_outside still_notes" "w_notes w1 = w_notes still_notes"
    by (rule healthy_rpc [where h = ?h and hs = "d_headers ?D" and ctx = background, OF still_notes_healthy in_notes_protected(4)])
       (use that in \<open>auto simp: witness_token\<close>)
  have ok: "notes_db_ok (d_libs ?D) w1" "notes_db_ok (d_libs ?D) ?w"
    using still_notes_ok r(5,6) by (simp_all add: notes_db_ok_def uuids_canonical_def)
  have "valid_title ''t''" by (simp add: valid_title_def trim_samples maxNoteTitleLen_def)
  then obtain m w2 where "UpdateNote (d_libs ?D) u ''n'' (Some ''t'') None w1 = (Inr m, w2)"
    using UpdateNote_calm [OF r(4) ok(1) r(3), of "''n''" "''n''" "Some ''t''" None] still_notes_has(1,3) notebook_cong(1) [OF r(6)]
    by fastforce
  then have h: "?h c w1 = (Inr (noteToProto (Some m)), w2)" using r(2) by (simp add: NoteHandler_UpdateNote_def)
  have run: "px_handler ?route (fx_request witness_fx) [''note_id'' \<mapsto> ''n''] ?w = (Forwarded (NoteResponseMsg (noteToProto (Some m))), w2)"
    using r(1) h by (simp add: update_routes numeral_3_eq_3 sample_runtime_def decoded_def path_parameter_def)
  obtain n :: Note and old where n: "note_ID n = ''n''" "notebook (note_UserID n) ?w ''n'' = Some old" "note_Title n = ''t''"
    "note_Content n = snd old" "notebooks w2 = (notebooks ?w)(note_UserID n :=
       (notebook (note_UserID n) ?w)(''n'' \<mapsto> (''t'', note_Content n)))"
    using proxy_update_end_to_end [OF ok(2) route(1) disjI1 [OF route(2)] run]
    by (auto simp: sample_runtime_def decoded_def still_notes_has)
  have "old = (''a'', '''')" using n(2) by (auto simp: notebook_def still_notes_def witness_note_def split: if_splits)
  then have "notebook (note_UserID n) w2 ''n'' = Some (''t'', '''')"
    using fun_cong [OF fun_cong [OF n(5), of "note_UserID n"], of "''n''"] n(4) by (simp add: notebooks_def)
  then show ?thesis using route(1) run n(2) \<open>old = _\<close> by blast
qed

end
