(* ===== verification/Bootstrap.thy ===== *)
theory Bootstrap
  imports Process
begin

text \<open>
  Starting and stopping the three processes: \<open>internal/bootstrap/bootstrap.go\<close> and the rest of
  \<open>internal/bootstrap/helpers.go\<close>. A function returns \<open>Ran\<close> of its error, or \<open>Crashed\<close> if it read
  a section of the configuration that is missing.
\<close>

definition tokenCleanupInterval :: int where "tokenCleanupInterval = hour"
definition defaultAccessTokenTTL :: int where "defaultAccessTokenTTL = 15 * minute"
definition defaultRefreshTokenTTL :: int where "defaultRefreshTokenTTL = 24 * hour"
definition httpBodyLimitBytes :: int where "httpBodyLimitBytes = 1048576"

subsection \<open>Configuration and logger\<close>

definition empty_config :: Config where
  "empty_config = \<lparr>cfg_Postgres = None, cfg_Logging = None, cfg_Shutdown = None, cfg_GRPC = None,
     cfg_GRPCClient = None, cfg_JWT = None, cfg_HTTP = None, cfg_Redis = None\<rparr>"

definition Load :: "boot_libs \<Rightarrow> string \<Rightarrow> go_error + Config" where
  "Load B configPath =
     (case (if configPath \<noteq> '''' \<and> bl_stat B configPath = Some False then bl_ReadConfig B configPath
            else Inr empty_config) of
        Inl readErr \<Rightarrow> Inl (errorf_w (''load config '' @ bl_quote B configPath) readErr)
      | Inr cfg \<Rightarrow>
          (case bl_ReadEnv B cfg of
             Inl err \<Rightarrow> Inl (errorf_w ''load config from env'' err)
           | Inr cfg1 \<Rightarrow> Inr cfg1))"

definition initLogger :: "boot_libs \<Rightarrow> Config \<Rightarrow> go_error + Logger" where
  "initLogger B cfg =
     (case cfg_Logging cfg of
        None \<Rightarrow> Inl (invalid_config ''logging section is missing'')
      | Some logging \<Rightarrow>
          (let logEnv = (if equal_fold (lc_Mode logging) ''production'' then Production else Development) in
           case NewLogger (bl_zap B) logEnv (lc_Level logging) of
             Inl err \<Rightarrow> Inl (errorf_w ''init logger'' err)
           | Inr lg \<Rightarrow> Inr lg))"

definition initService :: "boot_libs \<Rightarrow> string \<Rightarrow> process \<Rightarrow> (go_error + Config) \<times> process" where
  "initService B configPath p =
     (case Load B configPath of
        Inl err \<Rightarrow> (Inl err, p)
      | Inr cfg \<Rightarrow>
          (case initLogger B cfg of
             Inl err \<Rightarrow> (Inl err, p)
           | Inr lg \<Rightarrow> (Inr cfg, emit (LoggerSet lg) p)))"

definition serviceStartupLog :: "Config \<Rightarrow> unit ran" where
  "serviceStartupLog cfg = (case cfg_Logging cfg of None \<Rightarrow> Crashed | Some logging \<Rightarrow> Ran ())"

definition setupPostgres :: "boot_libs \<Rightarrow> Config \<Rightarrow> string \<Rightarrow> process \<Rightarrow> (go_error + pool_config) ran \<times> process" where
  "setupPostgres B cfg serviceName p =
     (case ensurePostgresAndGRPC cfg of
        Some cfgErr \<Rightarrow> (Ran (Inl cfgErr), p)
      | None \<Rightarrow>
          (case cfg_Postgres cfg of
             None \<Rightarrow> (Crashed, p)
           | Some pg \<Rightarrow>
               (case Migrate B (postgresDSN pg) (migrationSourceURL serviceName) p of
                  (Some migrateErr, p1) \<Rightarrow> (Ran (Inl migrateErr), p1)
                | (None, p1) \<Rightarrow>
                    (case NewDatabase B (postgresDSN pg) (pg_MinConn pg) (pg_MaxConn pg) p1 of
                       (r, p2) \<Rightarrow> (Ran r, p2)))))"

subsection \<open>The two services\<close>

definition auth_hooks :: "hook list" where
  "auth_hooks = [\<lambda>p. (None, Server_Stop p), \<lambda>p. (None, emit (Closed CleanupTask) p), \<lambda>p. (None, Database_Close p)]"

definition auth_issuer :: "boot_libs \<Rightarrow> Config \<Rightarrow> JWTConfig \<Rightarrow> jwt_service" where
  "auth_issuer B cfg jwt =
     (let accessTTL = parseDurationOrDefault (bl_ParseDuration B) (jc_AccessTokenTTL jwt) defaultAccessTokenTTL;
          refreshTTL = parseDurationOrDefault (bl_ParseDuration B) (jc_RefreshTokenTTL jwt) defaultRefreshTokenTTL
      in NewIssuer (ResolvedAccessSecret (cfg_JWT cfg)) (ResolvedRefreshSecret (cfg_JWT cfg)) accessTTL refreshTTL)"

definition StartAuth :: "boot_libs \<Rightarrow> string \<Rightarrow> process \<Rightarrow> go_error option ran \<times> process" where
  "StartAuth B configPath p =
     (case initService B configPath p of
        (Inl err, p1) \<Rightarrow> (Ran (Some err), p1)
      | (Inr cfg, p1) \<Rightarrow>
          (case setupPostgres B cfg ''auth'' p1 of
             (Crashed, p2) \<Rightarrow> (Crashed, p2)
           | (Ran (Inl err), p2) \<Rightarrow> (Ran (Some err), p2)
           | (Ran (Inr database), p2) \<Rightarrow>
               (case ensureAuthJWT cfg of
                  Some jwtErr \<Rightarrow> (Ran (Some jwtErr), Database_Close p2)
                | None \<Rightarrow>
                    (case (serviceStartupLog cfg, cfg_JWT cfg) of
                       (Ran _, Some jwt) \<Rightarrow>
                         (let passwordSvc = NewBcrypt (jc_BCryptCost jwt); tokenSvc = auth_issuer B cfg jwt in
                          case Server_Start cfg p2 of
                            (Crashed, p3) \<Rightarrow> (Crashed, p3)
                          | (Ran (Some startErr), p3) \<Rightarrow> (Ran (Some startErr), Database_Close p3)
                          | (Ran None, p3) \<Rightarrow>
                              (let p4 = emit (Opened CleanupTask) (emit (ServesAuth tokenSvc passwordSvc) p3) in
                               case cfg_Shutdown cfg of
                                 None \<Rightarrow> (Crashed, p4)
                               | Some _ \<Rightarrow> (case Wait auth_hooks p4 of (err, p5) \<Rightarrow> (Ran err, p5))))
                     | _ \<Rightarrow> (Crashed, p2)))))"

definition notes_hooks :: "hook list" where
  "notes_hooks = [\<lambda>p. (None, Server_Stop p), \<lambda>p. (None, Database_Close p)]"

definition StartNotes :: "boot_libs \<Rightarrow> string \<Rightarrow> process \<Rightarrow> go_error option ran \<times> process" where
  "StartNotes B configPath p =
     (case initService B configPath p of
        (Inl err, p1) \<Rightarrow> (Ran (Some err), p1)
      | (Inr cfg, p1) \<Rightarrow>
          (case setupPostgres B cfg ''notes'' p1 of
             (Crashed, p2) \<Rightarrow> (Crashed, p2)
           | (Ran (Inl err), p2) \<Rightarrow> (Ran (Some err), p2)
           | (Ran (Inr database), p2) \<Rightarrow>
               (case ensureNotesJWT cfg of
                  Some jwtErr \<Rightarrow> (Ran (Some jwtErr), Database_Close p2)
                | None \<Rightarrow>
                    (case serviceStartupLog cfg of
                       Crashed \<Rightarrow> (Crashed, p2)
                     | Ran _ \<Rightarrow>
                         (let tokenSvc = NewAccessVerifier (ResolvedAccessSecret (cfg_JWT cfg)) in
                          case Server_Start cfg p2 of
                            (Crashed, p3) \<Rightarrow> (Crashed, p3)
                          | (Ran (Some startErr), p3) \<Rightarrow> (Ran (Some startErr), Database_Close p3)
                          | (Ran None, p3) \<Rightarrow>
                              (let p4 = emit (ServesNotes tokenSvc) p3 in
                               case cfg_Shutdown cfg of
                                 None \<Rightarrow> (Crashed, p4)
                               | Some _ \<Rightarrow> (case Wait notes_hooks p4 of (err, p5) \<Rightarrow> (Ran err, p5))))))))"

subsection \<open>The gateway\<close>

text \<open>\<open>fiberApp.ShutdownWithContext\<close>: with an error, requests may still be running.\<close>

definition Http_Shutdown :: hook where
  "Http_Shutdown p =
     (case attempt p of
        (Some err, p1) \<Rightarrow> (Some err, p1)
      | (None, p1) \<Rightarrow> (None, emit (Closed HttpServer) p1))"

definition gateway_hooks :: "hook list" where
  "gateway_hooks = [Http_Shutdown, AuthClient_Close True, NotesClient_Close True, Redis_Close]"

definition fiber_config :: "HTTPConfig \<Rightarrow> http_settings" where
  "fiber_config http =
     \<lparr>hs_ReadTimeout = hc_ReadTimeout http, hs_WriteTimeout = hc_WriteTimeout http,
      hs_BodyLimit = httpBodyLimitBytes, hs_TrustProxy = hc_TrustProxy http,
      hs_TrustPrivate = hc_TrustPrivateProxies http\<rparr>"

text \<open>From the two connections on: the cache, the listener and \<open>Wait\<close>.\<close>

definition serve_gateway :: "Config \<Rightarrow> process \<Rightarrow> go_error option ran \<times> process" where
  "serve_gateway cfg p =
     (case NewRedisCache (Some cfg) p of
        (Inl err, p1) \<Rightarrow> (Ran (Some err), snd (AuthClient_Close True (snd (NotesClient_Close True p1))))
      | (Inr cache, p1) \<Rightarrow>
          (case cfg_HTTP cfg of
             None \<Rightarrow> (Crashed, p1)
           | Some http \<Rightarrow>
               (let address = JoinHostPort (hc_Host http) (itoa (hc_Port http)) in
                case attempt p1 of
                  (Some err, p2) \<Rightarrow>
                    (Ran (Some (errorf_w (''bind http server on '' @ address) err)),
                     snd (AuthClient_Close True (snd (NotesClient_Close True (snd (Redis_Close p2))))))
                | (None, p2) \<Rightarrow>
                    (let p3 = emit (ServesGateway (fiber_config http)) (emit (Opened HttpServer) p2) in
                     case cfg_Shutdown cfg of
                       None \<Rightarrow> (Crashed, p3)
                     | Some _ \<Rightarrow> (case Wait gateway_hooks p3 of (err, p4) \<Rightarrow> (Ran err, p4))))))"

definition StartGateway :: "boot_libs \<Rightarrow> string \<Rightarrow> process \<Rightarrow> (go_error option ran \<times> process) option" where
  "StartGateway B configPath p =
     (case initService B configPath p of
        (Inl err, p1) \<Rightarrow> Some (Ran (Some err), p1)
      | (Inr cfg, p1) \<Rightarrow>
          (case requireGatewayConfig cfg of
             Some cfgErr \<Rightarrow> Some (Ran (Some cfgErr), p1)
           | None \<Rightarrow>
               (case serviceStartupLog cfg of
                  Crashed \<Rightarrow> Some (Crashed, p1)
                | Ran _ \<Rightarrow>
                    (case NewAuthClient B cfg p1 of
                       None \<Rightarrow> None
                     | Some (Some err, p2) \<Rightarrow> Some (Ran (Some err), p2)
                     | Some (None, p2) \<Rightarrow>
                         (case NewNotesClient B cfg p2 of
                            None \<Rightarrow> None
                          | Some (Some err, p3) \<Rightarrow> Some (Ran (Some err), snd (AuthClient_Close True p3))
                          | Some (None, p3) \<Rightarrow> Some (serve_gateway cfg p3))))))"

subsection \<open>What a process holds\<close>

fun held_after :: "pevent \<Rightarrow> resource set \<Rightarrow> resource set" where
  "held_after (Opened r) R = insert r R"
| "held_after (Closed r) R = R - {r}"
| "held_after _ R = R"

definition held :: "pevent list \<Rightarrow> resource set" where
  "held tr = fold held_after tr {}"

text \<open>What a task needs while it runs.\<close>

fun needs :: "resource \<Rightarrow> resource set" where
  "needs GrpcServer = {Pool}"
| "needs CleanupTask = {Pool}"
| "needs HttpServer = {Client AuthSvc, Client NotesSvc, Redis}"
| "needs _ = {}"

definition supported :: "pevent list \<Rightarrow> bool" where
  "supported tr \<longleftrightarrow> (\<forall>k. \<forall>r \<in> held (take k tr). needs r \<subseteq> held (take k tr))"

lemma held_Nil [simp]: "held [] = {}" and held_snoc [simp]: "held (tr @ [e]) = held_after e (held tr)"
  by (simp_all add: held_def)

lemma supported_Nil [simp]: "supported []"
  by (simp add: supported_def)

lemma supported_snoc [simp]:
  "supported (tr @ [e]) \<longleftrightarrow> supported tr \<and> (\<forall>r \<in> held_after e (held tr). needs r \<subseteq> held_after e (held tr))"
proof
  assume a: "supported (tr @ [e])"
  have "\<forall>r \<in> held (take k tr). needs r \<subseteq> held (take k tr)" for k
  proof (cases "k \<le> length tr")
    case True
    then show ?thesis using a unfolding supported_def by (metis append_Nil2 diff_is_0_eq take_append take_eq_Nil)
  next
    case False
    then show ?thesis using a unfolding supported_def
      by (metis append_eq_conv_conj linorder_le_cases take_all)
  qed
  moreover have "\<forall>r \<in> held (tr @ [e]). needs r \<subseteq> held (tr @ [e])"
    using a unfolding supported_def by (metis order_refl take_all)
  ultimately show "supported tr \<and> (\<forall>r \<in> held_after e (held tr). needs r \<subseteq> held_after e (held tr))"
    by (simp add: supported_def)
next
  assume a: "supported tr \<and> (\<forall>r \<in> held_after e (held tr). needs r \<subseteq> held_after e (held tr))"
  show "supported (tr @ [e])"
    unfolding supported_def
  proof
    fix k
    show "\<forall>r \<in> held (take k (tr @ [e])). needs r \<subseteq> held (take k (tr @ [e]))"
      using a by (cases "k \<le> length tr") (simp_all add: supported_def)
  qed
qed

end
