(* ===== verification/Lifecycle.thy ===== *)
theory Lifecycle
  imports Bootstrap
begin

text \<open>
  What the start and the stop of the processes guarantee: resources are released, in an order that
  leaves no running task without what it needs, and only checked configurations are served.
\<close>

subsection \<open>Holding\<close>

text \<open>What may be served: only what the checks of the configuration at \<open>path\<close> have accepted.\<close>

fun checked :: "boot_libs \<Rightarrow> string \<Rightarrow> pevent \<Rightarrow> bool" where
  "checked B path (ServesAuth j cost) \<longleftrightarrow>
     (\<exists>cfg jwt. Load B path = Inr cfg \<and> ensureAuthJWT cfg = None \<and> cfg_JWT cfg = Some jwt
        \<and> j = auth_issuer B cfg jwt \<and> cost = NewBcrypt (jc_BCryptCost jwt))"
| "checked B path (ServesNotes j) \<longleftrightarrow>
     (\<exists>cfg. Load B path = Inr cfg \<and> ensureNotesJWT cfg = None
        \<and> j = NewAccessVerifier (ResolvedAccessSecret (cfg_JWT cfg)))"
| "checked B path (Dialled s target opts) \<longleftrightarrow> (\<exists>cfg. Load B path = Inr cfg \<and> opts = clientDialOptions cfg)"
| "checked B path (ServesGateway hs) \<longleftrightarrow>
     (\<exists>cfg http. Load B path = Inr cfg \<and> requireGatewayConfig cfg = None \<and> cfg_HTTP cfg = Some http \<and> hs = fiber_config http)"
| "checked B path _ \<longleftrightarrow> True"

text \<open>
  The process holds exactly \<open>R\<close>, no task was ever without what it needs, and everything served
  was checked.
\<close>

definition holds :: "boot_libs \<Rightarrow> string \<Rightarrow> resource set \<Rightarrow> process \<Rightarrow> bool" where
  "holds B path R p \<longleftrightarrow> supported (pr_trace p) \<and> held (pr_trace p) = R \<and> list_all (checked B path) (pr_trace p)"

definition sound :: "resource set \<Rightarrow> bool" where
  "sound R \<longleftrightarrow> (\<forall>r \<in> R. needs r \<subseteq> R)"

lemma holds_emit: "holds B path R p \<Longrightarrow> held_after e R = R' \<Longrightarrow> sound R' \<Longrightarrow> checked B path e \<Longrightarrow> holds B path R' (emit e p)"
  by (simp add: holds_def emit_def sound_def)

lemma holds_tick [simp]: "holds B path R (p\<lparr>pr_tick := n\<rparr>) = holds B path R p"
  by (simp add: holds_def)

lemma emit_sel [simp]:
  "pr_trace (emit e p) = pr_trace p @ [e]" "pr_outside (emit e p) = pr_outside p" "pr_tick (emit e p) = pr_tick p"
  by (simp_all add: emit_def)

lemma attempt_simps [simp]: "attempt p = (mo_error (pr_outside p (pr_tick p)), p\<lparr>pr_tick := Suc (pr_tick p)\<rparr>)"
  by (simp add: attempt_def consult_def)

lemma consult_simps [simp]: "consult p = (pr_outside p (pr_tick p), p\<lparr>pr_tick := Suc (pr_tick p)\<rparr>)"
  by (simp add: consult_def)

lemma sound_sets [simp]:
  "sound {}" "sound {Pool}" "sound {Migrator}" "sound {GrpcServer, Pool}" "sound {CleanupTask, GrpcServer, Pool}"
  "sound {CleanupTask, Pool}" "sound {Client s}" "sound {Client s, Client s'}" "sound {Redis, Client s, Client s'}"
  "sound {Redis, Client s}" "sound {Redis}"
  "sound {HttpServer, Redis, Client NotesSvc, Client AuthSvc}"
  by (auto simp: sound_def)

lemma Migrate_holds: "holds B path {} p \<Longrightarrow> holds B path {} (snd (Migrate B d m p))"
  by (auto simp: Migrate_def intro!: holds_emit split: option.splits)

lemma NewDatabase_holds:
  assumes "holds B path {} p"
  shows "holds B path (case fst (NewDatabase B d m n p) of Inl e \<Rightarrow> {} | Inr c \<Rightarrow> {Pool}) (snd (NewDatabase B d m n p))"
  using assms by (auto simp: NewDatabase_def Let_def intro!: holds_emit split: option.splits sum.splits)

lemma setupPostgres_holds:
  assumes "holds B path {} p" and "setupPostgres B cfg name p = (r, p')"
  shows "(\<exists>e. r = Ran (Inl e) \<and> holds B path {} p')
    \<or> (\<exists>c. r = Ran (Inr c) \<and> holds B path {Pool} p' \<and> cfg_GRPC cfg \<noteq> None \<and> cfg_Shutdown cfg \<noteq> None)"
proof (cases "ensurePostgresAndGRPC cfg")
  case None
  then obtain pg where pg: "cfg_Postgres cfg = Some pg" "cfg_GRPC cfg \<noteq> None" "cfg_Shutdown cfg \<noteq> None"
    using ensurePostgresAndGRPC_None by blast
  obtain m p1 where m: "Migrate B (postgresDSN pg) (migrationSourceURL name) p = (m, p1)" by fastforce
  then have "holds B path {} p1" using Migrate_holds [OF assms(1)] by (metis snd_conv)
  from NewDatabase_holds [OF this, of "postgresDSN pg" "pg_MinConn pg" "pg_MaxConn pg"] show ?thesis
    using assms(2) None pg m \<open>holds B path {} p1\<close>
    by (cases m; cases "fst (NewDatabase B (postgresDSN pg) (pg_MinConn pg) (pg_MaxConn pg) p1)")
       (auto simp: setupPostgres_def split: prod.splits)
qed (use assms in \<open>auto simp: setupPostgres_def\<close>)

lemma initService_trace:
  assumes "initService B path p = (r, p1)"
  shows "(\<exists>e. r = Inl e \<and> p1 = p)
    \<or> (\<exists>cfg lg. r = Inr cfg \<and> Load B path = Inr cfg \<and> cfg_Logging cfg \<noteq> None \<and> p1 = emit (LoggerSet lg) p)"
proof (cases "Load B path")
  case (Inr cfg)
  have "cfg_Logging cfg \<noteq> None" if "initLogger B cfg = Inr lg" for lg
    using that by (cases "cfg_Logging cfg") (simp_all add: initLogger_def)
  with assms Inr show ?thesis
    unfolding initService_def by (cases "initLogger B cfg"; cases r; simp) blast+
next
  case (Inl e)
  with assms have "r = Inl e \<and> p1 = p" by (simp add: initService_def)
  then show ?thesis by blast
qed

lemma initService_holds:
  assumes "holds B path {} p" and "initService B path p = (r, p1)"
  shows "holds B path {} p1 \<and> (\<forall>cfg. r = Inr cfg \<longrightarrow> Load B path = Inr cfg \<and> cfg_Logging cfg \<noteq> None)"
  using initService_trace [OF assms(2)] assms(1) by (auto intro!: holds_emit)

subsection \<open>The contract of a shutdown step\<close>

text \<open>
  A step of the shutdown (a hook, or a close on an error path) announces what it likes, and then
  releases its resource, whatever it returns.
\<close>

locale closer =
  fixes close :: hook and r :: resource
  assumes closes: "\<exists>es. set es \<subseteq> {NotServing, ForcedStop} \<and> pr_trace (snd (close p)) = pr_trace p @ es @ [Closed r]"
begin

lemma announced: "set es \<subseteq> {NotServing, ForcedStop} \<Longrightarrow> holds B path R (p\<lparr>pr_trace := tr\<rparr>) \<Longrightarrow> sound R
    \<Longrightarrow> holds B path R (p\<lparr>pr_trace := tr @ es\<rparr>)"
proof (induction es rule: rev_induct)
  case (snoc e es)
  then have "holds B path R (p\<lparr>pr_trace := tr @ es\<rparr>)" by simp
  then have "holds B path R (emit e (p\<lparr>pr_trace := tr @ es\<rparr>))"
    using snoc.prems by (intro holds_emit) auto
  then show ?case by (simp add: holds_def)
qed simp

lemma closed_holds:
  assumes "holds B path R p" and "sound R" and "sound (R - {r})"
  shows "holds B path (R - {r}) (snd (close p))"
proof -
  obtain es where es: "set es \<subseteq> {NotServing, ForcedStop}" "pr_trace (snd (close p)) = pr_trace p @ es @ [Closed r]"
    using closes by blast
  have "holds B path R (p\<lparr>pr_trace := pr_trace p @ es\<rparr>)" using announced [OF es(1) _ assms(2)] assms(1) by simp
  then have "holds B path (R - {r}) (emit (Closed r) (p\<lparr>pr_trace := pr_trace p @ es\<rparr>))"
    using assms(3) by (intro holds_emit) auto
  then show ?thesis by (simp add: holds_def es(2))
qed

lemma closed_held: "held (pr_trace (snd (close p))) = held (pr_trace p) - {r}"
proof -
  obtain es where es: "set es \<subseteq> {NotServing, ForcedStop}" "pr_trace (snd (close p)) = pr_trace p @ es @ [Closed r]"
    using closes by blast
  have "fold held_after es H = H" for H using es(1) by (induction es arbitrary: H) auto
  then show ?thesis by (simp add: es(2) held_def)
qed

lemma closed_checked:
  "list_all (checked B path) (pr_trace (snd (close p))) = list_all (checked B path) (pr_trace p)"
proof -
  obtain es where es: "set es \<subseteq> {NotServing, ForcedStop}" "pr_trace (snd (close p)) = pr_trace p @ es @ [Closed r]"
    using closes by blast
  have "list_all (checked B path) es" using es(1) by (induction es) auto
  then show ?thesis by (simp add: es(2))
qed

end

text \<open>The steps of the three processes keep the contract.\<close>

interpretation server: closer "\<lambda>p. (None, Server_Stop p)" GrpcServer
proof
  show "\<exists>es. set es \<subseteq> {NotServing, ForcedStop} \<and> pr_trace (snd (None, Server_Stop p)) = pr_trace p @ es @ [Closed GrpcServer]" for p
    by (cases "mo_alive (pr_outside p (pr_tick p))")
       (auto simp: Server_Stop_def intro: exI [of _ "[NotServing]"] exI [of _ "[NotServing, ForcedStop]"])
qed

interpretation cleanup: closer "\<lambda>p. (None, emit (Closed CleanupTask) p)" CleanupTask
  by unfold_locales auto

interpretation pool: closer "\<lambda>p. (None, Database_Close p)" Pool
  by unfold_locales (auto simp: Database_Close_def)

interpretation auth_conn: closer "AuthClient_Close True" "Client AuthSvc"
  by unfold_locales (auto simp: AuthClient_Close_def)

interpretation notes_conn: closer "NotesClient_Close True" "Client NotesSvc"
  by unfold_locales (auto simp: NotesClient_Close_def)

interpretation redis: closer Redis_Close Redis
  by unfold_locales (auto simp: Redis_Close_def)

lemma Database_Close_holds: "holds B path {Pool} p \<Longrightarrow> holds B path {} (Database_Close p)"
  using pool.closed_holds [of B path "{Pool}" p] by simp

lemma Wait_state: "snd (Wait hooks p) = snd (run_hooks hooks None (p\<lparr>pr_tick := Suc (pr_tick p)\<rparr>))"
  by (simp add: Wait_def Let_def split: prod.splits)

lemma Server_Start_holds:
  assumes "holds B path {Pool} p" and "Server_Start cfg p = (r, p')" and "cfg_GRPC cfg \<noteq> None"
  shows "(\<exists>e. r = Ran (Some e) \<and> holds B path {Pool} p') \<or> (r = Ran None \<and> holds B path {GrpcServer, Pool} p')"
  using assms by (auto simp: Server_Start_def Let_def intro!: holds_emit split: option.splits)

lemma auth_hooks_holds:
  assumes "holds B path {CleanupTask, GrpcServer, Pool} p"
  shows "holds B path {} (snd (Wait auth_hooks p))"
proof -
  have "holds B path {CleanupTask, GrpcServer, Pool} (p\<lparr>pr_tick := Suc (pr_tick p)\<rparr>)" using assms by simp
  from server.closed_holds [OF this] have "holds B path {CleanupTask, Pool} (Server_Stop (p\<lparr>pr_tick := Suc (pr_tick p)\<rparr>))"
    by (simp add: insert_Diff_if)
  from cleanup.closed_holds [OF this] show ?thesis
    by (simp add: Wait_state auth_hooks_def Database_Close_holds insert_Diff_if)
qed

lemma notes_hooks_holds: "holds B path {GrpcServer, Pool} p \<Longrightarrow> holds B path {} (snd (Wait notes_hooks p))"
  using server.closed_holds [of B path "{GrpcServer, Pool}" "p\<lparr>pr_tick := Suc (pr_tick p)\<rparr>"]
  by (simp add: Wait_state notes_hooks_def Database_Close_holds insert_Diff_if)

lemma StartAuth_holds:
  assumes "holds B path {} p"
  shows "fst (StartAuth B path p) \<noteq> Crashed \<and> holds B path {} (snd (StartAuth B path p))"
proof -
  obtain r p1 where i: "initService B path p = (r, p1)" by fastforce
  note i' = initService_holds [OF assms i]
  show ?thesis
  proof (cases r)
    case (Inr cfg)
    obtain s p2 where s: "setupPostgres B cfg ''auth'' p1 = (s, p2)" by fastforce
    from setupPostgres_holds [OF conjunct1 [OF i'] s] show ?thesis
    proof (elim disjE exE conjE)
      fix c assume c: "s = Ran (Inr c)" "holds B path {Pool} p2" "cfg_GRPC cfg \<noteq> None" "cfg_Shutdown cfg \<noteq> None"
      obtain q p3 where q: "Server_Start cfg p2 = (q, p3)" by fastforce
      show ?thesis
      proof (cases "ensureAuthJWT cfg")
        case None
        then obtain jwt where jwt: "cfg_JWT cfg = Some jwt" by (auto simp: ensureAuthJWT_None)
        have "holds B path {CleanupTask, GrpcServer, Pool}
            (emit (Opened CleanupTask) (emit (ServesAuth (auth_issuer B cfg jwt) (NewBcrypt (jc_BCryptCost jwt))) p3))"
          if "holds B path {GrpcServer, Pool} p3"
          using that None jwt i' Inr by (intro holds_emit [OF holds_emit]) auto
        from auth_hooks_holds [OF this] show ?thesis
          using Server_Start_holds [OF c(2) q c(3)] i i' Inr s c q None jwt Database_Close_holds
          by (auto simp: StartAuth_def Let_def serviceStartupLog_def split_beta)
      qed (use c i i' Inr s Database_Close_holds in \<open>auto simp: StartAuth_def\<close>)
    qed (use i i' Inr s in \<open>auto simp: StartAuth_def\<close>)
  qed (use i i' in \<open>auto simp: StartAuth_def\<close>)
qed

lemma StartNotes_holds:
  assumes "holds B path {} p"
  shows "fst (StartNotes B path p) \<noteq> Crashed \<and> holds B path {} (snd (StartNotes B path p))"
proof -
  obtain r p1 where i: "initService B path p = (r, p1)" by fastforce
  note i' = initService_holds [OF assms i]
  show ?thesis
  proof (cases r)
    case (Inr cfg)
    obtain s p2 where s: "setupPostgres B cfg ''notes'' p1 = (s, p2)" by fastforce
    from setupPostgres_holds [OF conjunct1 [OF i'] s] show ?thesis
    proof (elim disjE exE conjE)
      fix c assume c: "s = Ran (Inr c)" "holds B path {Pool} p2" "cfg_GRPC cfg \<noteq> None" "cfg_Shutdown cfg \<noteq> None"
      obtain q p3 where q: "Server_Start cfg p2 = (q, p3)" by fastforce
      show ?thesis
      proof (cases "ensureNotesJWT cfg")
        case None
        have "holds B path {GrpcServer, Pool} (emit (ServesNotes (NewAccessVerifier (ResolvedAccessSecret (cfg_JWT cfg)))) p3)"
          if "holds B path {GrpcServer, Pool} p3"
          using that None i' Inr by (intro holds_emit) auto
        from notes_hooks_holds [OF this] show ?thesis
          using Server_Start_holds [OF c(2) q c(3)] i i' Inr s c q None Database_Close_holds
          by (auto simp: StartNotes_def Let_def serviceStartupLog_def split_beta)
      qed (use c i i' Inr s Database_Close_holds in \<open>auto simp: StartNotes_def\<close>)
    qed (use i i' Inr s in \<open>auto simp: StartNotes_def\<close>)
  qed (use i i' in \<open>auto simp: StartNotes_def\<close>)
qed

text \<open>A process that starts; \<open>outside\<close> is what the outside does.\<close>

definition boot :: "(nat \<Rightarrow> moment) \<Rightarrow> process" where
  "boot outside = \<lparr>pr_trace = [], pr_outside = outside, pr_tick = 0\<rparr>"

lemma boot_holds: "holds B path {} (boot outside)"
  by (simp add: holds_def boot_def)

text \<open>
  C33: The auth and the notes service stop cleanly on every path. Whatever the configuration and
  whatever fails on the way, they never read a missing section, and when they return, everything
  they opened is closed, in an order in which the server and the token cleanup never ran without
  the database pool.
\<close>

theorem services_stop_cleanly:
  "fst (StartAuth B path (boot outside)) \<noteq> Crashed
   \<and> held (pr_trace (snd (StartAuth B path (boot outside)))) = {}
   \<and> supported (pr_trace (snd (StartAuth B path (boot outside))))
   \<and> fst (StartNotes B path (boot outside)) \<noteq> Crashed
   \<and> held (pr_trace (snd (StartNotes B path (boot outside)))) = {}
   \<and> supported (pr_trace (snd (StartNotes B path (boot outside))))"
  using StartAuth_holds [OF boot_holds, of B path outside] StartNotes_holds [OF boot_holds, of B path outside]
  by (simp add: holds_def)

end
