(* ===== verification/GatewayLifecycle.thy ===== *)
theory GatewayLifecycle
  imports Lifecycle
begin

text \<open>
  What the start and the stop of the gateway guarantee: its connections are closed on every path;
  what may stay open is the cache whose first ping failed and a listener that does not shut down.
\<close>

subsection \<open>Connections\<close>

lemma waitUntilReady_state:
  assumes "waitUntilReady d p = Some y"
  shows "pr_trace (snd y) = pr_trace p \<and> pr_outside (snd y) = pr_outside p"
proof (rule waitUntilReady.raw_induct [where P = "\<lambda>d p y. pr_trace (snd y) = pr_trace p \<and> pr_outside (snd y) = pr_outside p", OF _ assms])
  fix f d p y
  assume f: "\<And>d p y. f d p = Some y \<Longrightarrow> pr_trace (snd y) = pr_trace p \<and> pr_outside (snd y) = pr_outside p"
    and e: "(case consult p of (m, p1) \<Rightarrow>
        if mo_state m = ConnReady then Some (None, p1)
        else (case consult p1 of (m2, p2) \<Rightarrow>
               if context_ended d m2 then Some (Some (errorf_ww (Sentinel ErrServiceUnavailable) (mo_ctx_err m2)), p2)
               else f d p2)) = Some y"
  from e f [of d "p\<lparr>pr_tick := Suc (Suc (pr_tick p))\<rparr>" y] show "pr_trace (snd y) = pr_trace p \<and> pr_outside (snd y) = pr_outside p"
    by (auto split: if_splits)
qed

lemma newClientConn_holds:
  assumes "holds B path R p" and "newClientConn B s target opts d p = Some (r, p')"
    and "sound R" "sound (insert (Client s) R)" "Client s \<notin> R" "checked B path (Dialled s target opts)"
  shows "holds B path (if r = None then insert (Client s) R else R) p'"
proof (cases "mo_error (pr_outside p (pr_tick p))")
  case None
  let ?p = "emit (Opened (Client s)) (emit (Dialled s target opts) (p\<lparr>pr_tick := Suc (pr_tick p)\<rparr>))"
  have h: "holds B path (insert (Client s) R) ?p"
    using assms by (intro holds_emit [OF holds_emit]) auto
  obtain q p1 where w: "waitUntilReady d ?p = Some (q, p1)"
    using assms(2) None by (auto simp: newClientConn_def split: option.splits)
  have "holds B path (insert (Client s) R) p1"
    using h waitUntilReady_state [OF w] by (simp add: holds_def)
  with assms None w show ?thesis
    by (auto simp: newClientConn_def intro!: holds_emit split: option.splits)
qed (use assms in \<open>auto simp: newClientConn_def\<close>)

lemma dial_context_holds [simp]: "holds B path R (snd (dial_context n p)) = holds B path R p"
  by (simp add: dial_context_def)

lemma NewAuthClient_holds:
  assumes "holds B path {} p" "NewAuthClient B cfg p = Some (r, p')" "Load B path = Inr cfg"
  shows "holds B path (if r = None then {Client AuthSvc} else {}) p'"
proof (cases "cfg_GRPCClient cfg")
  case (Some g)
  then obtain err target d p1 where n: "newClientConn B AuthSvc target (clientDialOptions cfg) d p1 = Some (err, p')"
    and r: "r = None \<longleftrightarrow> err = None" and p1: "p1 = snd (dial_context (gs_ConnectTimeout (gcl_AuthService g)) p)"
    using assms by (auto simp: NewAuthClient_def Let_def split: prod.splits)
  have "holds B path {} p1" using assms(1) p1 by simp
  from newClientConn_holds [OF this n] show ?thesis using r assms(3) by auto
qed (use assms in \<open>auto simp: NewAuthClient_def\<close>)

lemma NewNotesClient_holds:
  assumes "holds B path {Client AuthSvc} p" "NewNotesClient B cfg p = Some (r, p')" "Load B path = Inr cfg"
  shows "holds B path (if r = None then {Client NotesSvc, Client AuthSvc} else {Client AuthSvc}) p'"
proof (cases "cfg_GRPCClient cfg")
  case (Some g)
  then obtain err target d p1 where n: "newClientConn B NotesSvc target (clientDialOptions cfg) d p1 = Some (err, p')"
    and r: "r = None \<longleftrightarrow> err = None" and p1: "p1 = snd (dial_context (gs_ConnectTimeout (gcl_NotesService g)) p)"
    using assms by (auto simp: NewNotesClient_def Let_def split: prod.splits)
  have "holds B path {Client AuthSvc} p1" using assms(1) p1 by simp
  from newClientConn_holds [OF this n] show ?thesis using r assms(3) by auto
qed (use assms in \<open>auto simp: NewNotesClient_def\<close>)

subsection \<open>Shutting down\<close>

lemma run_hooks_Cons:
  "run_hooks (h # hs) e p = run_hooks hs (if fst (h p) = None then e else errors_join [e, fst (h p)]) (snd (h p))"
  by (auto split: prod.splits option.splits)

lemma run_hooks_state: "snd (run_hooks hs e p) = fold (\<lambda>h p. snd (h p)) hs p"
  by (induction hs arbitrary: e p) (simp_all add: run_hooks_Cons del: run_hooks.simps(2))

lemma errors_join_None: "errors_join es = None \<longleftrightarrow> (\<forall>e \<in> set es. e = None)"
  by (induction es) (auto simp: errors_join_def split: option.splits)

lemma run_hooks_None: "fst (run_hooks hs e p) = None \<Longrightarrow> e = None"
proof (induction hs arbitrary: e p)
  case (Cons h hs)
  then have "(if fst (h p) = None then e else errors_join [e, fst (h p)]) = None"
    unfolding run_hooks_Cons by blast
  then show ?case by (auto simp: errors_join_None split: if_splits)
qed simp

lemma Wait_None: "fst (Wait hooks p) = None \<Longrightarrow> fst (run_hooks hooks None (p\<lparr>pr_tick := Suc (pr_tick p)\<rparr>)) = None"
  by (auto simp: Wait_def Let_def errors_join_None split: prod.splits)

lemmas closes = auth_conn.closed_held notes_conn.closed_held redis.closed_held
  auth_conn.closed_checked notes_conn.closed_checked redis.closed_checked

text \<open>What the end of the gateway guarantees.\<close>

definition ended :: "boot_libs \<Rightarrow> string \<Rightarrow> go_error option ran \<Rightarrow> process \<Rightarrow> bool" where
  "ended B path r p \<longleftrightarrow> r \<noteq> Crashed \<and> held (pr_trace p) \<subseteq> {Redis, HttpServer}
     \<and> list_all (checked B path) (pr_trace p) \<and> (r = Ran None \<longrightarrow> holds B path {} p)"

lemma gateway_hooks_end:
  assumes "holds B path {HttpServer, Redis, Client NotesSvc, Client AuthSvc} p"
  shows "ended B path (Ran (fst (Wait gateway_hooks p))) (snd (Wait gateway_hooks p))"
proof -
  let ?p = "p\<lparr>pr_tick := Suc (pr_tick p)\<rparr>"
  have p: "holds B path {HttpServer, Redis, Client NotesSvc, Client AuthSvc} ?p" using assms by simp
  show ?thesis
  proof (cases "mo_error (pr_outside ?p (pr_tick ?p))")
    case None
    have 1: "holds B path {Redis, Client NotesSvc, Client AuthSvc} (snd (Http_Shutdown ?p))"
      using p None by (auto simp: Http_Shutdown_def intro!: holds_emit)
    have 2: "holds B path {Redis, Client NotesSvc} (snd (AuthClient_Close True (snd (Http_Shutdown ?p))))"
      using auth_conn.closed_holds [OF 1] by (simp add: insert_Diff_if)
    have 3: "holds B path {Redis} (snd (NotesClient_Close True (snd (AuthClient_Close True (snd (Http_Shutdown ?p))))))"
      using notes_conn.closed_holds [OF 2] by (simp add: insert_Diff_if)
    have "holds B path {} (snd (Wait gateway_hooks p))"
      using redis.closed_holds [OF 3] by (simp add: Wait_state run_hooks_state gateway_hooks_def del: run_hooks.simps)
    then show ?thesis by (simp add: ended_def holds_def)
  next
    case (Some e)
    then have s: "snd (Http_Shutdown ?p) = ?p\<lparr>pr_tick := Suc (Suc (pr_tick p))\<rparr>" "fst (Http_Shutdown ?p) = Some e"
      by (simp_all add: Http_Shutdown_def)
    have "fst (run_hooks gateway_hooks None ?p) \<noteq> None"
    proof
      assume "fst (run_hooks gateway_hooks None ?p) = None"
      from run_hooks_None [OF this [unfolded gateway_hooks_def run_hooks_Cons [of Http_Shutdown] s]]
      show False by (simp add: errors_join_None)
    qed
    then have "fst (Wait gateway_hooks p) \<noteq> None" using Wait_None [of gateway_hooks p] by metis
    moreover have "held (pr_trace (snd (Wait gateway_hooks p))) = {HttpServer}"
        "list_all (checked B path) (pr_trace (snd (Wait gateway_hooks p)))"
      using p by (simp_all add: Wait_state run_hooks_state gateway_hooks_def closes s holds_def insert_Diff_if del: run_hooks.simps)
    ultimately show ?thesis by (cases "fst (Wait gateway_hooks p)") (simp_all add: ended_def)
  qed
qed

lemma serve_gateway_end:
  assumes "holds B path {Client NotesSvc, Client AuthSvc} p" "Load B path = Inr cfg" "requireGatewayConfig cfg = None"
    and e: "serve_gateway cfg p = (r, p')"
  shows "ended B path r p'"
proof -
  obtain red http where c: "cfg_Redis cfg = Some red" "cfg_HTTP cfg = Some http" "cfg_Shutdown cfg \<noteq> None"
    using assms(3) by (auto simp: requireGatewayConfig_None)
  let ?p = "emit (Opened Redis) p"
  have 1: "holds B path {Redis, Client NotesSvc, Client AuthSvc} ?p" using assms(1) by (intro holds_emit) auto
  show ?thesis
  proof (cases "mo_error (pr_outside ?p (pr_tick ?p))")
    case (Some err)
    then have "(r, p') = (Ran (Some (errorf_w ''redis: connect'' err)),
        snd (AuthClient_Close True (snd (NotesClient_Close True (?p\<lparr>pr_tick := Suc (pr_tick ?p)\<rparr>)))))"
      using e c by (simp add: serve_gateway_def NewRedisCache_def Let_def)
    then show ?thesis using 1 by (simp add: ended_def closes holds_def insert_Diff_if)
  next
    case None
    let ?p1 = "?p\<lparr>pr_tick := Suc (pr_tick ?p)\<rparr>"
    have n: "NewRedisCache (Some cfg) p = (Inr (redis_options_of red,
        if rd_DefaultTTL red \<le> 0 then defaultCacheTTL else rd_DefaultTTL red), ?p1)"
      using None c by (simp add: NewRedisCache_def Let_def)
    show ?thesis
    proof (cases "mo_error (pr_outside ?p1 (pr_tick ?p1))")
      case (Some err)
      then obtain e' where "(r, p') = (Ran (Some e'), snd (AuthClient_Close True (snd (NotesClient_Close True (snd (Redis_Close
          (?p1\<lparr>pr_tick := Suc (pr_tick ?p1)\<rparr>)))))))"
        using e c n by (auto simp: serve_gateway_def Let_def)
      then show ?thesis using 1 by (simp add: ended_def closes holds_def insert_Diff_if)
    next
      case None
      let ?p3 = "emit (ServesGateway (fiber_config http)) (emit (Opened HttpServer) (?p1\<lparr>pr_tick := Suc (pr_tick ?p1)\<rparr>))"
      have "holds B path {HttpServer, Redis, Client NotesSvc, Client AuthSvc} ?p3"
        using 1 assms(2,3) c by (intro holds_emit [OF holds_emit]) auto
      moreover have "(r, p') = (Ran (fst (Wait gateway_hooks ?p3)), snd (Wait gateway_hooks ?p3))"
        using e c n None by (auto simp: serve_gateway_def Let_def split: prod.splits)
      ultimately show ?thesis using gateway_hooks_end by simp
    qed
  qed
qed

lemma StartGateway_ended:
  assumes "holds B path {} p" and g: "StartGateway B path p = Some (r, p')"
  shows "ended B path r p'"
proof -
  have stop: "ended B path (Ran (Some e)) q" if "holds B path {} q" for e q
    using that by (simp add: ended_def holds_def)
  obtain i p1 where i: "initService B path p = (i, p1)" by fastforce
  note i' = initService_holds [OF assms(1) i]
  show ?thesis
  proof (cases i)
    case (Inl e)
    then show ?thesis using g i i' stop by (auto simp: StartGateway_def)
  next
    case (Inr cfg)
    show ?thesis
    proof (cases "requireGatewayConfig cfg")
      case (Some e)
      then show ?thesis using g i i' Inr stop by (auto simp: StartGateway_def)
    next
      case None
      obtain a p2 where a: "NewAuthClient B cfg p1 = Some (a, p2)"
        using g i i' Inr None by (auto simp: StartGateway_def serviceStartupLog_def split: option.splits)
      note a' = NewAuthClient_holds [OF conjunct1 [OF i'] a]
      show ?thesis
      proof (cases a)
        case (Some e)
        then show ?thesis using g i i' Inr None a a' stop by (auto simp: StartGateway_def serviceStartupLog_def)
      next
        case a0: None
        obtain n p3 where n: "NewNotesClient B cfg p2 = Some (n, p3)"
          using g i i' Inr None a a0 by (auto simp: StartGateway_def serviceStartupLog_def split: option.splits)
        have n': "holds B path (if n = None then {Client NotesSvc, Client AuthSvc} else {Client AuthSvc}) p3"
          using NewNotesClient_holds [OF _ n] a' a0 i' Inr by auto
        show ?thesis
        proof (cases n)
          case (Some e)
          then show ?thesis
            using g i i' Inr None a a0 n n' stop auth_conn.closed_holds [of B path "{Client AuthSvc}" p3]
            by (auto simp: StartGateway_def serviceStartupLog_def)
        next
          case n0: None
          have "serve_gateway cfg p3 = (r, p')"
            using g i i' Inr None a a0 n n0 by (auto simp: StartGateway_def serviceStartupLog_def)
          then show ?thesis using serve_gateway_end n' n0 i' Inr None by auto
        qed
      qed
    qed
  qed
qed

text \<open>
  C34: The gateway stops cleanly. However the start and the stop go, no missing section is read, and
  both connections to the services are closed when it returns; all that may be left is a cache
  client or a listener that would not shut down. When it returns without an error nothing is left,
  and the listener never ran without the connections and the cache it uses.
\<close>

theorem gateway_stops_cleanly:
  assumes "StartGateway B path (boot outside) = Some (r, p')"
  shows "r \<noteq> Crashed \<and> held (pr_trace p') \<subseteq> {Redis, HttpServer}
     \<and> (r = Ran None \<longrightarrow> held (pr_trace p') = {} \<and> supported (pr_trace p'))"
  using StartGateway_ended [OF boot_holds assms] by (simp add: ended_def holds_def)

text \<open>The cache client of a first ping that fails is never closed.\<close>

lemma redis_client_left_open:
  assumes "holds B path {Client NotesSvc, Client AuthSvc} p" "cfg_Redis cfg = Some red"
    and "mo_error (pr_outside p (pr_tick p)) = Some err"
  shows "fst (serve_gateway cfg p) = Ran (Some (errorf_w ''redis: connect'' err))
    \<and> held (pr_trace (snd (serve_gateway cfg p))) = {Redis}"
  using assms
  by (simp add: serve_gateway_def NewRedisCache_def Let_def closes holds_def insert_Diff_if)

end
