(* ===== verification/Startup.thy ===== *)
theory Startup
  imports GatewayLifecycle
begin

text \<open>
  What is served once a process runs: the secrets, the cost and the transport the configuration was
  checked for. A sample configuration starts the three processes.
\<close>

subsection \<open>A sample configuration\<close>

definition witness_config :: Config where
  "witness_config = \<lparr>cfg_Postgres = Some witness_postgres,
     cfg_Logging = Some \<lparr>lc_Level = ''info'', lc_Mode = ''production''\<rparr>,
     cfg_Shutdown = Some \<lparr>sd_Timeout = 5\<rparr>,
     cfg_GRPC = Some \<lparr>gc_Host = ''0.0.0.0'', gc_Port = 50051, gc_Reflection = False\<rparr>,
     cfg_GRPCClient = Some \<lparr>gcl_AuthService = \<lparr>gs_Host = ''auth'', gs_Port = 50051, gs_ConnectTimeout = 5 * second\<rparr>,
        gcl_NotesService = \<lparr>gs_Host = ''notes'', gs_Port = 50052, gs_ConnectTimeout = 5 * second\<rparr>,
        gcl_RequestTimeout = 10 * second, gcl_Insecure = False\<rparr>,
     cfg_JWT = Some \<lparr>jc_AccessSecretKey = replicate 32 CHR ''a'', jc_RefreshSecretKey = replicate 32 CHR ''r'',
        jc_SecretKey = '''', jc_AccessTokenTTL = ''15m'', jc_RefreshTokenTTL = ''24h'', jc_BCryptCost = 12\<rparr>,
     cfg_HTTP = Some \<lparr>hc_Host = ''0.0.0.0'', hc_ReadTimeout = 10 * second, hc_WriteTimeout = 10 * second,
        hc_ShutdownTimeout = 5 * second, hc_Port = 8080, hc_TrustProxy = False, hc_TrustPrivateProxies = False\<rparr>,
     cfg_Redis = Some \<lparr>rd_Host = ''redis'', rd_Password = '''', rd_ConnectTimeout = 5 * second,
        rd_ReadTimeout = 3 * second, rd_WriteTimeout = 3 * second, rd_IdleTimeout = 0, rd_MaxConnLifetime = 0,
        rd_DefaultTTL = 0, rd_Port = 6379, rd_DB = 0, rd_PoolSize = 10, rd_MinIdle = 2\<rparr>\<rparr>"

definition witness_boot_libs :: boot_libs where
  "witness_boot_libs = \<lparr>bl_stat = (\<lambda>_. None), bl_ReadConfig = (\<lambda>_. Inr empty_config),
     bl_ReadEnv = (\<lambda>_. Inr witness_config), bl_zap = witness_zap, bl_ParseDuration = (\<lambda>_. Some minute),
     bl_ParseConfig = (\<lambda>_. Inr \<lparr>pc_MinConns = 0, pc_MaxConns = 4\<rparr>), bl_quote = (\<lambda>s. s)\<rparr>"

text \<open>An outside where every call works, and the process is interrupted.\<close>

definition witness_moment :: moment where
  "witness_moment = \<lparr>mo_error = None, mo_state = ConnReady, mo_alive = True,
     mo_ctx_err = Sentinel ErrServiceUnavailable, mo_now = 0, mo_wake = Interrupted\<rparr>"

definition witness_process :: process where
  "witness_process = boot (\<lambda>_. witness_moment)"

lemma witness_Load: "Load witness_boot_libs path = Inr witness_config"
  by (simp add: Load_def witness_boot_libs_def)

lemma witness_initService:
  "\<exists>lg. initService witness_boot_libs path witness_process = (Inr witness_config, emit (LoggerSet lg) witness_process)"
proof -
  have "\<exists>lg. initLogger witness_boot_libs witness_config = Inr lg"
    by (simp add: initLogger_def witness_config_def NewLogger_def witness_boot_libs_def witness_zap_def Let_def)
  then show ?thesis by (auto simp: initService_def witness_Load)
qed

lemma witness_outside [simp]: "pr_outside witness_process = (\<lambda>_. witness_moment)" "pr_tick witness_process = 0"
    "pr_trace witness_process = []"
  by (simp_all add: witness_process_def boot_def)

lemma witness_moment_sel [simp]:
  "mo_error witness_moment = None" "mo_state witness_moment = ConnReady" "mo_alive witness_moment = True"
  "mo_wake witness_moment = Interrupted"
  by (simp_all add: witness_moment_def)

lemma witness_secrets:
  "trim_space (replicate 32 CHR ''a'') = replicate 32 CHR ''a''" "trim_space (replicate 32 CHR ''r'') = replicate 32 CHR ''r''"
  "trim_space ''p@ss/w?rd#%'' = ''p@ss/w?rd#%''" "replicate 32 CHR ''a'' \<noteq> replicate 32 CHR ''r''"
  by code_simp+

lemma witness_checks:
  "ensurePostgresAndGRPC witness_config = None" "ensureAuthJWT witness_config = None"
  "ensureNotesJWT witness_config = None" "requireGatewayConfig witness_config = None"
  by (simp_all add: ensurePostgresAndGRPC_None ensureAuthJWT_None ensureNotesJWT_None requireGatewayConfig_None
        witness_config_def witness_postgres_def ResolvedAccessSecret_def ResolvedRefreshSecret_def witness_secrets Let_def)

lemma witness_sections:
  "cfg_Postgres witness_config = Some witness_postgres" "\<exists>x. cfg_Logging witness_config = Some x"
  "\<exists>x. cfg_Shutdown witness_config = Some x" "\<exists>x. cfg_GRPC witness_config = Some x"
  "\<exists>x. cfg_GRPCClient witness_config = Some x" "\<exists>x. cfg_JWT witness_config = Some x"
  "\<exists>x. cfg_HTTP witness_config = Some x" "\<exists>x. cfg_Redis witness_config = Some x"
  by (simp_all add: witness_config_def)

lemma witness_parse [simp]: "bl_ParseConfig witness_boot_libs dsn = Inr \<lparr>pc_MinConns = 0, pc_MaxConns = 4\<rparr>"
  by (simp add: witness_boot_libs_def)

lemmas start_defs = StartAuth_def StartNotes_def StartGateway_def setupPostgres_def Migrate_def NewDatabase_def Let_def
  Server_Start_def serviceStartupLog_def Wait_def auth_hooks_def notes_hooks_def Server_Stop_def Database_Close_def

lemma witness_runs:
  shows "\<exists>j c. ServesAuth j c \<in> set (pr_trace (snd (StartAuth witness_boot_libs path witness_process)))"
    and "\<exists>j. ServesNotes j \<in> set (pr_trace (snd (StartNotes witness_boot_libs path witness_process)))"
    and "\<exists>p'. StartGateway witness_boot_libs path witness_process = Some (Ran None, p')
           \<and> (\<exists>t opts. Dialled AuthSvc t opts \<in> set (pr_trace p'))"
proof -
  obtain lg where lg: "initService witness_boot_libs path witness_process = (Inr witness_config, emit (LoggerSet lg) witness_process)"
    using witness_initService by blast
  obtain x1 x2 x3 x4 x5 x6 x7 where x: "cfg_Logging witness_config = Some x1" "cfg_Shutdown witness_config = Some x2"
    "cfg_GRPC witness_config = Some x3" "cfg_JWT witness_config = Some x4" "cfg_GRPCClient witness_config = Some x5"
    "cfg_HTTP witness_config = Some x6" "cfg_Redis witness_config = Some x7" using witness_sections by blast
  note run = start_defs lg witness_checks witness_sections(1) x
  show "\<exists>j c. ServesAuth j c \<in> set (pr_trace (snd (StartAuth witness_boot_libs path witness_process)))"
    by (simp add: run)
  show "\<exists>j. ServesNotes j \<in> set (pr_trace (snd (StartNotes witness_boot_libs path witness_process)))"
    by (simp add: run)
  show "\<exists>p'. StartGateway witness_boot_libs path witness_process = Some (Ran None, p')
           \<and> (\<exists>t opts. Dialled AuthSvc t opts \<in> set (pr_trace p'))"
    by (simp add: run NewAuthClient_def NewNotesClient_def newClientConn_def dial_context_def waitUntilReady.simps serve_gateway_def
          NewRedisCache_def gateway_hooks_def Http_Shutdown_def AuthClient_Close_def NotesClient_Close_def
          Redis_Close_def errors_join_def)
qed

theorem gateway_stops_cleanly_witness:
  "\<exists>p'. StartGateway witness_boot_libs '''' witness_process = Some (Ran None, p')
     \<and> held (pr_trace p') = {} \<and> supported (pr_trace p')"
proof -
  obtain p' where p': "StartGateway witness_boot_libs '''' witness_process = Some (Ran None, p')"
    using witness_runs(3) by blast
  from gateway_stops_cleanly [OF p' [unfolded witness_process_def]] p' show ?thesis by simp
qed

subsection \<open>Only checked configurations are served\<close>

lemma checked_served:
  assumes "holds B path R p" and "e \<in> set (pr_trace p)"
  shows "checked B path e"
  using assms by (simp add: holds_def list_all_iff)

text \<open>
  C35: The services start secured. A running auth service has two different secrets of at least 32
  bytes and a bcrypt cost the library accepts; a notes service that runs with the same
  configuration has a secret of at least 32 bytes, and accepts a token as an access token exactly
  when the auth service does; a gateway with it talks TLS to both, unless the configuration asks
  for connections in the clear.
\<close>

theorem services_start_secured:
  assumes "ServesAuth j cost \<in> set (pr_trace (snd (StartAuth B path (boot f))))"
    and "ServesNotes k \<in> set (pr_trace (snd (StartNotes B path (boot g))))"
    and "StartGateway B path (boot h) = Some (r, p')" and "Dialled s target opts \<in> set (pr_trace p')"
  shows "32 \<le> length (js_accessKey j) \<and> 32 \<le> length (js_refreshKey j) \<and> js_accessKey j \<noteq> js_refreshKey j
     \<and> 4 \<le> cost \<and> cost \<le> 31
     \<and> 32 \<le> length (js_accessKey k)
     \<and> (\<forall>L t w. ValidateAccessToken L k t w = ValidateAccessToken L j t w)
     \<and> (do_Transport opts = InsecureTransport \<longrightarrow>
          (\<exists>cfg. Load B path = Inr cfg \<and> (\<forall>c. cfg_GRPCClient cfg = Some c \<longrightarrow> gcl_Insecure c)))"
proof -
  obtain cfg jwt where a: "Load B path = Inr cfg" "ensureAuthJWT cfg = None" "cfg_JWT cfg = Some jwt"
    "j = auth_issuer B cfg jwt" "cost = NewBcrypt (jc_BCryptCost jwt)"
    using checked_served [OF conjunct2 [OF StartAuth_holds [OF boot_holds]] assms(1)] by auto
  have k: "ensureNotesJWT cfg = None" "k = NewAccessVerifier (ResolvedAccessSecret (cfg_JWT cfg))"
    using checked_served [OF conjunct2 [OF StartNotes_holds [OF boot_holds]] assms(2)] a(1) by auto
  have keys: "js_accessKey j = ResolvedAccessSecret (cfg_JWT cfg)" "js_refreshKey j = ResolvedRefreshSecret (cfg_JWT cfg)"
    "js_accessKey k = ResolvedAccessSecret (cfg_JWT cfg)"
    by (simp_all add: a(4) k(2) auth_issuer_def NewIssuer_def NewAccessVerifier_def Let_def)
  have "opts = clientDialOptions cfg"
    using StartGateway_ended [OF boot_holds assms(3)] assms(4) a(1) by (fastforce simp: ended_def list_all_iff)
  then have "\<forall>c. cfg_GRPCClient cfg = Some c \<longrightarrow> gcl_Insecure c" if "do_Transport opts = InsecureTransport"
    using that by (auto simp: clientDialOptions_def withClientTransport_def Let_def split: if_splits)
  moreover have "4 \<le> cost \<and> cost \<le> 31"
    using NewBcrypt_range [of "jc_BCryptCost jwt"] a(5) by (simp add: bcrypt_MinCost_def bcrypt_MaxCost_def)
  moreover have "ValidateAccessToken L k t w = ValidateAccessToken L j t w" for L t w
    by (simp add: ValidateAccessToken_def access_keyfunc_def keys)
  ultimately show ?thesis using a(1,2) k(1) keys by (auto simp: ensureAuthJWT_None ensureNotesJWT_None)
qed

theorem services_start_secured_witness:
  "\<exists>j cost k p' t opts. ServesAuth j cost \<in> set (pr_trace (snd (StartAuth witness_boot_libs '''' witness_process)))
     \<and> ServesNotes k \<in> set (pr_trace (snd (StartNotes witness_boot_libs '''' witness_process)))
     \<and> StartGateway witness_boot_libs '''' witness_process = Some (Ran None, p') \<and> Dialled AuthSvc t opts \<in> set (pr_trace p')
     \<and> 32 \<le> length (js_accessKey j) \<and> js_accessKey j \<noteq> js_refreshKey j \<and> cost \<le> 31 \<and> do_Transport opts = TLSTransport"
proof -
  obtain j c where j: "ServesAuth j c \<in> set (pr_trace (snd (StartAuth witness_boot_libs '''' witness_process)))"
    using witness_runs(1) by blast
  obtain k where k: "ServesNotes k \<in> set (pr_trace (snd (StartNotes witness_boot_libs '''' witness_process)))"
    using witness_runs(2) by blast
  obtain p' t opts where g: "StartGateway witness_boot_libs '''' witness_process = Some (Ran None, p')"
    "Dialled AuthSvc t opts \<in> set (pr_trace p')" using witness_runs(3) by blast
  have "do_Transport opts = TLSTransport"
    using services_start_secured [OF j [unfolded witness_process_def] k [unfolded witness_process_def]
        g(1) [unfolded witness_process_def] g(2)] witness_Load
    by (cases "do_Transport opts") (auto simp: witness_config_def)
  then show ?thesis
    using services_start_secured [OF j [unfolded witness_process_def] k [unfolded witness_process_def]
        g(1) [unfolded witness_process_def] g(2)] j k g
    by (intro exI [of _ j] exI [of _ c] exI [of _ k] exI [of _ p'] exI [of _ t] exI [of _ opts]) simp
qed

end
