(* ===== verification/Dialling.thy ===== *)
theory Dialling
  imports Startup
begin

text \<open>
  How long the gateway waits for the services: the start dials both before it serves, and every
  call has a deadline. The wait has no bound of its own, so it is shown when it ends and when not.
\<close>

subsection \<open>Waiting for a connection\<close>

text \<open>The \<open>n\<close>-th round of the loop is the last one.\<close>

definition wait_over :: "time option \<Rightarrow> process \<Rightarrow> nat \<Rightarrow> bool" where
  "wait_over d p n \<longleftrightarrow> mo_state (pr_outside p (pr_tick p + 2 * n)) = ConnReady
     \<or> context_ended d (pr_outside p (Suc (pr_tick p + 2 * n)))"

lemma waitUntilReady_simp:
  "waitUntilReady d p =
     (if mo_state (pr_outside p (pr_tick p)) = ConnReady then Some (None, p\<lparr>pr_tick := Suc (pr_tick p)\<rparr>)
      else if context_ended d (pr_outside p (Suc (pr_tick p)))
        then Some (Some (errorf_ww (Sentinel ErrServiceUnavailable) (mo_ctx_err (pr_outside p (Suc (pr_tick p))))),
                   p\<lparr>pr_tick := Suc (Suc (pr_tick p))\<rparr>)
      else waitUntilReady d (p\<lparr>pr_tick := Suc (Suc (pr_tick p))\<rparr>))"
  by (subst waitUntilReady.simps) simp

lemma wait_over_Suc: "wait_over d p (Suc n) = wait_over d (p\<lparr>pr_tick := Suc (Suc (pr_tick p))\<rparr>) n"
  by (simp add: wait_over_def)

lemma waitUntilReady_returns: "wait_over d p n \<Longrightarrow> waitUntilReady d p \<noteq> None"
proof (induction n arbitrary: p)
  case 0
  then show ?case by (subst waitUntilReady_simp) (auto simp: wait_over_def)
next
  case (Suc n)
  then show ?case by (subst waitUntilReady_simp) (auto simp: wait_over_Suc)
qed

lemma waitUntilReady_over:
  assumes "waitUntilReady d p = Some y"
  shows "\<exists>n. wait_over d p n"
proof (rule waitUntilReady.raw_induct [where P = "\<lambda>d p y. \<exists>n. wait_over d p n", OF _ assms])
  fix f d p y
  assume f: "\<And>d p y. f d p = Some y \<Longrightarrow> \<exists>n. wait_over d p n"
    and e: "(case consult p of (m, p1) \<Rightarrow>
        if mo_state m = ConnReady then Some (None, p1)
        else (case consult p1 of (m2, p2) \<Rightarrow>
               if context_ended d m2 then Some (Some (errorf_ww (Sentinel ErrServiceUnavailable) (mo_ctx_err m2)), p2)
               else f d p2)) = Some y"
  show "\<exists>n. wait_over d p n"
  proof (cases "wait_over d p 0")
    case False
    with e have "f d (p\<lparr>pr_tick := Suc (Suc (pr_tick p))\<rparr>) = Some y" by (simp add: wait_over_def)
    from f [OF this] show ?thesis using wait_over_Suc by blast
  qed blast
qed

text \<open>The wait ends exactly when one of its rounds finds the connection ready or its context ended.\<close>

lemma waitUntilReady_returns_iff: "waitUntilReady d p \<noteq> None \<longleftrightarrow> (\<exists>n. wait_over d p n)"
  using waitUntilReady_returns waitUntilReady_over by fastforce

text \<open>A clock that passes every time.\<close>

definition clock_advances :: "(nat \<Rightarrow> moment) \<Rightarrow> bool" where
  "clock_advances outside \<longleftrightarrow> (\<forall>t. \<exists>N. \<forall>n \<ge> N. t \<le> mo_now (outside n))"

lemma wait_with_deadline:
  assumes "clock_advances (pr_outside p)"
  shows "waitUntilReady (Some t) p \<noteq> None"
proof -
  obtain N where "\<And>n. n \<ge> N \<Longrightarrow> t \<le> mo_now (pr_outside p n)" using assms unfolding clock_advances_def by blast
  then have "wait_over (Some t) p N" by (simp add: wait_over_def context_ended_def)
  then show ?thesis by (rule waitUntilReady_returns)
qed

lemma newClientConn_returns:
  assumes "clock_advances (pr_outside p)"
  shows "\<exists>r p'. newClientConn B s target opts (Some t) p = Some (r, p') \<and> pr_outside p' = pr_outside p"
proof (cases "mo_error (pr_outside p (pr_tick p))")
  case None
  let ?p = "emit (Opened (Client s)) (emit (Dialled s target opts) (p\<lparr>pr_tick := Suc (pr_tick p)\<rparr>))"
  obtain q p1 where w: "waitUntilReady (Some t) ?p = Some (q, p1)"
    using wait_with_deadline [of ?p t] assms by auto
  with None waitUntilReady_state [OF w] show ?thesis by (cases q) (simp_all add: newClientConn_def)
qed (simp add: newClientConn_def)

lemma clients_return:
  assumes "clock_advances (pr_outside p)" and "cfg_GRPCClient cfg = Some g"
  shows "0 < gs_ConnectTimeout (gcl_AuthService g) \<Longrightarrow>
      \<exists>r p'. NewAuthClient B cfg p = Some (r, p') \<and> pr_outside p' = pr_outside p"
    and "0 < gs_ConnectTimeout (gcl_NotesService g) \<Longrightarrow>
      \<exists>r p'. NewNotesClient B cfg p = Some (r, p') \<and> pr_outside p' = pr_outside p"
proof -
  have c: "clock_advances (pr_outside (p\<lparr>pr_tick := Suc (pr_tick p)\<rparr>))" using assms(1) by simp
  show "\<exists>r p'. NewAuthClient B cfg p = Some (r, p') \<and> pr_outside p' = pr_outside p"
    if "0 < gs_ConnectTimeout (gcl_AuthService g)"
    using newClientConn_returns [OF c] that assms(2) by (fastforce simp: NewAuthClient_def dial_context_def Let_def)
  show "\<exists>r p'. NewNotesClient B cfg p = Some (r, p') \<and> pr_outside p' = pr_outside p"
    if "0 < gs_ConnectTimeout (gcl_NotesService g)"
    using newClientConn_returns [OF c] that assms(2) by (fastforce simp: NewNotesClient_def dial_context_def Let_def)
qed

text \<open>
  Without a connect timeout a service that never becomes ready, and a context that never ends, keep
  the wait going for ever.
\<close>

lemma dial_waits_for_ever:
  assumes "\<And>n. mo_state (pr_outside p n) \<noteq> ConnReady" and "\<And>n. mo_alive (pr_outside p n)"
  shows "waitUntilReady None p = None"
proof -
  have "\<not> (\<exists>n. wait_over None p n)" using assms by (simp add: wait_over_def context_ended_def)
  then show ?thesis using waitUntilReady_returns_iff by blast
qed

text \<open>A wait that ends while no round has found the connection ready ends with \<open>ErrServiceUnavailable\<close>.\<close>

lemma waitUntilReady_unavailable:
  assumes "waitUntilReady d p = Some y" and "\<And>n. mo_state (pr_outside p n) \<noteq> ConnReady"
  shows "\<exists>e. fst y = Some e \<and> errors_is e ErrServiceUnavailable"
proof -
  obtain n where "wait_over d p n" using waitUntilReady_over [OF assms(1)] by blast
  then show ?thesis
    using assms
  proof (induction n arbitrary: p)
    case 0
    then show ?case by (subst (asm) waitUntilReady_simp) (auto simp: wait_over_def)
  next
    case (Suc n)
    show ?case
    proof (cases "context_ended d (pr_outside p (Suc (pr_tick p)))")
      case True
      with Suc.prems show ?thesis by (subst (asm) waitUntilReady_simp) auto
    next
      case False
      with Suc.prems have "waitUntilReady d (p\<lparr>pr_tick := Suc (Suc (pr_tick p))\<rparr>) = Some y"
        by (subst (asm) waitUntilReady_simp) simp
      with Suc.IH [of "p\<lparr>pr_tick := Suc (Suc (pr_tick p))\<rparr>"] Suc.prems show ?thesis by (simp add: wait_over_Suc)
    qed
  qed
qed

text \<open>A service that is never ready, while the dial itself works and the process is not asked to end.\<close>

definition service_down :: "process \<Rightarrow> bool" where
  "service_down p \<longleftrightarrow>
     (\<forall>n. mo_error (pr_outside p n) = None \<and> mo_state (pr_outside p n) \<noteq> ConnReady \<and> mo_alive (pr_outside p n))"

lemma newClientConn_down:
  assumes "service_down p"
  shows "newClientConn B s target opts None p = None"
    and "newClientConn B s target opts d p = Some (r, p') \<Longrightarrow> \<exists>e. r = Some e \<and> errors_is e ErrServiceUnavailable"
proof -
  let ?p = "emit (Opened (Client s)) (emit (Dialled s target opts) (p\<lparr>pr_tick := Suc (pr_tick p)\<rparr>))"
  have down: "mo_error (pr_outside p n) = None" "mo_state (pr_outside ?p n) \<noteq> ConnReady" "mo_alive (pr_outside ?p n)" for n
    using assms by (simp_all add: service_down_def)
  show "newClientConn B s target opts None p = None"
    using down(1) dial_waits_for_ever [of ?p] down(2,3) by (simp add: newClientConn_def)
  assume call: "newClientConn B s target opts d p = Some (r, p')"
  then obtain y where w: "waitUntilReady d ?p = Some y"
    using down(1) by (auto simp: newClientConn_def split: option.splits)
  obtain e where "fst y = Some e" "errors_is e ErrServiceUnavailable"
    using waitUntilReady_unavailable [OF w] down(2) by blast
  then show "\<exists>e. r = Some e \<and> errors_is e ErrServiceUnavailable"
    using call w down(1) by (cases y) (auto simp: newClientConn_def split: option.splits)
qed

lemma service_down_tick [simp]: "service_down (p\<lparr>pr_tick := n\<rparr>) = service_down p"
  by (simp add: service_down_def)

lemma clients_down:
  assumes "service_down p" and "cfg_GRPCClient cfg = Some g"
  shows "NewAuthClient B cfg p = Some (r, p') \<Longrightarrow>
      0 < gs_ConnectTimeout (gcl_AuthService g) \<and> (\<exists>e. r = Some e \<and> errors_is e ErrServiceUnavailable)"
    and "NewNotesClient B cfg p = Some (r, p') \<Longrightarrow>
      0 < gs_ConnectTimeout (gcl_NotesService g) \<and> (\<exists>e. r = Some e \<and> errors_is e ErrServiceUnavailable)"
proof -
  have down: "service_down (p\<lparr>pr_tick := n\<rparr>)" for n using assms(1) by simp
  note d = newClientConn_down [OF assms(1)] newClientConn_down [OF down]
  show "NewAuthClient B cfg p = Some (r, p') \<Longrightarrow>
      0 < gs_ConnectTimeout (gcl_AuthService g) \<and> (\<exists>e. r = Some e \<and> errors_is e ErrServiceUnavailable)"
    using assms(2) by (auto simp: NewAuthClient_def dial_context_def Let_def d(1) dest!: d(4) split: if_splits)
  show "NewNotesClient B cfg p = Some (r, p') \<Longrightarrow>
      0 < gs_ConnectTimeout (gcl_NotesService g) \<and> (\<exists>e. r = Some e \<and> errors_is e ErrServiceUnavailable)"
    using assms(2) by (auto simp: NewNotesClient_def dial_context_def Let_def d(1) dest!: d(4) split: if_splits)
qed

text \<open>
  C37: The gateway's two dials end exactly because of their connect timeouts. Each dial returns
  when its timeout is positive and the clock goes on, whatever the service does. Against a service
  that never becomes ready it returns an error that says the service is unavailable when the timeout
  is positive, and never returns when it is zero or negative: the start then hangs until the process
  is told to end.
\<close>

theorem dials_end:
  assumes "clock_advances (pr_outside p)" and "cfg_GRPCClient cfg = Some g"
  defines "auth_timeout \<equiv> gs_ConnectTimeout (gcl_AuthService g)"
    and "notes_timeout \<equiv> gs_ConnectTimeout (gcl_NotesService g)"
  shows "(0 < auth_timeout \<longrightarrow> (\<exists>r p'. NewAuthClient B cfg p = Some (r, p')))
    \<and> (0 < notes_timeout \<longrightarrow> (\<exists>r p'. NewNotesClient B cfg p = Some (r, p')))
    \<and> (service_down p \<longrightarrow>
         (if 0 < auth_timeout
            then \<exists>e p'. NewAuthClient B cfg p = Some (Some e, p') \<and> errors_is e ErrServiceUnavailable
          else NewAuthClient B cfg p = None)
       \<and> (if 0 < notes_timeout
            then \<exists>e p'. NewNotesClient B cfg p = Some (Some e, p') \<and> errors_is e ErrServiceUnavailable
          else NewNotesClient B cfg p = None))"
proof (intro conjI impI)
  note r = clients_return [OF assms(1,2)]
  show a: "\<exists>r p'. NewAuthClient B cfg p = Some (r, p')" if "0 < auth_timeout"
    using r(1) [of B] that unfolding auth_timeout_def by blast
  show n: "\<exists>r p'. NewNotesClient B cfg p = Some (r, p')" if "0 < notes_timeout"
    using r(2) [of B] that unfolding notes_timeout_def by blast
  assume down: "service_down p"
  note d = clients_down [OF down assms(2), of B, folded auth_timeout_def notes_timeout_def]
  show "if 0 < auth_timeout
      then \<exists>e p'. NewAuthClient B cfg p = Some (Some e, p') \<and> errors_is e ErrServiceUnavailable
      else NewAuthClient B cfg p = None"
    using a d(1) by (cases "NewAuthClient B cfg p") fastforce+
  show "if 0 < notes_timeout
      then \<exists>e p'. NewNotesClient B cfg p = Some (Some e, p') \<and> errors_is e ErrServiceUnavailable
      else NewNotesClient B cfg p = None"
    using n d(2) by (cases "NewNotesClient B cfg p") fastforce+
qed

text \<open>A service that is never ready, a clock that goes on.\<close>

definition witness_outside_down :: "nat \<Rightarrow> moment" where
  "witness_outside_down n = witness_moment\<lparr>mo_state := ConnConnecting, mo_now := int n\<rparr>"

theorem dials_end_witness:
  "\<exists>e p'. NewAuthClient witness_boot_libs witness_config (boot witness_outside_down) = Some (Some e, p')
     \<and> errors_is e ErrServiceUnavailable"
proof -
  have "t \<le> int n" if "n \<ge> nat t" for t n using that by linarith
  then have clock: "clock_advances (pr_outside (boot witness_outside_down))"
    unfolding clock_advances_def witness_outside_down_def boot_def by auto
  obtain g where g: "cfg_GRPCClient witness_config = Some g" "0 < gs_ConnectTimeout (gcl_AuthService g)"
    by (auto simp: witness_config_def second_def millisecond_def)
  have "service_down (boot witness_outside_down)"
    by (simp add: service_down_def boot_def witness_outside_down_def witness_moment_def)
  then show ?thesis using dials_end [OF clock g(1), of witness_boot_libs] g(2) by auto
qed

subsection \<open>The deadline of a call\<close>

text \<open>
  Every call to a service has a deadline. With a request timeout the interceptor gives the call
  the context \<open>context.WithTimeout\<close> would give it: the shortcut for an earlier deadline changes
  nothing, and a call ends no later than the timeout and no later than its request.
\<close>

lemma request_deadline:
  assumes "do_Timeout (clientDialOptions cfg) = Some timeout" and "until_now \<le> now"
  shows "unaryClientTimeoutInterceptor timeout until_now now deadline = WithTimeout now timeout deadline
     \<and> (\<exists>t \<le> now + timeout. WithTimeout now timeout deadline = Some t \<and> (\<forall>d. deadline = Some d \<longrightarrow> t \<le> d))"
proof -
  have "0 < timeout" using assms(1) by (auto simp: clientDialOptions_def Let_def split: if_splits)
  then have "unaryClientTimeoutInterceptor timeout until_now now deadline = WithTimeout now timeout deadline"
    using assms(2) by (cases deadline) (auto simp: unaryClientTimeoutInterceptor_def WithTimeout_def Let_def)
  then show ?thesis by (cases deadline) (auto simp: WithTimeout_def)
qed

theorem request_deadline_witness:
  "unaryClientTimeoutInterceptor (10 * second) 5 6 (Some 100) = Some 100
   \<and> unaryClientTimeoutInterceptor (10 * second) 5 6 None = Some (6 + 10 * second)"
proof -
  have "do_Timeout (clientDialOptions witness_config) = Some (10 * second)"
    by (simp add: clientDialOptions_def witness_config_def second_def millisecond_def Let_def)
  from request_deadline [OF this, of 5 6 "Some 100"] request_deadline [OF this, of 5 6 None]
  show ?thesis by (simp add: WithTimeout_def second_def millisecond_def)
qed

end
