(* ===== verification/TokenCleanup.thy ===== *)
theory TokenCleanup
  imports Accounts
begin

text \<open>
  \<open>runTokenCleanup\<close> of \<open>internal/bootstrap/bootstrap.go\<close>: the task of the auth service that deletes
  refresh tokens that are revoked or have expired, once per tick of its ticker, until its context ends.
\<close>

datatype cleanup_event = TickerC | CtxDone

text \<open>What \<open>select\<close> finds in each round, and whether the loop has returned.\<close>

fun runTokenCleanup :: "cleanup_event list \<Rightarrow> world \<Rightarrow> bool \<times> world" where
  "runTokenCleanup [] w = (False, w)"
| "runTokenCleanup (CtxDone # es) w = (True, w)"
| "runTokenCleanup (TickerC # es) w = runTokenCleanup es (cleanup_tick w)"

definition useless :: "time \<Rightarrow> RefreshToken \<Rightarrow> bool" where
  "useless now t \<longleftrightarrow> rt_ExpiresAt t < now \<or> rt_IsRevoked t"

lemma cleanup_tick_world:
  "cleanup_tick w = w\<lparr>w_tick := Suc (w_tick w),
     w_tokens := (case o_fault (w_outside w (w_tick w)) of
        LostRequest e \<Rightarrow> w_tokens w
      | _ \<Rightarrow> delete_where (useless (o_now (w_outside w (w_tick w)))) (w_tokens w))\<rparr>"
  by (auto simp: cleanup_tick_def CleanupExpiredTokens_def request_def ask_def tokenCleanupQuery_def useless_def [abs_def]
      split: fault.splits prod.splits sum.splits)

lemma runTokenCleanup_frame:
  assumes "runTokenCleanup es w = (returned, w')"
  shows "\<exists>n ts. w' = w\<lparr>w_tick := w_tick w + n, w_tokens := ts\<rparr> \<and> set ts \<subseteq> set (w_tokens w) \<and> returned = (CtxDone \<in> set es)"
  using assms
proof (induction es w rule: runTokenCleanup.induct)
  case (1 w)
  then show ?case by (auto intro!: exI [of _ 0] exI [of _ "w_tokens w"])
next
  case (2 es w)
  then show ?case by (auto intro!: exI [of _ 0] exI [of _ "w_tokens w"])
next
  case (3 es w)
  from 3 obtain n ts where "w' = cleanup_tick w\<lparr>w_tick := w_tick (cleanup_tick w) + n, w_tokens := ts\<rparr>"
    "set ts \<subseteq> set (w_tokens (cleanup_tick w))" "returned = (CtxDone \<in> set es)" by auto
  then show ?case
    by (auto simp: cleanup_tick_world split: fault.splits intro!: exI [of _ "Suc n"] exI [of _ ts])
qed

lemma runTokenCleanup_keeps:
  assumes "runTokenCleanup es w = (returned, w')" and "t \<in> set (w_tokens w)" and "\<not> rt_IsRevoked t"
    and "\<And>n. w_tick w \<le> n \<Longrightarrow> n < w_tick w' \<Longrightarrow> o_now (w_outside w n) \<le> rt_ExpiresAt t"
  shows "t \<in> set (w_tokens w')"
  using assms
proof (induction es w rule: runTokenCleanup.induct)
  case (3 es w)
  obtain n ts where w': "w' = cleanup_tick w\<lparr>w_tick := w_tick (cleanup_tick w) + n, w_tokens := ts\<rparr>"
    using runTokenCleanup_frame [of es "cleanup_tick w"] 3(2) by auto
  have "o_now (w_outside w (w_tick w)) \<le> rt_ExpiresAt t"
    using 3(5) [of "w_tick w"] w' by (simp add: cleanup_tick_world)
  then have "t \<in> set (w_tokens (cleanup_tick w))"
    using 3(3,4) by (auto simp: cleanup_tick_world useless_def split: fault.splits)
  moreover have "o_now (w_outside (cleanup_tick w) k) \<le> rt_ExpiresAt t" if "w_tick (cleanup_tick w) \<le> k" "k < w_tick w'" for k
    using 3(5) [of k] that by (simp add: cleanup_tick_world)
  ultimately show ?case using 3(1,2,4) by simp
qed auto

text \<open>
  C39: The token cleanup only removes what no refresh could use. It returns exactly when its context
  ends. Whatever it meets, it changes nothing but the refresh tokens and adds none; a token that is
  not revoked and has not expired at any moment it looked is still there; and a tick whose
  statement is served leaves no revoked token and none that expired before it.
\<close>

theorem cleanup_keeps_active:
  assumes "runTokenCleanup es w = (returned, w')"
  shows "(returned \<longleftrightarrow> CtxDone \<in> set es)
     \<and> (\<exists>n ts. w' = w\<lparr>w_tick := w_tick w + n, w_tokens := ts\<rparr> \<and> set ts \<subseteq> set (w_tokens w))
     \<and> (\<forall>t \<in> set (w_tokens w). \<not> rt_IsRevoked t
          \<and> (\<forall>n. w_tick w \<le> n \<and> n < w_tick w' \<longrightarrow> o_now (w_outside w n) \<le> rt_ExpiresAt t) \<longrightarrow> t \<in> set (w_tokens w'))
     \<and> (o_fault (w_outside w (w_tick w)) = Served \<longrightarrow>
          (\<forall>t \<in> set (w_tokens (cleanup_tick w)). \<not> rt_IsRevoked t \<and> o_now (w_outside w (w_tick w)) \<le> rt_ExpiresAt t))"
proof -
  have "\<forall>t \<in> set (w_tokens (cleanup_tick w)). \<not> rt_IsRevoked t \<and> o_now (w_outside w (w_tick w)) \<le> rt_ExpiresAt t"
    if "o_fault (w_outside w (w_tick w)) = Served"
    using that by (auto simp: cleanup_tick_world useless_def)
  moreover have "\<forall>t \<in> set (w_tokens w). \<not> rt_IsRevoked t
      \<and> (\<forall>n. w_tick w \<le> n \<and> n < w_tick w' \<longrightarrow> o_now (w_outside w n) \<le> rt_ExpiresAt t) \<longrightarrow> t \<in> set (w_tokens w')"
    using runTokenCleanup_keeps [OF assms] by blast
  ultimately show ?thesis using runTokenCleanup_frame [OF assms] by blast
qed

lemma witness_cleanup:
  "runTokenCleanup [TickerC, CtxDone] (witness_auth\<lparr>w_tokens := [witness_token, witness_token\<lparr>rt_IsRevoked := True\<rparr>]\<rparr>)
   = (True, witness_auth\<lparr>w_tokens := [witness_token], w_tick := 1\<rparr>)"
  by (simp add: cleanup_tick_world witness_auth_defs useless_def delete_where_def)

theorem cleanup_keeps_active_witness:
  "fst (runTokenCleanup [TickerC, CtxDone] (witness_auth\<lparr>w_tokens := [witness_token, witness_token\<lparr>rt_IsRevoked := True\<rparr>]\<rparr>))
   \<and> witness_token \<in> set (w_tokens (snd (runTokenCleanup [TickerC, CtxDone]
        (witness_auth\<lparr>w_tokens := [witness_token, witness_token\<lparr>rt_IsRevoked := True\<rparr>]\<rparr>))))"
  using cleanup_keeps_active [OF witness_cleanup] unfolding witness_cleanup by (simp add: witness_auth_defs)

subsection \<open>What the cleanup takes away\<close>

text \<open>
  After a cleanup a refresh token that is used again goes unnoticed. Before it,
  \<open>reuse_revokes_sessions\<close> ends every session of the user; once the cleanup has deleted the revoked
  row, the same request is answered like one with an unknown token, and the sessions go on.
\<close>

lemma reuse_undetected_after_cleanup:
  assumes "calm w" and "auth_db_ok w" and "row \<in> set (w_tokens w)" and "rt_Token row = hashToken L t"
    and "rt_IsRevoked row"
  shows "(\<exists>e. fst (RefreshTokens L j t (cleanup_tick w)) = Inl e \<and> errors_is e ErrInvalidRefreshToken
        \<and> \<not> errors_is e ErrRevokedRefreshToken)
    \<and> w_tokens (snd (RefreshTokens L j t (cleanup_tick w))) = w_tokens (cleanup_tick w)"
proof -
  have s: "o_fault (w_outside w (w_tick w)) = Served" using assms(1) unfolding calm_def by blast
  have "w_outside (cleanup_tick w) = w_outside w" "w_tick (cleanup_tick w) = Suc (w_tick w)"
    by (simp_all add: cleanup_tick_world)
  then have c: "calm (cleanup_tick w)" using assms(1) unfolding calm_def by (metis Suc_leD)
  have "x = row" if "x \<in> set (w_tokens w)" "rt_Token x = hashToken L t" for x
    using assms(2,3,4) that by (auto simp: auth_db_ok_def distinct_map inj_on_def)
  then have "find (\<lambda>x. rt_Token x = hashToken L t) (w_tokens (cleanup_tick w)) = None"
    using s assms(5) by (auto simp: find_None_iff cleanup_tick_world useless_def)
  then have "RefreshTokens L j t (cleanup_tick w) = (Inl (errorf_w ''refresh'' (Sentinel ErrInvalidRefreshToken)),
      (cleanup_tick w)\<lparr>w_tick := Suc (w_tick (cleanup_tick w))\<rparr>)"
    using FindByToken_calm [OF c] by (simp add: RefreshTokens_def)
  then show ?thesis by simp
qed

lemma reuse_undetected_after_cleanup_witness:
  "\<exists>e. fst (RefreshTokens sample_libs witness_issuer ''h'' (cleanup_tick (witness_auth\<lparr>w_tokens :=
      [witness_token\<lparr>rt_Token := ''#h'', rt_IsRevoked := True\<rparr>]\<rparr>))) = Inl e
     \<and> errors_is e ErrInvalidRefreshToken"
  using reuse_undetected_after_cleanup [of "witness_auth\<lparr>w_tokens := [witness_token\<lparr>rt_Token := ''#h'', rt_IsRevoked := True\<rparr>]\<rparr>"
      "witness_token\<lparr>rt_Token := ''#h'', rt_IsRevoked := True\<rparr>" sample_libs "''h''" witness_issuer]
  by (auto simp: calm_def auth_db_ok_def hashToken_def witness_auth_defs)

end
