(* ===== verification/BadRequests.thy ===== *)
theory BadRequests
  imports NotesEdits Process
begin

text \<open>
  Requests of a client that are answered as failures of the server: an identifier that is no UUID,
  a password bcrypt does not take, and a page of notes gRPC does not send. They reach a library that
  refuses them, and its error is none of those the services report by name.
\<close>

subsection \<open>Identifiers\<close>

lemma GetNote_malformed:
  assumes "calm w" and "uuid_in L u = Some v" and "uuid_in L i = None"
  shows "\<exists>e. GetNote L u i w = (Inl e, w\<lparr>w_tick := Suc (w_tick w)\<rparr>) \<and> notesStatusFromError e = internal_status"
  using assms by (simp add: GetNote_def NoteRepo_GetByID_calm owned_row_def bad_uuid_error_def notesStatusFromError_def)

lemma internal_domain: "domain_error internal_status nf = errorf_ws (Sentinel ErrBackendStatus) ''Internal''"
  by (simp add: domain_error_def internal_status_def statusToDomain_status table_other)

text \<open>
  C40: A malformed identifier is answered as a failure of the server. While nothing outside fails,
  \<open>GET\<close> with an identifier the database does not read as a UUID answers 500, where the client's
  mistake would be a 400 and a missing note is a 404; it changes no row and is not retried.
\<close>

theorem malformed_id_answers_500:
  assumes h: "healthy (gw_deployment G) (gw_notes G) (request_token fx) v w" and rn: "gw_notes G = fst (NewNotesService w0)"
    and i: "uuid_in (d_libs (gw_deployment G)) (fx_params fx ''note_id'') = None"
    and "fx_params fx ''note_id'' \<noteq> ''''" and json: "\<forall>b. hl_json (gw_http G) b = None"
  shows "\<exists>w'. HttpNotes_GetNote G fx w = (Returned None, fx\<lparr>fx_status := StatusInternalServerError,
       fx_body := MapBody [(errorKey, msgInternalServerError)]\<rparr>, w') \<and> w_notes w' = w_notes w"
proof -
  let ?D = "gw_deployment G" and ?t = "request_token fx" and ?i = "fx_params fx ''note_id''"
  let ?e = "errorf_w ''get note'' (errorf_ws (Sentinel ErrBackendStatus) ''Internal'')"
  let ?op = "wrapped ''get note'' (NotesClient_GetNote ?D (userCtx fx) ?t ?i)"
  have "\<exists>w2. NoteHandler_GetNote (d_libs ?D) ?i c w1 = (Inl internal_status, w2) \<and> w_notes w2 = w_notes w"
    if "userIDFromContext c = Inr u" "uuid_in (d_libs ?D) u = Some v" "calm w1" "w_notes w1 = w_notes w" "w_outside w1 = w_outside w" for c u w1
    using GetNote_malformed [OF that(3,2) i] that by (auto simp: NoteHandler_GetNote_def)
  then obtain w2 where "rpc NotesSvc (d_headers ?D) (notes_chain ?D ''/notes.v1.NoteService/GetNote'' (NoteHandler_GetNote (d_libs ?D) ?i))
      (outgoingContextWithToken (userCtx fx) ?t) (w\<lparr>w_tick := Suc (Suc (w_tick w))\<rparr>) = (Inl internal_status, w2)"
    and w2: "w_notes w2 = w_notes w"
    by (rule healthy_handler [OF h in_notes_protected(2)])
  then have "?op (w\<lparr>w_tick := Suc (Suc (w_tick w))\<rparr>) = (Inl ?e, w2)"
    by (simp add: wrapped_def NotesClient_GetNote_def internal_domain)
  then have "retryExecute (sr_retry (gw_notes G)) ?op (w\<lparr>w_tick := Suc (Suc (w_tick w))\<rparr>) = (Inl ?e, w2)"
    by (rule retry_final)
       (simp add: rn services_retry default_retry_def shouldRetry_def isInfraError_def errorf_ws_def errors_is_def errorf_w_def)
  from breaker_closed_runs [where fn = "retryExecute (sr_retry (gw_notes G)) ?op", OF _ this] h obtain w' where
    svc: "NotesService_GetNote ?D (gw_notes G) (userCtx fx) ?t ?i w = (Inl ?e, w')" "w_notes w' = w_notes w2"
    by (auto simp: healthy_def NotesService_GetNote_def execute_defs)
  have "handleError (gw_http G) fx ?e
      = (None, fx\<lparr>fx_status := StatusInternalServerError, fx_body := MapBody [(errorKey, msgInternalServerError)]\<rparr>)"
    using json by (simp add: handleError_def httpErrorFromDomain_def jsonResponse_def status_JSON_def
        errorf_ws_def errors_is_def errorf_w_def errors_as_def)
  then show ?thesis
    using svc w2 healthy_token [OF h] assms(4)
    by (simp add: HttpNotes_GetNote_def requireTokenAndNoteID_def Let_def request_token_def)
qed

text \<open>A driver that reads only two identifiers as UUIDs.\<close>

definition strict_gateway :: gateway where
  "strict_gateway = witness_gateway\<lparr>gw_deployment := (gw_deployment witness_gateway)
     \<lparr>d_libs := (d_libs (gw_deployment witness_gateway))\<lparr>uuid_in := (\<lambda>s. if s \<in> {''u'', ''n''} then Some s else None)\<rparr>\<rparr>\<rparr>"

lemma strict_healthy:
  "healthy (gw_deployment strict_gateway) (gw_notes strict_gateway) (request_token witness_fx) ''u'' still_notes"
proof -
  have D: "d_verifier (gw_deployment strict_gateway) = d_verifier (gw_deployment witness_gateway)"
    "gw_notes strict_gateway = gw_notes witness_gateway"
    "jwt_parse (d_libs (gw_deployment strict_gateway)) = jwt_parse (d_libs (gw_deployment witness_gateway))"
    "uuid_in (d_libs (gw_deployment strict_gateway)) ''u'' = Some ''u''"
    by (simp_all add: strict_gateway_def)
  obtain u where h: "calm still_notes" "breaker_closed (sr_circuitBreaker (gw_notes witness_gateway)) still_notes"
    "accepts (d_libs (gw_deployment witness_gateway)) (d_verifier (gw_deployment witness_gateway)) (trim_space (request_token witness_fx)) u still_notes"
    "uuid_in (d_libs (gw_deployment witness_gateway)) u = Some ''u''"
    using still_notes_healthy unfolding healthy_def by blast
  have "u = ''u''" using h(4) by (simp add: witness_http_defs sample_defs split: if_splits)
  then have "accepts (d_libs (gw_deployment strict_gateway)) (d_verifier (gw_deployment strict_gateway)) (trim_space (request_token witness_fx)) ''u'' still_notes"
    using h(3) unfolding accepts_def D by blast
  then show ?thesis using h(1,2) D(4) unfolding healthy_def D(2) by blast
qed

lemma malformed_id_answers_500_witness:
  "\<exists>fx w. HttpNotes_GetNote strict_gateway (witness_fx\<lparr>fx_params := (\<lambda>_. ''x'')\<rparr>) still_notes = (Returned None, fx, w)
     \<and> fx_status fx = StatusInternalServerError"
proof -
  let ?fx = "witness_fx\<lparr>fx_params := (\<lambda>_. ''x'')\<rparr>"
  have "request_token ?fx = request_token witness_fx" by (simp add: request_token_def userCtx_def)
  then have "healthy (gw_deployment strict_gateway) (gw_notes strict_gateway) (request_token ?fx) ''u'' still_notes"
    using strict_healthy by simp
  moreover have "gw_notes strict_gateway = fst (NewNotesService sample_world)"
    by (simp add: strict_gateway_def witness_gateway_def sample_gateway_def)
  moreover have "uuid_in (d_libs (gw_deployment strict_gateway)) ''x'' = None" "hl_json (gw_http strict_gateway) b = None" for b
    using still_notes_has by (simp_all add: strict_gateway_def)
  ultimately show ?thesis
    using malformed_id_answers_500 [of strict_gateway ?fx "''u''" still_notes sample_world] by auto
qed

subsection \<open>Passwords\<close>

text \<open>\<open>bcrypt.GenerateFromPassword\<close> refuses passwords of more than 72 bytes.\<close>

definition bcrypt_limit :: "libs \<Rightarrow> bool" where
  "bcrypt_limit L \<longleftrightarrow> (\<forall>p c s. 72 < length p \<longrightarrow> (\<exists>t. bcrypt_generate L p c s = Inl (Library OtherLibrary t)))"

text \<open>
  A long password is answered as a failure of the server. A password of more than 72 bytes
  passes the checks of the domain, but bcrypt does not hash it: the registration of a new email is
  answered with an internal error, and no user is created.
\<close>

lemma long_password_internal_error:
  assumes "bcrypt_limit L" and "calm w" and "72 < length password" and "ValidatePassword password = None"
    and "ValidateEmail email = None" and "email \<notin> user_Email ` set (w_users w)" and "email \<noteq> ''''" "username \<noteq> ''''"
  shows "fst (AuthHandler_Register L j cost email username password ctx w) = Inl internal_status
    \<and> w_users (snd (AuthHandler_Register L j cost email username password ctx w)) = w_users w"
proof -
  have f: "FindByEmail email w = (Inl (Sentinel ErrUserNotFound), w\<lparr>w_tick := Suc (w_tick w)\<rparr>)"
    using assms(2,6) by (auto simp: FindByEmail_calm find_None_iff split: option.splits dest: find_SomeD)
  have "o_ctx (w_outside w (Suc (w_tick w))) = None" using assms(2) unfolding calm_def by (metis le_SucI order_refl)
  moreover obtain t where "bcrypt_generate L password cost (o_random (w_outside w (Suc (Suc (w_tick w))))) = Inl (Library OtherLibrary t)"
    using assms(1,3) unfolding bcrypt_limit_def by blast
  ultimately have "Hash L cost password (w\<lparr>w_tick := Suc (w_tick w)\<rparr>)
      = (Inl (errorf_w ''bcrypt: generate hash'' (Library OtherLibrary t)), w\<lparr>w_tick := Suc (Suc (Suc (w_tick w)))\<rparr>)"
    using assms(3) by (auto simp: Hash_def ctx_err_def ask_def)
  then show ?thesis
    using f assms(3-5,7,8) by (auto simp: AuthHandler_Register_def Register_def authStatusFromError_def)
qed

subsection \<open>Messages\<close>

text \<open>
  A page the use case allows may be more than the server sends: 17 notes of 64 KiB, which the domain
  accepts, have contents of more than the 1 MiB a reply may have.
\<close>

lemma page_exceeds_message:
  assumes "calm w" and "uuid_in L u = Some v" and "17 \<le> length (user_notes v w)" and "17 \<le> limit"
    and "\<And>n. n \<in> set (user_notes v w) \<Longrightarrow> length (note_Content n) = maxNoteContentLen"
  shows "\<exists>ns k. fst (ListNotes L u limit 0 w) = Inr (ns, k)
    \<and> maxMessageBytes < sum_list (map (\<lambda>n. length (note_Content n)) ns)"
proof -
  let ?ns = "take (page_size limit) (newest_first (user_notes v w))"
  have len: "length (newest_first (user_notes v w)) = length (user_notes v w)"
    and set: "set (newest_first (user_notes v w)) = set (user_notes v w)" by (simp_all add: newest_first_def)
  have "length (note_Content n) = maxNoteContentLen" if "n \<in> set ?ns" for n
    using assms(5) set that by (metis in_set_takeD)
  then have "sum_list (map (\<lambda>n. length (note_Content n)) ?ns) = sum_list (map (\<lambda>n. maxNoteContentLen) ?ns)"
    by (intro arg_cong [where f = sum_list] map_cong) auto
  then have "sum_list (map (\<lambda>n. length (note_Content n)) ?ns) = length ?ns * maxNoteContentLen"
    by (simp only: sum_list_triv of_nat_id)
  moreover have "17 \<le> length ?ns"
    using assms(3,4) len by (simp add: page_size_def maxListLimit_def defaultListLimit_def)
  then have "17 * maxNoteContentLen \<le> length ?ns * maxNoteContentLen" by (rule mult_le_mono1)
  ultimately have "maxMessageBytes < sum_list (map (\<lambda>n. length (note_Content n)) ?ns)"
    by (simp add: maxMessageBytes_def maxNoteContentLen_def)
  then show ?thesis using ListNotes_calm [OF assms(1,2), of limit 0] by auto
qed

end
