(* ===== verification/Commands.thy ===== *)
theory Commands
  imports Startup
begin

text \<open>
  The three programs of \<open>cmd\<close>: each starts its process with no configuration file and turns what
  comes back into an exit status and a line on standard error.
\<close>

datatype process_end = Exit int string | Abort

definition command_end :: "string \<Rightarrow> go_error option ran \<Rightarrow> process_end" where
  "command_end name r =
     (case r of
        Crashed \<Rightarrow> Abort
      | Ran (Some err) \<Rightarrow> Exit 1 (name @ '' failed: '' @ error_text err @ [CHR 0x0A])
      | Ran None \<Rightarrow> Exit 0 '''')"

definition auth_main :: "boot_libs \<Rightarrow> process \<Rightarrow> process_end \<times> process" where
  "auth_main B p = (case StartAuth B '''' p of (r, p1) \<Rightarrow> (command_end ''auth service'' r, p1))"

definition notes_main :: "boot_libs \<Rightarrow> process \<Rightarrow> process_end \<times> process" where
  "notes_main B p = (case StartNotes B '''' p of (r, p1) \<Rightarrow> (command_end ''notes service'' r, p1))"

definition gateway_main :: "boot_libs \<Rightarrow> process \<Rightarrow> (process_end \<times> process) option" where
  "gateway_main B p =
     (case StartGateway B '''' p of
        None \<Rightarrow> None
      | Some (r, p1) \<Rightarrow> Some (command_end ''gateway'' r, p1))"

subsection \<open>A process that ends without an error has served\<close>

text \<open>What a shutdown adds to the trace takes nothing away from it.\<close>

lemma hooks_keep:
  assumes "\<forall>h \<in> set hs. \<forall>p. set (pr_trace p) \<subseteq> set (pr_trace (snd (h p)))" and "Wait hs p = (e, q)" and "x \<in> set (pr_trace p)"
  shows "x \<in> set (pr_trace q)"
proof -
  have "x \<in> set (pr_trace (fold (\<lambda>h p. snd (h p)) hs p))" if "x \<in> set (pr_trace p)" for p
    using assms(1) that by (induction hs arbitrary: p) auto
  from this [of "p\<lparr>pr_tick := Suc (pr_tick p)\<rparr>"] show ?thesis
    using assms(2,3) Wait_state [of hs p] by (simp add: run_hooks_state)
qed

lemma all_hooks_keep:
  "h \<in> set auth_hooks \<union> set notes_hooks \<union> set gateway_hooks \<Longrightarrow> set (pr_trace p) \<subseteq> set (pr_trace (snd (h p)))"
  by (auto simp: auth_hooks_def notes_hooks_def gateway_hooks_def Server_Stop_def Database_Close_def Http_Shutdown_def
        AuthClient_Close_def NotesClient_Close_def Redis_Close_def split: option.splits)

lemma StartAuth_served:
  assumes "StartAuth B path p = (Ran None, q)"
  shows "\<exists>j c. ServesAuth j c \<in> set (pr_trace q)"
proof -
  obtain j c p1 where "Wait auth_hooks (emit (Opened CleanupTask) (emit (ServesAuth j c) p1)) = (None, q)"
    using assms by (auto simp: StartAuth_def Let_def split: sum.splits prod.splits ran.splits option.splits)
  from hooks_keep [OF _ this, of "ServesAuth j c"] show ?thesis using all_hooks_keep by auto
qed

lemma StartNotes_served:
  assumes "StartNotes B path p = (Ran None, q)"
  shows "\<exists>j. ServesNotes j \<in> set (pr_trace q)"
proof -
  obtain j p1 where "Wait notes_hooks (emit (ServesNotes j) p1) = (None, q)"
    using assms by (auto simp: StartNotes_def Let_def split: sum.splits prod.splits ran.splits option.splits)
  from hooks_keep [OF _ this, of "ServesNotes j"] show ?thesis using all_hooks_keep by auto
qed

lemma StartGateway_served:
  assumes "StartGateway B path p = Some (Ran None, q)"
  shows "\<exists>hs. ServesGateway hs \<in> set (pr_trace q)"
proof -
  obtain cfg p1 where "serve_gateway cfg p1 = (Ran None, q)"
    using assms by (auto simp: StartGateway_def split: sum.splits prod.splits ran.splits option.splits)
  then obtain hs p2 where "Wait gateway_hooks (emit (ServesGateway hs) p2) = (None, q)"
    by (auto simp: serve_gateway_def Let_def split: sum.splits prod.splits option.splits)
  from hooks_keep [OF _ this, of "ServesGateway hs"] show ?thesis using all_hooks_keep by auto
qed

lemma command_end_cases:
  "r \<noteq> Crashed \<Longrightarrow> (r = Ran None \<and> command_end name r = Exit 0 [])
     \<or> (\<exists>err. r = Ran (Some err) \<and> command_end name r = Exit 1 (name @ '' failed: '' @ error_text err @ [CHR 0x0A]))"
  by (cases r) (auto simp: command_end_def split: option.splits)

text \<open>
  C36: The exit status tells how the process went. None of the three programs ever crashes; the status
  is 0, with nothing on standard error, exactly when the start and every step of the shutdown
  returned without an error, and then the process has served and everything it had opened is closed;
  otherwise it is 1 and the line on standard error names the program and the error. The auth and the
  notes service leave nothing open either way.
\<close>

theorem exit_status_tells:
  assumes "auth_main B (boot f) = (e1, q1)" and "notes_main B (boot g) = (e2, q2)" and "gateway_main B (boot h) = Some (e3, q3)"
  shows "((e1 = Exit 0 [] \<and> fst (StartAuth B [] (boot f)) = Ran None \<and> (\<exists>j c. ServesAuth j c \<in> set (pr_trace q1)))
        \<or> (\<exists>err. e1 = Exit 1 (''auth service failed: '' @ error_text err @ [CHR 0x0A]) \<and> fst (StartAuth B [] (boot f)) = Ran (Some err)))
     \<and> ((e2 = Exit 0 [] \<and> fst (StartNotes B [] (boot g)) = Ran None \<and> (\<exists>j. ServesNotes j \<in> set (pr_trace q2)))
        \<or> (\<exists>err. e2 = Exit 1 (''notes service failed: '' @ error_text err @ [CHR 0x0A]) \<and> fst (StartNotes B [] (boot g)) = Ran (Some err)))
     \<and> ((e3 = Exit 0 [] \<and> StartGateway B [] (boot h) = Some (Ran None, q3)
           \<and> (\<exists>hs. ServesGateway hs \<in> set (pr_trace q3)) \<and> held (pr_trace q3) = {})
        \<or> (\<exists>err. e3 = Exit 1 (''gateway failed: '' @ error_text err @ [CHR 0x0A]) \<and> StartGateway B [] (boot h) = Some (Ran (Some err), q3)))
     \<and> held (pr_trace q1) = {} \<and> held (pr_trace q2) = {}"
proof -
  obtain r1 where r1: "StartAuth B [] (boot f) = (r1, q1)" "e1 = command_end ''auth service'' r1"
    using assms(1) by (auto simp: auth_main_def split: prod.splits)
  obtain r2 where r2: "StartNotes B [] (boot g) = (r2, q2)" "e2 = command_end ''notes service'' r2"
    using assms(2) by (auto simp: notes_main_def split: prod.splits)
  obtain r3 where r3: "StartGateway B [] (boot h) = Some (r3, q3)" "e3 = command_end ''gateway'' r3"
    using assms(3) by (auto simp: gateway_main_def split: option.splits)
  have ok: "r1 \<noteq> Crashed" "held (pr_trace q1) = {}" "r2 \<noteq> Crashed" "held (pr_trace q2) = {}"
    using StartAuth_holds [OF boot_holds, of B "[]" f] StartNotes_holds [OF boot_holds, of B "[]" g] r1(1) r2(1)
    by (simp_all add: holds_def)
  have gw: "r3 \<noteq> Crashed" "r3 = Ran None \<Longrightarrow> held (pr_trace q3) = {}"
    using StartGateway_ended [OF boot_holds r3(1)] by (auto simp: ended_def holds_def)
  have "r1 = Ran None \<Longrightarrow> \<exists>j c. ServesAuth j c \<in> set (pr_trace q1)" "r2 = Ran None \<Longrightarrow> \<exists>j. ServesNotes j \<in> set (pr_trace q2)"
    "r3 = Ran None \<Longrightarrow> \<exists>hs. ServesGateway hs \<in> set (pr_trace q3)"
    using StartAuth_served r1(1) StartNotes_served r2(1) StartGateway_served r3(1) by blast+
  then show ?thesis
    using command_end_cases [OF ok(1), of "''auth service''"] command_end_cases [OF ok(3), of "''notes service''"]
      command_end_cases [OF gw(1), of "''gateway''"] r1 r2 r3 ok(2,4) gw(2)
    by (elim disjE conjE exE) simp_all
qed

lemma exit_status_tells_witness:
  "\<exists>e1 q1 e2 q2 q3. auth_main witness_boot_libs witness_process = (e1, q1) \<and> notes_main witness_boot_libs witness_process = (e2, q2)
     \<and> gateway_main witness_boot_libs witness_process = Some (Exit 0 [], q3)
     \<and> (\<exists>hs. ServesGateway hs \<in> set (pr_trace q3)) \<and> held (pr_trace q1) = {} \<and> held (pr_trace q2) = {} \<and> held (pr_trace q3) = {}"
proof -
  obtain q3 where "StartGateway witness_boot_libs [] witness_process = Some (Ran None, q3)" using witness_runs(3) by blast
  then have g: "gateway_main witness_boot_libs witness_process = Some (Exit 0 [], q3)"
    by (simp add: gateway_main_def command_end_def)
  obtain e1 q1 e2 q2 where a: "auth_main witness_boot_libs witness_process = (e1, q1)" "notes_main witness_boot_libs witness_process = (e2, q2)"
    by fastforce
  show ?thesis
    using exit_status_tells [OF a [unfolded witness_process_def] g [unfolded witness_process_def]] a g by auto
qed

end
