(* ===== verification/ServerOptions.thy ===== *)
theory ServerOptions
  imports Process GrpcServer
begin

text \<open>
  How the gRPC servers are put together: \<open>New\<close> of \<open>internal/adapters/grpc/server.go\<close>. Its options go
  to the library, which runs the chained interceptors in order, the first one outermost, and takes
  the last limit that is given.
\<close>

type_synonym 'r unary_interceptor = "string \<Rightarrow> 'r handler \<Rightarrow> 'r handler"

datatype ('r, 's) server_option =
    ChainUnaryInterceptor "'r unary_interceptor list"
  | ChainStreamInterceptor "('s stream_handler \<Rightarrow> 's stream_handler) list"
  | MaxRecvMsgSize nat
  | MaxSendMsgSize nat

definition Server_New :: "string \<Rightarrow> ('r, 's) server_option list \<Rightarrow> ('r, 's) server_option list" where
  "Server_New pid opts =
     [ChainUnaryInterceptor [\<lambda>fullMethod. unaryRequestIDInterceptor pid],
      ChainStreamInterceptor [streamRequestIDInterceptor pid],
      MaxRecvMsgSize maxMessageBytes,
      MaxSendMsgSize maxMessageBytes] @ opts"

text \<open>What the library makes of the options.\<close>

fun unary_interceptors :: "('r, 's) server_option list \<Rightarrow> 'r unary_interceptor list" where
  "unary_interceptors [] = []"
| "unary_interceptors (ChainUnaryInterceptor is # opts) = is @ unary_interceptors opts"
| "unary_interceptors (_ # opts) = unary_interceptors opts"

fun stream_interceptors :: "('r, 's) server_option list \<Rightarrow> ('s stream_handler \<Rightarrow> 's stream_handler) list" where
  "stream_interceptors [] = []"
| "stream_interceptors (ChainStreamInterceptor is # opts) = is @ stream_interceptors opts"
| "stream_interceptors (_ # opts) = stream_interceptors opts"

fun recv_limit :: "nat \<Rightarrow> ('r, 's) server_option list \<Rightarrow> nat" where
  "recv_limit n [] = n"
| "recv_limit n (MaxRecvMsgSize k # opts) = recv_limit k opts"
| "recv_limit n (_ # opts) = recv_limit n opts"

definition served_unary :: "('r, 's) server_option list \<Rightarrow> string \<Rightarrow> 'r handler \<Rightarrow> 'r handler" where
  "served_unary opts fullMethod handler = foldr (\<lambda>i h. i fullMethod h) (unary_interceptors opts) handler"

definition served_stream :: "('r, 's) server_option list \<Rightarrow> 's stream_handler \<Rightarrow> 's stream_handler" where
  "served_stream opts handler = foldr (\<lambda>i h. i h) (stream_interceptors opts) handler"

text \<open>
  The servers of the two services: a call first gets its request id, and then its user, so that a
  refused call is already logged under its id; a stream only gets the request id: no interceptor
  would authenticate a stream, and the services have none.
\<close>

definition auth_server_options :: "deployment \<Rightarrow> ('r, 's) server_option list" where
  "auth_server_options D = Server_New (d_pid D) [ChainUnaryInterceptor [NewUnaryAuthInterceptor (d_libs D) (d_issuer D) auth_protected]]"

definition notes_server_options :: "deployment \<Rightarrow> ('r, 's) server_option list" where
  "notes_server_options D = Server_New (d_pid D) [ChainUnaryInterceptor [NewUnaryAuthInterceptor (d_libs D) (d_verifier D) notes_protected]]"

lemma servers_run_chains:
  "served_unary (auth_server_options D) m h = auth_chain D m h" "served_unary (notes_server_options D) m h = notes_chain D m h"
  by (simp_all add: served_unary_def auth_server_options_def notes_server_options_def Server_New_def auth_chain_def notes_chain_def)

lemma server_streams:
  "served_stream (auth_server_options D) h = streamRequestIDInterceptor (d_pid D) h"
  "served_stream (notes_server_options D) h = streamRequestIDInterceptor (d_pid D) h"
  by (simp_all add: served_stream_def auth_server_options_def notes_server_options_def Server_New_def)

lemma server_limit:
  "recv_limit k (auth_server_options D) = 1048576" "recv_limit k (notes_server_options D) = 1048576"
  by (simp_all add: auth_server_options_def notes_server_options_def Server_New_def maxMessageBytes_def)

end
