(* ===== verification/Spec2Isabelle.thy ===== *)
theory Spec2Isabelle
  imports LoginNotes RestSafety Traffic Dialling TokenCleanup BadRequests Commands ServerOptions
begin

text \<open>
  A model of notes-microservices: three Go processes (an auth service, a notes service and an HTTP
  gateway) that talk over gRPC, keep their rows in two Postgres databases and share a Redis cache.

  \<^bold>\<open>How effects are modelled.\<close> \<open>World\<close> holds the state the three processes keep (the tables, the cache,
  the gateway's two circuit breakers) in one record. Every operation takes a world and returns its
  result and the next world; an error is the left of a sum. Whatever comes from outside (the clock,
  random values, generated identifiers, lost requests and replies, ended contexts) is read from
  \<open>w_outside\<close>, one element per interaction, so a theorem about every world is one about every
  behaviour of the outside. Third-party libraries (bcrypt, JWT, the UUID codec of the driver, JSON,
  fiber, grpc-gateway) are functions in the records \<open>libs\<close>, \<open>http_libs\<close> and \<open>runtime_libs\<close>; a theorem that needs one of their
  documented laws names it in a hypothesis (\<open>jwt_ok\<close>, \<open>bcrypt_ok\<close>, \<open>bcrypt_limit\<close>, \<open>uuids_canonical\<close>,
  \<open>profile_json_ok\<close>). Where random values and hashes come in, a theorem names the finitely many tokens
  whose hashes differ (\<open>inj_on\<close> over the tokens used) or says that what is still to be drawn is new
  (\<open>never_again\<close>, \<open>pair_is_new\<close>).

  Starting and stopping is modelled apart: a \<open>process\<close> (theory \<open>Process\<close>) is the trace of what it opened,
  closed, dialled and served, and each call to the outside reads one element of \<open>pr_outside\<close>. What a
  trace leaves open is \<open>held\<close>; it is \<open>supported\<close> when no server or task ever ran without what it
  uses. \<open>ServesAuth\<close>, \<open>ServesNotes\<close> and \<open>ServesGateway\<close> carry the services a process built; they are the
  parameters (\<open>jwt_service\<close>, bcrypt cost) of the operations on the world.

  \<^bold>\<open>Theories and the code they model.\<close>
  \<^item> \<open>Prelude\<close>: tables as lists of rows, \<open>update_where\<close> and \<open>delete_where\<close>.
  \<^item> \<open>GoErrors\<close>: error values, \<open>errors.Is\<close>, \<open>errors.As\<close>, \<open>fmt.Errorf\<close>, and the sentinels of
    \<open>internal/domain/err.go\<close>. \<open>GoText\<close>, \<open>GoRegexp\<close>: the standard library's string functions and
    regular expressions, the latter decided by derivatives and shown equal to their languages.
  \<^item> \<open>Domain\<close>: \<open>internal/domain/general.go\<close>.
  \<^item> \<open>Breaker\<close>, \<open>Resilience\<close>: \<open>internal/fault/fault.go\<close>, the breaker as a machine of atomic steps
    (every interleaving of calls), then the retry loop and the four wrappers.
  \<^item> \<open>Postgres\<close>, \<open>AuthRepository\<close>, \<open>NoteRepository\<close>: \<open>internal/adapters/postgres\<close>, each SQL statement by
    its effect on the rows under the constraints of \<open>migrations\<close>.
  \<^item> \<open>Ports\<close>: the contracts the use cases rely on, as locales; \<open>TokenLedger\<close> and \<open>Notebook\<close>
    interpret them on the repositories and use cases.
  \<^item> \<open>NoteUseCase\<close>, \<open>AuthUseCase\<close>: \<open>internal/app/notes.go\<close>, \<open>internal/app/auth.go\<close>;
    \<open>BcryptService\<close>, \<open>JwtService\<close>: \<open>internal/adapters/bcrypt\<close>, \<open>internal/adapters/jwt\<close>;
    \<open>Sessions\<close>, \<open>Accounts\<close>: histories of requests to the auth service.
  \<^item> \<open>GrpcStatus\<close>, \<open>RequestContext\<close>, \<open>GrpcServer\<close>, \<open>GrpcClients\<close>: \<open>internal/adapters/grpc\<close>,
    \<open>internal/authctx\<close> and the request ids of \<open>internal/logger\<close>; \<open>Logging\<close>: the rest of that package,
    the global logger as atomic accesses to one pointer in every interleaving.
  \<^item> \<open>RedisCache\<close>, \<open>Gateway\<close>: \<open>internal/adapters/redis\<close>, \<open>internal/app/gateway.go\<close>.
  \<^item> \<open>HttpApi\<close>, \<open>HttpRouter\<close>: \<open>internal/adapters/http\<close>.
  \<^item> \<open>Config\<close>, \<open>Dsn\<close>: \<open>internal/config/config.go\<close> and the checks and the connection string of
    \<open>internal/bootstrap/helpers.go\<close>, with the parts of \<open>net/url\<close> it uses.
  \<^item> \<open>Process\<close>: \<open>internal/adapters/postgres/database.go\<close>, \<open>internal/adapters/grpc/server.go\<close>, dialling and
    closing in \<open>internal/adapters/grpc/clients.go\<close> and \<open>helpers.go\<close>, \<open>NewRedisCache\<close>, \<open>Wait\<close>.
  \<^item> \<open>Bootstrap\<close>: the start of the three processes, \<open>internal/bootstrap\<close>; \<open>TokenCleanup\<close>: its cleanup task;
    \<open>Commands\<close>: the three programs of \<open>cmd\<close>; \<open>ServerOptions\<close>: the options of a gRPC server, \<open>New\<close>.
  \<^item> \<open>RestProxy\<close>: the REST proxies of \<open>gen\<close> (\<open>note_service.pb.gw.go\<close>, \<open>auth_service.pb.gw.go\<close>,
    \<open>user_service.pb.gw.go\<close>), which no process of the repository registers: a second way to the services,
    over a connection or in the process of the service.

  \<^bold>\<open>What the lemmas show.\<close> \<open>TokenLedger\<close>, \<open>Sessions\<close> and \<open>Accounts\<close>: refresh tokens are single use,
  rotation is atomic, the schema's constraints hold in every history, reuse revokes sessions, logins
  are uniform. \<open>NoteUseCase\<close> and \<open>Notebook\<close>: each user has a notebook (the abstract state), the use
  cases are operations on the caller's notebook and users are isolated. \<open>Traffic\<close>: what the gateway
  sends to the backends. \<open>HttpSafety\<close> and \<open>HttpAnswers\<close>: no request without a bearer token reaches a
  backend but through the public routes, and every answer has the form of its route. \<open>ProfileCache\<close>: a cached profile belongs to the token's user.
  \<open>Requests\<close>, \<open>CalmPath\<close>, \<open>EndToEnd\<close>, \<open>NotesEdits\<close>: the way of a request through all three layers, from
  the HTTP handler to the rows, in both directions (what a success implies; that a success comes).
  \<open>LoginNotes\<close>: the token of a login opens the notebook of its user, over all three processes.
  \<open>RestSafety\<close>: what a REST proxy answers over a connection is stored for the caller, under the identifier
  of the path; over the server itself, where no interceptor runs, it is refused everything protected.
  \<open>Lifecycle\<close> and \<open>GatewayLifecycle\<close>: what is opened is closed on every path, in a safe order; the steps
  of a shutdown share the locale \<open>closer\<close>, interpreted for each of them. \<open>Startup\<close>:
  only checked secrets, costs and transports are served, and a sample configuration starts all three
  processes. \<open>Commands\<close>: what the exit status of a program says. \<open>ServerOptions\<close>: the servers run the
  interceptors the model's handlers sit behind (\<open>auth_chain\<close>, \<open>notes_chain\<close>). \<open>Dialling\<close>: when the
  gateway's dials end and when they wait for ever, and that calls have a deadline. \<open>Dsn\<close>: no credential
  changes the meaning of a connection string. \<open>BadRequests\<close>: mistakes of a client that are answered as
  failures of the server.

  \<^bold>\<open>Termination and bounds.\<close> No definition uses fuel: the retry loop terminates by its number of
  attempts; \<open>waitUntilReady\<close>, which the code does not bound, is a \<open>partial_function (option)\<close> whose
  \<open>None\<close> is a wait for ever, and \<open>waitUntilReady_returns_iff\<close> says exactly when it returns; all others
  recurse on lists. Where the code counts in machine integers (the \<open>int32\<close>
  limits and totals of the gRPC messages) the model has \<open>32 word\<close>; the counters of the breaker are
  integers, which the breaker's invariant keeps below its thresholds while it is closed.

  \<^bold>\<open>Idealised.\<close> A text with a zero byte, which Postgres refuses, is refused by the outside (a lost
  request); rows an \<open>ORDER BY\<close> does not tell apart keep the order of the table. \<open>Wait\<close> starts at the
  moment its \<open>select\<close> goes on: that a signal or the end of the server comes is not claimed, so no
  theorem says that a process which serves returns. Waiting for \<open>GracefulStop\<close> is part of the step
  that closes the server.

  \<^bold>\<open>Not modelled.\<close> Which lines the operations log; the generated messages and stubs under \<open>gen\<close> (the
  \<open>pb.go\<close> and \<open>grpc.pb.go\<close> files); \<open>internal/ports\<close> (interfaces); how the REST proxies match a path and
  render an answer, and the metadata of a reply, which no handler sets; constructors that
  only store their arguments and \<open>RegisterService\<close>, which hands the handlers to the library; HTTP and
  gRPC framing (a request that exceeds a limit or a deadline is a lost request or reply); the encoding
  of strings on the wire; how long a shutdown takes (that its context ends is \<open>mo_alive\<close>).
\<close>

end
